(* ===== verification/R2Prelude.thy ===== *)
theory R2Prelude
  imports Main "HOL-Library.State_Monad" "HOL-Library.Signed_Division"
begin

unbundle bit_operations_syntax

text \<open>
  Shared vocabulary of the development.  The C functions of the library work on one mutable
  channel structure; a C function becomes a computation of the state monad
  \<open>('s, 'a) state\<close>, written in do-notation statement by statement.  \<open>exec\<close> is the
  state a computation leaves, \<open>val\<close> the value it returns, and \<open>keeps I m\<close> says that
  the computation preserves the state predicate \<open>I\<close>.  The second half holds what the
  components share on C arrays (a checked write), C strings and flag words.
\<close>

section \<open>Computations\<close>

named_theorems keeps_intros \<open>introduction rules: a computation keeps a state predicate\<close>
named_theorems exec_simps \<open>equations that execute computations step by step\<close>

abbreviation return :: "'a \<Rightarrow> ('s, 'a) state" where
  "return \<equiv> State_Monad.return"

definition gets :: "('s \<Rightarrow> 'a) \<Rightarrow> ('s, 'a) state" where
  "gets f = State (\<lambda>s. (f s, s))"

definition modify :: "('s \<Rightarrow> 's) \<Rightarrow> ('s, unit) state" where
  "modify f = State (\<lambda>s. ((), f s))"

definition skip :: "('s, unit) state" where
  "skip = return ()"

definition exec :: "('s, 'a) state \<Rightarrow> 's \<Rightarrow> 's" where
  "exec m s = snd (run_state m s)"

definition val :: "('s, 'a) state \<Rightarrow> 's \<Rightarrow> 'a" where
  "val m s = fst (run_state m s)"

lemma exec_bind [simp, exec_simps]: "exec (State_Monad.bind m f) s = exec (f (val m s)) (exec m s)"
  by (simp add: exec_def val_def case_prod_beta)

lemma val_bind [simp, exec_simps]: "val (State_Monad.bind m f) s = val (f (val m s)) (exec m s)"
  by (simp add: exec_def val_def case_prod_beta)

lemma state_eqI: "(\<And>s. exec m s = exec n s) \<Longrightarrow> (\<And>s. val m s = val n s) \<Longrightarrow> m = n"
  by (cases m; cases n) (auto simp: exec_def val_def prod_eq_iff)

lemma exec_return [simp, exec_simps]: "exec (return a) s = s"
  by (simp add: exec_def)

lemma val_return [simp, exec_simps]: "val (return a) s = a"
  by (simp add: val_def)

lemma exec_gets [simp, exec_simps]: "exec (gets f) s = s"
  by (simp add: exec_def gets_def)

lemma val_gets [simp, exec_simps]: "val (gets f) s = f s"
  by (simp add: val_def gets_def)

lemma exec_modify [simp, exec_simps]: "exec (modify f) s = f s"
  by (simp add: exec_def modify_def)

lemma exec_skip [simp, exec_simps]: "exec skip s = s"
  by (simp add: skip_def)

lemma exec_State [simp, exec_simps]: "exec (State f) s = snd (f s)"
  by (simp add: exec_def)

lemma val_State [simp, exec_simps]: "val (State f) s = fst (f s)"
  by (simp add: val_def)

lemma exec_if [exec_simps]: "exec (if b then m else n) s = (if b then exec m s else exec n s)"
  by simp

lemma val_if [exec_simps]: "val (if b then m else n) s = (if b then val m s else val n s)"
  by simp

section \<open>Preservation of a state predicate\<close>

definition keeps :: "('s \<Rightarrow> bool) \<Rightarrow> ('s, 'a) state \<Rightarrow> bool" where
  "keeps I m \<longleftrightarrow> (\<forall>s. I s \<longrightarrow> I (exec m s))"

lemma keepsI: "(\<And>s. I s \<Longrightarrow> I (exec m s)) \<Longrightarrow> keeps I m"
  by (simp add: keeps_def)

lemma keepsD: "keeps I m \<Longrightarrow> I s \<Longrightarrow> I (exec m s)"
  by (simp add: keeps_def)

lemma keeps_bind [keeps_intros]:
  "keeps I m \<Longrightarrow> (\<And>a. keeps I (f a)) \<Longrightarrow> keeps I (State_Monad.bind m f)"
  by (simp add: keeps_def)

lemma keeps_return [keeps_intros]: "keeps I (return a)"
  by (simp add: keeps_def)

lemma keeps_gets [keeps_intros]: "keeps I (gets f)"
  by (simp add: keeps_def)

lemma keeps_skip [keeps_intros]: "keeps I skip"
  by (simp add: keeps_def)

lemma keeps_if [keeps_intros]:
  "(b \<Longrightarrow> keeps I m) \<Longrightarrow> (\<not> b \<Longrightarrow> keeps I n) \<Longrightarrow> keeps I (if b then m else n)"
  by simp

lemma keeps_case_option [keeps_intros]:
  "(x = None \<Longrightarrow> keeps I m) \<Longrightarrow> (\<And>a. x = Some a \<Longrightarrow> keeps I (f a)) \<Longrightarrow>
   keeps I (case x of None \<Rightarrow> m | Some a \<Rightarrow> f a)"
  by (cases x) simp_all

lemma keeps_case_prod [keeps_intros]:
  "(\<And>a b. x = (a, b) \<Longrightarrow> keeps I (f a b)) \<Longrightarrow> keeps I (case x of (a, b) \<Rightarrow> f a b)"
  by (cases x) simp_all

lemma keeps_Let [keeps_intros]: "keeps I (f x) \<Longrightarrow> keeps I (Let x f)"
  by simp

lemma keeps_case_sum [keeps_intros]:
  "(\<And>a. keeps I (f a)) \<Longrightarrow> (\<And>b. keeps I (g b)) \<Longrightarrow> keeps I (case x of Inl a \<Rightarrow> f a | Inr b \<Rightarrow> g b)"
  by (cases x) simp_all

lemma keeps_modify: "(\<And>s. I s \<Longrightarrow> I (f s)) \<Longrightarrow> keeps I (modify f)"
  by (simp add: keeps_def)

section \<open>C arrays, strings and flag words\<close>

text \<open>
  A C array is a list of its cells.  An access past the end is undefined behaviour in C:
  \<open>None\<close> here, so that the caller has to say what it does with it.
\<close>

definition arr_get :: "'a list \<Rightarrow> nat \<Rightarrow> 'a option" where
  "arr_get xs i = (if i < length xs then Some (xs ! i) else None)"

text \<open>A C string literal as the list of its character codes, without the terminating 0.\<close>

definition cstr :: "string \<Rightarrow> int list" where
  "cstr s = map of_char s"

text \<open>The C string held in a character array: the cells before the first 0.\<close>

definition c_string :: "int list \<Rightarrow> int list" where
  "c_string xs = takeWhile (\<lambda>x. x \<noteq> 0) xs"

text \<open>
  \<open>strncpy(dst, src, n-1); dst[n-1] = 0\<close>, the idiom the library copies numbers with: at most
  n-1 characters of the source, the rest of the array filled with 0.
\<close>

definition strncpy_z :: "nat \<Rightarrow> int list \<Rightarrow> int list" where
  "strncpy_z n src = take (n - 1) src @ replicate (n - length (take (n - 1) src)) 0"

lemma length_strncpy_z [simp]: "length (strncpy_z n src) = n"
  by (simp add: strncpy_z_def)

lemma c_string_strncpy_z:
  assumes "0 < n" and "0 \<notin> set src"
  shows "c_string (strncpy_z n src) = take (n - 1) src"
proof -
  have all: "\<forall>x \<in> set (take (n - 1) src). x \<noteq> 0"
    using assms(2) by (metis in_set_takeD)
  have "takeWhile (\<lambda>x. x \<noteq> 0) (take (n - 1) src @ replicate (n - length (take (n - 1) src)) (0::int))
      = take (n - 1) src @ takeWhile (\<lambda>x. x \<noteq> 0) (replicate (n - length (take (n - 1) src)) (0::int))"
    using all by (subst takeWhile_append2) auto
  also have "takeWhile (\<lambda>x. x \<noteq> 0) (replicate (n - length (take (n - 1) src)) (0::int)) = []"
    by (cases "n - length (take (n - 1) src)") auto
  finally show ?thesis by (simp add: c_string_def strncpy_z_def)
qed

definition test_flag :: "int \<Rightarrow> int \<Rightarrow> bool" where
  "test_flag flags flag \<longleftrightarrow> flags AND flag \<noteq> 0"

definition set_flag :: "int \<Rightarrow> int \<Rightarrow> int" where
  "set_flag flags flag = flags OR flag"

definition clear_flag :: "int \<Rightarrow> int \<Rightarrow> int" where
  "clear_flag flags flag = flags AND NOT flag"

text \<open>The conversion of a C \<open>int\<close> to \<open>uint32_t\<close>: negative values become large ones.\<close>

definition to_uint32 :: "int \<Rightarrow> nat" where
  "to_uint32 i = nat (i mod 2 ^ 32)"

lemma to_uint32_small: "0 \<le> i \<Longrightarrow> i < 2 ^ 32 \<Longrightarrow> to_uint32 i = nat i"
  by (simp add: to_uint32_def)

end
