(* ===== verification/R2Types.thy ===== *)
theory R2Types
  imports R2Prelude
begin

text \<open>
  The data of the library: the enumerations of \<open>r2proto.h\<close> and \<open>r2proto-pvt.h\<close>, the tone and
  timer tables of a context, the scheduled timers, and the two structures everything works on,
  \<open>openr2_context_t\<close> (record \<open>r2ctx\<close>) and \<open>openr2_chan_t\<close> (record \<open>chan\<close>).  An enum of the
  source is a datatype with the source's constructors; MF tones stay the character codes they are
  in the source, 0 being "no tone".  A channel carries its context by value, the part of the
  outside world it talks to (type parameter \<open>'w\<close>), and two ghost fields that no operation reads:
  the trace of what was reported or transmitted, and a flag raised by an access that is undefined
  behaviour in C.
\<close>

section \<open>Enumerations\<close>

datatype mf_group =
    OR2_MF_NO_GROUP | OR2_MF_BACK_INIT | OR2_MF_GA | OR2_MF_GB | OR2_MF_GC
  | OR2_MF_FWD_INIT | OR2_MF_GI | OR2_MF_GII | OR2_MF_GIII
  | OR2_MF_DTMF_FWD_INIT | OR2_MF_DTMF_BACK_INIT

text \<open>
  \<open>OR2_MF_UNSET\<close> stands for the value 0 that \<open>calloc\<close> leaves in a new channel; the enumeration of the
  source has no name for it (its first value, "engine off", is 100).
\<close>

datatype mf_state_t =
    OR2_MF_UNSET
  | OR2_MF_OFF_STATE | OR2_MF_SEIZE_ACK_TXD | OR2_MF_CATEGORY_RQ_TXD | OR2_MF_DNIS_RQ_TXD
  | OR2_MF_ANI_RQ_TXD | OR2_MF_CHG_GII_TXD | OR2_MF_ACCEPTED_TXD | OR2_MF_DISCONNECT_TXD
  | OR2_MF_CATEGORY_TXD | OR2_MF_DNIS_TXD | OR2_MF_DNIS_END_TXD | OR2_MF_ANI_TXD
  | OR2_MF_ANI_END_TXD | OR2_MF_WAITING_TIMEOUT | OR2_MF_DIALING_DTMF | OR2_MF_DETECTING_DTMF

datatype cas_state =
    OR2_INVALID_STATE | OR2_INIT | OR2_IDLE
  | OR2_SEIZE_ACK_TXD | OR2_ANSWER_TXD | OR2_CLEAR_BACK_TXD | OR2_CLEAR_FWD_RXD
  | OR2_EXECUTING_DOUBLE_ANSWER | OR2_FORCED_RELEASE_TXD
  | OR2_SEIZE_TXD | OR2_SEIZE_ACK_RXD | OR2_CLEAR_BACK_TONE_RXD | OR2_ACCEPT_RXD
  | OR2_ANSWER_RXD | OR2_CLEAR_BACK_RXD | OR2_ANSWER_RXD_MF_PENDING | OR2_CLEAR_FWD_TXD
  | OR2_FORCED_RELEASE_RXD | OR2_CLEAR_BACK_AFTER_CLEAR_FWD_RXD
  | OR2_SEIZE_TXD_CLEAR_FWD_PENDING | OR2_DOUBLE_SEIZURE_CLEAR_FWD_PENDING
  | OR2_BLOCKED | OR2_DOUBLE_SEIZURE

datatype call_state_t =
    OR2_CALL_IDLE | OR2_CALL_COLLECTING | OR2_CALL_DIALING | OR2_CALL_OFFERED
  | OR2_CALL_ACCEPTED | OR2_CALL_ANSWERED | OR2_CALL_DISCONNECTED

datatype direction_t = OR2_DIR_STOPPED | OR2_DIR_FORWARD | OR2_DIR_BACKWARD

datatype call_mode = OR2_CALL_WITH_CHARGE | OR2_CALL_NO_CHARGE | OR2_CALL_SPECIAL | OR2_CALL_UNKNOWN

datatype answer_mode = OR2_ANSWER_SIMPLE | OR2_ANSWER_DOUBLE

datatype disconnect_cause =
    OR2_CAUSE_BUSY_NUMBER | OR2_CAUSE_NETWORK_CONGESTION | OR2_CAUSE_UNALLOCATED_NUMBER
  | OR2_CAUSE_OUT_OF_ORDER | OR2_CAUSE_UNSPECIFIED | OR2_CAUSE_NO_ANSWER
  | OR2_CAUSE_NORMAL_CLEARING | OR2_CAUSE_FORCED_RELEASE | OR2_CAUSE_NUMBER_CHANGED
  | OR2_CAUSE_GLARE

datatype protocol_error =
    OR2_INVALID_CAS_BITS | OR2_INVALID_MF_TONE | OR2_BACK_MF_TIMEOUT | OR2_SEIZE_TIMEOUT
  | OR2_FWD_SAFETY_TIMEOUT | OR2_BROKEN_MF_SEQUENCE | OR2_ANSWER_TIMEOUT | OR2_INVALID_R2_STATE
  | OR2_INVALID_MF_STATE | OR2_INVALID_MF_GROUP | OR2_LIBRARY_BUG | OR2_INTERNAL_ERROR
  | OR2_ALARM_RAISED

datatype category =
    OR2_CALLING_PARTY_CATEGORY_NATIONAL_SUBSCRIBER
  | OR2_CALLING_PARTY_CATEGORY_NATIONAL_PRIORITY_SUBSCRIBER
  | OR2_CALLING_PARTY_CATEGORY_INTERNATIONAL_SUBSCRIBER
  | OR2_CALLING_PARTY_CATEGORY_INTERNATIONAL_PRIORITY_SUBSCRIBER
  | OR2_CALLING_PARTY_CATEGORY_COLLECT_CALL
  | OR2_CALLING_PARTY_CATEGORY_TEST_EQUIPMENT
  | OR2_CALLING_PARTY_CATEGORY_PAY_PHONE
  | OR2_CALLING_PARTY_CATEGORY_UNKNOWN

datatype cas_signal =
    OR2_CAS_INVALID | OR2_CAS_IDLE | OR2_CAS_BLOCK | OR2_CAS_SEIZE | OR2_CAS_SEIZE_ACK
  | OR2_CAS_CLEAR_BACK | OR2_CAS_FORCED_RELEASE | OR2_CAS_CLEAR_FORWARD | OR2_CAS_ANSWER

datatype variant_t =
    OR2_VAR_ARGENTINA | OR2_VAR_BRAZIL | OR2_VAR_CHINA | OR2_VAR_CZECH | OR2_VAR_COLOMBIA
  | OR2_VAR_ECUADOR | OR2_VAR_ITU | OR2_VAR_MEXICO | OR2_VAR_PHILIPPINES | OR2_VAR_VENEZUELA
  | OR2_VAR_UNKNOWN

datatype oob_event =
    OR2_OOB_EVENT_NONE | OR2_OOB_EVENT_CAS_CHANGE | OR2_OOB_EVENT_ALARM_ON
  | OR2_OOB_EVENT_ALARM_OFF | OR2_OOB_EVENT_TONE_CHANGE

datatype liberr =
    OR2_LIBERR_SYSCALL_FAILED | OR2_LIBERR_INVALID_CHAN_SIGNALING | OR2_LIBERR_CANNOT_SET_IDLE
  | OR2_LIBERR_NO_IO_IFACE_AVAILABLE | OR2_LIBERR_INVALID_CHAN_NUMBER
  | OR2_LIBERR_OUT_OF_MEMORY | OR2_LIBERR_INVALID_INTERFACE

text \<open>The position of a signal in the arrays indexed by it (the enum value, \<open>INVALID\<close> apart).\<close>

fun cas_index :: "cas_signal \<Rightarrow> nat" where
  "cas_index OR2_CAS_IDLE = 0"
| "cas_index OR2_CAS_BLOCK = 1"
| "cas_index OR2_CAS_SEIZE = 2"
| "cas_index OR2_CAS_SEIZE_ACK = 3"
| "cas_index OR2_CAS_CLEAR_BACK = 4"
| "cas_index OR2_CAS_FORCED_RELEASE = 5"
| "cas_index OR2_CAS_CLEAR_FORWARD = 6"
| "cas_index OR2_CAS_ANSWER = 7"
| "cas_index OR2_CAS_INVALID = 8"

section \<open>Case distinctions keep a predicate\<close>

lemma keeps_case_mf_group [keeps_intros]:
  "keeps I m0 \<Longrightarrow> keeps I m1 \<Longrightarrow> keeps I m2 \<Longrightarrow> keeps I
   m3 \<Longrightarrow> keeps I m4 \<Longrightarrow> keeps I m5 \<Longrightarrow> keeps I m6
   \<Longrightarrow> keeps I m7 \<Longrightarrow> keeps I m8 \<Longrightarrow> keeps I m9
   \<Longrightarrow> keeps I m10 \<Longrightarrow> keeps I (case x of OR2_MF_NO_GROUP
   \<Rightarrow> m0 | OR2_MF_BACK_INIT \<Rightarrow> m1 | OR2_MF_GA \<Rightarrow> m2 | OR2_MF_GB
   \<Rightarrow> m3 | OR2_MF_GC \<Rightarrow> m4 | OR2_MF_FWD_INIT \<Rightarrow> m5 | OR2_MF_GI
   \<Rightarrow> m6 | OR2_MF_GII \<Rightarrow> m7 | OR2_MF_GIII \<Rightarrow> m8 |
   OR2_MF_DTMF_FWD_INIT \<Rightarrow> m9 | OR2_MF_DTMF_BACK_INIT \<Rightarrow> m10)"
  by (cases x) simp_all

lemma keeps_case_mf_state_t [keeps_intros]:
  "keeps I m0 \<Longrightarrow> keeps I m1 \<Longrightarrow> keeps I m2 \<Longrightarrow> keeps I
   m3 \<Longrightarrow> keeps I m4 \<Longrightarrow> keeps I m5 \<Longrightarrow> keeps I m6
   \<Longrightarrow> keeps I m7 \<Longrightarrow> keeps I m8 \<Longrightarrow> keeps I m9
   \<Longrightarrow> keeps I m10 \<Longrightarrow> keeps I m11 \<Longrightarrow> keeps I m12
   \<Longrightarrow> keeps I m13 \<Longrightarrow> keeps I m14 \<Longrightarrow> keeps I m15
   \<Longrightarrow> keeps I m16 \<Longrightarrow> keeps I (case x of OR2_MF_UNSET \<Rightarrow>
   m0 | OR2_MF_OFF_STATE \<Rightarrow> m1 | OR2_MF_SEIZE_ACK_TXD \<Rightarrow> m2 |
   OR2_MF_CATEGORY_RQ_TXD \<Rightarrow> m3 | OR2_MF_DNIS_RQ_TXD \<Rightarrow> m4 |
   OR2_MF_ANI_RQ_TXD \<Rightarrow> m5 | OR2_MF_CHG_GII_TXD \<Rightarrow> m6 | OR2_MF_ACCEPTED_TXD
   \<Rightarrow> m7 | OR2_MF_DISCONNECT_TXD \<Rightarrow> m8 | OR2_MF_CATEGORY_TXD \<Rightarrow>
   m9 | OR2_MF_DNIS_TXD \<Rightarrow> m10 | OR2_MF_DNIS_END_TXD \<Rightarrow> m11 | OR2_MF_ANI_TXD
   \<Rightarrow> m12 | OR2_MF_ANI_END_TXD \<Rightarrow> m13 | OR2_MF_WAITING_TIMEOUT \<Rightarrow>
   m14 | OR2_MF_DIALING_DTMF \<Rightarrow> m15 | OR2_MF_DETECTING_DTMF \<Rightarrow> m16)"
  by (cases x) simp_all

lemma keeps_case_cas_state [keeps_intros]:
  "keeps I m0 \<Longrightarrow> keeps I m1 \<Longrightarrow> keeps I m2 \<Longrightarrow> keeps I
   m3 \<Longrightarrow> keeps I m4 \<Longrightarrow> keeps I m5 \<Longrightarrow> keeps I m6
   \<Longrightarrow> keeps I m7 \<Longrightarrow> keeps I m8 \<Longrightarrow> keeps I m9
   \<Longrightarrow> keeps I m10 \<Longrightarrow> keeps I m11 \<Longrightarrow> keeps I m12
   \<Longrightarrow> keeps I m13 \<Longrightarrow> keeps I m14 \<Longrightarrow> keeps I m15
   \<Longrightarrow> keeps I m16 \<Longrightarrow> keeps I m17 \<Longrightarrow> keeps I m18
   \<Longrightarrow> keeps I m19 \<Longrightarrow> keeps I m20 \<Longrightarrow> keeps I m21
   \<Longrightarrow> keeps I m22 \<Longrightarrow> keeps I (case x of OR2_INVALID_STATE
   \<Rightarrow> m0 | OR2_INIT \<Rightarrow> m1 | OR2_IDLE \<Rightarrow> m2 | OR2_SEIZE_ACK_TXD
   \<Rightarrow> m3 | OR2_ANSWER_TXD \<Rightarrow> m4 | OR2_CLEAR_BACK_TXD \<Rightarrow> m5 |
   OR2_CLEAR_FWD_RXD \<Rightarrow> m6 | OR2_EXECUTING_DOUBLE_ANSWER \<Rightarrow> m7 |
   OR2_FORCED_RELEASE_TXD \<Rightarrow> m8 | OR2_SEIZE_TXD \<Rightarrow> m9 | OR2_SEIZE_ACK_RXD
   \<Rightarrow> m10 | OR2_CLEAR_BACK_TONE_RXD \<Rightarrow> m11 | OR2_ACCEPT_RXD \<Rightarrow>
   m12 | OR2_ANSWER_RXD \<Rightarrow> m13 | OR2_CLEAR_BACK_RXD \<Rightarrow> m14 |
   OR2_ANSWER_RXD_MF_PENDING \<Rightarrow> m15 | OR2_CLEAR_FWD_TXD \<Rightarrow> m16 |
   OR2_FORCED_RELEASE_RXD \<Rightarrow> m17 | OR2_CLEAR_BACK_AFTER_CLEAR_FWD_RXD \<Rightarrow> m18
   | OR2_SEIZE_TXD_CLEAR_FWD_PENDING \<Rightarrow> m19 | OR2_DOUBLE_SEIZURE_CLEAR_FWD_PENDING
   \<Rightarrow> m20 | OR2_BLOCKED \<Rightarrow> m21 | OR2_DOUBLE_SEIZURE \<Rightarrow> m22)"
  by (cases x) simp_all

lemma keeps_case_direction_t [keeps_intros]:
  "keeps I m0 \<Longrightarrow> keeps I m1 \<Longrightarrow> keeps I m2 \<Longrightarrow> keeps I
   (case x of OR2_DIR_STOPPED \<Rightarrow> m0 | OR2_DIR_FORWARD \<Rightarrow> m1 |
   OR2_DIR_BACKWARD \<Rightarrow> m2)"
  by (cases x) simp_all

lemma keeps_case_oob_event [keeps_intros]:
  "keeps I m0 \<Longrightarrow> keeps I m1 \<Longrightarrow> keeps I m2 \<Longrightarrow> keeps I
   m3 \<Longrightarrow> keeps I m4 \<Longrightarrow> keeps I (case x of OR2_OOB_EVENT_NONE
   \<Rightarrow> m0 | OR2_OOB_EVENT_CAS_CHANGE \<Rightarrow> m1 | OR2_OOB_EVENT_ALARM_ON
   \<Rightarrow> m2 | OR2_OOB_EVENT_ALARM_OFF \<Rightarrow> m3 | OR2_OOB_EVENT_TONE_CHANGE
   \<Rightarrow> m4)"
  by (cases x) simp_all

section \<open>Constants\<close>

abbreviation (input) "OR2_MF_TONE_INVALID \<equiv> 0 :: int"
abbreviation (input) "OR2_MF_TONE_1 \<equiv> 49 :: int"
abbreviation (input) "OR2_MF_TONE_2 \<equiv> 50 :: int"
abbreviation (input) "OR2_MF_TONE_3 \<equiv> 51 :: int"
abbreviation (input) "OR2_MF_TONE_4 \<equiv> 52 :: int"
abbreviation (input) "OR2_MF_TONE_5 \<equiv> 53 :: int"
abbreviation (input) "OR2_MF_TONE_6 \<equiv> 54 :: int"
abbreviation (input) "OR2_MF_TONE_7 \<equiv> 55 :: int"
abbreviation (input) "OR2_MF_TONE_8 \<equiv> 56 :: int"
abbreviation (input) "OR2_MF_TONE_9 \<equiv> 57 :: int"
abbreviation (input) "OR2_MF_TONE_10 \<equiv> 48 :: int"
abbreviation (input) "OR2_MF_TONE_11 \<equiv> 66 :: int"
abbreviation (input) "OR2_MF_TONE_12 \<equiv> 67 :: int"
abbreviation (input) "OR2_MF_TONE_13 \<equiv> 68 :: int"
abbreviation (input) "OR2_MF_TONE_14 \<equiv> 69 :: int"
abbreviation (input) "OR2_MF_TONE_15 \<equiv> 70 :: int"

abbreviation (input) "OR2_MAX_ANI \<equiv> 80 :: int"
abbreviation (input) "OR2_MAX_DNIS \<equiv> 80 :: int"
abbreviation (input) "OR2_MAX_SCHED_TIMERS \<equiv> 10 :: nat"
abbreviation (input) "OR2_CHAN_READ_SIZE \<equiv> 160 :: int"
abbreviation (input) "OR2_DTMF_MAX_SILENCE_SAMPLES \<equiv> 4000 :: int"
abbreviation (input) "OR2_DEFAULT_DTMF_ON \<equiv> 50 :: int"
abbreviation (input) "OR2_DEFAULT_DTMF_OFF \<equiv> 100 :: int"

abbreviation (input) "OR2_ANI_CAN_COME_FIRST \<equiv> 1 :: int"
abbreviation (input) "OR2_FORCE_USE_MAX_ANI \<equiv> 2 :: int"
abbreviation (input) "OR2_AUTO_SEIZE_ACK \<equiv> 4 :: int"
abbreviation (input) "OR2_CHAN_CALL_DNIS_CALLBACK \<equiv> 1 :: int"

abbreviation (input) "OR2_IO_READ \<equiv> 1 :: int"
abbreviation (input) "OR2_IO_WRITE \<equiv> 2 :: int"
abbreviation (input) "OR2_IO_OOB_EVENT \<equiv> 4 :: int"

section \<open>Time\<close>

text \<open>\<open>struct timeval\<close>, ordered as the macro \<open>openr2_timercmp\<close> compares it.\<close>

datatype timeval = Timeval (tv_sec: int) (tv_usec: int)

instantiation timeval :: linorder
begin

definition less_eq_timeval :: "timeval \<Rightarrow> timeval \<Rightarrow> bool" where
  "less_eq_timeval a b \<longleftrightarrow>
     (if tv_sec a = tv_sec b then tv_usec a \<le> tv_usec b else tv_sec a < tv_sec b)"

definition less_timeval :: "timeval \<Rightarrow> timeval \<Rightarrow> bool" where
  "less_timeval a b \<longleftrightarrow>
     (if tv_sec a = tv_sec b then tv_usec a < tv_usec b else tv_sec a < tv_sec b)"

instance
  by standard
    (auto simp: less_eq_timeval_def less_timeval_def timeval.expand split: if_splits)

end

text \<open>
  The milliseconds from \<open>now\<close> to \<open>t\<close> as every timer computation of the library takes them, with
  C's truncating division.
\<close>

definition ms_between :: "timeval \<Rightarrow> timeval \<Rightarrow> int" where
  "ms_between t now = (tv_sec t - tv_sec now) * 1000 + (tv_usec t - tv_usec now) sdiv 1000"

section \<open>The context\<close>

record ga_tones =
  ga_request_next_dnis_digit :: int
  ga_request_dnis_minus_1 :: int
  ga_request_dnis_minus_2 :: int
  ga_request_dnis_minus_3 :: int
  ga_request_all_dnis_again :: int
  ga_request_next_ani_digit :: int
  ga_request_category :: int
  ga_request_category_and_change_to_gc :: int
  ga_request_change_to_g2 :: int
  ga_address_complete_charge_setup :: int
  ga_network_congestion :: int

record gb_tones =
  gb_accept_call_with_charge :: int
  gb_accept_call_no_charge :: int
  gb_busy_number :: int
  gb_network_congestion :: int
  gb_unallocated_number :: int
  gb_line_out_of_order :: int
  gb_special_info_tone :: int
  gb_number_changed :: int

record gc_tones =
  gc_request_next_ani_digit :: int
  gc_request_change_to_g2 :: int
  gc_request_next_dnis_digit_and_change_to_ga :: int
  gc_network_congestion :: int

record g1_tones =
  g1_no_more_dnis_available :: int
  g1_no_more_ani_available :: int
  g1_caller_ani_is_restricted :: int

record g2_tones =
  g2_national_subscriber :: int
  g2_national_priority_subscriber :: int
  g2_international_subscriber :: int
  g2_international_priority_subscriber :: int
  g2_collect_call :: int
  g2_test_equipment :: int
  g2_pay_phone :: int

record timers_cfg =
  t_mf_back_cycle :: int
  t_mf_back_resume_cycle :: int
  t_mf_fwd_safety :: int
  t_r2_seize :: int
  t_r2_answer :: int
  t_r2_metering_pulse :: int
  t_r2_double_answer :: int
  t_r2_answer_delay :: int
  t_cas_persistence_check :: int
  t_dtmf_start_dial :: int
  t_r2_set_call_down :: int
  t_r2_seize_persist :: int

text \<open>
  \<open>openr2_context_t\<close>.  The interface pointers of the structure are the argument \<open>ifc\<close> of the
  operations (theory R2Iface); of the pointer to the I/O interface only the question whether it is
  NULL is kept here, because \<open>r2ioabs.c\<close> asks it.
\<close>

record r2ctx =
  last_error :: liberr
  io_present :: bool
  variant :: variant_t
  cas_signals :: "int list"
  cas_nonr2_bits :: int
  cas_r2_bits :: int
  mf_ga_tones :: ga_tones
  mf_gb_tones :: gb_tones
  mf_gc_tones :: gc_tones
  mf_g1_tones :: g1_tones
  mf_g2_tones :: g2_tones
  timers :: timers_cfg
  max_dnis :: int
  max_ani :: int
  get_ani_first :: int
  skip_category :: int
  immediate_accept :: int
  double_answer :: int
  mf_threshold :: int
  dial_with_dtmf :: int
  detect_dtmf :: int
  dtmf_on :: int
  dtmf_off :: int
  ctx_loglevel :: int
  logdir :: string
  configured_from_file :: int
  ctx_flags :: int

section \<open>Timers and events\<close>

text \<open>
  The functions the library schedules, one constructor for each function passed to
  \<open>openr2_chan_add_timer\<close>; the dispatcher of R2Chan maps each to its definition.
\<close>

datatype timer_callback =
    CB_mf_fwd_safety_timeout_expired | CB_mf_back_cycle_timeout_expired | CB_mf_back_resume_cycle
  | CB_r2_metering_pulse | CB_persistence_check_expired | CB_start_dialing_dtmf
  | CB_r2_answer_timeout_expired | CB_double_answer_handler | CB_ready_to_answer
  | CB_seize_timeout_expired | CB_r2_set_call_down | CB_r2_seize_persist_expired

record sched_timer =
  tm_time :: timeval
  tm_callback :: timer_callback
  tm_name :: string
  tm_id :: int

record chan_timer_ids =
  id_mf_fwd_safety :: int
  id_r2_seize :: int
  id_r2_seize_persist :: int
  id_r2_answer :: int
  id_r2_metering_pulse :: int
  id_r2_double_answer :: int
  id_mf_back_resume_cycle :: int
  id_mf_back_cycle :: int
  id_r2_answer_delay :: int
  id_cas_persistence_check :: int
  id_dtmf_start_dial :: int

definition no_timer_ids :: chan_timer_ids where
  "no_timer_ids = \<lparr> id_mf_fwd_safety = 0, id_r2_seize = 0, id_r2_seize_persist = 0, id_r2_answer = 0,
     id_r2_metering_pulse = 0, id_r2_double_answer = 0, id_mf_back_resume_cycle = 0,
     id_mf_back_cycle = 0, id_r2_answer_delay = 0, id_cas_persistence_check = 0,
     id_dtmf_start_dial = 0 \<rparr>"

text \<open>What the library tells its user through \<open>openr2_event_interface_t\<close>, with the arguments.\<close>

datatype event =
    OnCallInit | OnCallProceed
  | OnCallOffered (off_ani: "int list") (off_dnis: "int list") (off_category: category) (off_restricted: int)
  | OnCallAccepted call_mode
  | OnCallAnswered | OnCallDisconnect disconnect_cause | OnCallEnd
  | OnCallRead "int list" int
  | OnHardwareAlarm int | OnOsError int | OnProtocolError protocol_error
  | OnLineBlocked | OnLineIdle
  | OnDnisDigitReceived int | OnAniDigitReceived int
  | OnBillingPulseReceived | OnCallLogCreated string

text \<open>The ghost trace: events reported, CAS bits put on the line, tones selected for transmission.\<close>

datatype act = Ev event | TxCas int | TxTone int

section \<open>The channel\<close>

text \<open>
  \<open>openr2_chan_t\<close>.  \<open>sched_timers\<close> is the live prefix of the C array, so \<open>timers_count\<close> is its
  length.  \<open>ani_ptr\<close> is \<open>None\<close> for NULL and otherwise the offset into \<open>ani\<close>.  Handles are addresses,
  0 being NULL.  The two mutexes (the channel's and the context's \<open>timers_lock\<close>, both recursive) are
  the number of times they are held.  \<open>world\<close>, \<open>trace\<close> and \<open>mem_fault\<close> are not fields of the C
  structure.
\<close>

record 'w chan =
  fd_created :: bool
  fd :: int
  io_buf_size :: int
  number :: int
  read_enabled :: int
  direction :: direction_t
  sched_timers :: "sched_timer list"
  timer_id :: int
  timer_ids :: chan_timer_ids
  mf_state :: mf_state_t
  mf_group :: mf_group
  r2_state :: cas_state
  call_state :: call_state_t
  cas_read :: int
  cas_write :: int
  cas_raw_read :: int
  cas_persistence_check_signal :: int
  cas_rx_signal :: cas_signal
  cas_tx_signal :: cas_signal
  inalarm :: int
  r2context :: r2ctx
  ani :: "int list"
  ani_ptr :: "nat option"
  ani_len :: nat
  dnis :: "int list"
  dnis_index :: int
  dnis_len :: nat
  caller_ani_is_restricted :: int
  caller_category :: int
  mf_write_handle :: int
  mf_read_handle :: int
  dtmf_write_handle :: int
  dtmf_read_handle :: int
  dialing_dtmf :: int
  detecting_dtmf :: int
  dtmf_silence_samples :: int
  mf_write_tone :: int
  mf_read_tone :: int
  mf_threshold_tone :: int
  mf_threshold_time :: timeval
  answered :: int
  category_sent :: int
  loglevel :: int
  call_files :: int
  call_count :: int
  logname :: string
  logfile :: int
  chan_flags :: int
  span_id :: int
  client_data :: int
  lock_depth :: int
  timers_lock_depth :: int
  world :: 'w
  trace :: "act list"
  mem_fault :: bool

text \<open>The macros of \<open>r2proto.c\<close> that reach into the context.\<close>

definition R2 :: "'w chan \<Rightarrow> cas_signal \<Rightarrow> int" where
  "R2 s sig = cas_signals (r2context s) ! cas_index sig"

abbreviation "GA_TONE s \<equiv> mf_ga_tones (r2context s)"
abbreviation "GB_TONE s \<equiv> mf_gb_tones (r2context s)"
abbreviation "GC_TONE s \<equiv> mf_gc_tones (r2context s)"
abbreviation "GI_TONE s \<equiv> mf_g1_tones (r2context s)"
abbreviation "GII_TONE s \<equiv> mf_g2_tones (r2context s)"
abbreviation "TIMER s \<equiv> timers (r2context s)"
abbreviation "DIAL_DTMF s \<equiv> dial_with_dtmf (r2context s) \<noteq> 0"
abbreviation "DETECT_DTMF s \<equiv> detect_dtmf (r2context s) \<noteq> 0"

definition IS_DTMF_R2 :: "'w chan \<Rightarrow> bool" where
  "IS_DTMF_R2 s \<longleftrightarrow> DIAL_DTMF s \<or> DETECT_DTMF s"

definition DNIS_COMPLETE :: "'w chan \<Rightarrow> bool" where
  "DNIS_COMPLETE s \<longleftrightarrow> dnis_len s \<ge> to_uint32 (max_dnis (r2context s))"

text \<open>Assigning one slot of \<open>timer_ids\<close>: each slot of the structure is a selector and an update.\<close>

type_synonym timer_slot = "(chan_timer_ids \<Rightarrow> int) \<times> (int \<Rightarrow> chan_timer_ids \<Rightarrow> chan_timer_ids)"

definition set_timer_id :: "timer_slot \<Rightarrow> int \<Rightarrow> 'w chan \<Rightarrow> 'w chan" where
  "set_timer_id slot v s = s\<lparr> timer_ids := snd slot v (timer_ids s) \<rparr>"

abbreviation "slot_mf_fwd_safety \<equiv> (id_mf_fwd_safety, \<lambda>v t. t\<lparr>id_mf_fwd_safety := v\<rparr>)"
abbreviation "slot_r2_seize \<equiv> (id_r2_seize, \<lambda>v t. t\<lparr>id_r2_seize := v\<rparr>)"
abbreviation "slot_r2_seize_persist \<equiv> (id_r2_seize_persist, \<lambda>v t. t\<lparr>id_r2_seize_persist := v\<rparr>)"
abbreviation "slot_r2_answer \<equiv> (id_r2_answer, \<lambda>v t. t\<lparr>id_r2_answer := v\<rparr>)"
abbreviation "slot_r2_metering_pulse \<equiv> (id_r2_metering_pulse, \<lambda>v t. t\<lparr>id_r2_metering_pulse := v\<rparr>)"
abbreviation "slot_r2_double_answer \<equiv> (id_r2_double_answer, \<lambda>v t. t\<lparr>id_r2_double_answer := v\<rparr>)"
abbreviation "slot_mf_back_resume_cycle \<equiv> (id_mf_back_resume_cycle, \<lambda>v t. t\<lparr>id_mf_back_resume_cycle := v\<rparr>)"
abbreviation "slot_mf_back_cycle \<equiv> (id_mf_back_cycle, \<lambda>v t. t\<lparr>id_mf_back_cycle := v\<rparr>)"
abbreviation "slot_r2_answer_delay \<equiv> (id_r2_answer_delay, \<lambda>v t. t\<lparr>id_r2_answer_delay := v\<rparr>)"
abbreviation "slot_cas_persistence_check \<equiv> (id_cas_persistence_check, \<lambda>v t. t\<lparr>id_cas_persistence_check := v\<rparr>)"
abbreviation "slot_dtmf_start_dial \<equiv> (id_dtmf_start_dial, \<lambda>v t. t\<lparr>id_dtmf_start_dial := v\<rparr>)"

end
