(* ===== verification/R2Utils.thy ===== *)
theory R2Utils
  imports R2Prelude
begin

text \<open>
  \<open>openr2_strncasecmp\<close> of \<open>r2utils.c\<close>, with its specification as equality of the lower-cased
  prefixes, and the log level names of \<open>r2log.c\<close> that are looked up with it.  A C string is the list of
  its characters before the terminating 0; reading at the end gives 0.
\<close>

section \<open>Comparing strings\<close>

definition tolower :: "int \<Rightarrow> int" where
  "tolower c = (if 65 \<le> c \<and> c \<le> 90 then c + 32 else c)"

fun char0 :: "int list \<Rightarrow> int" where
  "char0 [] = 0"
| "char0 (c # cs) = c"

text \<open>The loop, for \<open>n > 0\<close> characters left to compare.\<close>

fun strncasecmp_loop :: "int list \<Rightarrow> int list \<Rightarrow> nat \<Rightarrow> int" where
  "strncasecmp_loop p1 p2 n =
     (let result = tolower (char0 p1) - tolower (char0 p2) in
      if result \<noteq> 0 then result
      else case p1 of
        [] \<Rightarrow> result
      | c # p1' \<Rightarrow> if c = 0 \<or> n \<le> 1 then result else strncasecmp_loop p1' (tl p2) (n - 1))"

definition openr2_strncasecmp :: "int list \<Rightarrow> int list \<Rightarrow> nat \<Rightarrow> int" where
  "openr2_strncasecmp s1 s2 n = (if n = 0 then 0 else strncasecmp_loop s1 s2 n)"

declare strncasecmp_loop.simps [simp del]

lemma tolower_0_iff: "0 \<le> c \<Longrightarrow> tolower c = 0 \<longleftrightarrow> c = 0"
  by (auto simp: tolower_def)

lemma strncasecmp_loop_eq_0:
  assumes "list_all (\<lambda>c. 0 < c) p1" "list_all (\<lambda>c. 0 < c) p2" "0 < n"
  shows "strncasecmp_loop p1 p2 n = 0 \<longleftrightarrow> map tolower (take n p1) = map tolower (take n p2)"
  using assms
proof (induction p1 arbitrary: p2 n)
  case Nil
  then show ?case
    by (cases p2) (auto simp: strncasecmp_loop.simps Let_def tolower_def)
next
  case (Cons c p1)
  then have c: "tolower c \<noteq> 0" by (simp add: tolower_0_iff)
  show ?case
  proof (cases p2)
    case Nil
    then show ?thesis using Cons.prems c by (subst strncasecmp_loop.simps) (auto simp: Let_def tolower_def)
  next
    case p2: (Cons d p2')
    show ?thesis
    proof (cases "n \<le> 1")
      case True
      then have "n = 1" using Cons.prems by simp
      then show ?thesis using Cons.prems p2 by (subst strncasecmp_loop.simps) (auto simp: Let_def)
    next
      case False
      then obtain m where n: "n = Suc m" "0 < m" by (cases n) auto
      have "strncasecmp_loop p1 p2' m = 0 \<longleftrightarrow> map tolower (take m p1) = map tolower (take m p2')"
        using Cons.IH [of p2' m] Cons.prems p2 n by simp
      then show ?thesis using Cons.prems p2 n
        by (subst strncasecmp_loop.simps) (auto simp: Let_def)
    qed
  qed
qed

section \<open>Log levels\<close>

abbreviation (input) "OR2_LOG_NOTHING \<equiv> 0 :: int"
abbreviation (input) "OR2_LOG_ERROR \<equiv> 1 :: int"
abbreviation (input) "OR2_LOG_WARNING \<equiv> 2 :: int"
abbreviation (input) "OR2_LOG_NOTICE \<equiv> 4 :: int"
abbreviation (input) "OR2_LOG_DEBUG \<equiv> 8 :: int"
abbreviation (input) "OR2_LOG_MF_TRACE \<equiv> 16 :: int"
abbreviation (input) "OR2_LOG_CAS_TRACE \<equiv> 32 :: int"
abbreviation (input) "OR2_LOG_STACK_TRACE \<equiv> 64 :: int"
abbreviation (input) "OR2_LOG_ALL \<equiv> 4095 :: int"
abbreviation (input) "OR2_LOG_EX_DEBUG \<equiv> 4096 :: int"

definition openr2_log_get_level_string :: "int \<Rightarrow> string" where
  "openr2_log_get_level_string level =
     (if level = OR2_LOG_ERROR then ''ERROR''
      else if level = OR2_LOG_WARNING then ''WARNING''
      else if level = OR2_LOG_NOTICE then ''NOTICE''
      else if level = OR2_LOG_DEBUG then ''DEBUG''
      else if level = OR2_LOG_MF_TRACE then ''MF TRACE''
      else if level = OR2_LOG_CAS_TRACE then ''CAS TRACE''
      else if level = OR2_LOG_STACK_TRACE then ''STACK TRACE''
      else if level = OR2_LOG_NOTHING then ''NOTHING''
      else if level = OR2_LOG_EX_DEBUG then ''EXDEBUG''
      else ''*UNKNOWN*'')"

text \<open>The names in the order they are tried; a match of the prefix is a match.\<close>

definition log_level_names :: "(string \<times> int) list" where
  "log_level_names =
     [(''ALL'', OR2_LOG_ALL), (''ERROR'', OR2_LOG_ERROR), (''WARNING'', OR2_LOG_WARNING),
      (''NOTICE'', OR2_LOG_NOTICE), (''DEBUG'', OR2_LOG_DEBUG), (''EXDEBUG'', OR2_LOG_EX_DEBUG),
      (''MF'', OR2_LOG_MF_TRACE), (''CAS'', OR2_LOG_CAS_TRACE), (''STACK'', OR2_LOG_STACK_TRACE),
      (''NOTHING'', OR2_LOG_NOTHING)]"

fun lookup_prefix :: "(string \<times> 'a) list \<Rightarrow> 'a \<Rightarrow> int list \<Rightarrow> 'a" where
  "lookup_prefix [] d str = d"
| "lookup_prefix ((name, v) # rest) d str =
     (if openr2_strncasecmp (cstr name) str (length name) = 0 then v else lookup_prefix rest d str)"

definition openr2_log_get_level :: "int list \<Rightarrow> int" where
  "openr2_log_get_level levelstr = lookup_prefix log_level_names (-1) levelstr"

text \<open>
  A prefix comparison of \<open>openr2_strncasecmp\<close> says "equal" exactly when the first \<open>n\<close>
  characters of the two strings agree up to case, a shorter string only matching a string that is
  equal to it.
\<close>

theorem strncasecmp_correct:
  assumes "list_all (\<lambda>c. 0 < c) s1" and "list_all (\<lambda>c. 0 < c) s2"
  shows "openr2_strncasecmp s1 s2 n = 0 \<longleftrightarrow> map tolower (take n s1) = map tolower (take n s2)"
  using strncasecmp_loop_eq_0 [OF assms] by (cases "n = 0") (simp_all add: openr2_strncasecmp_def)

lemma strncasecmp_correct_witness:
  "openr2_strncasecmp [73, 84, 85] [105, 116, 117, 33] 3 = 0"
  using strncasecmp_correct [of "[73, 84, 85]" "[105, 116, 117, 33]" 3] by (simp add: tolower_def)

end
