(* ===== verification/R2Variant.thy ===== *)
theory R2Variant
  imports R2Types R2Utils
begin

text \<open>
  The protocol variants of \<open>r2proto.c\<close>: the ITU defaults and the country functions that alter them
  (\<open>openr2_proto_configure_context\<close>), the variant table and its lookups, and the names the library
  prints for its states, errors, causes and categories.
\<close>

section \<open>Country functions\<close>

definition r2config_argentina :: "r2ctx \<Rightarrow> r2ctx" where
  "r2config_argentina c = c\<lparr>
     mf_g1_tones := (mf_g1_tones c)\<lparr> g1_no_more_dnis_available := OR2_MF_TONE_INVALID,
       g1_caller_ani_is_restricted := OR2_MF_TONE_15, g1_no_more_ani_available := OR2_MF_TONE_12 \<rparr>,
     mf_g2_tones := (mf_g2_tones c)\<lparr> g2_pay_phone := OR2_MF_TONE_4 \<rparr>,
     timers := (timers c)\<lparr> t_r2_metering_pulse := 400 \<rparr> \<rparr>"

definition r2config_brazil :: "r2ctx \<Rightarrow> r2ctx" where
  "r2config_brazil c = c\<lparr>
     mf_g1_tones := (mf_g1_tones c)\<lparr> g1_no_more_dnis_available := OR2_MF_TONE_INVALID,
       g1_caller_ani_is_restricted := OR2_MF_TONE_12 \<rparr>,
     mf_g2_tones := (mf_g2_tones c)\<lparr> g2_collect_call := OR2_MF_TONE_8 \<rparr>,
     mf_ga_tones := (mf_ga_tones c)\<lparr> ga_address_complete_charge_setup := OR2_MF_TONE_INVALID,
       ga_request_dnis_minus_1 := OR2_MF_TONE_9, ga_request_all_dnis_again := OR2_MF_TONE_2 \<rparr>,
     mf_gb_tones := (mf_gb_tones c)\<lparr> gb_accept_call_with_charge := OR2_MF_TONE_1,
       gb_busy_number := OR2_MF_TONE_2, gb_accept_call_no_charge := OR2_MF_TONE_5,
       gb_special_info_tone := OR2_MF_TONE_6, gb_number_changed := OR2_MF_TONE_3,
       gb_unallocated_number := OR2_MF_TONE_7 \<rparr> \<rparr>"

definition r2config_china :: "r2ctx \<Rightarrow> r2ctx" where
  "r2config_china c = c\<lparr>
     cas_nonr2_bits := 3,
     mf_ga_tones := (mf_ga_tones c)\<lparr> ga_request_next_ani_digit := OR2_MF_TONE_1,
       ga_request_category := OR2_MF_TONE_6, ga_address_complete_charge_setup := OR2_MF_TONE_INVALID \<rparr>,
     mf_gb_tones := (mf_gb_tones c)\<lparr> gb_accept_call_with_charge := OR2_MF_TONE_1,
       gb_busy_number := OR2_MF_TONE_2, gb_special_info_tone := OR2_MF_TONE_INVALID \<rparr>,
     mf_g1_tones := (mf_g1_tones c)\<lparr> g1_no_more_dnis_available := OR2_MF_TONE_INVALID \<rparr>,
     ctx_flags := set_flag (set_flag (ctx_flags c) OR2_ANI_CAN_COME_FIRST) OR2_FORCE_USE_MAX_ANI,
     max_ani := OR2_MAX_ANI \<rparr>"

definition r2config_itu :: "r2ctx \<Rightarrow> r2ctx" where
  "r2config_itu c = c"

definition r2config_mexico :: "r2ctx \<Rightarrow> r2ctx" where
  "r2config_mexico c = c\<lparr>
     get_ani_first := 0,
     mf_ga_tones := (mf_ga_tones c)\<lparr> ga_request_category := OR2_MF_TONE_INVALID,
       ga_request_category_and_change_to_gc := OR2_MF_TONE_6,
       ga_address_complete_charge_setup := OR2_MF_TONE_INVALID,
       ga_request_next_ani_digit := OR2_MF_TONE_INVALID \<rparr>,
     mf_gb_tones := (mf_gb_tones c)\<lparr> gb_accept_call_with_charge := OR2_MF_TONE_1,
       gb_accept_call_no_charge := OR2_MF_TONE_5, gb_busy_number := OR2_MF_TONE_2,
       gb_unallocated_number := OR2_MF_TONE_2, gb_special_info_tone := OR2_MF_TONE_INVALID \<rparr>,
     mf_gc_tones := (mf_gc_tones c)\<lparr> gc_request_next_ani_digit := OR2_MF_TONE_1,
       gc_request_change_to_g2 := OR2_MF_TONE_3,
       gc_request_next_dnis_digit_and_change_to_ga := OR2_MF_TONE_5,
       gc_network_congestion := OR2_MF_TONE_4 \<rparr>,
     mf_g1_tones := (mf_g1_tones c)\<lparr> g1_no_more_dnis_available := OR2_MF_TONE_INVALID,
       g1_caller_ani_is_restricted := OR2_MF_TONE_15 \<rparr> \<rparr>"

definition r2config_venezuela :: "r2ctx \<Rightarrow> r2ctx" where
  "r2config_venezuela c = c\<lparr>
     mf_ga_tones := (mf_ga_tones c)\<lparr> ga_request_next_ani_digit := OR2_MF_TONE_9 \<rparr>,
     mf_g1_tones := (mf_g1_tones c)\<lparr> g1_caller_ani_is_restricted := OR2_MF_TONE_12,
       g1_no_more_dnis_available := OR2_MF_TONE_INVALID \<rparr> \<rparr>"

definition r2config_colombia :: "r2ctx \<Rightarrow> r2ctx" where
  "r2config_colombia c = c\<lparr>
     mf_g1_tones := (mf_g1_tones c)\<lparr> g1_caller_ani_is_restricted := OR2_MF_TONE_12 \<rparr>,
     mf_gb_tones := (mf_gb_tones c)\<lparr> gb_accept_call_with_charge := OR2_MF_TONE_1,
       gb_busy_number := OR2_MF_TONE_2, gb_accept_call_no_charge := OR2_MF_TONE_5,
       gb_unallocated_number := OR2_MF_TONE_6 \<rparr> \<rparr>"

section \<open>Line signals\<close>

definition standard_cas_signals :: "int list" where
  "standard_cas_signals = [8, 12, 0, 12, 12, 0, 8, 4]"

definition cas_names :: "string list" where
  "cas_names = [''IDLE'', ''BLOCK'', ''SEIZE'', ''SEIZE ACK'', ''CLEAR BACK'', ''FORCED RELEASE'',
     ''CLEAR FORWARD'', ''ANSWER'']"

section \<open>The variant table\<close>

record variant_entry =
  var_id :: variant_t
  var_name :: string
  var_country :: string
  var_config :: "r2ctx \<Rightarrow> r2ctx"

definition r2variants :: "variant_entry list" where
  "r2variants =
     [ \<lparr> var_id = OR2_VAR_ARGENTINA, var_name = ''AR'', var_country = ''Argentina'', var_config = r2config_argentina \<rparr>,
       \<lparr> var_id = OR2_VAR_BRAZIL, var_name = ''BR'', var_country = ''Brazil'', var_config = r2config_brazil \<rparr>,
       \<lparr> var_id = OR2_VAR_CHINA, var_name = ''CN'', var_country = ''China'', var_config = r2config_china \<rparr>,
       \<lparr> var_id = OR2_VAR_CZECH, var_name = ''CZ'', var_country = ''Czech Republic'', var_config = r2config_itu \<rparr>,
       \<lparr> var_id = OR2_VAR_COLOMBIA, var_name = ''CO'', var_country = ''Colombia'', var_config = r2config_colombia \<rparr>,
       \<lparr> var_id = OR2_VAR_ECUADOR, var_name = ''EC'', var_country = ''Ecuador'', var_config = r2config_itu \<rparr>,
       \<lparr> var_id = OR2_VAR_ITU, var_name = ''ITU'', var_country = ''International Telecommunication Union'',
         var_config = r2config_itu \<rparr>,
       \<lparr> var_id = OR2_VAR_MEXICO, var_name = ''MX'', var_country = ''Mexico'', var_config = r2config_mexico \<rparr>,
       \<lparr> var_id = OR2_VAR_PHILIPPINES, var_name = ''PH'', var_country = ''Philippines'', var_config = r2config_itu \<rparr>,
       \<lparr> var_id = OR2_VAR_VENEZUELA, var_name = ''VE'', var_country = ''Venezuela'', var_config = r2config_venezuela \<rparr> ]"

section \<open>Configuring a context\<close>

text \<open>The ITU settings every variant starts from, in the order of the source.\<close>

definition itu_ga_tones :: ga_tones where
  "itu_ga_tones = \<lparr>
     ga_request_next_dnis_digit = OR2_MF_TONE_1, ga_request_dnis_minus_1 = OR2_MF_TONE_2,
     ga_request_dnis_minus_2 = OR2_MF_TONE_7, ga_request_dnis_minus_3 = OR2_MF_TONE_8,
     ga_request_all_dnis_again = OR2_MF_TONE_INVALID, ga_request_next_ani_digit = OR2_MF_TONE_5,
     ga_request_category = OR2_MF_TONE_5, ga_request_category_and_change_to_gc = OR2_MF_TONE_INVALID,
     ga_request_change_to_g2 = OR2_MF_TONE_3, ga_address_complete_charge_setup = OR2_MF_TONE_6,
     ga_network_congestion = OR2_MF_TONE_4 \<rparr>"

definition itu_gb_tones :: gb_tones where
  "itu_gb_tones = \<lparr>
     gb_accept_call_with_charge = OR2_MF_TONE_6, gb_accept_call_no_charge = OR2_MF_TONE_7,
     gb_busy_number = OR2_MF_TONE_3, gb_network_congestion = OR2_MF_TONE_4,
     gb_unallocated_number = OR2_MF_TONE_5, gb_line_out_of_order = OR2_MF_TONE_8,
     gb_special_info_tone = OR2_MF_TONE_2, gb_number_changed = OR2_MF_TONE_INVALID \<rparr>"

definition itu_gc_tones :: gc_tones where
  "itu_gc_tones = \<lparr>
     gc_request_next_ani_digit = OR2_MF_TONE_INVALID, gc_request_change_to_g2 = OR2_MF_TONE_INVALID,
     gc_request_next_dnis_digit_and_change_to_ga = OR2_MF_TONE_INVALID,
     gc_network_congestion = OR2_MF_TONE_INVALID \<rparr>"

definition itu_g1_tones :: g1_tones where
  "itu_g1_tones = \<lparr>
     g1_no_more_dnis_available = OR2_MF_TONE_15, g1_no_more_ani_available = OR2_MF_TONE_15,
     g1_caller_ani_is_restricted = OR2_MF_TONE_12 \<rparr>"

definition itu_g2_tones :: g2_tones where
  "itu_g2_tones = \<lparr>
     g2_national_subscriber = OR2_MF_TONE_1, g2_national_priority_subscriber = OR2_MF_TONE_2,
     g2_international_subscriber = OR2_MF_TONE_7, g2_international_priority_subscriber = OR2_MF_TONE_9,
     g2_collect_call = OR2_MF_TONE_INVALID, g2_test_equipment = OR2_MF_TONE_3,
     g2_pay_phone = OR2_MF_TONE_INVALID \<rparr>"

definition clamp :: "int \<Rightarrow> int \<Rightarrow> int" where
  "clamp limit n = (if n \<ge> limit then limit - 1 else n)"

text \<open>The timers: \<open>cas_persistence_check\<close> is the only one the function leaves alone.\<close>

definition default_timers :: "timers_cfg \<Rightarrow> timers_cfg" where
  "default_timers t = t\<lparr>
     t_mf_back_cycle := 2000, t_mf_back_resume_cycle := 150, t_mf_fwd_safety := 30000,
     t_r2_seize := 2000, t_r2_seize_persist := 150, t_r2_answer := 60000, t_r2_metering_pulse := 0,
     t_r2_answer_delay := 150, t_r2_double_answer := 400, t_r2_set_call_down := 3000,
     t_dtmf_start_dial := 500 \<rparr>"

definition configure_defaults :: "r2ctx \<Rightarrow> int \<Rightarrow> int \<Rightarrow> r2ctx" where
  "configure_defaults c ani_limit dnis_limit = c\<lparr>
     cas_signals := standard_cas_signals,
     cas_nonr2_bits := 1,
     cas_r2_bits := 12,
     timers := default_timers (timers c),
     max_dnis := clamp OR2_MAX_DNIS dnis_limit,
     max_ani := clamp OR2_MAX_ANI ani_limit,
     ctx_flags := set_flag (ctx_flags c) OR2_AUTO_SEIZE_ACK,
     get_ani_first := 1,
     immediate_accept := 0,
     mf_ga_tones := itu_ga_tones, mf_gb_tones := itu_gb_tones, mf_gc_tones := itu_gc_tones,
     mf_g1_tones := itu_g1_tones, mf_g2_tones := itu_g2_tones \<rparr>"

fun find_variant :: "variant_t \<Rightarrow> variant_entry list \<Rightarrow> variant_entry option" where
  "find_variant v [] = None"
| "find_variant v (e # es) = (if v = var_id e then Some e else find_variant v es)"

definition openr2_proto_configure_context :: "r2ctx \<Rightarrow> variant_t \<Rightarrow> int \<Rightarrow> int \<Rightarrow> int \<times> r2ctx" where
  "openr2_proto_configure_context c v ani_limit dnis_limit =
     (case find_variant v r2variants of
        None \<Rightarrow> (-1, c)
      | Some e \<Rightarrow> (0, var_config e (configure_defaults c ani_limit dnis_limit)))"

section \<open>Looking up variants and categories\<close>

text \<open>
  \<open>sizeof(r2variants[i].name)-1\<close> is the size of a pointer less one: 7 characters are compared on a
  64-bit machine.
\<close>

fun get_variant_loop :: "variant_entry list \<Rightarrow> int list \<Rightarrow> variant_t" where
  "get_variant_loop [] name = OR2_VAR_UNKNOWN"
| "get_variant_loop (e # es) name =
     (if openr2_strncasecmp (cstr (var_name e)) name 7 = 0 then var_id e else get_variant_loop es name)"

definition openr2_proto_get_variant :: "int list \<Rightarrow> variant_t" where
  "openr2_proto_get_variant name = get_variant_loop r2variants name"

definition openr2_proto_get_variant_string :: "variant_t \<Rightarrow> string" where
  "openr2_proto_get_variant_string v =
     (case find_variant v r2variants of None \<Rightarrow> ''*Unknown*'' | Some e \<Rightarrow> var_name e)"

definition openr2_proto_get_variant_list :: "variant_entry list \<times> nat" where
  "openr2_proto_get_variant_list = (r2variants, length r2variants)"

fun openr2_proto_get_category_string :: "category \<Rightarrow> string" where
  "openr2_proto_get_category_string OR2_CALLING_PARTY_CATEGORY_NATIONAL_SUBSCRIBER = ''National Subscriber''"
| "openr2_proto_get_category_string OR2_CALLING_PARTY_CATEGORY_NATIONAL_PRIORITY_SUBSCRIBER = ''National Priority Subscriber''"
| "openr2_proto_get_category_string OR2_CALLING_PARTY_CATEGORY_INTERNATIONAL_SUBSCRIBER = ''International Subscriber''"
| "openr2_proto_get_category_string OR2_CALLING_PARTY_CATEGORY_INTERNATIONAL_PRIORITY_SUBSCRIBER = ''International Priority Subscriber''"
| "openr2_proto_get_category_string OR2_CALLING_PARTY_CATEGORY_COLLECT_CALL = ''Collect Call''"
| "openr2_proto_get_category_string OR2_CALLING_PARTY_CATEGORY_TEST_EQUIPMENT = ''Test Equipment''"
| "openr2_proto_get_category_string OR2_CALLING_PARTY_CATEGORY_PAY_PHONE = ''Pay Phone''"
| "openr2_proto_get_category_string OR2_CALLING_PARTY_CATEGORY_UNKNOWN = ''*Not known*''"

definition category_names :: "(string \<times> category) list" where
  "category_names =
     [(''NATIONAL_SUBSCRIBER'', OR2_CALLING_PARTY_CATEGORY_NATIONAL_SUBSCRIBER),
      (''NATIONAL_PRIORITY_SUBSCRIBER'', OR2_CALLING_PARTY_CATEGORY_NATIONAL_PRIORITY_SUBSCRIBER),
      (''INTERNATIONAL_SUBSCRIBER'', OR2_CALLING_PARTY_CATEGORY_INTERNATIONAL_SUBSCRIBER),
      (''INTERNATIONAL_PRIORITY_SUBSCRIBER'', OR2_CALLING_PARTY_CATEGORY_INTERNATIONAL_PRIORITY_SUBSCRIBER),
      (''COLLECT_CALL'', OR2_CALLING_PARTY_CATEGORY_COLLECT_CALL),
      (''TEST_EQUIPMENT'', OR2_CALLING_PARTY_CATEGORY_TEST_EQUIPMENT),
      (''PAY_PHONE'', OR2_CALLING_PARTY_CATEGORY_PAY_PHONE),
      (''National Subscriber'', OR2_CALLING_PARTY_CATEGORY_NATIONAL_SUBSCRIBER),
      (''National Priority Subscriber'', OR2_CALLING_PARTY_CATEGORY_NATIONAL_PRIORITY_SUBSCRIBER),
      (''International Subscriber'', OR2_CALLING_PARTY_CATEGORY_INTERNATIONAL_SUBSCRIBER),
      (''International Priority Subscriber'', OR2_CALLING_PARTY_CATEGORY_INTERNATIONAL_PRIORITY_SUBSCRIBER),
      (''Collect Call'', OR2_CALLING_PARTY_CATEGORY_COLLECT_CALL),
      (''Test Equipment'', OR2_CALLING_PARTY_CATEGORY_TEST_EQUIPMENT),
      (''Pay Phone'', OR2_CALLING_PARTY_CATEGORY_PAY_PHONE)]"

text \<open>
  \<open>lookup_prefix\<close> passes the table entry first; here the source passes the user's string first, which
  for the question whether the result is 0 makes no difference but is kept.
\<close>

fun lookup_category :: "(string \<times> category) list \<Rightarrow> int list \<Rightarrow> category" where
  "lookup_category [] str = OR2_CALLING_PARTY_CATEGORY_UNKNOWN"
| "lookup_category ((name, v) # rest) str =
     (if openr2_strncasecmp str (cstr name) (length name) = 0 then v else lookup_category rest str)"

definition openr2_proto_get_category :: "int list \<Rightarrow> category" where
  "openr2_proto_get_category category = lookup_category category_names category"

end
