(* ===== verification/R2Names.thy ===== *)
theory R2Names
  imports R2Variant
begin

text \<open>
  The names \<open>r2proto.c\<close> gives to states, groups, errors, causes and modes, and the accessors that
  return the name or value of a channel's current one.
\<close>

section \<open>Names\<close>

fun r2state2str :: "cas_state \<Rightarrow> string" where
  "r2state2str OR2_INVALID_STATE = ''Invalid''"
| "r2state2str OR2_INIT = ''Init''"
| "r2state2str OR2_IDLE = ''Idle''"
| "r2state2str OR2_SEIZE_ACK_TXD = ''Seize ACK Transmitted''"
| "r2state2str OR2_ANSWER_TXD = ''Answer Transmitted''"
| "r2state2str OR2_CLEAR_BACK_TXD = ''Clear Back Transmitted''"
| "r2state2str OR2_CLEAR_FWD_RXD = ''Clear Forward Received''"
| "r2state2str OR2_EXECUTING_DOUBLE_ANSWER = ''Executing Double Answer''"
| "r2state2str OR2_FORCED_RELEASE_TXD = ''Forced Release Transmitted''"
| "r2state2str OR2_SEIZE_TXD = ''Seize Transmitted''"
| "r2state2str OR2_SEIZE_ACK_RXD = ''Seize ACK Received''"
| "r2state2str OR2_CLEAR_BACK_TONE_RXD = ''Clear Back Tone Received''"
| "r2state2str OR2_ACCEPT_RXD = ''Accept Received''"
| "r2state2str OR2_ANSWER_RXD = ''Answer Received''"
| "r2state2str OR2_CLEAR_BACK_RXD = ''Clear Back Received''"
| "r2state2str OR2_ANSWER_RXD_MF_PENDING = ''Answer Received with MF Pending''"
| "r2state2str OR2_CLEAR_FWD_TXD = ''Clear Forward Transmitted''"
| "r2state2str OR2_FORCED_RELEASE_RXD = ''Forced Release Received''"
| "r2state2str OR2_CLEAR_BACK_AFTER_CLEAR_FWD_RXD = ''Clear Back After Clear Forward Received''"
| "r2state2str OR2_SEIZE_TXD_CLEAR_FWD_PENDING = ''Seize Transmitted with Clear Forward Pending''"
| "r2state2str OR2_DOUBLE_SEIZURE_CLEAR_FWD_PENDING = ''Double Seizure with Clear Forward Pending''"
| "r2state2str OR2_BLOCKED = ''Blocked''"
| "r2state2str OR2_DOUBLE_SEIZURE = ''Double Seizure''"

fun mfstate2str :: "mf_state_t \<Rightarrow> string" where
  "mfstate2str OR2_MF_UNSET = ''*Unknown*''"
| "mfstate2str OR2_MF_OFF_STATE = ''MF Engine Off''"
| "mfstate2str OR2_MF_SEIZE_ACK_TXD = ''Seize ACK Transmitted''"
| "mfstate2str OR2_MF_CATEGORY_RQ_TXD = ''Category Request Transmitted''"
| "mfstate2str OR2_MF_DNIS_RQ_TXD = ''DNIS Request Transmitted''"
| "mfstate2str OR2_MF_ANI_RQ_TXD = ''ANI Request Transmitted''"
| "mfstate2str OR2_MF_CHG_GII_TXD = ''Change To Group II Request Transmitted''"
| "mfstate2str OR2_MF_ACCEPTED_TXD = ''Accepted Call Transmitted''"
| "mfstate2str OR2_MF_DISCONNECT_TXD = ''Disconnect Tone Transmitted''"
| "mfstate2str OR2_MF_CATEGORY_TXD = ''Category Transmitted''"
| "mfstate2str OR2_MF_DNIS_TXD = ''DNIS Digit Transmitted''"
| "mfstate2str OR2_MF_DNIS_END_TXD = ''End of DNIS Transmitted''"
| "mfstate2str OR2_MF_ANI_TXD = ''ANI Digit Transmitted''"
| "mfstate2str OR2_MF_ANI_END_TXD = ''End of ANI Transmitted''"
| "mfstate2str OR2_MF_WAITING_TIMEOUT = ''Waiting Far End Timeout''"
| "mfstate2str OR2_MF_DIALING_DTMF = ''Dialing DTMF''"
| "mfstate2str OR2_MF_DETECTING_DTMF = ''Detecting DTMF''"

fun openr2_proto_get_error :: "protocol_error \<Rightarrow> string" where
  "openr2_proto_get_error OR2_INVALID_CAS_BITS = ''Invalid CAS''"
| "openr2_proto_get_error OR2_INVALID_MF_TONE = ''Invalid Multi Frequency Tone''"
| "openr2_proto_get_error OR2_BACK_MF_TIMEOUT = ''Multi Frequency Cycle Timeout''"
| "openr2_proto_get_error OR2_SEIZE_TIMEOUT = ''Seize Timeout''"
| "openr2_proto_get_error OR2_FWD_SAFETY_TIMEOUT = ''Forward Safety Timeout''"
| "openr2_proto_get_error OR2_BROKEN_MF_SEQUENCE = ''Broken MF Sequence''"
| "openr2_proto_get_error OR2_ANSWER_TIMEOUT = ''Answer Timeout''"
| "openr2_proto_get_error OR2_INVALID_R2_STATE = ''Invalid R2 state''"
| "openr2_proto_get_error OR2_INVALID_MF_STATE = ''Invalid Multy Frequency State''"
| "openr2_proto_get_error OR2_INVALID_MF_GROUP = ''Invalid R2 Group''"
| "openr2_proto_get_error OR2_LIBRARY_BUG = ''OpenR2 Library BUG''"
| "openr2_proto_get_error OR2_INTERNAL_ERROR = ''OpenR2 Internal Error''"
| "openr2_proto_get_error OR2_ALARM_RAISED = ''Alarm Raised''"

fun mfgroup2str :: "mf_group \<Rightarrow> string" where
  "mfgroup2str OR2_MF_NO_GROUP = ''No Group''"
| "mfgroup2str OR2_MF_BACK_INIT = ''Backward MF init''"
| "mfgroup2str OR2_MF_GA = ''Backward Group A''"
| "mfgroup2str OR2_MF_GB = ''Backward Group B''"
| "mfgroup2str OR2_MF_GC = ''Backward Group C''"
| "mfgroup2str OR2_MF_FWD_INIT = ''Forward MF init''"
| "mfgroup2str OR2_MF_GI = ''Forward Group I''"
| "mfgroup2str OR2_MF_GII = ''Forward Group II''"
| "mfgroup2str OR2_MF_GIII = ''Forward Group III''"
| "mfgroup2str OR2_MF_DTMF_FWD_INIT = ''Forward DTMF init''"
| "mfgroup2str OR2_MF_DTMF_BACK_INIT = ''Backward DTMF init''"

fun callstate2str :: "call_state_t \<Rightarrow> string" where
  "callstate2str OR2_CALL_IDLE = ''Idle''"
| "callstate2str OR2_CALL_COLLECTING = ''Collecting''"
| "callstate2str OR2_CALL_DIALING = ''Dialing''"
| "callstate2str OR2_CALL_OFFERED = ''Offered''"
| "callstate2str OR2_CALL_ACCEPTED = ''Accepted''"
| "callstate2str OR2_CALL_ANSWERED = ''Answered''"
| "callstate2str OR2_CALL_DISCONNECTED = ''Disconnected''"

fun openr2_proto_get_disconnect_string :: "disconnect_cause \<Rightarrow> string" where
  "openr2_proto_get_disconnect_string OR2_CAUSE_BUSY_NUMBER = ''Busy Number''"
| "openr2_proto_get_disconnect_string OR2_CAUSE_NETWORK_CONGESTION = ''Network Congestion''"
| "openr2_proto_get_disconnect_string OR2_CAUSE_UNALLOCATED_NUMBER = ''Unallocated Number''"
| "openr2_proto_get_disconnect_string OR2_CAUSE_OUT_OF_ORDER = ''Line Out Of Order''"
| "openr2_proto_get_disconnect_string OR2_CAUSE_UNSPECIFIED = ''Not Specified''"
| "openr2_proto_get_disconnect_string OR2_CAUSE_NO_ANSWER = ''No Answer''"
| "openr2_proto_get_disconnect_string OR2_CAUSE_NORMAL_CLEARING = ''Normal Clearing''"
| "openr2_proto_get_disconnect_string OR2_CAUSE_FORCED_RELEASE = ''Forced Release''"
| "openr2_proto_get_disconnect_string OR2_CAUSE_NUMBER_CHANGED = ''Number Changed''"
| "openr2_proto_get_disconnect_string OR2_CAUSE_GLARE = ''Double Seizure (Glare)''"

fun get_string_from_mode :: "call_mode \<Rightarrow> string" where
  "get_string_from_mode OR2_CALL_WITH_CHARGE = ''Call With Charge''"
| "get_string_from_mode OR2_CALL_NO_CHARGE = ''Call With No Charge''"
| "get_string_from_mode OR2_CALL_SPECIAL = ''Special Call''"
| "get_string_from_mode OR2_CALL_UNKNOWN = ''*UNKNOWN*''"

definition openr2_proto_get_call_mode_string :: "call_mode \<Rightarrow> string" where
  "openr2_proto_get_call_mode_string mode = get_string_from_mode mode"

section \<open>What a channel shows\<close>

definition openr2_proto_get_rx_cas :: "'w chan \<Rightarrow> cas_signal" where
  "openr2_proto_get_rx_cas s = cas_rx_signal s"

definition openr2_proto_get_tx_cas :: "'w chan \<Rightarrow> cas_signal" where
  "openr2_proto_get_tx_cas s = cas_tx_signal s"

text \<open>\<open>0x%02X\<close>\<close>

fun hex_digits :: "nat \<Rightarrow> string" where
  "hex_digits n = (if n < 16 then [''0123456789ABCDEF'' ! n] else hex_digits (n div 16) @ [''0123456789ABCDEF'' ! (n mod 16)])"

definition format_02X :: "int \<Rightarrow> string" where
  "format_02X i = (let ds = hex_digits (to_uint32 i)
     in take 9 (''0x'' @ replicate (2 - length ds) (CHR ''0'') @ ds))"

definition openr2_proto_get_rx_cas_string :: "'w chan \<Rightarrow> string" where
  "openr2_proto_get_rx_cas_string s =
     (if cas_rx_signal s \<noteq> OR2_CAS_INVALID \<and> inalarm s = 0 then cas_names ! cas_index (cas_rx_signal s)
      else format_02X (cas_read s))"

definition openr2_proto_get_tx_cas_string :: "'w chan \<Rightarrow> string" where
  "openr2_proto_get_tx_cas_string s =
     (if cas_tx_signal s \<noteq> OR2_CAS_INVALID \<and> inalarm s = 0 then cas_names ! cas_index (cas_tx_signal s)
      else format_02X (cas_write s))"

definition openr2_proto_get_call_state_string :: "'w chan \<Rightarrow> string" where
  "openr2_proto_get_call_state_string s = callstate2str (call_state s)"

definition openr2_proto_get_r2_state_string :: "'w chan \<Rightarrow> string" where
  "openr2_proto_get_r2_state_string s = r2state2str (r2_state s)"

definition openr2_proto_get_mf_state_string :: "'w chan \<Rightarrow> string" where
  "openr2_proto_get_mf_state_string s = mfstate2str (mf_state s)"

definition openr2_proto_get_mf_group_string :: "'w chan \<Rightarrow> string" where
  "openr2_proto_get_mf_group_string s = mfgroup2str (mf_group s)"

definition openr2_proto_get_tx_mf_signal :: "'w chan \<Rightarrow> int" where
  "openr2_proto_get_tx_mf_signal s = mf_write_tone s"

definition openr2_proto_get_rx_mf_signal :: "'w chan \<Rightarrow> int" where
  "openr2_proto_get_rx_mf_signal s = mf_read_tone s"

end
