(* ===== verification/R2Queue.thy ===== *)
theory R2Queue
  imports R2Prelude "HOL-Library.Word"
begin

text \<open>
  The byte queue of \<open>queue.c\<close>, which the DTMF generator keeps its digits in: a ring buffer with an
  input and an output pointer.  The bulk operations refine a bounded FIFO list, stated as the locale
  \<open>bounded_fifo\<close> and interpreted on the model; mixing them with the byte operations does not, which
  \<open>queue_byte_phantom\<close> shows.  A copy outside of the buffer is \<open>None\<close>.
\<close>

section \<open>The queue\<close>

record queue_state =
  q_flags :: int
  q_len :: nat
  q_iptr :: nat
  q_optr :: nat
  q_data :: "8 word list"

abbreviation (input) "QUEUE_READ_ATOMIC \<equiv> 1 :: int"
abbreviation (input) "QUEUE_WRITE_ATOMIC \<equiv> 2 :: int"

definition copy_from :: "'a list \<Rightarrow> nat \<Rightarrow> nat \<Rightarrow> 'a list option" where
  "copy_from data off n = (if off + n \<le> length data then Some (take n (drop off data)) else None)"

definition copy_to :: "'a list \<Rightarrow> nat \<Rightarrow> 'a list \<Rightarrow> 'a list option" where
  "copy_to data off src =
     (if off + length src \<le> length data
      then Some (take off data @ src @ drop (off + length src) data) else None)"

definition queue_empty :: "queue_state \<Rightarrow> bool" where
  "queue_empty s \<longleftrightarrow> q_iptr s = q_optr s"

definition queue_free_space :: "queue_state \<Rightarrow> nat" where
  "queue_free_space s =
     (let l = int (q_optr s) - int (q_iptr s) - 1 in nat (if l < 0 then l + int (q_len s) else l))"

definition queue_contents :: "queue_state \<Rightarrow> nat" where
  "queue_contents s =
     (let l = int (q_iptr s) - int (q_optr s) in nat (if l < 0 then l + int (q_len s) else l))"

definition queue_flush :: "queue_state \<Rightarrow> queue_state" where
  "queue_flush s = s\<lparr>q_optr := q_iptr s\<rparr>"

text \<open>The memory given to \<open>queue_init\<close> (or allocated by it) has room for \<open>len + 1\<close> bytes.\<close>

definition queue_init :: "8 word list \<Rightarrow> nat \<Rightarrow> int \<Rightarrow> queue_state" where
  "queue_init memory len flags =
     \<lparr> q_flags = flags, q_len = len + 1, q_iptr = 0, q_optr = 0, q_data = take (len + 1) memory \<rparr>"

text \<open>\<open>queue_view\<close>: the value returned and the bytes copied.\<close>

definition queue_view :: "queue_state \<Rightarrow> nat \<Rightarrow> (int \<times> 8 word list) option" where
  "queue_view s len =
     (let contents = queue_contents s; n = min contents len; to_end = q_len s - q_optr s in
      if contents < len \<and> test_flag (q_flags s) QUEUE_READ_ATOMIC then Some (-1, [])
      else if n = 0 then Some (0, [])
      else if q_iptr s < q_optr s \<and> to_end < n then
        (case (copy_from (q_data s) (q_optr s) to_end, copy_from (q_data s) 0 (n - to_end)) of
           (Some a, Some b) \<Rightarrow> Some (int n, a @ b)
         | _ \<Rightarrow> None)
      else map_option (Pair (int n)) (copy_from (q_data s) (q_optr s) n))"

definition queue_read :: "queue_state \<Rightarrow> nat \<Rightarrow> (int \<times> 8 word list \<times> queue_state) option" where
  "queue_read s len =
     (let contents = queue_contents s; n = min contents len; to_end = q_len s - q_optr s in
      if contents < len \<and> test_flag (q_flags s) QUEUE_READ_ATOMIC then Some (-1, [], s)
      else if n = 0 then Some (0, [], s)
      else if q_iptr s < q_optr s \<and> to_end < n then
        (case (copy_from (q_data s) (q_optr s) to_end, copy_from (q_data s) 0 (n - to_end)) of
           (Some a, Some b) \<Rightarrow> Some (int n, a @ b, s\<lparr>q_optr := n - to_end\<rparr>)
         | _ \<Rightarrow> None)
      else
        (case copy_from (q_data s) (q_optr s) n of
           None \<Rightarrow> None
         | Some a \<Rightarrow>
             let new_optr = q_optr s + n;
                 new_optr = (if new_optr > q_len s then 0 else new_optr)
             in Some (int n, a, s\<lparr>q_optr := new_optr\<rparr>)))"

definition queue_read_byte :: "queue_state \<Rightarrow> (int \<times> queue_state) option" where
  "queue_read_byte s =
     (if queue_contents s < 1 then Some (-1, s)
      else case arr_get (q_data s) (q_optr s) of
        None \<Rightarrow> None
      | Some b \<Rightarrow>
          let optr = q_optr s + 1; optr = (if optr \<ge> q_len s then 0 else optr)
          in Some (uint b, s\<lparr>q_optr := optr\<rparr>))"

text \<open>The copy both write operations make: in one step, or in two around the end of the buffer.\<close>

definition queue_write :: "queue_state \<Rightarrow> 8 word list \<Rightarrow> (int \<times> queue_state) option" where
  "queue_write s buf =
     (let free = queue_free_space s; n = min free (length buf); to_end = q_len s - q_iptr s in
      if free < length buf \<and> test_flag (q_flags s) QUEUE_WRITE_ATOMIC then Some (-1, s)
      else if n = 0 then Some (0, s)
      else if q_iptr s < q_optr s \<or> to_end \<ge> n then
        (case copy_to (q_data s) (q_iptr s) (take n buf) of
           None \<Rightarrow> None
         | Some d \<Rightarrow>
             let new_iptr = q_iptr s + n;
                 new_iptr = (if new_iptr > q_len s then 0 else new_iptr)
             in Some (int n, s\<lparr>q_data := d, q_iptr := new_iptr\<rparr>))
      else
        (case copy_to (q_data s) (q_iptr s) (take to_end buf) of
           None \<Rightarrow> None
         | Some d \<Rightarrow>
             (case copy_to d 0 (take (n - to_end) (drop to_end buf)) of
                None \<Rightarrow> None
              | Some d \<Rightarrow> Some (int n, s\<lparr>q_data := d, q_iptr := n - to_end\<rparr>))))"

definition queue_write_byte :: "queue_state \<Rightarrow> 8 word \<Rightarrow> (int \<times> queue_state) option" where
  "queue_write_byte s b =
     (if queue_free_space s < 1 then
        Some (if test_flag (q_flags s) QUEUE_WRITE_ATOMIC then -1 else 0, s)
      else if q_iptr s < length (q_data s) then
        (let iptr = q_iptr s + 1; iptr = (if iptr \<ge> q_len s then 0 else iptr)
         in Some (1, s\<lparr>q_data := (q_data s)[q_iptr s := b], q_iptr := iptr\<rparr>))
      else None)"

section \<open>The bulk operations implement a bounded FIFO\<close>

definition queue_inv :: "queue_state \<Rightarrow> bool" where
  "queue_inv s \<longleftrightarrow> length (q_data s) = q_len s \<and> q_iptr s \<le> q_len s \<and> q_optr s \<le> q_len s \<and>
     queue_contents s < q_len s \<and> (q_iptr s = 0 \<longrightarrow> q_optr s = 0)"

definition queue_abs :: "queue_state \<Rightarrow> 8 word list" where
  "queue_abs s =
     (if q_optr s \<le> q_iptr s then take (q_iptr s - q_optr s) (drop (q_optr s) (q_data s))
      else drop (q_optr s) (q_data s) @ take (q_iptr s) (q_data s))"

definition queue_capacity :: "queue_state \<Rightarrow> nat" where
  "queue_capacity s = q_len s - 1"

lemma queue_contents_eq:
  "queue_contents s = (if q_optr s \<le> q_iptr s then q_iptr s - q_optr s else q_len s - (q_optr s - q_iptr s))"
  by (auto simp: queue_contents_def Let_def)

lemma queue_free_space_eq:
  "queue_free_space s = (if q_optr s \<le> q_iptr s then q_len s - 1 - (q_iptr s - q_optr s) else q_optr s - q_iptr s - 1)"
  by (auto simp: queue_free_space_def Let_def nat_diff_distrib)

lemma length_queue_abs: "queue_inv s \<Longrightarrow> length (queue_abs s) = queue_contents s"
  by (auto simp: queue_inv_def queue_abs_def queue_contents_eq)

lemma queue_free_capacity: "queue_inv s \<Longrightarrow> queue_free_space s = queue_capacity s - length (queue_abs s)"
  by (auto simp: length_queue_abs queue_free_space_eq queue_capacity_def queue_contents_eq queue_inv_def)

lemma queue_inv_init: "len + 1 \<le> length memory \<Longrightarrow> queue_inv (queue_init memory len flags)"
  by (simp add: queue_inv_def queue_init_def queue_contents_def)

lemma queue_abs_init: "queue_abs (queue_init memory len flags) = []"
  by (simp add: queue_abs_def queue_init_def)

text \<open>What a read and a write promise, on the abstract list.\<close>

definition read_promise :: "queue_state \<Rightarrow> nat \<Rightarrow> int \<Rightarrow> 8 word list \<Rightarrow> queue_state \<Rightarrow> bool" where
  "read_promise s n r out s' \<longleftrightarrow> queue_inv s' \<and> queue_capacity s' = queue_capacity s \<and> q_flags s' = q_flags s \<and>
     queue_abs s = out @ queue_abs s' \<and>
     (if length (queue_abs s) < n \<and> test_flag (q_flags s) QUEUE_READ_ATOMIC then r = -1 \<and> out = []
      else r = int (length out) \<and> length out = min n (length (queue_abs s)))"

definition write_promise :: "queue_state \<Rightarrow> 8 word list \<Rightarrow> int \<Rightarrow> nat \<Rightarrow> queue_state \<Rightarrow> bool" where
  "write_promise s buf r n s' \<longleftrightarrow> queue_inv s' \<and> queue_capacity s' = queue_capacity s \<and> q_flags s' = q_flags s \<and>
     queue_abs s' = queue_abs s @ take n buf \<and> n \<le> length buf \<and>
     (if queue_capacity s < length (queue_abs s) + length buf \<and> test_flag (q_flags s) QUEUE_WRITE_ATOMIC
      then r = -1 \<and> n = 0
      else r = int n \<and> n = min (length buf) (queue_capacity s - length (queue_abs s)))"

lemma take_split: "m \<le> n \<Longrightarrow> take n xs = take m xs @ take (n - m) (drop m xs)"
  by (metis le_add_diff_inverse take_add)

lemma queue_read_eq:
  assumes "length D = L" "i \<le> L" "k \<le> L" "c < L"
    and c: "c = (if k \<le> i then i - k else L - (k - i))" and m: "m = min c n"
  shows "queue_read \<lparr>q_flags = f, q_len = L, q_iptr = i, q_optr = k, q_data = D\<rparr> n =
     (let s = \<lparr>q_flags = f, q_len = L, q_iptr = i, q_optr = k, q_data = D\<rparr> in
      if c < n \<and> test_flag f QUEUE_READ_ATOMIC then Some (-1, [], s)
      else if m = 0 then Some (0, [], s)
      else if i < k \<and> L - k < m then Some (int m, drop k D @ take (m - (L - k)) D, s\<lparr>q_optr := m - (L - k)\<rparr>)
      else Some (int m, take m (drop k D), s\<lparr>q_optr := k + m\<rparr>))"
proof -
  have cont: "queue_contents \<lparr>q_flags = f, q_len = L, q_iptr = i, q_optr = k, q_data = D\<rparr> = c"
    using c by (simp add: queue_contents_eq)
  have "m \<le> c" using m by simp
  then have 1: "i < k \<Longrightarrow> L - k < m \<Longrightarrow> m - (L - k) \<le> L"
    and 2: "\<not> (i < k \<and> L - k < m) \<Longrightarrow> k + m \<le> L"
    using assms(2-4) c by (auto split: if_splits)
  show ?thesis
    using 1 2 assms(1,3)
    by (cases "i < k \<and> L - k < m") (auto simp: queue_read_def Let_def copy_from_def cont simp flip: m)
qed

lemma queue_abs_read:
  assumes "length D = L" "i \<le> L" "k \<le> L" "0 < m" "m \<le> c"
    and c: "c = (if k \<le> i then i - k else L - (k - i))"
  shows "queue_abs \<lparr>q_flags = f, q_len = L, q_iptr = i, q_optr = k, q_data = D\<rparr> =
     (if i < k \<and> L - k < m
      then (drop k D @ take (m - (L - k)) D) @
        queue_abs \<lparr>q_flags = f, q_len = L, q_iptr = i, q_optr = m - (L - k), q_data = D\<rparr>
      else take m (drop k D) @ queue_abs \<lparr>q_flags = f, q_len = L, q_iptr = i, q_optr = k + m, q_data = D\<rparr>)"
proof -
  consider "i < k" "L - k < m" | "i < k" "m \<le> L - k" | "k \<le> i" by linarith
  then show ?thesis
  proof cases
    case 1
    then have "m - (L - k) \<le> i" using assms by auto
    then show ?thesis using 1 take_split [of "m - (L - k)" i D] by (simp add: queue_abs_def take_drop)
  next
    case 2
    then have "\<not> k + m \<le> i" and "drop k D = take m (drop k D) @ drop (k + m) D"
      by (auto simp: add.commute [of k m] simp flip: drop_drop)
    then show ?thesis using 2 by (simp add: queue_abs_def)
  next
    case 3
    then have "take (i - k) (drop k D) = take m (drop k D) @ take (i - (k + m)) (drop (k + m) D)"
      using assms take_split [of m "i - k" "drop k D"] by (simp add: add.commute)
    moreover have "k + m \<le> i" using 3 assms by simp
    ultimately show ?thesis using 3 by (simp add: queue_abs_def)
  qed
qed

lemma read_promiseI:
  assumes "queue_inv s'" "q_len s' = q_len s" "q_flags s' = q_flags s" "queue_abs s = out @ queue_abs s'"
    and "length out = min n (length (queue_abs s))"
    and "\<not> (length (queue_abs s) < n \<and> test_flag (q_flags s) QUEUE_READ_ATOMIC)"
  shows "read_promise s n (int (length out)) out s'"
  using assms(1-3,5-6) unfolding read_promise_def queue_capacity_def assms(4) by simp

lemma write_promiseI:
  assumes "queue_inv s'" "q_len s' = q_len s" "q_flags s' = q_flags s" "queue_abs s' = queue_abs s @ take n buf"
    and "n = min (length buf) (queue_capacity s - length (queue_abs s))"
    and "\<not> (queue_capacity s < length (queue_abs s) + length buf \<and> test_flag (q_flags s) QUEUE_WRITE_ATOMIC)"
  shows "write_promise s buf (int n) n s'"
  using assms unfolding write_promise_def queue_capacity_def by simp

lemma queue_read_ok:
  assumes inv: "queue_inv s"
  shows "\<exists>r out s'. queue_read s n = Some (r, out, s') \<and> read_promise s n r out s'"
proof -
  obtain f L i k D where s: "s = \<lparr>q_flags = f, q_len = L, q_iptr = i, q_optr = k, q_data = D\<rparr>"
    by (cases s) auto
  define c where "c = (if k \<le> i then i - k else L - (k - i))"
  define m where "m = min c n"
  have D: "length D = L" "i \<le> L" "k \<le> L" "c < L" "i = 0 \<Longrightarrow> k = 0"
    using inv by (auto simp: queue_inv_def queue_contents_eq s c_def)
  note read = queue_read_eq [OF D(1-4) c_def m_def, of f]
  have len: "length (queue_abs s) = c"
    using length_queue_abs [OF inv] by (simp add: queue_contents_eq c_def s)
  have flags: "q_flags s = f" by (simp add: s)
  show ?thesis
  proof (cases "(c < n \<and> test_flag f QUEUE_READ_ATOMIC) \<or> m = 0")
    case True
    have "queue_read s n = Some (if c < n \<and> test_flag f QUEUE_READ_ATOMIC then -1 else 0, [], s)"
      using True by (auto simp: read s Let_def)
    moreover have "m = min n c" "q_flags s = f" by (simp_all add: m_def s)
    ultimately show ?thesis using True inv len by (auto simp: read_promise_def)
  next
    case False
    then have m: "0 < m" "m \<le> c" and na: "\<not> (c < n \<and> test_flag f QUEUE_READ_ATOMIC)"
      by (auto simp: m_def)
    note abs = queue_abs_read [OF D(1-3) m c_def, of f, folded s]
    show ?thesis
    proof (cases "i < k \<and> L - k < m")
      case True
      let ?s = "s\<lparr>q_optr := m - (L - k)\<rparr>" and ?out = "drop k D @ take (m - (L - k)) D"
      have inv': "queue_inv ?s"
        using D m True by (auto simp: queue_inv_def queue_contents_eq s c_def split: if_splits)
      have rd: "queue_read s n = Some (int m, ?out, ?s)"
        using True False na by (auto simp: read Let_def s)
      have ab: "queue_abs s = ?out @ queue_abs ?s" using abs True by (simp add: s)
      have lo: "length ?out = min n (length (queue_abs s))" unfolding len using True D m by (auto simp: c_def m_def split: if_splits)
      have "read_promise s n (int (length ?out)) ?out ?s"
        using na by (intro read_promiseI inv' ab lo) (simp_all add: len flags)
      moreover have "length ?out = m" using lo len by (simp add: m_def)
      ultimately show ?thesis using rd by metis
    next
      case nowrap: False
      let ?s = "s\<lparr>q_optr := k + m\<rparr>" and ?out = "take m (drop k D)"
      have inv': "queue_inv ?s"
        using D m nowrap by (auto simp: queue_inv_def queue_contents_eq s c_def split: if_splits)
      have rd: "queue_read s n = Some (int m, ?out, ?s)"
        using nowrap False na by (auto simp: read Let_def s)
      have ab: "queue_abs s = ?out @ queue_abs ?s" using abs nowrap by (simp add: s)
      have lo: "length ?out = min n (length (queue_abs s))" unfolding len using nowrap D m by (auto simp: c_def m_def split: if_splits)
      have "read_promise s n (int (length ?out)) ?out ?s"
        using na by (intro read_promiseI inv' ab lo) (simp_all add: len flags)
      moreover have "length ?out = m" using lo len by (simp add: m_def)
      ultimately show ?thesis using rd by metis
    qed
  qed
qed

lemma queue_write_eq:
  assumes "length D = L" "i \<le> L" "k \<le> L" "0 < L"
    and fr: "fr = (if k \<le> i then L - 1 - (i - k) else k - i - 1)" and m: "m = min fr (length b)"
  shows "queue_write \<lparr>q_flags = f, q_len = L, q_iptr = i, q_optr = k, q_data = D\<rparr> b =
     (let s = \<lparr>q_flags = f, q_len = L, q_iptr = i, q_optr = k, q_data = D\<rparr> in
      if fr < length b \<and> test_flag f QUEUE_WRITE_ATOMIC then Some (-1, s)
      else if m = 0 then Some (0, s)
      else if i < k \<or> m \<le> L - i
      then Some (int m, s\<lparr>q_data := take i D @ take m b @ drop (i + m) D, q_iptr := i + m\<rparr>)
      else Some (int m, s\<lparr>q_data := drop (L - i) (take m b) @ drop (m - (L - i)) (take i D) @ take (L - i) b,
                          q_iptr := m - (L - i)\<rparr>))"
proof -
  have free: "queue_free_space \<lparr>q_flags = f, q_len = L, q_iptr = i, q_optr = k, q_data = D\<rparr> = fr"
    using fr by (simp add: queue_free_space_eq)
  have "m \<le> fr" "m \<le> length b" using m by simp_all
  then have 1: "i < k \<or> m \<le> L - i \<Longrightarrow> i + m \<le> L"
    and 2: "\<not> (i < k \<or> m \<le> L - i) \<Longrightarrow> m - (L - i) \<le> i"
    using assms(2-4) fr by (auto split: if_splits)
  show ?thesis
  proof (cases "i < k \<or> m \<le> L - i")
    case True
    then show ?thesis using 1 assms(1) \<open>m \<le> length b\<close>
      by (auto simp: queue_write_def Let_def copy_to_def free simp flip: m)
  next
    case False
    then show ?thesis using 2 assms(1-3) \<open>m \<le> length b\<close>
      by (auto simp: queue_write_def Let_def copy_to_def free drop_take simp flip: m)
  qed
qed

lemma queue_abs_write:
  assumes "length D = L" "i \<le> L" "k \<le> L" "0 < m" "m \<le> fr" "m \<le> length b"
    and fr: "fr = (if k \<le> i then L - 1 - (i - k) else k - i - 1)"
  shows "i < k \<or> m \<le> L - i \<Longrightarrow>
      queue_abs \<lparr>q_flags = f, q_len = L, q_iptr = i + m, q_optr = k,
        q_data = take i D @ take m b @ drop (i + m) D\<rparr> =
      queue_abs \<lparr>q_flags = f, q_len = L, q_iptr = i, q_optr = k, q_data = D\<rparr> @ take m b"
    and "\<not> (i < k \<or> m \<le> L - i) \<Longrightarrow>
      queue_abs \<lparr>q_flags = f, q_len = L, q_iptr = m - (L - i), q_optr = k,
        q_data = drop (L - i) (take m b) @ drop (m - (L - i)) (take i D) @ take (L - i) b\<rparr> =
      queue_abs \<lparr>q_flags = f, q_len = L, q_iptr = i, q_optr = k, q_data = D\<rparr> @ take m b"
proof -
  assume 1: "i < k \<or> m \<le> L - i"
  show "queue_abs \<lparr>q_flags = f, q_len = L, q_iptr = i + m, q_optr = k,
        q_data = take i D @ take m b @ drop (i + m) D\<rparr> =
      queue_abs \<lparr>q_flags = f, q_len = L, q_iptr = i, q_optr = k, q_data = D\<rparr> @ take m b"
  proof (cases "i < k")
    case True
    then have "i + m < k" using assms by simp
    then show ?thesis using True assms by (simp add: queue_abs_def)
  next
    case False
    then show ?thesis using assms by (simp add: queue_abs_def drop_take)
  qed
next
  assume 2: "\<not> (i < k \<or> m \<le> L - i)"
  then have "m - (L - i) < k" "k \<le> i" "L - i < m" using assms by auto
  moreover have "take m b = take (L - i) b @ drop (L - i) (take m b)"
    using \<open>L - i < m\<close> by (metis append_take_drop_id min.strict_order_iff take_take)
  ultimately show "queue_abs \<lparr>q_flags = f, q_len = L, q_iptr = m - (L - i), q_optr = k,
        q_data = drop (L - i) (take m b) @ drop (m - (L - i)) (take i D) @ take (L - i) b\<rparr> =
      queue_abs \<lparr>q_flags = f, q_len = L, q_iptr = i, q_optr = k, q_data = D\<rparr> @ take m b"
    using assms by (auto simp: queue_abs_def drop_take)
qed

lemma queue_write_ok:
  assumes inv: "queue_inv s"
  shows "\<exists>r n s'. queue_write s b = Some (r, s') \<and> write_promise s b r n s'"
proof -
  obtain f L i k D where s: "s = \<lparr>q_flags = f, q_len = L, q_iptr = i, q_optr = k, q_data = D\<rparr>"
    by (cases s) auto
  define fr where "fr = (if k \<le> i then L - 1 - (i - k) else k - i - 1)"
  define m where "m = min fr (length b)"
  have D: "length D = L" "i \<le> L" "k \<le> L" "0 < L" "i = 0 \<Longrightarrow> k = 0" "k = 0 \<Longrightarrow> i < L"
    using inv by (auto simp: queue_inv_def queue_contents_eq s split: if_splits)
  note wr = queue_write_eq [OF D(1-4) fr_def m_def, of f]
  have free: "fr = queue_capacity s - length (queue_abs s)"
    using queue_free_capacity [OF inv, symmetric] by (simp add: queue_free_space_eq fr_def s)
  have full: "fr < length b \<longleftrightarrow> queue_capacity s < length (queue_abs s) + length b"
    using length_queue_abs [OF inv] inv by (auto simp: free queue_capacity_def queue_inv_def)
  show ?thesis
  proof (cases "(fr < length b \<and> test_flag f QUEUE_WRITE_ATOMIC) \<or> m = 0")
    case True
    have "queue_write s b = Some (if fr < length b \<and> test_flag f QUEUE_WRITE_ATOMIC then -1 else 0, s)"
      using True by (auto simp: wr s Let_def)
    moreover have "m = min (length b) fr" "q_flags s = f" by (simp_all add: m_def s)
    ultimately show ?thesis using True inv
      by (intro exI [of _ 0] exI [of _ s] exI conjI) (auto simp: write_promise_def simp flip: full free)
  next
    case False
    then have m: "0 < m" "m \<le> fr" "m \<le> length b" and na: "\<not> (fr < length b \<and> test_flag f QUEUE_WRITE_ATOMIC)"
      by (auto simp: m_def)
    note abs = queue_abs_write [OF D(1-3) m fr_def, of f]
    note r = m na full free m_def D
    show ?thesis
    proof (cases "i < k \<or> m \<le> L - i")
      case True
      let ?s = "s\<lparr>q_data := take i D @ take m b @ drop (i + m) D, q_iptr := i + m\<rparr>"
      have "queue_inv ?s" using True m D by (auto simp: queue_inv_def queue_contents_eq s fr_def split: if_splits)
      moreover have "queue_write s b = Some (int m, ?s)" using True False by (auto simp: wr s Let_def)
      moreover have "queue_abs ?s = queue_abs s @ take m b" using abs(1) [OF True] by (simp add: s)
      ultimately show ?thesis
        using na write_promiseI [of ?s s m b] unfolding full by (auto simp: m_def free min.commute s)
    next
      case False2: False
      let ?s = "s\<lparr>q_data := drop (L - i) (take m b) @ drop (m - (L - i)) (take i D) @ take (L - i) b,
                  q_iptr := m - (L - i)\<rparr>"
      have "queue_inv ?s" using False2 m D by (auto simp: queue_inv_def queue_contents_eq s fr_def split: if_splits)
      moreover have "queue_write s b = Some (int m, ?s)" using False2 False by (auto simp: wr s Let_def)
      moreover have "queue_abs ?s = queue_abs s @ take m b" using abs(2) [OF False2] by (simp add: s)
      ultimately show ?thesis
        using na write_promiseI [of ?s s m b] unfolding full by (auto simp: m_def free min.commute s)
    qed
  qed
qed

section \<open>The contract, and any sequence of bulk operations\<close>

datatype queue_op = QRead nat | QWrite "8 word list"

text \<open>A caller that reads and writes: the bytes it got, the bytes the queue took, the final state.\<close>

fun run_fifo ::
  "('s \<Rightarrow> nat \<Rightarrow> (int \<times> 8 word list \<times> 's) option) \<Rightarrow> ('s \<Rightarrow> 8 word list \<Rightarrow> (int \<times> 's) option) \<Rightarrow>
   queue_op list \<Rightarrow> 's \<Rightarrow> (8 word list \<times> 8 word list \<times> 's) option" where
  "run_fifo rd wr [] s = Some ([], [], s)"
| "run_fifo rd wr (QRead n # ops) s =
     (case rd s n of None \<Rightarrow> None | Some (_, out, s) \<Rightarrow>
        map_option (\<lambda>(got, took, s). (out @ got, took, s)) (run_fifo rd wr ops s))"
| "run_fifo rd wr (QWrite buf # ops) s =
     (case wr s buf of None \<Rightarrow> None | Some (r, s) \<Rightarrow>
        map_option (\<lambda>(got, took, s). (got, take (nat r) buf @ took, s)) (run_fifo rd wr ops s))"

locale bounded_fifo =
  fixes inv :: "'s \<Rightarrow> bool" and abs_of :: "'s \<Rightarrow> 8 word list" and cap :: "'s \<Rightarrow> nat"
    and rd :: "'s \<Rightarrow> nat \<Rightarrow> (int \<times> 8 word list \<times> 's) option"
    and wr :: "'s \<Rightarrow> 8 word list \<Rightarrow> (int \<times> 's) option"
  assumes rd_ok: "inv s \<Longrightarrow> \<exists>r out s'. rd s n = Some (r, out, s') \<and> inv s' \<and> cap s' = cap s \<and>
      abs_of s = out @ abs_of s'"
    and wr_ok: "inv s \<Longrightarrow> \<exists>r s'. wr s buf = Some (r, s') \<and> inv s' \<and> cap s' = cap s \<and>
      abs_of s' = abs_of s @ take (nat r) buf"
    and bounded: "inv s \<Longrightarrow> length (abs_of s) \<le> cap s"
begin

lemma run_ok:
  "inv s \<Longrightarrow> \<exists>got took s'. run_fifo rd wr ops s = Some (got, took, s') \<and> inv s' \<and> cap s' = cap s \<and>
     abs_of s @ took = got @ abs_of s'"
proof (induction ops arbitrary: s)
  case Nil
  then show ?case by simp
next
  case (Cons op ops)
  show ?case
  proof (cases op)
    case (QRead n)
    obtain r out s1 where 1: "rd s n = Some (r, out, s1)" "inv s1" "cap s1 = cap s" "abs_of s = out @ abs_of s1"
      using rd_ok [OF Cons.prems] by blast
    then show ?thesis using Cons.IH [OF 1(2)] by (auto simp: QRead)
  next
    case (QWrite buf)
    obtain r s1 where 1: "wr s buf = Some (r, s1)" "inv s1" "cap s1 = cap s" "abs_of s1 = abs_of s @ take (nat r) buf"
      using wr_ok [OF Cons.prems] by blast
    then show ?thesis using Cons.IH [OF 1(2)] by (auto simp: QWrite)
  qed
qed

lemma run_fifo_order:
  "inv s \<Longrightarrow> abs_of s = [] \<Longrightarrow> \<exists>got took s'. run_fifo rd wr ops s = Some (got, took, s') \<and>
     took = got @ abs_of s' \<and> length took \<le> length got + cap s"
  using run_ok [of s ops] bounded by fastforce

end

lemma queue_bounded: "queue_inv s \<Longrightarrow> length (queue_abs s) \<le> queue_capacity s"
  by (auto simp: length_queue_abs queue_capacity_def queue_inv_def)

interpretation byte_queue: bounded_fifo queue_inv queue_abs queue_capacity queue_read queue_write
proof
  fix s n assume "queue_inv s"
  then show "\<exists>r out s'. queue_read s n = Some (r, out, s') \<and> queue_inv s' \<and> queue_capacity s' = queue_capacity s \<and>
      queue_abs s = out @ queue_abs s'"
    using queue_read_ok by (meson read_promise_def)
next
  fix s b assume "queue_inv s"
  then obtain r n s' where w: "queue_write s b = Some (r, s')" "write_promise s b r n s'"
    using queue_write_ok by blast
  then have "nat r = n" by (auto simp: write_promise_def split: if_splits)
  then show "\<exists>r s'. queue_write s b = Some (r, s') \<and> queue_inv s' \<and> queue_capacity s' = queue_capacity s \<and>
      queue_abs s' = queue_abs s @ take (nat r) b"
    using w by (auto simp: write_promise_def)
qed (rule queue_bounded)

section \<open>Messages: a 16 bit length and the bytes\<close>

text \<open>The two bytes of a \<open>uint16_t\<close> in memory, least significant first (the order of the hosts the
  library runs on), and the number they are read as.\<close>

definition bytes16 :: "16 word \<Rightarrow> 8 word list" where
  "bytes16 w = [ucast w, ucast (drop_bit 8 w)]"

definition word16 :: "8 word list \<Rightarrow> 16 word" where
  "word16 bs = (case bs of [a, b] \<Rightarrow> ucast a + push_bit 8 (ucast b) | _ \<Rightarrow> 0)"

definition queue_state_test_msg :: "queue_state \<Rightarrow> int option" where
  "queue_state_test_msg s =
     (case queue_view s 2 of None \<Rightarrow> None
      | Some (r, lenx) \<Rightarrow> Some (if r \<noteq> 2 then -1 else uint (word16 lenx)))"

definition queue_read_msg :: "queue_state \<Rightarrow> nat \<Rightarrow> (int \<times> 8 word list \<times> queue_state) option" where
  "queue_read_msg s len =
     (case queue_read s 2 of None \<Rightarrow> None
      | Some (r, lb, s) \<Rightarrow>
          if r \<noteq> 2 then Some (-1, [], s)
          else
            (let lenx = unat (word16 lb) in
             if lenx = 0 then Some (0, [], s)
             else if lenx > len then
               (case queue_read s len of None \<Rightarrow> None
                | Some (r, out, s) \<Rightarrow>
                    (case queue_read s (nat (int lenx - r)) of None \<Rightarrow> None
                     | Some (_, _, s) \<Rightarrow> Some (r, out, s)))
             else queue_read s lenx))"

definition queue_write_msg :: "queue_state \<Rightarrow> 8 word list \<Rightarrow> (int \<times> queue_state) option" where
  "queue_write_msg s buf =
     (let len = length buf; iptr = q_iptr s; to_end = q_len s - iptr; real_len = len + 2;
          lenx = bytes16 (of_nat len) in
      if unat (of_nat (queue_free_space s) :: 16 word) < len + 2 then Some (-1, s)
      else if iptr < q_optr s \<or> to_end \<ge> real_len then
        (case Option.bind (copy_to (q_data s) iptr lenx) (\<lambda>d. copy_to d (iptr + 2) buf) of
           None \<Rightarrow> None
         | Some d \<Rightarrow>
             let new_iptr = iptr + real_len;
                 new_iptr = (if new_iptr > q_len s then 0 else new_iptr)
             in Some (int len, s\<lparr>q_data := d, q_iptr := new_iptr\<rparr>))
      else
        (case
           (if to_end \<ge> 2 then
              Option.bind (copy_to (q_data s) iptr lenx) (\<lambda>d.
              Option.bind (copy_to d (iptr + 2) (take (to_end - 2) buf)) (\<lambda>d.
              copy_to d 0 (take (real_len - to_end) (drop (to_end - 2) buf))))
            else
              Option.bind (copy_to (q_data s) iptr (take to_end lenx)) (\<lambda>d.
              Option.bind (copy_to d 0 (take (2 - to_end) (drop to_end lenx))) (\<lambda>d.
              copy_to d (2 - to_end) buf)))
         of None \<Rightarrow> None
         | Some d \<Rightarrow> Some (int len, s\<lparr>q_data := d, q_iptr := real_len - to_end\<rparr>)))"

lemma length_bytes16 [simp]: "length (bytes16 w) = 2"
  by (simp add: bytes16_def)

lemma word16_bytes16 [simp]: "word16 (bytes16 w) = w"
proof -
  have "word16 (bytes16 w) = or (ucast (ucast w :: 8 word)) (push_bit 8 (ucast (ucast (drop_bit 8 w) :: 8 word)))"
    unfolding word16_def bytes16_def
    by (simp, rule disjunctive_add) (auto simp: bit_simps)
  also have "\<dots> = w"
    by (rule bit_word_eqI) (auto simp: bit_simps)
  finally show ?thesis .
qed

lemma queue_view_read: "queue_view s n = map_option (\<lambda>(r, out, _). (r, out)) (queue_read s n)"
  by (auto simp: queue_view_def queue_read_def Let_def split: option.splits)

lemma copy_to_append: "Option.bind (copy_to D off a) (\<lambda>d. copy_to d (off + length a) b) = copy_to D off (a @ b)"
  by (auto simp: copy_to_def Let_def add.commute add.left_commute)

lemma message_fits: "n + 2 \<le> k mod 2 ^ 16 \<Longrightarrow> n + 2 \<le> k \<and> n < 2 ^ 16" for n k :: nat
proof -
  assume n: "n + 2 \<le> k mod 2 ^ 16"
  have "k mod 2 ^ 16 \<le> k" "k mod 2 ^ 16 < 2 ^ 16" by simp_all
  then show ?thesis using n by linarith
qed

lemma queue_write_msg_eq:
  assumes "queue_inv s" "length buf + 2 \<le> queue_free_space s mod 2 ^ 16"
  shows "queue_write_msg s buf =
    map_option (\<lambda>(r, s). (r - 2, s)) (queue_write s (bytes16 (of_nat (length buf)) @ buf))"
proof -
  have u: "unat (of_nat (queue_free_space s) :: 16 word) = queue_free_space s mod 2 ^ 16"
    by (simp add: unat_of_nat)
  have free: "length buf + 2 \<le> queue_free_space s" using message_fits [OF assms(2)] by simp
  define lx where "lx = bytes16 (of_nat (length buf))"
  define te where "te = q_len s - q_iptr s"
  have [simp]: "length lx = 2" by (simp add: lx_def)
  have c2: "Option.bind (copy_to D off lx) (\<lambda>d. copy_to d (off + 2) b) = copy_to D off (lx @ b)" for D off b
    using copy_to_append [of D off lx b] by simp
  have room: "\<not> queue_free_space s < length buf + 2" "min (queue_free_space s) (length buf + 2) = length buf + 2"
      "\<not> queue_free_space s mod 2 ^ 16 < length buf + 2"
    using free assms(2) by simp_all
  have room': "\<not> queue_free_space s < Suc (Suc (length buf))" "\<not> queue_free_space s mod 65536 < Suc (Suc (length buf))"
    using free assms(2) by simp_all
  note simps = queue_write_msg_def queue_write_def Let_def u room lx_def [symmetric] te_def [symmetric] length_append
    \<open>length lx = 2\<close> add.commute [of 2] if_False
  consider "q_iptr s < q_optr s \<or> length buf + 2 \<le> te" | "\<not> (q_iptr s < q_optr s \<or> length buf + 2 \<le> te)" "2 \<le> te"
    | "\<not> (q_iptr s < q_optr s \<or> length buf + 2 \<le> te)" "te < 2" by linarith
  then show ?thesis
  proof cases
    case 1
    then show ?thesis unfolding simps c2 by (auto simp: room' split: option.splits)
  next
    case 2
    then have e: "Option.bind (copy_to (q_data s) (q_iptr s) lx) (\<lambda>d. Option.bind (copy_to d (q_iptr s + 2) (take (te - 2) buf)) f) =
        Option.bind (copy_to (q_data s) (q_iptr s) (take te (lx @ buf))) f" for f
      using c2 [of "q_data s" "q_iptr s" "take (te - 2) buf"] by (simp flip: Option.bind_assoc)
    show ?thesis using 2 unfolding simps e by (auto simp: room' split: option.splits)
  next
    case 3
    then have e: "Option.bind (copy_to d 0 (take (2 - te) (drop te lx))) (\<lambda>d. copy_to d (2 - te) buf) =
        copy_to d 0 (drop te lx @ buf)" for d
      using copy_to_append [of d 0 "drop te lx" buf] by simp
    show ?thesis using 3 unfolding simps e by (auto simp: room' split: option.splits)
  qed
qed

lemma queue_read_all:
  assumes "queue_inv s" "n \<le> length (queue_abs s)"
  shows "\<exists>s'. queue_read s n = Some (int n, take n (queue_abs s), s') \<and> queue_inv s' \<and>
    queue_abs s' = drop n (queue_abs s) \<and> queue_capacity s' = queue_capacity s"
proof -
  obtain r out s' where r: "queue_read s n = Some (r, out, s')" "read_promise s n r out s'"
    using queue_read_ok [OF assms(1)] by blast
  then have "r = int n" "length out = n" "queue_abs s = out @ queue_abs s'"
    using assms(2) by (auto simp: read_promise_def)
  then show ?thesis using r by (auto simp: read_promise_def)
qed

text \<open>A message written to a queue with room for it comes back whole: to a queue that was empty at once.\<close>

lemma queue_write_msg_ok:
  assumes "queue_inv s" "length buf + 2 \<le> queue_free_space s mod 2 ^ 16"
  shows "\<exists>s'. queue_write_msg s buf = Some (int (length buf), s') \<and> queue_inv s' \<and>
    queue_capacity s' = queue_capacity s \<and>
    queue_abs s' = queue_abs s @ bytes16 (of_nat (length buf)) @ buf"
proof -
  obtain r n s' where w: "queue_write s (bytes16 (of_nat (length buf)) @ buf) = Some (r, s')"
      "write_promise s (bytes16 (of_nat (length buf)) @ buf) r n s'"
    using queue_write_ok [OF assms(1)] by blast
  have "\<not> queue_capacity s < length (queue_abs s) + (length buf + 2)"
      "min (length buf + 2) (queue_capacity s - length (queue_abs s)) = length buf + 2"
    using message_fits [OF assms(2)] unfolding queue_free_capacity [OF assms(1)] by linarith+
  then have "n = length buf + 2" "r = int n" using w(2) by (auto simp: write_promise_def)
  then show ?thesis using w queue_write_msg_eq [OF assms] by (auto simp: write_promise_def)
qed

lemma queue_read_msg_ok:
  assumes inv: "queue_inv s" and abs: "queue_abs s = bytes16 (of_nat (length buf)) @ buf @ rest"
    and len: "length buf < 2 ^ 16"
  shows "\<exists>s'. queue_read_msg s n = Some (int (min (length buf) n), take n buf, s') \<and> queue_inv s' \<and>
    queue_abs s' = rest"
proof -
  obtain s1 where 1: "queue_read s 2 = Some (2, bytes16 (of_nat (length buf)), s1)" "queue_inv s1"
      "queue_abs s1 = buf @ rest"
    using queue_read_all [OF inv, of 2] abs by auto
  have u: "unat (of_nat (length buf) :: 16 word) = length buf" using len by (simp add: unat_of_nat)
  show ?thesis
  proof (cases "n < length buf")
    case True
    then obtain s2 where 2: "queue_read s1 n = Some (int n, take n buf, s2)" "queue_inv s2"
        "queue_abs s2 = drop n buf @ rest"
      using queue_read_all [OF 1(2), of n] 1(3) by auto
    obtain s3 where "queue_read s2 (length buf - n) = Some (int (length buf - n), drop n buf, s3)"
        "queue_inv s3" "queue_abs s3 = rest"
      using queue_read_all [OF 2(2), of "length buf - n"] 2(3) by auto
    then show ?thesis using True 1 2 by (auto simp: queue_read_msg_def u Let_def nat_diff_distrib)
  next
    case False
    then show ?thesis using queue_read_all [OF 1(2), of "length buf"] 1 inv
      by (auto simp: queue_read_msg_def u Let_def)
  qed
qed

section \<open>Properties\<close>

text \<open>
  C25: Any sequence of bulk reads and writes on a queue, whatever its flags and sizes, is that of a bounded
  list: no access leaves the buffer, the bytes come out in the order they were taken in, and never more than
  the length of the queue wait in it.
\<close>

theorem queue_fifo:
  assumes "len + 1 \<le> length memory"
  shows "\<exists>got took s'. run_fifo queue_read queue_write ops (queue_init memory len flags) = Some (got, took, s') \<and>
    took = got @ queue_abs s' \<and> length took \<le> length got + len"
  using byte_queue.run_fifo_order [OF queue_inv_init [OF assms] queue_abs_init]
  by (simp add: queue_capacity_def queue_init_def)

lemma queue_fifo_witness:
  "\<exists>got took s'. run_fifo queue_read queue_write [QWrite [1, 2], QRead 1, QWrite [3, 4], QRead 5]
      (queue_init (replicate 4 0) 3 0) = Some (got, took, s') \<and> took = got @ queue_abs s' \<and> length took \<le> length got + 3"
  by (rule queue_fifo) simp

text \<open>
  C26: A message and its length that together are at most as long as the free space of an empty queue modulo
  2^16 (the code narrows the free space to 16 bits before it compares) is taken, and read back: whole, or
  its beginning when the reader has less room, and the queue is empty again.  Any other message is refused
  and the queue left as it is: with 65537 bytes free even the empty message, whatever the room.
\<close>

theorem queue_message_roundtrip:
  assumes "queue_inv s" "queue_abs s = []"
  shows "if length buf + 2 \<le> queue_free_space s mod 2 ^ 16
    then \<exists>s1 s2. queue_write_msg s buf = Some (int (length buf), s1) \<and>
      queue_read_msg s1 n = Some (int (min (length buf) n), take n buf, s2) \<and> queue_abs s2 = [] \<and> queue_inv s2
    else queue_write_msg s buf = Some (-1, s)"
proof (cases "length buf + 2 \<le> queue_free_space s mod 2 ^ 16")
  case True
  obtain s1 where w: "queue_write_msg s buf = Some (int (length buf), s1)" "queue_inv s1"
      "queue_abs s1 = bytes16 (of_nat (length buf)) @ buf @ []"
    using queue_write_msg_ok [OF assms(1) True] assms(2) by auto
  have "length buf < 2 ^ 16" using message_fits [OF True] by simp
  then show ?thesis using True w queue_read_msg_ok [OF w(2,3), of n] by auto
next
  case False
  then show ?thesis by (simp add: queue_write_msg_def unat_of_nat Let_def)
qed

lemma queue_message_roundtrip_witness:
  "(\<exists>s1 s2. queue_write_msg (queue_init (replicate 9 0) 8 0) [7, 7, 7] = Some (int (length [7, 7, 7 :: 8 word]), s1) \<and>
    queue_read_msg s1 5 = Some (int (min (length [7, 7, 7 :: 8 word]) 5), take 5 [7, 7, 7], s2) \<and> queue_abs s2 = [] \<and> queue_inv s2) \<and>
   queue_write_msg (queue_init (replicate 9 0) 4 0) [7, 7, 7] = Some (-1, queue_init (replicate 9 0) 4 0)"
  using queue_message_roundtrip [of "queue_init (replicate 9 0) 8 0" "[7, 7, 7]" 5]
    queue_message_roundtrip [of "queue_init (replicate 9 0) 4 0" "[7, 7, 7]" 5]
  by (simp add: queue_inv_init queue_abs_init queue_capacity_def queue_free_space_def queue_init_def queue_inv_def
      queue_contents_def queue_abs_def)

text \<open>
  Bulk writes and reads of single bytes do not fit together: in a queue of length 2, after two bytes have
  been written and read back, one more written and read leaves a queue that says it holds three bytes, more
  than its length, where there is none.  The bulk operations let a pointer rest at the end of the buffer, the
  byte operations wrap it there.
\<close>

theorem queue_byte_phantom:
  "(case queue_write (queue_init [0, 0, 0] 2 0) [1, 2] of None \<Rightarrow> None | Some (_, s1) \<Rightarrow>
    case queue_read_byte s1 of None \<Rightarrow> None | Some (_, s2) \<Rightarrow>
    case queue_read_byte s2 of None \<Rightarrow> None | Some (_, s3) \<Rightarrow>
    case queue_write s3 [3] of None \<Rightarrow> None | Some (_, s4) \<Rightarrow>
    case queue_read_byte s4 of None \<Rightarrow> None | Some (b, s5) \<Rightarrow> Some (b, queue_contents s5)) = Some (3, 3)"
  by (simp add: queue_write_def queue_init_def queue_read_byte_def queue_contents_def queue_free_space_def copy_to_def
      arr_get_def Let_def)

end
