(* ===== verification/R2Codec.thy ===== *)
theory R2Codec
  imports R2Prelude "HOL-Library.Word"
begin

text \<open>
  The A-law transcoder of \<open>r2engine-pvt.h\<close>, the one a context starts with: \<open>openr2_top_bit\<close> (its
  portable branch), \<open>openr2_alaw_to_linear\<close> and \<open>openr2_linear_to_alaw\<close>, with the bytes and the
  unsigned argument at their width.
\<close>

section \<open>The routines\<close>

abbreviation (input) "OR2_ALAW_AMI_MASK \<equiv> 0x55 :: 8 word"

definition mask_step :: "32 word \<Rightarrow> int \<Rightarrow> 32 word \<times> int \<Rightarrow> 32 word \<times> int" where
  "mask_step m n p = (case p of (bits, res) \<Rightarrow> if bits AND m \<noteq> 0 then (bits AND m, res + n) else (bits, res))"

definition openr2_top_bit :: "32 word \<Rightarrow> int" where
  "openr2_top_bit bits =
     (if bits = 0 then -1
      else snd (mask_step 0xAAAAAAAA 1 (mask_step 0xCCCCCCCC 2 (mask_step 0xF0F0F0F0 4
             (mask_step 0xFF00FF00 8 (mask_step 0xFFFF0000 16 (bits, 0)))))))"

definition openr2_alaw_to_linear :: "8 word \<Rightarrow> int" where
  "openr2_alaw_to_linear alaw =
     (let alaw = alaw XOR OR2_ALAW_AMI_MASK;
          i = push_bit 4 (uint (alaw AND 0x0F));
          seg = drop_bit 4 (uint (alaw AND 0x70));
          i = (if seg \<noteq> 0 then push_bit (nat (seg - 1)) (i + 0x108) else i + 8)
      in if alaw AND 0x80 \<noteq> 0 then i else - i)"

definition openr2_linear_to_alaw :: "int \<Rightarrow> 8 word" where
  "openr2_linear_to_alaw linear =
     (let (mask, linear) = (if linear \<ge> 0 then (OR2_ALAW_AMI_MASK OR 0x80, linear)
                            else (OR2_ALAW_AMI_MASK, - linear - 1));
          seg = openr2_top_bit (word_of_int (linear OR 0xFF)) - 7
      in if seg \<ge> 8 then (if linear \<ge> 0 then 0x7F XOR mask else mask)
         else word_of_int (push_bit 4 seg OR (drop_bit (nat (if seg \<noteq> 0 then seg + 3 else 4)) linear AND 0x0F))
                XOR mask)"

section \<open>The position of the highest bit\<close>

text \<open>One step of the search: mask \<open>m\<close> holds the positions whose bit \<open>k\<close> is set.\<close>

lemma odd_even_half: "odd a \<Longrightarrow> a div 2 = b div 2 \<Longrightarrow> even b \<Longrightarrow> a = b + 1" for a b :: nat
  by presburger

lemma mask_step_top:
  fixes b :: "32 word"
  assumes n: "bit b n" and top: "\<And>j. bit b j \<Longrightarrow> j \<le> n \<and> j div 2 ^ K = n div 2 ^ K" and K: "K = Suc k"
    and m: "\<And>j. j < 32 \<Longrightarrow> bit m j \<longleftrightarrow> odd (j div 2 ^ k)"
  shows "\<exists>b'. mask_step m (2 ^ k) (b, r) = (b', r + (if odd (n div 2 ^ k) then 2 ^ k else 0)) \<and> bit b' n \<and>
     (\<forall>j. bit b' j \<longrightarrow> j \<le> n \<and> j div 2 ^ k = n div 2 ^ k)"
proof -
  have len: "j < 32" if "bit b j" for j using bit_imp_le_length [OF that] by simp
  have half: "j div 2 ^ K = j div 2 ^ k div 2" for j :: nat
    unfolding K power_Suc2 by (rule div_mult2_eq)
  have same: "j div 2 ^ k = n div 2 ^ k" if "bit b j" "odd (j div 2 ^ k) = odd (n div 2 ^ k)" for j
    using top [OF that(1)] that(2) unfolding half
    by (metis div_mult_mod_eq odd_iff_mod_2_eq_one not_mod_2_eq_1_eq_0)
  show ?thesis
  proof (cases "odd (n div 2 ^ k)")
    case True
    then have "bit (b AND m) n" using n m len by (simp add: bit_and_iff)
    moreover from this have "mask_step m (2 ^ k) (b, r) = (b AND m, r + 2 ^ k)" by (auto simp: mask_step_def)
    moreover have "j \<le> n \<and> j div 2 ^ k = n div 2 ^ k" if "bit (b AND m) j" for j
    proof -
      have j: "bit b j" "odd (j div 2 ^ k)" using that m [OF len] by (auto simp: bit_and_iff)
      show ?thesis using top [OF j(1)] same [OF j(1)] j(2) True by blast
    qed
    ultimately show ?thesis unfolding if_P [OF True] by blast
  next
    case False
    have even: "even (j div 2 ^ k)" if j: "bit b j" for j
    proof (rule ccontr)
      assume "odd (j div 2 ^ k)"
      then have "j div 2 ^ k = n div 2 ^ k + 1" using top [OF j] False odd_even_half unfolding half by blast
      moreover have "j div 2 ^ k \<le> n div 2 ^ k" using top [OF j] by (simp add: div_le_mono)
      ultimately show False by simp
    qed
    then have "b AND m = 0" using m len by (intro bit_eqI) (auto simp: bit_and_iff)
    then have "mask_step m (2 ^ k) (b, r) = (b, r + 0)" by (simp add: mask_step_def)
    moreover have "j \<le> n \<and> j div 2 ^ k = n div 2 ^ k" if "bit b j" for j
      using top [OF that] same [OF that] even [OF that] False by blast
    ultimately show ?thesis using n unfolding if_not_P [OF False] by blast
  qed
qed

lemma all_below_32: "(\<forall>j < (32::nat). P j) \<longleftrightarrow> list_all P
    [0, 1, 2, 3, 4, 5, 6, 7, 8, 9, 10, 11, 12, 13, 14, 15, 16, 17, 18, 19, 20, 21, 22, 23, 24, 25, 26, 27, 28, 29, 30, 31]"
proof -
  have "[0, 1, 2, 3, 4, 5, 6, 7, 8, 9, 10, 11, 12, 13, 14, 15, 16, 17, 18, 19, 20, 21, 22, 23, 24, 25, 26, 27, 28, 29, 30, 31]
      = [0 ..< (32::nat)]" by code_simp
  then show ?thesis by (auto simp: list_all_iff)
qed

lemma masks:
  assumes "j < 32"
  shows "bit (0xFFFF0000 :: 32 word) j \<longleftrightarrow> odd (j div 2 ^ 4)" "bit (0xFF00FF00 :: 32 word) j \<longleftrightarrow> odd (j div 2 ^ 3)"
    and "bit (0xF0F0F0F0 :: 32 word) j \<longleftrightarrow> odd (j div 2 ^ 2)" "bit (0xCCCCCCCC :: 32 word) j \<longleftrightarrow> odd (j div 2 ^ 1)"
    and "bit (0xAAAAAAAA :: 32 word) j \<longleftrightarrow> odd (j div 2 ^ 0)"
proof -
  have "\<forall>j < 32. bit (0xFFFF0000 :: 32 word) j \<longleftrightarrow> odd (j div 2 ^ 4)" "\<forall>j < 32. bit (0xFF00FF00 :: 32 word) j \<longleftrightarrow> odd (j div 2 ^ 3)"
    "\<forall>j < 32. bit (0xF0F0F0F0 :: 32 word) j \<longleftrightarrow> odd (j div 2 ^ 2)" "\<forall>j < 32. bit (0xCCCCCCCC :: 32 word) j \<longleftrightarrow> odd (j div 2 ^ 1)"
    "\<forall>j < 32. bit (0xAAAAAAAA :: 32 word) j \<longleftrightarrow> odd (j div 2 ^ 0)"
    unfolding all_below_32 by simp_all
  then show "bit (0xFFFF0000 :: 32 word) j \<longleftrightarrow> odd (j div 2 ^ 4)" "bit (0xFF00FF00 :: 32 word) j \<longleftrightarrow> odd (j div 2 ^ 3)"
    "bit (0xF0F0F0F0 :: 32 word) j \<longleftrightarrow> odd (j div 2 ^ 2)" "bit (0xCCCCCCCC :: 32 word) j \<longleftrightarrow> odd (j div 2 ^ 1)"
    "bit (0xAAAAAAAA :: 32 word) j \<longleftrightarrow> odd (j div 2 ^ 0)"
    using assms by blast+
qed

lemma top_bit_eq:
  fixes b :: "32 word"
  assumes n: "bit b n" and top: "\<And>j. bit b j \<Longrightarrow> j \<le> n"
  shows "openr2_top_bit b = int n"
proof -
  have len: "j < 32" if "bit b j" for j using bit_imp_le_length [OF that] by simp
  have "b \<noteq> 0" using n by auto
  have t5: "j \<le> n \<and> j div 2 ^ 5 = n div 2 ^ 5" if "bit b j" for j
    using top [OF that] len [OF that] len [OF n] by simp
  let ?r = "\<lambda>k. if odd (n div 2 ^ k) then 2 ^ k else 0 :: int"
  have "\<exists>b'. mask_step 0xFFFF0000 (2 ^ 4) (b, 0) = (b', 0 + ?r 4) \<and> bit b' n \<and>
      (\<forall>j. bit b' j \<longrightarrow> j \<le> n \<and> j div 2 ^ 4 = n div 2 ^ 4)"
    by (rule mask_step_top [OF n t5 _ masks(1)]) simp_all
  then obtain b1 where 1: "mask_step 0xFFFF0000 (2 ^ 4) (b, 0) = (b1, 0 + ?r 4)" "bit b1 n"
      "\<And>j. bit b1 j \<Longrightarrow> j \<le> n \<and> j div 2 ^ 4 = n div 2 ^ 4"
    by blast
  have "\<exists>b'. mask_step 0xFF00FF00 (2 ^ 3) (b1, 0 + ?r 4) = (b', 0 + ?r 4 + ?r 3) \<and> bit b' n \<and>
      (\<forall>j. bit b' j \<longrightarrow> j \<le> n \<and> j div 2 ^ 3 = n div 2 ^ 3)"
    by (rule mask_step_top [OF 1(2,3) _ masks(2)]) simp_all
  then obtain b2 where 2: "mask_step 0xFF00FF00 (2 ^ 3) (b1, 0 + ?r 4) = (b2, 0 + ?r 4 + ?r 3)" "bit b2 n"
      "\<And>j. bit b2 j \<Longrightarrow> j \<le> n \<and> j div 2 ^ 3 = n div 2 ^ 3"
    by blast
  have "\<exists>b'. mask_step 0xF0F0F0F0 (2 ^ 2) (b2, 0 + ?r 4 + ?r 3) = (b', 0 + ?r 4 + ?r 3 + ?r 2) \<and> bit b' n \<and>
      (\<forall>j. bit b' j \<longrightarrow> j \<le> n \<and> j div 2 ^ 2 = n div 2 ^ 2)"
    by (rule mask_step_top [OF 2(2,3) _ masks(3)]) simp_all
  then obtain b3 where 3: "mask_step 0xF0F0F0F0 (2 ^ 2) (b2, 0 + ?r 4 + ?r 3) = (b3, 0 + ?r 4 + ?r 3 + ?r 2)" "bit b3 n"
      "\<And>j. bit b3 j \<Longrightarrow> j \<le> n \<and> j div 2 ^ 2 = n div 2 ^ 2"
    by blast
  have "\<exists>b'. mask_step 0xCCCCCCCC (2 ^ 1) (b3, 0 + ?r 4 + ?r 3 + ?r 2) = (b', 0 + ?r 4 + ?r 3 + ?r 2 + ?r 1) \<and> bit b' n \<and>
      (\<forall>j. bit b' j \<longrightarrow> j \<le> n \<and> j div 2 ^ 1 = n div 2 ^ 1)"
    by (rule mask_step_top [OF 3(2,3) _ masks(4)]) simp_all
  then obtain b4 where 4: "mask_step 0xCCCCCCCC (2 ^ 1) (b3, 0 + ?r 4 + ?r 3 + ?r 2) = (b4, 0 + ?r 4 + ?r 3 + ?r 2 + ?r 1)" "bit b4 n"
      "\<And>j. bit b4 j \<Longrightarrow> j \<le> n \<and> j div 2 ^ 1 = n div 2 ^ 1"
    by blast
  have "\<exists>b'. mask_step 0xAAAAAAAA (2 ^ 0) (b4, 0 + ?r 4 + ?r 3 + ?r 2 + ?r 1) = (b', 0 + ?r 4 + ?r 3 + ?r 2 + ?r 1 + ?r 0) \<and> bit b' n \<and>
      (\<forall>j. bit b' j \<longrightarrow> j \<le> n \<and> j div 2 ^ 0 = n div 2 ^ 0)"
    by (rule mask_step_top [OF 4(2,3) _ masks(5)]) simp_all
  then obtain b5 where 5: "mask_step 0xAAAAAAAA (2 ^ 0) (b4, 0 + ?r 4 + ?r 3 + ?r 2 + ?r 1) = (b5, 0 + ?r 4 + ?r 3 + ?r 2 + ?r 1 + ?r 0)" "bit b5 n"
      "\<And>j. bit b5 j \<Longrightarrow> j \<le> n \<and> j div 2 ^ 0 = n div 2 ^ 0"
    by blast
  have "openr2_top_bit b = ?r 4 + ?r 3 + ?r 2 + ?r 1 + ?r 0"
    using 1(1) 2(1) 3(1) 4(1) 5(1) \<open>b \<noteq> 0\<close> by (simp add: openr2_top_bit_def)
  also have "\<dots> = int n"
  proof -
    have "\<forall>n < 32. (if odd (n div 2 ^ 4) then 2 ^ 4 else 0 :: int) + (if odd (n div 2 ^ 3) then 2 ^ 3 else 0) +
        (if odd (n div 2 ^ 2) then 2 ^ 2 else 0) + (if odd (n div 2 ^ 1) then 2 ^ 1 else 0) +
        (if odd (n div 2 ^ 0) then 2 ^ 0 else 0) = int n"
      unfolding all_below_32 by simp
    then show ?thesis using len [OF n] by blast
  qed
  finally show ?thesis .
qed

section \<open>The coding of a magnitude\<close>

text \<open>A code is a sign, a segment below 8 and a step below 16.\<close>

definition alaw_code :: "bool \<Rightarrow> nat \<Rightarrow> nat \<Rightarrow> 8 word" where
  "alaw_code pos g q = word_of_int (16 * int g + int q) XOR (if pos then 0xD5 else 0x55)"

text \<open>The magnitude a code stands for: the middle of its interval.\<close>

definition alaw_level :: "nat \<Rightarrow> nat \<Rightarrow> int" where
  "alaw_level g q = (if g = 0 then 16 * int q + 8 else (16 * int q + 0x108) * 2 ^ (g - 1))"

lemma top_bit_or_255:
  assumes "0 \<le> x" "x < 2 ^ 31"
  shows "x < 256 \<Longrightarrow> openr2_top_bit (word_of_int (x OR 0xFF)) = 7"
    and "8 \<le> n \<Longrightarrow> 2 ^ n \<le> x \<Longrightarrow> x < 2 ^ Suc n \<Longrightarrow> openr2_top_bit (word_of_int (x OR 0xFF)) = int n"
proof -
  have b: "bit (word_of_int (x OR 0xFF) :: 32 word) j \<longleftrightarrow> j < 32 \<and> (bit x j \<or> j < 8)" for j
  proof -
    have "bit (0xFF :: int) j \<longleftrightarrow> j < 8" using bit_mask_iff [of 8 j, where 'a = int]
      by (simp add: mask_eq_exp_minus_1)
    then show ?thesis by (simp add: bit_simps)
  qed
  have high: "\<not> bit x j" if "x < 2 ^ n" "n \<le> j" for j n
  proof -
    have "x < 2 ^ j" using that by (meson order_less_le_trans one_le_numeral power_increasing)
    then show ?thesis using assms(1) by (simp add: bit_iff_odd)
  qed
  show "openr2_top_bit (word_of_int (x OR 0xFF)) = 7" if x: "x < 256"
  proof -
    have "openr2_top_bit (word_of_int (x OR 0xFF)) = int 7"
    proof (rule top_bit_eq)
      show "j \<le> 7" if "bit (word_of_int (x OR 0xFF) :: 32 word) j" for j
        using that high [of 8 j] x by (cases "8 \<le> j") (auto simp: b)
    qed (simp add: b)
    then show ?thesis by simp
  qed
  show "openr2_top_bit (word_of_int (x OR 0xFF)) = int n" if n: "8 \<le> n" "2 ^ n \<le> x" "x < 2 ^ Suc n"
  proof (rule top_bit_eq)
    have "x div 2 ^ n = 1" using n(2,3) by (simp add: int_div_pos_eq [of x "2 ^ n" 1 "x - 2 ^ n"])
    then have "bit x n" by (simp add: bit_iff_odd)
    then show "bit (word_of_int (x OR 0xFF) :: 32 word) n"
      using high [of 31 n] assms(2) by (cases "n < 31") (auto simp: b)
    show "j \<le> n" if "bit (word_of_int (x OR 0xFF) :: 32 word) j" for j
      using that high [OF n(3), of j] n(1) by (cases "Suc n \<le> j") (auto simp: b)
  qed
qed

text \<open>What the encoder makes of the magnitude \<open>x\<close>.\<close>

lemma encode_magnitude:
  assumes "0 \<le> x" "g < 8" "q < 16" "if g = 0 then x div 16 = int q else x div 2 ^ (g + 3) = 16 + int q"
  shows "openr2_linear_to_alaw x = alaw_code True g q" "openr2_linear_to_alaw (- x - 1) = alaw_code False g q"
proof -
  have seg: "openr2_top_bit (word_of_int (x OR 0xFF)) = int g + 7"
  proof (cases "g = 0")
    case True
    then have "x div 16 < 16" using assms by simp
    then have "x < 256" by presburger
    then show ?thesis using True assms(1) by (simp add: top_bit_or_255(1))
  next
    case False
    then have d: "x div 2 ^ (g + 3) = 16 + int q" using assms by simp
    define P where "P = (2::int) ^ (g + 3)"
    have "x = P * (16 + int q) + x mod P" by (metis P_def d mult_div_mod_eq)
    moreover have "0 \<le> x mod P" "x mod P < P" by (simp_all add: P_def)
    moreover have "P * int q \<le> P * 15" using assms(3) by (intro mult_left_mono) (simp_all add: P_def)
    moreover have "0 \<le> P * int q" by (simp add: P_def)
    ultimately have "P * 16 \<le> x" "x < P * 32" unfolding distrib_left by linarith+
    moreover have "(2::int) ^ (g + 7) = P * 16" "(2::int) ^ Suc (g + 7) = P * 32"
      by (simp_all add: power_add P_def)
    ultimately have "2 ^ (g + 7) \<le> x" "x < 2 ^ Suc (g + 7)" by simp_all
    moreover have "(2::int) ^ Suc (g + 7) \<le> 2 ^ 31" using assms(2) by (intro power_increasing) simp_all
    ultimately show ?thesis using top_bit_or_255(2) [of x "g + 7"] assms(1) False by simp
  qed
  have and15: "y AND 0xF = y mod 16" for y :: int
    using take_bit_eq_mask [of 4 y] by (simp add: mask_eq_exp_minus_1 take_bit_eq_mod)
  have q: "drop_bit (nat (if int g \<noteq> 0 then int g + 3 else 4)) x AND 0xF = int q"
  proof (cases "g = 0")
    case True
    then show ?thesis using assms(3,4) by (simp add: and15 drop_bit_eq_div)
  next
    case False
    then have "nat (int g + 3) = g + 3" by simp
    then show ?thesis using False assms(3,4) by (simp add: and15 drop_bit_eq_div)
  qed
  have gq: "push_bit 4 (int g) OR int q = 16 * int g + int q"
  proof -
    have "push_bit 4 (int g) OR int q = push_bit 4 (int g) + int q"
    proof (rule disjunctive_add [symmetric])
      show "\<not> bit (push_bit 4 (int g)) n \<or> \<not> bit (int q) n" for n
      proof (cases "n < 4")
        case False
        then have "(16 :: int) \<le> 2 ^ n" using power_increasing [of 4 n "2 :: int"] by simp
        then have "int q < 2 ^ n" using assms(3) by linarith
        then show ?thesis by (simp add: bit_iff_odd)
      qed (simp add: bit_simps)
    qed
    then show ?thesis by (simp add: push_bit_eq_mult)
  qed
  note simps = openr2_linear_to_alaw_def Let_def alaw_code_def seg q gq
  show "openr2_linear_to_alaw x = alaw_code True g q"
    using assms(1,2) q gq by (simp add: openr2_linear_to_alaw_def alaw_code_def seg)
  show "openr2_linear_to_alaw (- x - 1) = alaw_code False g q"
    using assms(1,2) q gq by (simp add: openr2_linear_to_alaw_def alaw_code_def seg)
qed

lemma alaw_code_cases:
  obtains pos g q where "g < 8" "q < 16" "b = alaw_code pos g q"
proof -
  define m where "m = take_bit 7 (b XOR 0x55)"
  have m: "uint m < 128" unfolding m_def unsigned_take_bit_eq by (simp add: take_bit_eq_mod)
  have b: "b = m XOR (if bit b 7 then 0xD5 else 0x55)"
  proof (rule bit_word_eqI)
    fix n assume "n < LENGTH(8)"
    then have "n \<in> {0, 1, 2, 3, 4, 5, 6, 7}" unfolding insert_iff empty_iff by simp arith
    then show "bit b n = bit (m XOR (if bit b 7 then 0xD5 else 0x55)) n"
      by (auto simp: m_def bit_simps)
  qed
  let ?g = "nat (uint m div 16)" and ?q = "nat (uint m mod 16)"
  have "16 * int ?g + int ?q = uint m" by simp
  then have "b = alaw_code (bit b 7) ?g ?q" unfolding alaw_code_def using b by simp
  moreover have "?g < 8" "?q < 16" using m by auto
  ultimately show thesis using that by blast
qed

lemma decode_table:
  "list_all (\<lambda>g. list_all (\<lambda>q. openr2_alaw_to_linear (alaw_code True g q) = alaw_level g q \<and>
     openr2_alaw_to_linear (alaw_code False g q) = - alaw_level g q) [0..<16]) [0..<8]"
  by code_simp

lemma decode_code:
  assumes "g < 8" "q < 16"
  shows "openr2_alaw_to_linear (alaw_code pos g q) = (if pos then alaw_level g q else - alaw_level g q)"
  using decode_table assms by (cases pos) (auto simp: list_all_iff)

text \<open>The interval of codes of a segment, and how far from a magnitude the middle of its interval is.\<close>

lemma magnitude_code:
  assumes "0 \<le> x" "x < 2 ^ 15"
  obtains g q where "g < 8" "q < 16" "if g = 0 then x div 16 = int q else x div 2 ^ (g + 3) = 16 + int q"
    "\<bar>alaw_level g q - x\<bar> \<le> (if g = 0 then 8 else 2 ^ (g + 2))"
    "g \<noteq> 0 \<Longrightarrow> 2 ^ (g + 7) \<le> x"
proof (cases "x < 256")
  case True
  have "\<bar>16 * (x div 16) + 8 - x\<bar> \<le> 8" by presburger
  then show thesis using True assms(1) that [of 0 "nat (x div 16)"] by (auto simp: alaw_level_def)
next
  case False
  have "\<exists>g \<in> {1, 2, 3, 4, 5, 6, 7}. 2 ^ (g + 7) \<le> x \<and> x < 2 ^ (g + 8)"
    using False assms(2) by simp arith
  then obtain g where g0: "g \<in> {1, 2, 3, 4, 5, 6, 7}" "2 ^ (g + 7) \<le> x" "x < 2 ^ (g + 8)" by blast
  then have g: "1 \<le> g" "g < 8" "2 ^ (g + 7) \<le> x" "x < 2 ^ (g + 8)" by auto
  define P where "P = (2::int) ^ (g + 2)"
  have P: "0 < P" "(2::int) ^ (g + 3) = 2 * P" "(2::int) ^ (g + 7) = 32 * P" "(2::int) ^ (g + 8) = 64 * P"
    by (simp_all add: P_def power_add)
  define k where "k = x div (2 * P)"
  have x: "x = 2 * P * k + x mod (2 * P)" unfolding k_def by simp
  have r: "0 \<le> x mod (2 * P)" "x mod (2 * P) < 2 * P" using P(1) by simp_all
  have k16: "16 \<le> k"
  proof (rule ccontr)
    assume "\<not> 16 \<le> k"
    then have "2 * P * k \<le> 2 * P * 15" using P(1) by (intro mult_left_mono) simp_all
    then show False using x r g(3) P by linarith
  qed
  have k32: "k < 32"
  proof (rule ccontr)
    assume "\<not> k < 32"
    then have "2 * P * 32 \<le> 2 * P * k" using P(1) by (intro mult_left_mono) simp_all
    then show False using x r g(4) P by linarith
  qed
  obtain h where h: "g = Suc h" using g(1) by (cases g) auto
  have "int (nat (k - 16)) = k - 16" using k16 by simp
  then have "alaw_level g (nat (k - 16)) = (16 * (k - 16) + 0x108) * 2 ^ h"
    by (simp add: alaw_level_def h)
  also have "\<dots> = 2 * P * k + P" by (simp add: P_def h power_add algebra_simps)
  finally have "\<bar>alaw_level g (nat (k - 16)) - x\<bar> \<le> P" using x r by linarith
  then show thesis using g k16 k32 P by (intro that [of g "nat (k - 16)"]) (simp_all add: P_def k_def)
qed

lemma alaw_level_div:
  assumes "0 \<le> d" "d \<le> 1"
  shows "if g = 0 then (alaw_level g q - d) div 16 = int q else (alaw_level g q - d) div 2 ^ (g + 3) = 16 + int q"
proof (cases g)
  case 0
  then show ?thesis using assms by (simp add: alaw_level_def)
next
  case (Suc h)
  define P where "P = (2::int) ^ (h + 3)"
  have P: "1 \<le> P" by (simp add: P_def)
  have "alaw_level g q - d = 2 * P * (16 + int q) + (P - d)"
    by (simp add: alaw_level_def Suc P_def power_add algebra_simps)
  also have "\<dots> div (2 * P) = 16 + int q + (P - d) div (2 * P)" using P by simp
  also have "(P - d) div (2 * P) = 0" using P assms by simp
  finally show ?thesis by (simp add: Suc P_def power_add)
qed

lemma alaw_level_pos: "8 \<le> alaw_level g q"
proof (cases g)
  case (Suc h)
  have "8 * 1 \<le> (16 * int q + 0x108) * 2 ^ h" by (intro mult_mono) simp_all
  then show ?thesis by (simp add: alaw_level_def Suc)
qed (simp add: alaw_level_def)

lemma alaw_moves:
  assumes "-(2 ^ 15) \<le> x" "x < 2 ^ 15"
  shows "\<bar>openr2_alaw_to_linear (openr2_linear_to_alaw x) - x\<bar> \<le> max 8 (\<bar>x\<bar> div 32) + (if x < 0 then 1 else 0)"
proof -
  define m where "m = (if x < 0 then - x - 1 else x)"
  have m: "0 \<le> m" "m < 2 ^ 15" and x: "x = (if x < 0 then - m - 1 else m)" using assms by (auto simp: m_def)
  obtain g q where c: "g < 8" "q < 16" "if g = 0 then m div 16 = int q else m div 2 ^ (g + 3) = 16 + int q"
      "\<bar>alaw_level g q - m\<bar> \<le> (if g = 0 then 8 else 2 ^ (g + 2))" "g \<noteq> 0 \<Longrightarrow> 2 ^ (g + 7) \<le> m"
    using magnitude_code [OF m] by metis
  have "openr2_linear_to_alaw x = alaw_code (\<not> x < 0) g q"
    using encode_magnitude [OF m(1) c(1-3)] x by (cases "x < 0") simp_all
  then have d: "openr2_alaw_to_linear (openr2_linear_to_alaw x) = (if x < 0 then - alaw_level g q else alaw_level g q)"
    using decode_code [OF c(1,2), of "\<not> x < 0"] by simp
  have "\<bar>alaw_level g q - m\<bar> \<le> max 8 (m div 32)"
  proof (cases "g = 0")
    case False
    then have "2 ^ (g + 2) * 32 \<le> m" using c(5) by (simp add: power_add)
    then have "2 ^ (g + 2) \<le> m div 32" by linarith
    then show ?thesis using c(4) unfolding if_not_P [OF False] by linarith
  qed (use c(4) in simp)
  moreover have "m div 32 \<le> \<bar>x\<bar> div 32" unfolding m_def by (intro zdiv_mono1) auto
  ultimately show ?thesis using d x by (cases "x < 0") auto
qed

section \<open>Properties\<close>

text \<open>C27: every A-law byte decodes to a sample that encodes back to the same byte.\<close>

theorem alaw_roundtrip: "openr2_linear_to_alaw (openr2_alaw_to_linear b) = b"
proof -
  obtain pos g q where c: "g < 8" "q < 16" "b = alaw_code pos g q" by (rule alaw_code_cases)
  have "- alaw_level g q = - (alaw_level g q - 1) - 1" by simp
  then show ?thesis
    using c encode_magnitude(1) [OF _ c(1,2) alaw_level_div [of 0 g q, simplified]]
      encode_magnitude(2) [OF _ c(1,2) alaw_level_div [of 1 g q]] alaw_level_pos [of g q]
    by (cases pos) (simp_all add: decode_code)
qed

text \<open>
  C39: Encoding a 16 bit sample and decoding it again moves it by at most a thirty-second of its
  magnitude, or by 8 near 0 (one more for a negative sample).
\<close>

theorem alaw_error:
  assumes "-(2 ^ 15) \<le> x" "x < 2 ^ 15"
  shows "\<bar>openr2_alaw_to_linear (openr2_linear_to_alaw x) - x\<bar> \<le> max 8 (\<bar>x\<bar> div 32) + (if x < 0 then 1 else 0)"
  using assms by (rule alaw_moves)

theorem alaw_error_witness: "\<bar>openr2_alaw_to_linear (openr2_linear_to_alaw (-1000)) - (-1000)\<bar> \<le> 32"
  using alaw_error [of "-1000"] by simp

end
