(* ===== verification/R2Iface.thy ===== *)
theory R2Iface
  imports R2Types "HOL-Library.Sublist"
begin

text \<open>
  The boundary of the library: the interface structures it calls through (events, I/O, MF, DTMF,
  transcoder) and the system calls it makes, as one record of functions \<open>'w iface\<close>; the wrappers
  \<open>openr2_io_*\<close> of \<open>r2ioabs.c\<close>; and the two contracts the protocol proofs rely on, as locales.
  A function that receives the channel (a callback of the user, an I/O driver) is a computation on
  the channel and may change it, because it may call back into the library; a function that only
  receives a handle (MF and DTMF engines, system calls) sees the outside world only.
\<close>

section \<open>The interface record\<close>

text \<open>The broken-down time \<open>localtime_r\<close> fills in (year since 1900, month from 0).\<close>

record loctime =
  tm_year :: int
  tm_mon :: int
  tm_mday :: int
  tm_hour :: int
  tm_min :: int
  tm_sec :: int

text \<open>
  Conventions: a result passed back through a pointer argument is the second component of the
  result; optional function pointers are options; \<open>dtmf_rx\<close> receives the callback installed by
  \<open>dtmf_rx_init\<close>, which in this library is always the same function.
\<close>

record 'w iface =
  evmanager :: "event \<Rightarrow> ('w chan, int) state"
  io_open :: "int \<Rightarrow> ('w chan, int) state"
  io_close :: "('w chan, int) state"
  io_set_cas :: "int \<Rightarrow> ('w chan, int) state"
  io_get_cas :: "('w chan, int \<times> int) state"
  io_flush_write_buffers :: "('w chan, int) state"
  io_write :: "int list \<Rightarrow> int \<Rightarrow> ('w chan, int) state"
  io_read :: "int \<Rightarrow> ('w chan, int \<times> int list) state"
  io_setup :: "('w chan, int) state"
  io_wait :: "int \<Rightarrow> int \<Rightarrow> ('w chan, int \<times> int) state"
  io_get_oob_event :: "('w chan, int \<times> oob_event) state"
  io_get_alarm_state :: "('w chan, int \<times> int) state option"
  mf_read_init :: "int \<Rightarrow> int \<Rightarrow> 'w \<Rightarrow> int \<times> 'w"
  mf_write_init :: "int \<Rightarrow> int \<Rightarrow> 'w \<Rightarrow> int \<times> 'w"
  mf_detect_tone :: "int \<Rightarrow> int list \<Rightarrow> int \<Rightarrow> 'w \<Rightarrow> int \<times> 'w"
  mf_generate_tone :: "int \<Rightarrow> int \<Rightarrow> 'w \<Rightarrow> (int \<times> int list) \<times> 'w"
  mf_select_tone :: "int \<Rightarrow> int \<Rightarrow> 'w \<Rightarrow> int \<times> 'w"
  mf_want_generate :: "int \<Rightarrow> int \<Rightarrow> 'w \<Rightarrow> int \<times> 'w"
  mf_read_dispose :: "(int \<Rightarrow> 'w \<Rightarrow> 'w) option"
  mf_write_dispose :: "(int \<Rightarrow> 'w \<Rightarrow> 'w) option"
  alaw_to_linear :: "int \<Rightarrow> int"
  linear_to_alaw :: "int \<Rightarrow> int"
  dtmf_tx_init :: "int \<Rightarrow> 'w \<Rightarrow> int \<times> 'w"
  dtmf_tx_set_timing :: "int \<Rightarrow> int \<Rightarrow> int \<Rightarrow> 'w \<Rightarrow> 'w"
  dtmf_tx_put :: "int \<Rightarrow> int list \<Rightarrow> int \<Rightarrow> 'w \<Rightarrow> int \<times> 'w"
  dtmf_tx :: "int \<Rightarrow> int \<Rightarrow> 'w \<Rightarrow> (int \<times> int list) \<times> 'w"
  dtmf_rx_init :: "int \<Rightarrow> 'w \<Rightarrow> int \<times> 'w"
  dtmf_rx_status :: "int \<Rightarrow> 'w \<Rightarrow> int \<times> 'w"
  dtmf_rx :: "int \<Rightarrow> int list \<Rightarrow> int \<Rightarrow> (int list option \<Rightarrow> int \<Rightarrow> ('w chan, unit) state) \<Rightarrow> ('w chan, int) state"
  gettimeofday :: "'w \<Rightarrow> timeval option \<times> 'w"
  sys_errno :: "'w \<Rightarrow> int"
  sys_time :: "'w \<Rightarrow> int option \<times> 'w"
  sys_localtime :: "int \<Rightarrow> 'w \<Rightarrow> loctime option \<times> 'w"
  sys_fopen :: "string \<Rightarrow> 'w \<Rightarrow> int \<times> 'w"
  sys_fclose :: "int \<Rightarrow> 'w \<Rightarrow> int \<times> 'w"

section \<open>Calling through the interfaces\<close>

definition world_call :: "('w \<Rightarrow> 'a \<times> 'w) \<Rightarrow> ('w chan, 'a) state" where
  "world_call f = State (\<lambda>s. let (r, w) = f (world s) in (r, s\<lparr>world := w\<rparr>))"

definition world_do :: "('w \<Rightarrow> 'w) \<Rightarrow> ('w chan, unit) state" where
  "world_do f = modify (\<lambda>s. s\<lparr>world := f (world s)\<rparr>)"

definition record_act :: "act \<Rightarrow> ('w chan, unit) state" where
  "record_act a = modify (\<lambda>s. s\<lparr>trace := trace s @ [a]\<rparr>)"

text \<open>An access that is undefined behaviour in C.\<close>

definition memory_fault :: "('w chan, unit) state" where
  "memory_fault = modify (\<lambda>s. s\<lparr>mem_fault := True\<rparr>)"

text \<open>
  Taking and releasing the two mutexes: the channel's, and \<open>openr2_mutex_lock\<close> and
  \<open>openr2_mutex_unlock\<close> on the \<open>timers_lock\<close> of the context.  Both are recursive.
\<close>

definition openr2_chan_lock :: "('w chan, unit) state" where
  "openr2_chan_lock = modify (\<lambda>s. s\<lparr>lock_depth := lock_depth s + 1\<rparr>)"

definition openr2_chan_unlock :: "('w chan, unit) state" where
  "openr2_chan_unlock = modify (\<lambda>s. s\<lparr>lock_depth := lock_depth s - 1\<rparr>)"

definition timers_mutex_lock :: "('w chan, unit) state" where
  "timers_mutex_lock = modify (\<lambda>s. s\<lparr>timers_lock_depth := timers_lock_depth s + 1\<rparr>)"

definition timers_mutex_unlock :: "('w chan, unit) state" where
  "timers_mutex_unlock = modify (\<lambda>s. s\<lparr>timers_lock_depth := timers_lock_depth s - 1\<rparr>)"

text \<open>
  A computation between a lock and its unlock.  The functions of the library are not defined with
  these two: they take and release the mutexes where the code does, and lemmas bring those that are
  a computation between the two into this form.
\<close>

definition with_chan_lock :: "('w chan, 'a) state \<Rightarrow> ('w chan, 'a) state" where
  "with_chan_lock m = do { openr2_chan_lock; r \<leftarrow> m; openr2_chan_unlock; return r }"

definition with_timers_lock :: "('w chan, 'a) state \<Rightarrow> ('w chan, 'a) state" where
  "with_timers_lock m = do { timers_mutex_lock; r \<leftarrow> m; timers_mutex_unlock; return r }"

text \<open>\<open>EMI(r2chan)->on_...(r2chan, ...)\<close>\<close>

definition emit :: "'w iface \<Rightarrow> event \<Rightarrow> ('w chan, int) state" where
  "emit ifc e = do { record_act (Ev e); evmanager ifc e }"

text \<open>\<open>MFI(r2chan)->mf_select_tone(r2chan->mf_write_handle, tone)\<close>\<close>

definition select_tone :: "'w iface \<Rightarrow> int \<Rightarrow> ('w chan, int) state" where
  "select_tone ifc tone = do {
     h \<leftarrow> gets mf_write_handle;
     record_act (TxTone tone);
     world_call (mf_select_tone ifc h tone) }"

lemma lock_simps [simp, exec_simps]:
  "exec openr2_chan_lock s = s\<lparr>lock_depth := lock_depth s + 1\<rparr>"
  "exec openr2_chan_unlock s = s\<lparr>lock_depth := lock_depth s - 1\<rparr>"
  "exec timers_mutex_lock s = s\<lparr>timers_lock_depth := timers_lock_depth s + 1\<rparr>"
  "exec timers_mutex_unlock s = s\<lparr>timers_lock_depth := timers_lock_depth s - 1\<rparr>"
  by (simp_all add: openr2_chan_lock_def openr2_chan_unlock_def timers_mutex_lock_def timers_mutex_unlock_def)

lemma with_lock_simps [simp, exec_simps]:
  "exec (with_chan_lock m) s = (let s' = exec m (s\<lparr>lock_depth := lock_depth s + 1\<rparr>)
     in s'\<lparr>lock_depth := lock_depth s' - 1\<rparr>)"
  "val (with_chan_lock m) s = val m (s\<lparr>lock_depth := lock_depth s + 1\<rparr>)"
  "exec (with_timers_lock m) s = (let s' = exec m (s\<lparr>timers_lock_depth := timers_lock_depth s + 1\<rparr>)
     in s'\<lparr>timers_lock_depth := timers_lock_depth s' - 1\<rparr>)"
  "val (with_timers_lock m) s = val m (s\<lparr>timers_lock_depth := timers_lock_depth s + 1\<rparr>)"
  by (simp_all add: with_chan_lock_def with_timers_lock_def Let_def)

lemma world_call_simps [simp, exec_simps]:
  "exec (world_call f) s = s\<lparr>world := snd (f (world s))\<rparr>"
  "val (world_call f) s = fst (f (world s))"
  by (simp_all add: world_call_def case_prod_beta)

lemma world_do_simps [simp, exec_simps]: "exec (world_do f) s = s\<lparr>world := f (world s)\<rparr>"
  by (simp add: world_do_def)

lemma record_act_simps [simp, exec_simps]:
  "exec (record_act a) s = s\<lparr>trace := trace s @ [a]\<rparr>"
  by (simp add: record_act_def)

lemma memory_fault_simps [simp, exec_simps]: "exec memory_fault s = s\<lparr>mem_fault := True\<rparr>"
  by (simp add: memory_fault_def)

section \<open>The I/O wrappers of r2ioabs.c\<close>

text \<open>The macro \<open>IO(r2chan)\<close>: every wrapper returns -1 when there is no I/O interface.\<close>

definition openr2_io_close :: "'w iface \<Rightarrow> ('w chan, int) state" where
  "openr2_io_close ifc = do {
     present \<leftarrow> gets (\<lambda>s. io_present (r2context s));
     if \<not> present then return (-1) else io_close ifc }"

definition openr2_io_set_cas :: "'w iface \<Rightarrow> int \<Rightarrow> ('w chan, int) state" where
  "openr2_io_set_cas ifc cas = do {
     present \<leftarrow> gets (\<lambda>s. io_present (r2context s));
     if \<not> present then return (-1)
     else do { record_act (TxCas cas); io_set_cas ifc cas } }"

definition openr2_io_get_cas :: "'w iface \<Rightarrow> ('w chan, int \<times> int) state" where
  "openr2_io_get_cas ifc = do {
     present \<leftarrow> gets (\<lambda>s. io_present (r2context s));
     if \<not> present then return (-1, 0)
     else do {
       (rc, cas) \<leftarrow> io_get_cas ifc;
       raw \<leftarrow> gets cas_raw_read;
       (if rc = 0 \<and> cas \<noteq> raw then modify (\<lambda>s. s\<lparr>cas_raw_read := cas\<rparr>) else skip);
       return (rc, cas) } }"

definition openr2_io_flush_write_buffers :: "'w iface \<Rightarrow> ('w chan, int) state" where
  "openr2_io_flush_write_buffers ifc = do {
     present \<leftarrow> gets (\<lambda>s. io_present (r2context s));
     if \<not> present then return (-1) else io_flush_write_buffers ifc }"

definition openr2_io_read :: "'w iface \<Rightarrow> int \<Rightarrow> ('w chan, int \<times> int list) state" where
  "openr2_io_read ifc sz = do {
     present \<leftarrow> gets (\<lambda>s. io_present (r2context s));
     if \<not> present then return (-1, []) else io_read ifc sz }"

definition openr2_io_write :: "'w iface \<Rightarrow> int list \<Rightarrow> int \<Rightarrow> ('w chan, int) state" where
  "openr2_io_write ifc buf sz = do {
     present \<leftarrow> gets (\<lambda>s. io_present (r2context s));
     if \<not> present then return (-1) else io_write ifc buf sz }"

definition openr2_io_setup :: "'w iface \<Rightarrow> ('w chan, int) state" where
  "openr2_io_setup ifc = do {
     present \<leftarrow> gets (\<lambda>s. io_present (r2context s));
     if \<not> present then return (-1) else io_setup ifc }"

definition openr2_io_get_oob_event :: "'w iface \<Rightarrow> ('w chan, int \<times> oob_event) state" where
  "openr2_io_get_oob_event ifc = do {
     present \<leftarrow> gets (\<lambda>s. io_present (r2context s));
     if \<not> present then return (-1, OR2_OOB_EVENT_NONE) else io_get_oob_event ifc }"

definition openr2_io_wait :: "'w iface \<Rightarrow> int \<Rightarrow> int \<Rightarrow> ('w chan, int \<times> int) state" where
  "openr2_io_wait ifc flags block = do {
     present \<leftarrow> gets (\<lambda>s. io_present (r2context s));
     if \<not> present then return (-1, flags) else io_wait ifc flags block }"

text \<open>
  \<open>get_alarm_state\<close> is the one I/O function nothing checks for NULL: calling through the null
  pointer is a memory fault.
\<close>

definition openr2_io_get_alarm_state :: "'w iface \<Rightarrow> int \<Rightarrow> ('w chan, int \<times> int) state" where
  "openr2_io_get_alarm_state ifc alarm = do {
     present \<leftarrow> gets (\<lambda>s. io_present (r2context s));
     if \<not> present then return (-1, alarm)
     else (case io_get_alarm_state ifc of
             None \<Rightarrow> do { memory_fault; return (-1, alarm) }
           | Some f \<Rightarrow> f) }"

definition openr2_io_open :: "'w iface \<Rightarrow> int \<Rightarrow> ('w chan, int) state" where
  "openr2_io_open ifc channo = do {
     present \<leftarrow> gets (\<lambda>s. io_present (r2context s));
     if \<not> present then return 0 else io_open ifc channo }"

section \<open>First contract: an invariant of the channel\<close>

text \<open>
  Whatever the callbacks and the driver do to the channel (the user may call any function of the
  library from a callback), they keep \<open>I\<close>; and \<open>I\<close> does not look at the world or at the ghosts.
\<close>

locale channel_invariant =
  fixes ifc :: "'w iface" and I :: "'w chan \<Rightarrow> bool"
  assumes evmanager_keeps: "\<And>e. keeps I (evmanager ifc e)"
    and io_open_keeps: "\<And>n. keeps I (io_open ifc n)"
    and io_close_keeps: "keeps I (io_close ifc)"
    and io_set_cas_keeps: "\<And>c. keeps I (io_set_cas ifc c)"
    and io_get_cas_keeps: "keeps I (io_get_cas ifc)"
    and io_flush_keeps: "keeps I (io_flush_write_buffers ifc)"
    and io_write_keeps: "\<And>b n. keeps I (io_write ifc b n)"
    and io_read_keeps: "\<And>n. keeps I (io_read ifc n)"
    and io_setup_keeps: "keeps I (io_setup ifc)"
    and io_wait_keeps: "\<And>f b. keeps I (io_wait ifc f b)"
    and io_oob_keeps: "keeps I (io_get_oob_event ifc)"
    and io_alarm_keeps: "\<And>f. io_get_alarm_state ifc = Some f \<Longrightarrow> keeps I f"
    and dtmf_rx_keeps: "\<And>h b n cb. (\<And>d l. keeps I (cb d l)) \<Longrightarrow> keeps I (dtmf_rx ifc h b n cb)"
    and I_world [simp]: "\<And>s w. I (s\<lparr>world := w\<rparr>) = I s"
    and I_trace [simp]: "\<And>s t. I (s\<lparr>trace := t\<rparr>) = I s"
    and I_fault [simp]: "\<And>s b. I (s\<lparr>mem_fault := b\<rparr>) = I s"
    and I_raw [simp]: "\<And>s c. I (s\<lparr>cas_raw_read := c\<rparr>) = I s"
begin

lemma keeps_world_call: "keeps I (world_call f)"
  by (simp add: keeps_def)

lemma keeps_world_do: "keeps I (world_do f)"
  by (simp add: keeps_def)

lemma keeps_record_act: "keeps I (record_act a)"
  by (simp add: keeps_def)

lemma keeps_memory_fault: "keeps I memory_fault"
  by (simp add: keeps_def)

lemma keeps_raw: "keeps I (modify (\<lambda>s. s\<lparr>cas_raw_read := c\<rparr>))"
  by (simp add: keeps_def)

lemmas keeps_prims = keeps_world_call keeps_world_do keeps_record_act keeps_memory_fault keeps_raw

lemma keeps_emit: "keeps I (emit ifc e)"
  unfolding emit_def by (intro keeps_intros keeps_prims evmanager_keeps)

lemma keeps_select_tone: "keeps I (select_tone ifc t)"
  unfolding select_tone_def by (intro keeps_intros keeps_prims)

lemma keeps_io_close: "keeps I (openr2_io_close ifc)"
  unfolding openr2_io_close_def by (intro keeps_intros io_close_keeps)

lemma keeps_io_set_cas: "keeps I (openr2_io_set_cas ifc c)"
  unfolding openr2_io_set_cas_def by (intro keeps_intros keeps_prims io_set_cas_keeps)

lemma keeps_io_get_cas: "keeps I (openr2_io_get_cas ifc)"
  unfolding openr2_io_get_cas_def by (intro keeps_intros keeps_prims io_get_cas_keeps)

lemma keeps_io_flush: "keeps I (openr2_io_flush_write_buffers ifc)"
  unfolding openr2_io_flush_write_buffers_def by (intro keeps_intros io_flush_keeps)

lemma keeps_io_read: "keeps I (openr2_io_read ifc n)"
  unfolding openr2_io_read_def by (intro keeps_intros io_read_keeps)

lemma keeps_io_write: "keeps I (openr2_io_write ifc b n)"
  unfolding openr2_io_write_def by (intro keeps_intros io_write_keeps)

lemma keeps_io_setup: "keeps I (openr2_io_setup ifc)"
  unfolding openr2_io_setup_def by (intro keeps_intros io_setup_keeps)

lemma keeps_io_oob: "keeps I (openr2_io_get_oob_event ifc)"
  unfolding openr2_io_get_oob_event_def by (intro keeps_intros io_oob_keeps)

lemma keeps_io_wait: "keeps I (openr2_io_wait ifc f b)"
  unfolding openr2_io_wait_def by (intro keeps_intros io_wait_keeps)

lemma keeps_io_open: "keeps I (openr2_io_open ifc n)"
  unfolding openr2_io_open_def by (intro keeps_intros io_open_keeps)

lemma keeps_io_alarm: "keeps I (openr2_io_get_alarm_state ifc a)"
  unfolding openr2_io_get_alarm_state_def by (intro keeps_intros keeps_prims io_alarm_keeps)

lemmas keeps_iface [keeps_intros] = keeps_prims keeps_emit keeps_select_tone keeps_io_close keeps_io_set_cas
  keeps_io_get_cas keeps_io_flush keeps_io_read keeps_io_write keeps_io_setup keeps_io_oob
  keeps_io_wait keeps_io_open keeps_io_alarm

end

section \<open>Second contract: quiet interfaces\<close>

text \<open>
  A quiet computation touches nothing of the channel but the world and the trace, which it may
  extend: the driver of \<open>r2ioabs.c\<close> (it may report a system error) and callbacks that do not call
  back into the library.
\<close>

definition core :: "'w chan \<Rightarrow> 'w chan" where
  "core s = s\<lparr>world := undefined, trace := []\<rparr>"

definition quiet :: "('w chan, 'a) state \<Rightarrow> bool" where
  "quiet m \<longleftrightarrow> (\<forall>s. core (exec m s) = core s \<and> prefix (trace s) (trace (exec m s)))"

lemma core_updates [simp]:
  "core (s\<lparr>world := w\<rparr>) = core s" "core (s\<lparr>trace := t\<rparr>) = core s"
  by (simp_all add: core_def)

lemma core_eq: "core x = core s \<Longrightarrow> x = s\<lparr>world := world x, trace := trace x\<rparr>"
  by (cases x, cases s) (simp add: core_def)

lemma quiet_core: "quiet m \<Longrightarrow> core (exec m s) = core s"
  by (simp add: quiet_def)

lemma quiet_trace: "quiet m \<Longrightarrow> prefix (trace s) (trace (exec m s))"
  by (simp add: quiet_def)

lemma quiet_exec: "quiet m \<Longrightarrow> exec m s = s\<lparr>world := world (exec m s), trace := trace (exec m s)\<rparr>"
  by (rule core_eq) (rule quiet_core)

lemma quiet_return: "quiet (return a)"
  by (simp add: quiet_def)

lemma quiet_gets: "quiet (gets f)"
  by (simp add: quiet_def)

lemma quiet_world_call: "quiet (world_call f)"
  by (simp add: quiet_def)

lemma quiet_world_do: "quiet (world_do f)"
  by (simp add: quiet_def)

lemma quiet_record_act: "quiet (record_act a)"
  by (simp add: quiet_def)

lemma quiet_bind: "quiet m \<Longrightarrow> (\<And>a. quiet (f a)) \<Longrightarrow> quiet (State_Monad.bind m f)"
  unfolding quiet_def by (auto intro: prefix_order.trans)

lemma quiet_if: "quiet m \<Longrightarrow> quiet n \<Longrightarrow> quiet (if b then m else n)"
  by simp

lemmas quiet_intros = quiet_return quiet_gets quiet_world_call quiet_world_do quiet_record_act
  quiet_bind quiet_if

lemma quiet_fields:
  assumes "quiet m"
  shows "direction (exec m s) = direction s" "call_state (exec m s) = call_state s"
    and "r2_state (exec m s) = r2_state s" "mf_state (exec m s) = mf_state s"
    and "mf_group (exec m s) = mf_group s" "r2context (exec m s) = r2context s"
    and "sched_timers (exec m s) = sched_timers s" "timer_id (exec m s) = timer_id s"
    and "timer_ids (exec m s) = timer_ids s" "cas_read (exec m s) = cas_read s"
    and "cas_write (exec m s) = cas_write s" "cas_raw_read (exec m s) = cas_raw_read s"
    and "cas_rx_signal (exec m s) = cas_rx_signal s" "cas_tx_signal (exec m s) = cas_tx_signal s"
    and "cas_persistence_check_signal (exec m s) = cas_persistence_check_signal s"
    and "inalarm (exec m s) = inalarm s" "ani (exec m s) = ani s" "ani_ptr (exec m s) = ani_ptr s"
    and "ani_len (exec m s) = ani_len s" "dnis (exec m s) = dnis s"
    and "dnis_index (exec m s) = dnis_index s" "dnis_len (exec m s) = dnis_len s"
    and "caller_ani_is_restricted (exec m s) = caller_ani_is_restricted s"
    and "caller_category (exec m s) = caller_category s" "answered (exec m s) = answered s"
    and "mf_write_tone (exec m s) = mf_write_tone s" "mf_read_tone (exec m s) = mf_read_tone s"
    and "category_sent (exec m s) = category_sent s" "dialing_dtmf (exec m s) = dialing_dtmf s"
    and "detecting_dtmf (exec m s) = detecting_dtmf s" "mem_fault (exec m s) = mem_fault s"
    and "mf_write_handle (exec m s) = mf_write_handle s" "mf_read_handle (exec m s) = mf_read_handle s"
    and "chan_flags (exec m s) = chan_flags s" "read_enabled (exec m s) = read_enabled s"
    and "call_files (exec m s) = call_files s" "logfile (exec m s) = logfile s"
    and "dtmf_silence_samples (exec m s) = dtmf_silence_samples s"
    and "lock_depth (exec m s) = lock_depth s" "timers_lock_depth (exec m s) = timers_lock_depth s"
  by (subst quiet_exec [OF assms], simp)+

end
