(* ===== verification/R2Timer.thy ===== *)
theory R2Timer
  imports R2Iface
begin

text \<open>
  The scheduled timers of a channel (\<open>r2chan.c\<close>): adding a timer in execution order, cancelling
  one by id, cancelling all, and the time left until the first one.  The invariant \<open>timers_ok\<close>
  says that the list is in execution order, that ids are distinct and below the counter, and that
  the ten slots of the C array are enough; \<open>slots_ok\<close> says that an id stored in \<open>timer_ids\<close> can
  only ever cancel a timer of the kind it was stored for, stale ids included.
\<close>

section \<open>Operations\<close>

text \<open>The slot search and the two memory moves of \<open>openr2_chan_add_timer\<close>.\<close>

fun insert_timer :: "sched_timer \<Rightarrow> sched_timer list \<Rightarrow> sched_timer list" where
  "insert_timer n [] = [n]"
| "insert_timer n (t # ts) = (if tm_time n < tm_time t then n # t # ts else t # insert_timer n ts)"

text \<open>
  The deadline: \<open>ms\<close> milliseconds after now.  The carry is tested with \<open>>\<close> in the source, so a
  sum of exactly one million microseconds stays as it is.
\<close>

definition timer_deadline :: "timeval \<Rightarrow> int \<Rightarrow> timeval" where
  "timer_deadline tv ms =
     (let sec = tv_sec tv + ms sdiv 1000;
          usec = tv_usec tv + (ms smod 1000) * 1000
      in if usec > 1000000 then Timeval (sec + 1) (usec - 1000000) else Timeval sec usec)"

definition openr2_chan_add_timer :: "'w iface \<Rightarrow> int \<Rightarrow> timer_callback \<Rightarrow> string \<Rightarrow> ('w chan, int) state" where
  "openr2_chan_add_timer ifc ms callback name = do {
     timers_mutex_lock;
     tv \<leftarrow> world_call (gettimeofday ifc);
     case tv of
       None \<Rightarrow> do {
         myerrno \<leftarrow> gets (\<lambda>s. sys_errno ifc (world s));
         timers_mutex_unlock;
         emit ifc (OnOsError myerrno);
         return (-1) }
     | Some tv \<Rightarrow> do {
         full \<leftarrow> gets (\<lambda>s. length (sched_timers s) = OR2_MAX_SCHED_TIMERS);
         if full then do {
           timers_mutex_unlock;
           return (-1) }
         else do {
           modify (\<lambda>s. s\<lparr>timer_id := timer_id s + 1\<rparr>);
           newid \<leftarrow> gets timer_id;
           modify (\<lambda>s. s\<lparr>sched_timers := insert_timer
             \<lparr> tm_time = timer_deadline tv ms, tm_callback = callback, tm_name = name, tm_id = newid \<rparr>
             (sched_timers s)\<rparr>);
           timers_mutex_unlock;
           return newid } } }"

text \<open>Clearing a slot and moving the later ones down removes the first timer with the id.\<close>

fun remove_timer :: "int \<Rightarrow> sched_timer list \<Rightarrow> sched_timer list" where
  "remove_timer i [] = []"
| "remove_timer i (t # ts) = (if tm_id t = i then ts else t # remove_timer i ts)"

text \<open>
  \<open>openr2_chan_cancel_timer\<close> on the id stored at its pointer argument; the result is what the
  pointer holds afterwards.
\<close>

definition cancel_timer_id :: "int \<Rightarrow> ('w chan, int) state" where
  "cancel_timer_id i =
     (if i < 1 then return i
      else do {
        timers_mutex_lock;
        found \<leftarrow> gets (\<lambda>s. \<exists>t \<in> set (sched_timers s). tm_id t = i);
        i' \<leftarrow> (if found then do {
                 modify (\<lambda>s. s\<lparr>sched_timers := remove_timer i (sched_timers s)\<rparr>);
                 return 0 }
               else return i);
        timers_mutex_unlock;
        return i' })"

definition openr2_chan_cancel_timer :: "timer_slot \<Rightarrow> ('w chan, unit) state" where
  "openr2_chan_cancel_timer slot = do {
     i \<leftarrow> gets (\<lambda>s. fst slot (timer_ids s));
     i' \<leftarrow> cancel_timer_id i;
     modify (set_timer_id slot i') }"

definition openr2_chan_cancel_all_timers :: "('w chan, unit) state" where
  "openr2_chan_cancel_all_timers = do {
     timers_mutex_lock;
     modify (\<lambda>s. s\<lparr>sched_timers := [], timer_id := 1, timer_ids := no_timer_ids\<rparr>);
     timers_mutex_unlock }"

text \<open>Scheduling into a slot: \<open>timer_ids.slot = openr2_chan_add_timer(...)\<close>.\<close>

definition schedule :: "'w iface \<Rightarrow> timer_slot \<Rightarrow> int \<Rightarrow> timer_callback \<Rightarrow> string \<Rightarrow> ('w chan, unit) state" where
  "schedule ifc slot ms callback name = do {
     i \<leftarrow> openr2_chan_add_timer ifc ms callback name;
     modify (set_timer_id slot i) }"

text \<open>The user's callback for a failing \<open>gettimeofday\<close> runs with both locks held.\<close>

definition openr2_chan_get_time_to_next_event :: "'w iface \<Rightarrow> ('w chan, int) state" where
  "openr2_chan_get_time_to_next_event ifc = do {
     openr2_chan_lock;
     timers_mutex_lock;
     ts \<leftarrow> gets sched_timers;
     ms \<leftarrow> (case ts of
       [] \<Rightarrow> return (-1)
     | t # _ \<Rightarrow> do {
         now \<leftarrow> world_call (gettimeofday ifc);
         case now of
           None \<Rightarrow> do {
             myerrno \<leftarrow> gets (\<lambda>s. sys_errno ifc (world s));
             emit ifc (OnOsError myerrno);
             return (-1) }
         | Some now \<Rightarrow> return (max 0 (ms_between (tm_time t) now)) });
     timers_mutex_unlock;
     openr2_chan_unlock;
     return ms }"

section \<open>The functions as computations between a lock and its unlock\<close>

text \<open>
  What \<open>openr2_chan_add_timer\<close> does between the lock and whichever of its three unlocks comes: the
  error code of \<open>gettimeofday\<close>, or the result.
\<close>

definition add_timer_locked :: "'w iface \<Rightarrow> int \<Rightarrow> timer_callback \<Rightarrow> string \<Rightarrow> ('w chan, int + int) state" where
  "add_timer_locked ifc ms callback name = do {
     tv \<leftarrow> world_call (gettimeofday ifc);
     case tv of
       None \<Rightarrow> do {
         myerrno \<leftarrow> gets (\<lambda>s. sys_errno ifc (world s));
         return (Inl myerrno) }
     | Some tv \<Rightarrow> do {
         full \<leftarrow> gets (\<lambda>s. length (sched_timers s) = OR2_MAX_SCHED_TIMERS);
         if full then return (Inr (-1))
         else do {
           modify (\<lambda>s. s\<lparr>timer_id := timer_id s + 1\<rparr>);
           newid \<leftarrow> gets timer_id;
           modify (\<lambda>s. s\<lparr>sched_timers := insert_timer
             \<lparr> tm_time = timer_deadline tv ms, tm_callback = callback, tm_name = name, tm_id = newid \<rparr>
             (sched_timers s)\<rparr>);
           return (Inr newid) } } }"

lemma add_timer_as_locked:
  "openr2_chan_add_timer ifc ms callback name = do {
     r \<leftarrow> with_timers_lock (add_timer_locked ifc ms callback name);
     case r of
       Inl myerrno \<Rightarrow> do { emit ifc (OnOsError myerrno); return (-1) }
     | Inr newid \<Rightarrow> return newid }"
  by (rule state_eqI)
    (simp_all add: openr2_chan_add_timer_def add_timer_locked_def Let_def split: option.split)

lemma cancel_timer_id_as_locked:
  "cancel_timer_id i =
     (if i < 1 then return i
      else with_timers_lock (do {
        found \<leftarrow> gets (\<lambda>s. \<exists>t \<in> set (sched_timers s). tm_id t = i);
        if found then do {
          modify (\<lambda>s. s\<lparr>sched_timers := remove_timer i (sched_timers s)\<rparr>);
          return 0 }
        else return i }))"
  by (simp add: cancel_timer_id_def with_timers_lock_def)

lemma cancel_all_timers_as_locked:
  "openr2_chan_cancel_all_timers =
     with_timers_lock (modify (\<lambda>s. s\<lparr>sched_timers := [], timer_id := 1, timer_ids := no_timer_ids\<rparr>))"
  by (rule state_eqI) (simp_all add: openr2_chan_cancel_all_timers_def)

lemma time_to_next_event_as_locked:
  "openr2_chan_get_time_to_next_event ifc = with_chan_lock (with_timers_lock (do {
     ts \<leftarrow> gets sched_timers;
     case ts of
       [] \<Rightarrow> return (-1)
     | t # _ \<Rightarrow> do {
         now \<leftarrow> world_call (gettimeofday ifc);
         case now of
           None \<Rightarrow> do {
             myerrno \<leftarrow> gets (\<lambda>s. sys_errno ifc (world s));
             emit ifc (OnOsError myerrno);
             return (-1) }
         | Some now \<Rightarrow> return (max 0 (ms_between (tm_time t) now)) } }))"
  by (rule state_eqI)
    (simp_all add: openr2_chan_get_time_to_next_event_def Let_def split: list.split)

section \<open>The list of timers\<close>

lemma set_insert_timer [simp]: "set (insert_timer n ts) = insert n (set ts)"
  by (induction ts) auto

lemma length_insert_timer [simp]: "length (insert_timer n ts) = Suc (length ts)"
  by (induction ts) auto

lemma sorted_insert_timer:
  "sorted (map tm_time ts) \<Longrightarrow> sorted (map tm_time (insert_timer n ts))"
  by (induction ts) (auto simp: not_less intro: order.trans less_imp_le)

lemma distinct_insert_timer:
  "distinct (map tm_id (insert_timer n ts)) \<longleftrightarrow> tm_id n \<notin> tm_id ` set ts \<and> distinct (map tm_id ts)"
  by (induction ts) auto

lemma insert_timer_split:
  "\<exists>us vs. ts = us @ vs \<and> insert_timer n ts = us @ n # vs \<and> (\<forall>u \<in> set us. tm_time u \<le> tm_time n)"
proof (induction ts)
  case (Cons t ts)
  then obtain us vs where ih: "ts = us @ vs" "insert_timer n ts = us @ n # vs"
      "\<forall>u \<in> set us. tm_time u \<le> tm_time n" by blast
  show ?case
  proof (cases "tm_time n < tm_time t")
    case True
    then show ?thesis by (intro exI [of _ "[]"] exI [of _ "t # ts"]) simp
  next
    case False
    then show ?thesis using ih by (intro exI [of _ "t # us"] exI [of _ vs]) auto
  qed
qed simp

lemma set_remove_timer_subset: "set (remove_timer i ts) \<subseteq> set ts"
  by (induction ts) auto

lemma remove_timer_filter:
  "distinct (map tm_id ts) \<Longrightarrow> remove_timer i ts = filter (\<lambda>t. tm_id t \<noteq> i) ts"
  by (induction ts) (auto simp: rev_image_eqI intro!: filter_True [symmetric])

lemma length_remove_timer_le: "length (remove_timer i ts) \<le> length ts"
  by (induction ts) auto

section \<open>The invariant of the timers\<close>

definition timers_ok :: "'w chan \<Rightarrow> bool" where
  "timers_ok s \<longleftrightarrow>
     sorted (map tm_time (sched_timers s)) \<and> distinct (map tm_id (sched_timers s)) \<and>
     (\<forall>t \<in> set (sched_timers s). 1 < tm_id t \<and> tm_id t \<le> timer_id s) \<and>
     length (sched_timers s) \<le> OR2_MAX_SCHED_TIMERS \<and> 1 \<le> timer_id s"

text \<open>Which function each slot of \<open>timer_ids\<close> is for.\<close>

definition slot_table :: "(timer_slot \<times> timer_callback) list" where
  "slot_table =
     [(slot_mf_fwd_safety, CB_mf_fwd_safety_timeout_expired),
      (slot_r2_seize, CB_seize_timeout_expired),
      (slot_r2_seize_persist, CB_r2_seize_persist_expired),
      (slot_r2_answer, CB_r2_answer_timeout_expired),
      (slot_r2_metering_pulse, CB_r2_metering_pulse),
      (slot_r2_double_answer, CB_double_answer_handler),
      (slot_mf_back_resume_cycle, CB_mf_back_resume_cycle),
      (slot_mf_back_cycle, CB_mf_back_cycle_timeout_expired),
      (slot_r2_answer_delay, CB_ready_to_answer),
      (slot_cas_persistence_check, CB_persistence_check_expired),
      (slot_dtmf_start_dial, CB_start_dialing_dtmf)]"

definition slots_ok :: "'w chan \<Rightarrow> bool" where
  "slots_ok s \<longleftrightarrow> (\<forall>(slot, cb) \<in> set slot_table. fst slot (timer_ids s) \<le> timer_id s \<and>
     (\<forall>t \<in> set (sched_timers s). tm_id t = fst slot (timer_ids s) \<longrightarrow> tm_callback t = cb))"

lemma slot_table_simps [simp]:
  "(slot_mf_fwd_safety, CB_mf_fwd_safety_timeout_expired) \<in> set slot_table" "slot_mf_fwd_safety \<in> fst ` set slot_table"
  "(slot_r2_seize, CB_seize_timeout_expired) \<in> set slot_table" "slot_r2_seize \<in> fst ` set slot_table"
  "(slot_r2_seize_persist, CB_r2_seize_persist_expired) \<in> set slot_table" "slot_r2_seize_persist \<in> fst ` set slot_table"
  "(slot_r2_answer, CB_r2_answer_timeout_expired) \<in> set slot_table" "slot_r2_answer \<in> fst ` set slot_table"
  "(slot_r2_metering_pulse, CB_r2_metering_pulse) \<in> set slot_table" "slot_r2_metering_pulse \<in> fst ` set slot_table"
  "(slot_r2_double_answer, CB_double_answer_handler) \<in> set slot_table" "slot_r2_double_answer \<in> fst ` set slot_table"
  "(slot_mf_back_resume_cycle, CB_mf_back_resume_cycle) \<in> set slot_table" "slot_mf_back_resume_cycle \<in> fst ` set slot_table"
  "(slot_mf_back_cycle, CB_mf_back_cycle_timeout_expired) \<in> set slot_table" "slot_mf_back_cycle \<in> fst ` set slot_table"
  "(slot_r2_answer_delay, CB_ready_to_answer) \<in> set slot_table" "slot_r2_answer_delay \<in> fst ` set slot_table"
  "(slot_cas_persistence_check, CB_persistence_check_expired) \<in> set slot_table" "slot_cas_persistence_check \<in> fst ` set slot_table"
  "(slot_dtmf_start_dial, CB_start_dialing_dtmf) \<in> set slot_table" "slot_dtmf_start_dial \<in> fst ` set slot_table"
  by (simp_all add: slot_table_def)

lemma timers_ok_fields:
  "timer_id s' = timer_id s \<Longrightarrow> sched_timers s' = sched_timers s \<Longrightarrow> timers_ok s' = timers_ok s"
  by (simp add: timers_ok_def)

lemma slots_ok_fields:
  "timer_id s' = timer_id s \<Longrightarrow> sched_timers s' = sched_timers s \<Longrightarrow> timer_ids s' = timer_ids s \<Longrightarrow>
   slots_ok s' = slots_ok s"
  by (simp add: slots_ok_def)

section \<open>The operations keep it\<close>

text \<open>
  The part of the invariant every operation of the library keeps: timers, and the sizes of the
  arrays.  \<open>chan_interfaces\<close> is the first contract of R2Iface at this invariant; the operations
  are shown to keep it inside the locale, so under callbacks that call back into the library.
\<close>

definition chan_ok :: "'w chan \<Rightarrow> bool" where
  "chan_ok s \<longleftrightarrow> timers_ok s \<and> slots_ok s \<and> length (ani s) = 80 \<and> length (dnis s) = 80 \<and>
     length (cas_signals (r2context s)) = 8"

lemma chan_ok_fields:
  assumes "timer_id s' = timer_id s" "sched_timers s' = sched_timers s" "timer_ids s' = timer_ids s"
    and "length (ani s') = length (ani s)" "length (dnis s') = length (dnis s)"
    and "length (cas_signals (r2context s')) = length (cas_signals (r2context s))"
  shows "chan_ok s' = chan_ok s"
  using assms by (simp add: chan_ok_def timers_ok_def slots_ok_def)

lemma chan_ok_ghosts [simp]:
  "chan_ok (s\<lparr>world := w\<rparr>) = chan_ok s" "chan_ok (s\<lparr>trace := t\<rparr>) = chan_ok s"
  "chan_ok (s\<lparr>mem_fault := b\<rparr>) = chan_ok s" "chan_ok (s\<lparr>lock_depth := d\<rparr>) = chan_ok s"
  "chan_ok (s\<lparr>timers_lock_depth := d\<rparr>) = chan_ok s" "chan_ok (s\<lparr>cas_raw_read := c\<rparr>) = chan_ok s"
  by (rule chan_ok_fields; simp)+

text \<open>An id that, stored in a slot for \<open>cb\<close>, can only cancel a timer for \<open>cb\<close>.\<close>

definition id_for :: "timer_callback \<Rightarrow> int \<Rightarrow> 'w chan \<Rightarrow> bool" where
  "id_for cb i s \<longleftrightarrow> i \<le> timer_id s \<and> (\<forall>t \<in> set (sched_timers s). tm_id t = i \<longrightarrow> tm_callback t = cb)"

lemma id_for_slot:
  assumes "slots_ok s" and "(slot, cb) \<in> set slot_table"
  shows "id_for cb (fst slot (timer_ids s)) s"
  using assms by (auto simp: slots_ok_def id_for_def)

lemma chan_ok_set_timer_id:
  assumes "chan_ok s" and "(slot, cb) \<in> set slot_table" and "id_for cb i s"
  shows "chan_ok (set_timer_id slot i s)"
  using assms(2)
  by (simp add: slot_table_def) (elim disjE; use assms(1,3) in
      \<open>simp add: chan_ok_def timers_ok_def slots_ok_def slot_table_def set_timer_id_def id_for_def\<close>)

lemma chan_ok_insert:
  assumes ok: "chan_ok s" and len: "length (sched_timers s) \<noteq> OR2_MAX_SCHED_TIMERS"
    and s'_def: "s' = s\<lparr>timer_id := timer_id s + 1, sched_timers := insert_timer
      \<lparr> tm_time = d, tm_callback = cb, tm_name = n, tm_id = timer_id s + 1 \<rparr> (sched_timers s)\<rparr>"
  shows "chan_ok s'" and "id_for cb (timer_id s + 1) s'"
proof -
  have fresh: "tm_id t \<noteq> timer_id s + 1" if "t \<in> set (sched_timers s)" for t
    using that ok by (force simp: chan_ok_def timers_ok_def)
  have "timers_ok s'"
    using ok len fresh unfolding chan_ok_def timers_ok_def s'_def
    by (auto simp: sorted_insert_timer distinct_insert_timer intro: le_SucI)
  moreover have "slots_ok s'"
    using ok unfolding chan_ok_def slots_ok_def s'_def by fastforce
  ultimately show "chan_ok s'"
    using ok by (simp add: chan_ok_def s'_def)
  show "id_for cb (timer_id s + 1) s'"
    using fresh by (auto simp: id_for_def s'_def)
qed

lemma chan_ok_remove:
  assumes "chan_ok s"
  shows "chan_ok (s\<lparr>sched_timers := remove_timer i (sched_timers s)\<rparr>)"
proof -
  let ?ts = "remove_timer i (sched_timers s)"
  have sub: "set ?ts \<subseteq> set (sched_timers s)" by (rule set_remove_timer_subset)
  have flt: "?ts = filter (\<lambda>t. tm_id t \<noteq> i) (sched_timers s)"
    using assms by (simp add: remove_timer_filter chan_ok_def timers_ok_def)
  have "timers_ok (s\<lparr>sched_timers := ?ts\<rparr>)"
    using assms sub length_remove_timer_le [of i "sched_timers s"]
    by (auto simp: chan_ok_def timers_ok_def flt sorted_filter distinct_map_filter
        intro: order.trans [OF length_filter_le])
  moreover have "slots_ok (s\<lparr>sched_timers := ?ts\<rparr>)"
    using assms sub by (fastforce simp: chan_ok_def slots_ok_def)
  ultimately show ?thesis using assms by (simp add: chan_ok_def)
qed

lemma core_chan_ok: "core x = core s \<Longrightarrow> chan_ok x = chan_ok s"
  by (drule core_eq, erule ssubst) (rule chan_ok_fields; simp)

lemma id_for_simps [simp]:
  "id_for cb i (s\<lparr>world := w\<rparr>) = id_for cb i s" "id_for cb i (s\<lparr>trace := t\<rparr>) = id_for cb i s"
  "id_for cb i (s\<lparr>timers_lock_depth := d\<rparr>) = id_for cb i s"
  by (simp_all add: id_for_def)

text \<open>
  What an invariant needs for the proofs about the protocol functions: it only looks at the timers,
  the array sizes and the locks, and the operations above keep it.
\<close>

locale op_invariant = channel_invariant ifc I for ifc :: "'w iface" and I :: "'w chan \<Rightarrow> bool" +
  assumes keeps_fields: "\<And>f :: 'w chan \<Rightarrow> 'w chan. (\<And>s. timer_id (f s) = timer_id s) \<Longrightarrow>
      (\<And>s. sched_timers (f s) = sched_timers s) \<Longrightarrow> (\<And>s. timer_ids (f s) = timer_ids s) \<Longrightarrow>
      (\<And>s. length (ani (f s)) = length (ani s)) \<Longrightarrow> (\<And>s. length (dnis (f s)) = length (dnis s)) \<Longrightarrow>
      (\<And>s. length (cas_signals (r2context (f s))) = length (cas_signals (r2context s))) \<Longrightarrow>
      (\<And>s. lock_depth (f s) = lock_depth s) \<Longrightarrow> (\<And>s. timers_lock_depth (f s) = timers_lock_depth s) \<Longrightarrow>
      keeps I (modify f)"
    and keeps_add_timer: "\<And>ms cb n. keeps I (openr2_chan_add_timer ifc ms cb n)"
    and keeps_schedule: "\<And>slot ms cb n. (slot, cb) \<in> set slot_table \<Longrightarrow> keeps I (schedule ifc slot ms cb n)"
    and keeps_cancel_timer: "\<And>slot. slot \<in> fst ` set slot_table \<Longrightarrow> keeps I (openr2_chan_cancel_timer slot)"
    and keeps_cancel_timer_id: "\<And>i. keeps I (cancel_timer_id i)"
    and keeps_cancel_all: "keeps I openr2_chan_cancel_all_timers"
    and keeps_clear_persistence: "keeps I (modify (set_timer_id slot_cas_persistence_check 0))"
begin

lemmas keeps_timers [keeps_intros] = keeps_fields keeps_add_timer keeps_schedule keeps_cancel_timer keeps_cancel_timer_id
  keeps_cancel_all keeps_clear_persistence

end

text \<open>The first invariant: the timers and the arrays.\<close>

locale chan_interfaces = channel_invariant ifc chan_ok for ifc :: "'w iface"
begin

lemma add_timer_locked_post:
  fixes s :: "'w chan"
  assumes "chan_ok s"
  shows "chan_ok (exec (add_timer_locked ifc ms cb n) s)"
    and "val (add_timer_locked ifc ms cb n) s = Inr i \<Longrightarrow> id_for cb i (exec (add_timer_locked ifc ms cb n) s)"
proof -
  obtain r w where g: "gettimeofday ifc (world s) = (r, w)" by force
  have sw: "chan_ok (s\<lparr>world := w\<rparr>)" using assms by simp
  have neg: "id_for cb (-1) x" if "chan_ok x" for x :: "'w chan"
    using that by (auto simp: id_for_def chan_ok_def timers_ok_def)
  have ins: "length (sched_timers s) \<noteq> OR2_MAX_SCHED_TIMERS \<Longrightarrow>
      chan_ok (s\<lparr>world := w, timer_id := timer_id s + 1, sched_timers := insert_timer
        \<lparr> tm_time = timer_deadline tv ms, tm_callback = cb, tm_name = n, tm_id = timer_id s + 1 \<rparr> (sched_timers s)\<rparr>) \<and>
      id_for cb (timer_id s + 1) (s\<lparr>world := w, timer_id := timer_id s + 1, sched_timers := insert_timer
        \<lparr> tm_time = timer_deadline tv ms, tm_callback = cb, tm_name = n, tm_id = timer_id s + 1 \<rparr> (sched_timers s)\<rparr>)" for tv
    using chan_ok_insert [OF sw, of _ "timer_deadline tv ms" cb n] by simp
  show "chan_ok (exec (add_timer_locked ifc ms cb n) s)"
    using sw ins by (cases r) (simp_all add: add_timer_locked_def g)
  show "val (add_timer_locked ifc ms cb n) s = Inr i \<Longrightarrow> id_for cb i (exec (add_timer_locked ifc ms cb n) s)"
    using ins neg [OF assms] by (cases r) (auto simp: add_timer_locked_def g split: if_splits)
qed

lemma add_timer_post:
  fixes s :: "'w chan"
  assumes "chan_ok s"
  shows "chan_ok (exec (openr2_chan_add_timer ifc ms cb n) s)"
    and "id_for cb (val (openr2_chan_add_timer ifc ms cb n) s) (exec (openr2_chan_add_timer ifc ms cb n) s)"
proof -
  let ?s = "s\<lparr>timers_lock_depth := timers_lock_depth s + 1\<rparr>"
  have ok: "chan_ok ?s" using assms by simp
  have neg: "id_for cb (-1) x" if "chan_ok x" for x :: "'w chan"
    using that by (auto simp: id_for_def chan_ok_def timers_ok_def)
  show "chan_ok (exec (openr2_chan_add_timer ifc ms cb n) s)"
    using add_timer_locked_post(1) [OF ok, of ms cb n]
    by (auto simp: add_timer_as_locked Let_def intro!: keepsD [OF keeps_emit] split: sum.split)
  show "id_for cb (val (openr2_chan_add_timer ifc ms cb n) s) (exec (openr2_chan_add_timer ifc ms cb n) s)"
    using add_timer_locked_post [OF ok, of ms cb n]
    by (auto simp: add_timer_as_locked Let_def intro!: neg keepsD [OF keeps_emit] split: sum.split)
qed

lemma cancel_timer_id_post:
  fixes s :: "'w chan"
  assumes "chan_ok s" and "id_for cb i s"
  shows "chan_ok (exec (cancel_timer_id i) s)"
    and "id_for cb (val (cancel_timer_id i) s) (exec (cancel_timer_id i) s)"
proof -
  have pos: "tm_id t \<noteq> 0" if "t \<in> set (remove_timer i (sched_timers s))" for t
    using that assms(1) set_remove_timer_subset [of i "sched_timers s"]
    by (force simp: chan_ok_def timers_ok_def)
  show "chan_ok (exec (cancel_timer_id i) s)"
    using assms(1) chan_ok_remove [of "s\<lparr>timers_lock_depth := timers_lock_depth s + 1\<rparr>" i]
    by (auto simp: cancel_timer_id_as_locked Let_def)
  show "id_for cb (val (cancel_timer_id i) s) (exec (cancel_timer_id i) s)"
    using assms pos by (auto simp: cancel_timer_id_as_locked Let_def id_for_def chan_ok_def timers_ok_def)
qed

lemma chan_ok_schedule:
  assumes "(slot, cb) \<in> set slot_table"
  shows "keeps chan_ok (schedule ifc slot ms cb n)"
  unfolding schedule_def by (rule keepsI) (simp add: chan_ok_set_timer_id [OF _ assms] add_timer_post)

lemma chan_ok_cancel:
  assumes "slot \<in> fst ` set slot_table"
  shows "keeps (chan_ok :: 'w chan \<Rightarrow> bool) (openr2_chan_cancel_timer slot)"
proof (rule keepsI)
  fix s :: "'w chan" assume ok: "chan_ok s"
  obtain cb where cb: "(slot, cb) \<in> set slot_table" using assms by auto
  have "id_for cb (fst slot (timer_ids s)) s"
    using ok by (intro id_for_slot [OF _ cb]) (simp add: chan_ok_def)
  from cancel_timer_id_post [OF ok this] show "chan_ok (exec (openr2_chan_cancel_timer slot) s)"
    by (simp add: openr2_chan_cancel_timer_def chan_ok_set_timer_id [OF _ cb])
qed

end

text \<open>The second invariant: the locks are held as often as before.\<close>

definition locks_at :: "int \<Rightarrow> int \<Rightarrow> 'w chan \<Rightarrow> bool" where
  "locks_at d e s \<longleftrightarrow> lock_depth s = d \<and> timers_lock_depth s = e"

definition balanced :: "('w chan, 'a) state \<Rightarrow> bool" where
  "balanced m \<longleftrightarrow> (\<forall>d e. keeps (locks_at d e) m)"

lemma locks_at_updates [simp]:
  "locks_at d e (s\<lparr>world := w\<rparr>) = locks_at d e s" "locks_at d e (s\<lparr>trace := t\<rparr>) = locks_at d e s"
  "locks_at d e (s\<lparr>mem_fault := b\<rparr>) = locks_at d e s"
  "locks_at d e (s\<lparr>cas_raw_read := c\<rparr>) = locks_at d e s"
  "locks_at d e (set_timer_id slot i s) = locks_at d e s"
  by (simp_all add: locks_at_def set_timer_id_def)

lemma chan_ok_lock: "keeps chan_ok m \<Longrightarrow> keeps chan_ok (with_chan_lock m)"
  by (simp add: keeps_def Let_def)

lemma balanced_locks:
  assumes "balanced m"
  shows "lock_depth (exec m s) = lock_depth s" "timers_lock_depth (exec m s) = timers_lock_depth s"
  using assms by (auto simp: balanced_def keeps_def locks_at_def)

lemma balancedI:
  "(\<And>s. lock_depth (exec m s) = lock_depth s) \<Longrightarrow>
   (\<And>s. timers_lock_depth (exec m s) = timers_lock_depth s) \<Longrightarrow> balanced m"
  by (simp add: balanced_def keeps_def locks_at_def)

lemma balanced_lock: "balanced m \<Longrightarrow> balanced (with_chan_lock m)"
  by (rule balancedI) (simp_all add: Let_def balanced_locks)

lemma balanced_timers_lock: "balanced m \<Longrightarrow> balanced (with_timers_lock m)"
  by (rule balancedI) (simp_all add: Let_def balanced_locks)

lemma locks_add_timer_locked:
  "lock_depth (exec (add_timer_locked ifc ms cb n) s) = lock_depth s"
  "timers_lock_depth (exec (add_timer_locked ifc ms cb n) s) = timers_lock_depth s"
  by (simp_all add: add_timer_locked_def split: option.split)

lemma balanced_cancel_timer_id: "balanced (cancel_timer_id i)"
  by (rule balancedI) (simp_all add: cancel_timer_id_as_locked Let_def)

lemma balanced_cancel_timer: "balanced (openr2_chan_cancel_timer slot)"
  by (rule balancedI)
    (simp_all add: openr2_chan_cancel_timer_def set_timer_id_def balanced_locks [OF balanced_cancel_timer_id])

lemma balanced_cancel_all: "balanced openr2_chan_cancel_all_timers"
  by (rule balancedI) (simp_all add: cancel_all_timers_as_locked Let_def)

text \<open>Interfaces whose functions return with the locks as they found them.\<close>

locale lock_interfaces =
  fixes ifc :: "'w iface"
  assumes balanced_iface: "channel_invariant ifc (locks_at d e)"

section \<open>Both invariants allow the operations\<close>

sublocale chan_interfaces \<subseteq> op_invariant ifc chan_ok
proof unfold_locales
  show "keeps chan_ok (modify f)"
    if "\<And>s. timer_id (f s) = timer_id s" "\<And>s. sched_timers (f s) = sched_timers s"
      "\<And>s. timer_ids (f s) = timer_ids s" "\<And>s. length (ani (f s)) = length (ani s)"
      "\<And>s. length (dnis (f s)) = length (dnis s)"
      "\<And>s. length (cas_signals (r2context (f s))) = length (cas_signals (r2context s))"
    for f :: "'a chan \<Rightarrow> 'a chan"
    using chan_ok_fields [OF that] by (simp add: keeps_def)
  show "keeps chan_ok (openr2_chan_add_timer ifc ms cb n)" for ms cb n
    by (rule keepsI) (rule add_timer_post)
  show "keeps chan_ok (cancel_timer_id i :: ('a chan, int) state)" for i
  proof (rule keepsI)
    fix s :: "'a chan" assume "chan_ok s"
    then show "chan_ok (exec (cancel_timer_id i) s)"
      using chan_ok_remove [of "s\<lparr>timers_lock_depth := timers_lock_depth s + 1\<rparr>" i]
      by (auto simp: cancel_timer_id_as_locked Let_def)
  qed
  show "keeps chan_ok (openr2_chan_cancel_all_timers :: ('a chan, unit) state)"
    by (rule keepsI) (simp add: cancel_all_timers_as_locked Let_def chan_ok_def timers_ok_def
        slots_ok_def slot_table_def no_timer_ids_def)
  show "keeps chan_ok (modify (set_timer_id slot_cas_persistence_check 0) :: ('a chan, unit) state)"
    by (rule keepsI) (auto simp: chan_ok_def timers_ok_def slots_ok_def slot_table_def set_timer_id_def)
qed (simp_all add: chan_ok_schedule chan_ok_cancel)

context lock_interfaces
begin

lemma balanced_emit: "balanced (emit ifc e)"
  unfolding balanced_def using channel_invariant.keeps_emit [OF balanced_iface] by blast

lemma balanced_add_timer: "balanced (openr2_chan_add_timer ifc ms cb n)"
  by (rule balancedI)
    (simp_all add: add_timer_as_locked Let_def locks_add_timer_locked balanced_locks [OF balanced_emit]
      split: sum.split)

lemma balanced_schedule: "balanced (schedule ifc slot ms cb n)"
  by (rule balancedI) (simp_all add: schedule_def set_timer_id_def balanced_locks [OF balanced_add_timer])

end

sublocale lock_interfaces \<subseteq> locks: op_invariant ifc "locks_at d e" for d e
proof (rule op_invariant.intro [OF balanced_iface], rule op_invariant_axioms.intro)
  show "keeps (locks_at d e) (openr2_chan_add_timer ifc ms cb n)" for ms cb n
    using balanced_add_timer by (simp add: balanced_def)
  show "keeps (locks_at d e) (schedule ifc slot ms cb n)" for slot ms cb n
    using balanced_schedule by (simp add: balanced_def)
  show "keeps (locks_at d e) (openr2_chan_cancel_timer slot :: ('a chan, unit) state)" for slot
    by (rule balanced_cancel_timer [unfolded balanced_def, rule_format])
  show "keeps (locks_at d e) (cancel_timer_id i :: ('a chan, int) state)" for i
    by (rule balanced_cancel_timer_id [unfolded balanced_def, rule_format])
  show "keeps (locks_at d e) (openr2_chan_cancel_all_timers :: ('a chan, unit) state)"
    by (rule balanced_cancel_all [unfolded balanced_def, rule_format])
qed (simp_all add: keeps_def locks_at_def set_timer_id_def)

end
