(* ===== verification/R2ProtoBase.thy ===== *)
theory R2ProtoBase
  imports R2Timer
begin

text \<open>
  The base layer of \<open>r2proto.c\<close>: switching the MF engine off, putting a CAS signal on the line,
  bringing the channel to IDLE or BLOCKED, the per-call log file, and the handling of a protocol
  error.  \<open>openr2_log\<close> only formats and prints and has no model.
\<close>

section \<open>MF engine and line signals\<close>

definition turn_off_mf_engine :: "'w iface \<Rightarrow> ('w chan, unit) state" where
  "turn_off_mf_engine ifc = do {
     st \<leftarrow> gets mf_state;
     if st = OR2_MF_OFF_STATE then skip
     else do {
       openr2_chan_cancel_timer slot_mf_back_cycle;
       modify (\<lambda>s. s\<lparr>dialing_dtmf := 0\<rparr>);
       modify (\<lambda>s. s\<lparr>detecting_dtmf := 0\<rparr>);
       rh \<leftarrow> gets mf_read_handle;
       (case mf_read_dispose ifc of
          None \<Rightarrow> skip
        | Some dispose \<Rightarrow> do { world_do (dispose rh); modify (\<lambda>s. s\<lparr>mf_read_handle := 0\<rparr>) });
       wh \<leftarrow> gets mf_write_handle;
       (case mf_write_dispose ifc of
          None \<Rightarrow> skip
        | Some dispose \<Rightarrow> do { world_do (dispose wh); modify (\<lambda>s. s\<lparr>mf_write_handle := 0\<rparr>) });
       modify (\<lambda>s. s\<lparr>mf_state := OR2_MF_OFF_STATE\<rparr>) } }"

definition openr2_proto_destroy :: "'w iface \<Rightarrow> ('w chan, unit) state" where
  "openr2_proto_destroy ifc = turn_off_mf_engine ifc"

definition set_cas_signal :: "'w iface \<Rightarrow> cas_signal \<Rightarrow> ('w chan, int) state" where
  "set_cas_signal ifc signal =
     (if signal = OR2_CAS_INVALID then return (-1)
      else do {
        cas \<leftarrow> gets (\<lambda>s. R2 s signal);
        modify (\<lambda>s. s\<lparr>cas_write := cas\<rparr>);
        modify (\<lambda>s. s\<lparr>cas_tx_signal := signal\<rparr>);
        nonr2 \<leftarrow> gets (\<lambda>s. cas_nonr2_bits (r2context s));
        res \<leftarrow> openr2_io_set_cas ifc (cas OR nonr2);
        return (if res \<noteq> 0 then -1 else 0) })"

definition fix_rx_signal :: "('w chan, unit) state" where
  "fix_rx_signal = do {
     s \<leftarrow> gets id;
     if R2 s OR2_CAS_CLEAR_FORWARD = R2 s OR2_CAS_IDLE \<and> cas_rx_signal s = OR2_CAS_CLEAR_FORWARD
     then modify (\<lambda>s. s\<lparr>cas_rx_signal := OR2_CAS_IDLE\<rparr>)
     else if cas_read s = R2 s OR2_CAS_IDLE
     then modify (\<lambda>s. s\<lparr>cas_rx_signal := OR2_CAS_IDLE\<rparr>)
     else skip }"

section \<open>The log file of a call\<close>

definition close_logfile :: "'w iface \<Rightarrow> ('w chan, unit) state" where
  "close_logfile ifc = do {
     enabled \<leftarrow> gets call_files;
     f \<leftarrow> gets logfile;
     if enabled = 0 \<or> f = 0 then skip
     else do {
       rc \<leftarrow> world_call (sys_fclose ifc f);
       modify (\<lambda>s. s\<lparr>logfile := 0\<rparr>);
       if rc \<noteq> 0 then do {
         myerrno \<leftarrow> gets (\<lambda>s. sys_errno ifc (world s));
         emit ifc (OnOsError myerrno);
         skip }
       else skip } }"

text \<open>The decimal conversions of the \<open>printf\<close> format of the file name.\<close>

fun nat_digits :: "nat \<Rightarrow> string" where
  "nat_digits n = (if n < 10 then [char_of (48 + n)] else nat_digits (n div 10) @ [char_of (48 + n mod 10)])"

definition format_d :: "nat \<Rightarrow> int \<Rightarrow> string" where
  "format_d width i =
     (let ds = nat_digits (nat (abs i)); sign = (if i < 0 then ''-'' else '''')
      in sign @ replicate (width - length sign - length ds) (CHR ''0'') @ ds)"

definition log_name :: "'w chan \<Rightarrow> bool \<Rightarrow> loctime \<Rightarrow> string" where
  "log_name s backward t =
     logdir (r2context s) @ ''/chan-s'' @ format_d 0 (span_id s) @ ''c'' @ format_d 0 (number s) @ ''-'' @
     (if backward then ''backward'' else ''forward'') @ ''-'' @ format_d 4 (call_count s) @ ''-'' @
     format_d 0 (1900 + tm_year t) @ format_d 2 (1 + tm_mon t) @ format_d 2 (tm_mday t) @
     format_d 2 (tm_hour t) @ format_d 2 (tm_min t) @ format_d 2 (tm_sec t) @ ''.call''"

text \<open>
  \<open>logdir\<close> is an array, so the test for a missing log directory never succeeds and the branch that
  falls back to the working directory is dead code.
\<close>

definition open_logfile :: "'w iface \<Rightarrow> bool \<Rightarrow> ('w chan, unit) state" where
  "open_logfile ifc backward = do {
     enabled \<leftarrow> gets call_files;
     if enabled = 0 then skip
     else do {
       currtime \<leftarrow> world_call (sys_time ifc);
       case currtime of
         None \<Rightarrow> do {
           myerrno \<leftarrow> gets (\<lambda>s. sys_errno ifc (world s));
           emit ifc (OnOsError myerrno);
           skip }
       | Some now \<Rightarrow> do {
           loctime \<leftarrow> world_call (sys_localtime ifc now);
           case loctime of
             None \<Rightarrow> skip
           | Some lt \<Rightarrow> do {
               name \<leftarrow> gets (\<lambda>s. log_name s backward lt);
               modify (\<lambda>s. s\<lparr>logname := take 511 name, call_count := call_count s + 1\<rparr>);
               if length name \<ge> 512 then skip
               else do {
                 old \<leftarrow> gets logfile;
                 (if old \<noteq> 0 then do {
                    res \<leftarrow> world_call (sys_fclose ifc old);
                    modify (\<lambda>s. s\<lparr>logfile := 0\<rparr>);
                    if res \<noteq> 0 then do {
                      myerrno \<leftarrow> gets (\<lambda>s. sys_errno ifc (world s));
                      emit ifc (OnOsError myerrno);
                      skip }
                    else skip }
                  else skip);
                 fname \<leftarrow> gets logname;
                 f \<leftarrow> world_call (sys_fopen ifc fname);
                 modify (\<lambda>s. s\<lparr>logfile := f\<rparr>);
                 if f = 0 then do {
                   myerrno \<leftarrow> gets (\<lambda>s. sys_errno ifc (world s));
                   emit ifc (OnOsError myerrno);
                   skip }
                 else do {
                   fname \<leftarrow> gets logname;
                   emit ifc (OnCallLogCreated fname);
                   skip } } } } } }"

section \<open>Back to idle\<close>

text \<open>\<open>buf[0] = 0\<close> for the character arrays of the channel.\<close>

definition terminate_at_0 :: "int list \<Rightarrow> int list" where
  "terminate_at_0 xs = xs[0 := 0]"

definition openr2_proto_init :: "'w iface \<Rightarrow> ('w chan, unit) state" where
  "openr2_proto_init ifc = do {
     openr2_chan_cancel_all_timers;
     modify (\<lambda>s. s\<lparr>read_enabled := 0, ani := terminate_at_0 (ani s), ani_len := 0, ani_ptr := None\<rparr>);
     modify (\<lambda>s. s\<lparr>dnis := terminate_at_0 (dnis s), dnis_len := 0, dnis_index := 0\<rparr>);
     modify (\<lambda>s. s\<lparr>caller_ani_is_restricted := 0, caller_category := OR2_MF_TONE_INVALID\<rparr>);
     modify (\<lambda>s. s\<lparr>r2_state := OR2_IDLE\<rparr>);
     turn_off_mf_engine ifc;
     modify (\<lambda>s. s\<lparr>mf_group := OR2_MF_NO_GROUP, call_state := OR2_CALL_IDLE, direction := OR2_DIR_STOPPED\<rparr>);
     modify (\<lambda>s. s\<lparr>answered := 0, category_sent := 0, mf_write_tone := 0, mf_read_tone := 0\<rparr>);
     modify (\<lambda>s. s\<lparr>logname := [], chan_flags := set_flag (chan_flags s) OR2_CHAN_CALL_DNIS_CALLBACK\<rparr>);
     fix_rx_signal;
     close_logfile ifc }"

definition openr2_proto_set_idle :: "'w iface \<Rightarrow> ('w chan, int) state" where
  "openr2_proto_set_idle ifc = do {
     openr2_proto_init ifc;
     res \<leftarrow> set_cas_signal ifc OR2_CAS_IDLE;
     if res \<noteq> 0 then do {
       modify (\<lambda>s. s\<lparr>r2context := (r2context s)\<lparr>last_error := OR2_LIBERR_CANNOT_SET_IDLE\<rparr>\<rparr>);
       return (-1) }
     else return 0 }"

definition openr2_proto_set_blocked :: "'w iface \<Rightarrow> ('w chan, int) state" where
  "openr2_proto_set_blocked ifc = do {
     openr2_proto_init ifc;
     modify (\<lambda>s. s\<lparr>r2_state := OR2_BLOCKED\<rparr>);
     res \<leftarrow> set_cas_signal ifc OR2_CAS_BLOCK;
     return (if res \<noteq> 0 then -1 else 0) }"

definition handle_protocol_error :: "'w iface \<Rightarrow> protocol_error \<Rightarrow> ('w chan, unit) state" where
  "handle_protocol_error ifc reason = do {
     select_tone ifc 0;
     openr2_proto_set_idle ifc;
     emit ifc (OnProtocolError reason);
     skip }"

section \<open>The invariants are kept\<close>

context op_invariant
begin

lemma keeps_turn_off_mf_engine [keeps_intros]: "keeps I (turn_off_mf_engine ifc)"
  unfolding turn_off_mf_engine_def by (intro keeps_intros; simp)

lemma keeps_set_cas_signal [keeps_intros]: "keeps I (set_cas_signal ifc sig)"
  unfolding set_cas_signal_def by (intro keeps_intros; simp)

lemma keeps_fix_rx_signal [keeps_intros]: "keeps I fix_rx_signal"
  unfolding fix_rx_signal_def by (intro keeps_intros; simp)

lemma keeps_close_logfile [keeps_intros]: "keeps I (close_logfile ifc)"
  unfolding close_logfile_def by (intro keeps_intros; simp)

lemma keeps_open_logfile [keeps_intros]: "keeps I (open_logfile ifc b)"
  unfolding open_logfile_def by (intro keeps_intros; simp)

lemma keeps_proto_init [keeps_intros]: "keeps I (openr2_proto_init ifc)"
  unfolding openr2_proto_init_def terminate_at_0_def by (intro keeps_intros; simp)

lemma keeps_set_idle [keeps_intros]: "keeps I (openr2_proto_set_idle ifc)"
  unfolding openr2_proto_set_idle_def by (intro keeps_intros; simp)

lemma keeps_set_blocked [keeps_intros]: "keeps I (openr2_proto_set_blocked ifc)"
  unfolding openr2_proto_set_blocked_def by (intro keeps_intros; simp)

lemma keeps_handle_protocol_error [keeps_intros]: "keeps I (handle_protocol_error ifc r)"
  unfolding handle_protocol_error_def by (intro keeps_intros; simp)

end

end
