(* ===== verification/R2Mf.thy ===== *)
theory R2Mf
  imports R2ProtoBase
begin

text \<open>
  The MF engine of \<open>r2proto.c\<close>: choosing the tone to transmit, the forward side (sending DNIS, ANI
  and category, handling the requests of groups A, B and C), the backward side (collecting DNIS and
  ANI, requesting the category, changing to group II), the tone-on and tone-off handlers of the
  compelled cycle, and the threshold filter before them.
\<close>

section \<open>Buffers\<close>

text \<open>Writes into the \<open>dnis\<close> and \<open>ani\<close> arrays; past the end they are memory faults.\<close>

definition dnis_poke :: "nat \<Rightarrow> int \<Rightarrow> ('w chan, unit) state" where
  "dnis_poke i v = do {
     size \<leftarrow> gets (\<lambda>s. length (dnis s));
     if i < size then modify (\<lambda>s. s\<lparr>dnis := (dnis s)[i := v]\<rparr>) else memory_fault }"

definition ani_poke :: "nat \<Rightarrow> int \<Rightarrow> ('w chan, unit) state" where
  "ani_poke i v = do {
     size \<leftarrow> gets (\<lambda>s. length (ani s));
     if i < size then modify (\<lambda>s. s\<lparr>ani := (ani s)[i := v]\<rparr>) else memory_fault }"

text \<open>\<open>dnis[dnis_len++] = digit; dnis[dnis_len] = 0\<close>\<close>

definition append_dnis :: "int \<Rightarrow> ('w chan, unit) state" where
  "append_dnis digit = do {
     n \<leftarrow> gets dnis_len;
     dnis_poke n digit;
     modify (\<lambda>s. s\<lparr>dnis_len := n + 1\<rparr>);
     dnis_poke (n + 1) 0 }"

definition append_ani :: "int \<Rightarrow> ('w chan, unit) state" where
  "append_ani digit = do {
     n \<leftarrow> gets ani_len;
     ani_poke n digit;
     modify (\<lambda>s. s\<lparr>ani_len := n + 1\<rparr>);
     ani_poke (n + 1) 0 }"

section \<open>DTMF digits of an incoming call\<close>

text \<open>The loop over the digits the detector reports: until \<open>len\<close> is used up or the string ends.\<close>

fun dtmf_digits_loop :: "'w iface \<Rightarrow> int list \<Rightarrow> int \<Rightarrow> ('w chan, unit) state" where
  "dtmf_digits_loop ifc [] len = skip"
| "dtmf_digits_loop ifc (digit # digits) len =
     (if len = 0 \<or> digit = 0 then skip
      else do {
        append_dnis digit;
        rc \<leftarrow> emit ifc (OnDnisDigitReceived digit);
        (if rc = 0
         then modify (\<lambda>s. s\<lparr>chan_flags := clear_flag (chan_flags s) OR2_CHAN_CALL_DNIS_CALLBACK\<rparr>)
         else skip);
        dtmf_digits_loop ifc digits (len - 1) })"

definition on_dtmf_received :: "'w iface \<Rightarrow> int list option \<Rightarrow> int \<Rightarrow> ('w chan, unit) state" where
  "on_dtmf_received ifc digits len =
     (case digits of
        None \<Rightarrow> skip
      | Some ds \<Rightarrow> do {
          modify (\<lambda>s. s\<lparr>dtmf_silence_samples := 0\<rparr>);
          flags \<leftarrow> gets chan_flags;
          if \<not> test_flag flags OR2_CHAN_CALL_DNIS_CALLBACK then skip
          else dtmf_digits_loop ifc ds len })"

section \<open>Transmitting tones\<close>

definition mf_fwd_safety_timeout_expired :: "'w iface \<Rightarrow> ('w chan, unit) state" where
  "mf_fwd_safety_timeout_expired ifc = handle_protocol_error ifc OR2_FWD_SAFETY_TIMEOUT"

definition prepare_mf_tone :: "'w iface \<Rightarrow> int \<Rightarrow> ('w chan, unit) state" where
  "prepare_mf_tone ifc tone = do {
     wt \<leftarrow> gets mf_write_tone;
     failed \<leftarrow> (if tone = 0 \<and> wt \<noteq> 0
                then do { r \<leftarrow> openr2_io_flush_write_buffers ifc; return (r \<noteq> 0) }
                else return False);
     if failed then skip
     else do {
       wt \<leftarrow> gets mf_write_tone;
       if wt = tone then skip
       else do {
         ret \<leftarrow> select_tone ifc tone;
         if ret = -1 then handle_protocol_error ifc OR2_INTERNAL_ERROR
         else do {
           failed \<leftarrow> (if tone \<noteq> 0
                      then do {
                        dir \<leftarrow> gets direction;
                        (if dir = OR2_DIR_BACKWARD
                         then do {
                           ms \<leftarrow> gets (\<lambda>s. t_mf_back_cycle (TIMER s));
                           schedule ifc slot_mf_back_cycle ms CB_mf_back_cycle_timeout_expired ''mf_back_cycle'' }
                         else skip);
                        r \<leftarrow> openr2_io_flush_write_buffers ifc;
                        return (r \<noteq> 0) }
                      else return False);
           if failed then skip
           else modify (\<lambda>s. s\<lparr>mf_write_tone := tone\<rparr>) } } } }"

definition set_silence :: "'w iface \<Rightarrow> ('w chan, unit) state" where
  "set_silence ifc = do { prepare_mf_tone ifc 0; modify (\<lambda>s. s\<lparr>mf_write_tone := 0\<rparr>) }"

definition mf_back_resume_cycle :: "'w iface \<Rightarrow> ('w chan, unit) state" where
  "mf_back_resume_cycle ifc = set_silence ifc"

text \<open>Waiting for the other end to time out, with the safety timer set.\<close>

definition wait_far_end_timeout :: "'w iface \<Rightarrow> ('w chan, unit) state" where
  "wait_far_end_timeout ifc = do {
     modify (\<lambda>s. s\<lparr>mf_state := OR2_MF_WAITING_TIMEOUT\<rparr>);
     ms \<leftarrow> gets (\<lambda>s. t_mf_fwd_safety (TIMER s));
     schedule ifc slot_mf_fwd_safety ms CB_mf_fwd_safety_timeout_expired ''mf_fwd_safety'' }"

text \<open>The new \<open>dnis_index\<close> for an offset; \<open>None\<close> for the offsets the switch does not accept.\<close>

definition dnis_index_for :: "int \<Rightarrow> int \<Rightarrow> int option" where
  "dnis_index_for offset idx =
     (if offset = -1 \<or> offset = -2 \<or> offset = -3
      then Some (if idx \<ge> abs offset then idx - abs offset else 0)
      else if offset = 0 then Some idx
      else if offset = 1 then Some (idx + 1)
      else None)"

definition dnis_at :: "'w chan \<Rightarrow> int option" where
  "dnis_at s = (if dnis_index s < 0 then None else arr_get (dnis s) (nat (dnis_index s)))"

definition mf_send_dnis :: "'w iface \<Rightarrow> int \<Rightarrow> ('w chan, unit) state" where
  "mf_send_dnis ifc offset = do {
     idx \<leftarrow> gets dnis_index;
     case dnis_index_for offset idx of
       None \<Rightarrow> handle_protocol_error ifc OR2_LIBRARY_BUG
     | Some idx' \<Rightarrow> do {
         modify (\<lambda>s. s\<lparr>dnis_index := idx'\<rparr>);
         digit \<leftarrow> gets dnis_at;
         case digit of
           None \<Rightarrow> memory_fault
         | Some digit \<Rightarrow>
             if digit \<noteq> 0 then do {
               modify (\<lambda>s. s\<lparr>mf_state := OR2_MF_DNIS_TXD\<rparr>);
               prepare_mf_tone ifc digit }
             else do {
               endtone \<leftarrow> gets (\<lambda>s. g1_no_more_dnis_available (GI_TONE s));
               st \<leftarrow> gets mf_state;
               if endtone \<noteq> 0 \<and> st \<noteq> OR2_MF_DNIS_END_TXD \<and> st \<noteq> OR2_MF_WAITING_TIMEOUT then do {
                 modify (\<lambda>s. s\<lparr>mf_state := OR2_MF_DNIS_END_TXD\<rparr>);
                 prepare_mf_tone ifc endtone }
               else wait_far_end_timeout ifc } } }"

section \<open>Reports to the user\<close>

definition report_call_disconnection :: "'w iface \<Rightarrow> disconnect_cause \<Rightarrow> ('w chan, unit) state" where
  "report_call_disconnection ifc cause = do {
     modify (\<lambda>s. s\<lparr>call_state := OR2_CALL_DISCONNECTED\<rparr>);
     emit ifc (OnCallDisconnect cause);
     skip }"

definition report_call_end :: "'w iface \<Rightarrow> ('w chan, unit) state" where
  "report_call_end ifc = do {
     openr2_proto_set_idle ifc;
     emit ifc OnCallEnd;
     skip }"

text \<open>The category a received tone stands for, in the order of the source's tests.\<close>

definition tone2category :: "'w chan \<Rightarrow> category" where
  "tone2category s =
     (let c = caller_category s; g = GII_TONE s in
      if g2_national_subscriber g = c then OR2_CALLING_PARTY_CATEGORY_NATIONAL_SUBSCRIBER
      else if g2_national_priority_subscriber g = c
        then OR2_CALLING_PARTY_CATEGORY_NATIONAL_PRIORITY_SUBSCRIBER
      else if g2_international_subscriber g = c
        then OR2_CALLING_PARTY_CATEGORY_INTERNATIONAL_SUBSCRIBER
      else if g2_international_priority_subscriber g = c
        then OR2_CALLING_PARTY_CATEGORY_INTERNATIONAL_PRIORITY_SUBSCRIBER
      else if g2_collect_call g = c then OR2_CALLING_PARTY_CATEGORY_COLLECT_CALL
      else if g2_test_equipment g = c then OR2_CALLING_PARTY_CATEGORY_TEST_EQUIPMENT
      else if g2_pay_phone g = c then OR2_CALLING_PARTY_CATEGORY_PAY_PHONE
      else OR2_CALLING_PARTY_CATEGORY_UNKNOWN)"

fun category2tone :: "'w chan \<Rightarrow> category \<Rightarrow> int" where
  "category2tone s OR2_CALLING_PARTY_CATEGORY_NATIONAL_SUBSCRIBER = g2_national_subscriber (GII_TONE s)"
| "category2tone s OR2_CALLING_PARTY_CATEGORY_NATIONAL_PRIORITY_SUBSCRIBER =
     g2_national_priority_subscriber (GII_TONE s)"
| "category2tone s OR2_CALLING_PARTY_CATEGORY_INTERNATIONAL_SUBSCRIBER =
     g2_international_subscriber (GII_TONE s)"
| "category2tone s OR2_CALLING_PARTY_CATEGORY_INTERNATIONAL_PRIORITY_SUBSCRIBER =
     g2_international_priority_subscriber (GII_TONE s)"
| "category2tone s OR2_CALLING_PARTY_CATEGORY_COLLECT_CALL = g2_collect_call (GII_TONE s)"
| "category2tone s OR2_CALLING_PARTY_CATEGORY_TEST_EQUIPMENT = g2_test_equipment (GII_TONE s)"
| "category2tone s OR2_CALLING_PARTY_CATEGORY_PAY_PHONE = g2_pay_phone (GII_TONE s)"
| "category2tone s OR2_CALLING_PARTY_CATEGORY_UNKNOWN = g2_national_subscriber (GII_TONE s)"

text \<open>The macro \<open>OFFER_CALL\<close>.\<close>

definition offer_call :: "'w iface \<Rightarrow> ('w chan, unit) state" where
  "offer_call ifc = do {
     cs \<leftarrow> gets call_state;
     if cs \<noteq> OR2_CALL_COLLECTING then handle_protocol_error ifc OR2_INVALID_R2_STATE
     else do {
       modify (\<lambda>s. s\<lparr>call_state := OR2_CALL_OFFERED\<rparr>);
       e \<leftarrow> gets (\<lambda>s. OnCallOffered (c_string (ani s)) (c_string (dnis s)) (tone2category s)
                        (caller_ani_is_restricted s));
       emit ifc e;
       skip } }"

section \<open>The backward side: collecting the number\<close>

text \<open>\<open>STR_LEN(r2chan->dnis)\<close>\<close>

abbreviation (input) "STR_LEN_DNIS \<equiv> 79 :: nat"

definition request_calling_party_category :: "'w iface \<Rightarrow> ('w chan, unit) state" where
  "request_calling_party_category ifc = do {
     ga \<leftarrow> gets (\<lambda>s. GA_TONE s);
     modify (\<lambda>s. s\<lparr>mf_group := if ga_request_category ga \<noteq> 0 then OR2_MF_GA else OR2_MF_GC\<rparr>);
     modify (\<lambda>s. s\<lparr>mf_state := OR2_MF_CATEGORY_RQ_TXD\<rparr>);
     prepare_mf_tone ifc (if ga_request_category ga \<noteq> 0 then ga_request_category ga
                          else ga_request_category_and_change_to_gc ga) }"

definition bypass_change_to_g2 :: "'w iface \<Rightarrow> ('w chan, unit) state" where
  "bypass_change_to_g2 ifc = do {
     accept_tone \<leftarrow> gets (\<lambda>s. ga_address_complete_charge_setup (GA_TONE s));
     modify (\<lambda>s. s\<lparr>mf_state := OR2_MF_ACCEPTED_TXD\<rparr>);
     prepare_mf_tone ifc accept_tone;
     offer_call ifc }"

definition request_change_to_g2 :: "'w iface \<Rightarrow> ('w chan, unit) state" where
  "request_change_to_g2 ifc = do {
     change_tone \<leftarrow> gets (\<lambda>s. if mf_group s = OR2_MF_GC then gc_request_change_to_g2 (GC_TONE s)
                                   else ga_request_change_to_g2 (GA_TONE s));
     modify (\<lambda>s. s\<lparr>mf_group := OR2_MF_GB\<rparr>);
     modify (\<lambda>s. s\<lparr>mf_state := OR2_MF_CHG_GII_TXD\<rparr>);
     prepare_mf_tone ifc change_tone }"

definition try_change_to_g2 :: "'w iface \<Rightarrow> ('w chan, unit) state" where
  "try_change_to_g2 ifc = do {
     imm \<leftarrow> gets (\<lambda>s. immediate_accept (r2context s));
     if imm \<noteq> 0 then bypass_change_to_g2 ifc else request_change_to_g2 ifc }"

definition try_request_calling_party_category :: "'w iface \<Rightarrow> ('w chan, unit) state" where
  "try_request_calling_party_category ifc = do {
     sk \<leftarrow> gets (\<lambda>s. skip_category (r2context s));
     if sk \<noteq> 0 then try_change_to_g2 ifc else request_calling_party_category ifc }"

definition mf_back_cycle_timeout_expired :: "'w iface \<Rightarrow> ('w chan, unit) state" where
  "mf_back_cycle_timeout_expired ifc = do {
     s \<leftarrow> gets id;
     if g1_no_more_dnis_available (GI_TONE s) = OR2_MF_TONE_INVALID \<and> mf_group s = OR2_MF_GA \<and>
        (mf_state s = OR2_MF_DNIS_RQ_TXD \<or> mf_state s = OR2_MF_ANI_RQ_TXD)
     then do {
       schedule ifc slot_mf_back_resume_cycle (t_mf_back_resume_cycle (TIMER s)) CB_mf_back_resume_cycle
         ''mf_back_resume_cycle'';
       ctx \<leftarrow> gets r2context;
       if \<not> test_flag (ctx_flags ctx) OR2_ANI_CAN_COME_FIRST \<and> get_ani_first ctx = 0
       then try_request_calling_party_category ifc
       else try_change_to_g2 ifc }
     else handle_protocol_error ifc OR2_BACK_MF_TIMEOUT }"

definition request_next_dnis_digit :: "'w iface \<Rightarrow> ('w chan, unit) state" where
  "request_next_dnis_digit ifc = do {
     request_tone \<leftarrow> gets (\<lambda>s. if mf_group s = OR2_MF_GC
                                    then gc_request_next_dnis_digit_and_change_to_ga (GC_TONE s)
                                    else ga_request_next_dnis_digit (GA_TONE s));
     modify (\<lambda>s. s\<lparr>mf_group := OR2_MF_GA\<rparr>);
     modify (\<lambda>s. s\<lparr>mf_state := OR2_MF_DNIS_RQ_TXD\<rparr>);
     prepare_mf_tone ifc request_tone }"

definition mf_receive_expected_dnis :: "'w iface \<Rightarrow> int \<Rightarrow> ('w chan, unit) state" where
  "mf_receive_expected_dnis ifc tone =
     (if OR2_MF_TONE_10 \<le> tone \<and> tone \<le> OR2_MF_TONE_9 then do {
        n \<leftarrow> gets dnis_len;
        (if n = STR_LEN_DNIS then skip else append_dnis tone);
        rc \<leftarrow> emit ifc (OnDnisDigitReceived tone);
        s \<leftarrow> gets id;
        if DNIS_COMPLETE s \<or> rc = 0 then
          (if dnis_len s = 1 \<or> get_ani_first (r2context s) = 0
           then try_request_calling_party_category ifc
           else try_change_to_g2 ifc)
        else if dnis_len s = 1 \<and> get_ani_first (r2context s) \<noteq> 0
        then try_request_calling_party_category ifc
        else request_next_dnis_digit ifc }
      else do {
        s \<leftarrow> gets id;
        if g1_no_more_dnis_available (GI_TONE s) = tone then
          (if dnis_len s = 0 \<or> get_ani_first (r2context s) = 0
           then try_request_calling_party_category ifc
           else if immediate_accept (r2context s) \<noteq> 0 then bypass_change_to_g2 ifc
           else request_change_to_g2 ifc)
        else handle_protocol_error ifc OR2_INVALID_MF_TONE })"

text \<open>What follows the last ANI digit, or the signal that there is none.\<close>

definition ani_done :: "'w iface \<Rightarrow> ('w chan, unit) state" where
  "ani_done ifc = do {
     s \<leftarrow> gets id;
     if get_ani_first (r2context s) = 0 \<or> DNIS_COMPLETE s then
       (if immediate_accept (r2context s) \<noteq> 0 then bypass_change_to_g2 ifc
        else request_change_to_g2 ifc)
     else request_next_dnis_digit ifc }"

definition mf_receive_expected_ani :: "'w iface \<Rightarrow> int \<Rightarrow> ('w chan, unit) state" where
  "mf_receive_expected_ani ifc tone = do {
     next_ani_request_tone \<leftarrow> gets (\<lambda>s.
       if gc_request_next_ani_digit (GC_TONE s) \<noteq> 0 then gc_request_next_ani_digit (GC_TONE s)
       else ga_request_next_ani_digit (GA_TONE s));
     if tone = 0 \<or> (OR2_MF_TONE_10 \<le> tone \<and> tone \<le> OR2_MF_TONE_9) then do {
       (if tone \<noteq> 0 then do { append_ani tone; emit ifc (OnAniDigitReceived tone); skip } else skip);
       s \<leftarrow> gets id;
       if tone = 0 \<or> (\<not> test_flag (ctx_flags (r2context s)) OR2_FORCE_USE_MAX_ANI \<and>
                      to_uint32 (max_ani (r2context s)) > ani_len s)
       then do {
         modify (\<lambda>s. s\<lparr>mf_state := OR2_MF_ANI_RQ_TXD\<rparr>);
         prepare_mf_tone ifc next_ani_request_tone }
       else ani_done ifc }
     else do {
       g1 \<leftarrow> gets (\<lambda>s. GI_TONE s);
       if tone = g1_no_more_ani_available g1 \<or> tone = g1_caller_ani_is_restricted g1 then do {
         (if tone = g1_caller_ani_is_restricted g1
          then modify (\<lambda>s. s\<lparr>caller_ani_is_restricted := 1\<rparr>) else skip);
         ani_done ifc }
       else handle_protocol_error ifc OR2_INVALID_MF_TONE } }"

definition handle_forward_mf_tone :: "'w iface \<Rightarrow> int \<Rightarrow> ('w chan, unit) state" where
  "handle_forward_mf_tone ifc tone = do {
     openr2_chan_cancel_timer slot_mf_back_cycle;
     s \<leftarrow> gets id;
     (case mf_group s of
        OR2_MF_BACK_INIT \<Rightarrow>
          (case mf_state s of
             OR2_MF_SEIZE_ACK_TXD \<Rightarrow>
               if get_ani_first (r2context s) \<noteq> 0 \<and> test_flag (ctx_flags (r2context s)) OR2_ANI_CAN_COME_FIRST
               then mf_receive_expected_ani ifc tone
               else mf_receive_expected_dnis ifc tone
           | _ \<Rightarrow> handle_protocol_error ifc OR2_INVALID_MF_STATE)
      | OR2_MF_GA \<Rightarrow>
          (case mf_state s of
             OR2_MF_DNIS_RQ_TXD \<Rightarrow> mf_receive_expected_dnis ifc tone
           | OR2_MF_CATEGORY_RQ_TXD \<Rightarrow> do {
               modify (\<lambda>s. s\<lparr>caller_category := tone\<rparr>);
               if max_ani (r2context s) > 0 then mf_receive_expected_ani ifc 0
               else if immediate_accept (r2context s) \<noteq> 0 then bypass_change_to_g2 ifc
               else request_change_to_g2 ifc }
           | OR2_MF_ANI_RQ_TXD \<Rightarrow> mf_receive_expected_ani ifc tone
           | _ \<Rightarrow> handle_protocol_error ifc OR2_INVALID_MF_STATE)
      | OR2_MF_GB \<Rightarrow>
          (case mf_state s of
             OR2_MF_CHG_GII_TXD \<Rightarrow> offer_call ifc
           | _ \<Rightarrow> handle_protocol_error ifc OR2_INVALID_MF_STATE)
      | OR2_MF_GC \<Rightarrow>
          (case mf_state s of
             OR2_MF_CATEGORY_RQ_TXD \<Rightarrow> do {
               modify (\<lambda>s. s\<lparr>caller_category := tone\<rparr>);
               if max_ani (r2context s) > 0 then mf_receive_expected_ani ifc 0
               else request_change_to_g2 ifc }
           | OR2_MF_ANI_RQ_TXD \<Rightarrow> mf_receive_expected_ani ifc tone
           | _ \<Rightarrow> handle_protocol_error ifc OR2_INVALID_MF_STATE)
      | _ \<Rightarrow> handle_protocol_error ifc OR2_INVALID_MF_GROUP) }"

definition ready_to_answer :: "'w iface \<Rightarrow> ('w chan, unit) state" where
  "ready_to_answer ifc = do { emit ifc (OnCallAccepted OR2_CALL_UNKNOWN); skip }"

text \<open>The end of the MF dance on the backward side, when our accept tone was heard.\<close>

definition accept_heard :: "'w iface \<Rightarrow> ('w chan, unit) state" where
  "accept_heard ifc = do {
     turn_off_mf_engine ifc;
     modify (\<lambda>s. s\<lparr>call_state := OR2_CALL_ACCEPTED\<rparr>);
     ms \<leftarrow> gets (\<lambda>s. t_r2_answer_delay (TIMER s));
     schedule ifc slot_r2_answer_delay ms CB_ready_to_answer ''r2_answer_delay'' }"

definition handle_forward_mf_silence :: "'w iface \<Rightarrow> ('w chan, unit) state" where
  "handle_forward_mf_silence ifc = do {
     set_silence ifc;
     s \<leftarrow> gets id;
     (case mf_group s of
        OR2_MF_GA \<Rightarrow>
          (case mf_state s of
             OR2_MF_ACCEPTED_TXD \<Rightarrow> accept_heard ifc
           | _ \<Rightarrow> skip)
      | OR2_MF_GB \<Rightarrow>
          (case mf_state s of
             OR2_MF_CHG_GII_TXD \<Rightarrow> skip
           | OR2_MF_ACCEPTED_TXD \<Rightarrow> accept_heard ifc
           | OR2_MF_DISCONNECT_TXD \<Rightarrow> openr2_chan_cancel_all_timers
           | _ \<Rightarrow> handle_protocol_error ifc OR2_INVALID_MF_STATE)
      | OR2_MF_GC \<Rightarrow> skip
      | _ \<Rightarrow> handle_protocol_error ifc OR2_INVALID_MF_GROUP) }"

section \<open>The invariants are kept\<close>

context op_invariant
begin

lemma keeps_dnis_poke [keeps_intros]: "keeps I (dnis_poke i v)"
  unfolding dnis_poke_def by (intro keeps_intros; simp)

lemma keeps_ani_poke [keeps_intros]: "keeps I (ani_poke i v)"
  unfolding ani_poke_def by (intro keeps_intros; simp)

lemma keeps_append_dnis [keeps_intros]: "keeps I (append_dnis d)"
  unfolding append_dnis_def by (intro keeps_intros; simp)

lemma keeps_append_ani [keeps_intros]: "keeps I (append_ani d)"
  unfolding append_ani_def by (intro keeps_intros; simp)

lemma keeps_dtmf_digits_loop [keeps_intros]: "keeps I (dtmf_digits_loop ifc ds n)"
proof (induction ds arbitrary: n)
  case Nil
  show ?case by (simp add: keeps_skip)
next
  case (Cons d ds)
  show ?case unfolding dtmf_digits_loop.simps by (intro keeps_intros Cons.IH; simp)
qed

lemma keeps_on_dtmf_received [keeps_intros]: "keeps I (on_dtmf_received ifc d n)"
  unfolding on_dtmf_received_def by (intro keeps_intros; simp)

lemma keeps_mf_fwd_safety_timeout_expired [keeps_intros]: "keeps I (mf_fwd_safety_timeout_expired ifc)"
  unfolding mf_fwd_safety_timeout_expired_def by (intro keeps_intros; simp)

lemma keeps_prepare_mf_tone [keeps_intros]: "keeps I (prepare_mf_tone ifc t)"
  unfolding prepare_mf_tone_def by (intro keeps_intros; simp)

lemma keeps_set_silence [keeps_intros]: "keeps I (set_silence ifc)"
  unfolding set_silence_def by (intro keeps_intros; simp)

lemma keeps_mf_back_resume_cycle [keeps_intros]: "keeps I (mf_back_resume_cycle ifc)"
  unfolding mf_back_resume_cycle_def by (intro keeps_intros; simp)

lemma keeps_wait_far_end_timeout [keeps_intros]: "keeps I (wait_far_end_timeout ifc)"
  unfolding wait_far_end_timeout_def by (intro keeps_intros; simp)

lemma keeps_mf_send_dnis [keeps_intros]: "keeps I (mf_send_dnis ifc i)"
  unfolding mf_send_dnis_def by (intro keeps_intros; simp)

lemma keeps_report_call_disconnection [keeps_intros]: "keeps I (report_call_disconnection ifc c)"
  unfolding report_call_disconnection_def by (intro keeps_intros; simp)

lemma keeps_report_call_end [keeps_intros]: "keeps I (report_call_end ifc)"
  unfolding report_call_end_def by (intro keeps_intros; simp)

lemma keeps_offer_call [keeps_intros]: "keeps I (offer_call ifc)"
  unfolding offer_call_def by (intro keeps_intros; simp)

lemma keeps_request_calling_party_category [keeps_intros]: "keeps I (request_calling_party_category ifc)"
  unfolding request_calling_party_category_def by (intro keeps_intros; simp)

lemma keeps_bypass_change_to_g2 [keeps_intros]: "keeps I (bypass_change_to_g2 ifc)"
  unfolding bypass_change_to_g2_def by (intro keeps_intros; simp)

lemma keeps_request_change_to_g2 [keeps_intros]: "keeps I (request_change_to_g2 ifc)"
  unfolding request_change_to_g2_def by (intro keeps_intros; simp)

lemma keeps_try_change_to_g2 [keeps_intros]: "keeps I (try_change_to_g2 ifc)"
  unfolding try_change_to_g2_def by (intro keeps_intros; simp)

lemma keeps_try_request_calling_party_category [keeps_intros]: "keeps I (try_request_calling_party_category ifc)"
  unfolding try_request_calling_party_category_def by (intro keeps_intros; simp)

lemma keeps_request_next_dnis_digit [keeps_intros]: "keeps I (request_next_dnis_digit ifc)"
  unfolding request_next_dnis_digit_def by (intro keeps_intros; simp)

lemma keeps_mf_back_cycle_timeout_expired [keeps_intros]: "keeps I (mf_back_cycle_timeout_expired ifc)"
  unfolding mf_back_cycle_timeout_expired_def by (intro keeps_intros; simp)

lemma keeps_mf_receive_expected_dnis [keeps_intros]: "keeps I (mf_receive_expected_dnis ifc t)"
  unfolding mf_receive_expected_dnis_def by (intro keeps_intros; simp)

lemma keeps_ani_done [keeps_intros]: "keeps I (ani_done ifc)"
  unfolding ani_done_def by (intro keeps_intros; simp)

lemma keeps_mf_receive_expected_ani [keeps_intros]: "keeps I (mf_receive_expected_ani ifc t)"
  unfolding mf_receive_expected_ani_def by (intro keeps_intros; simp)

lemma keeps_ready_to_answer [keeps_intros]: "keeps I (ready_to_answer ifc)"
  unfolding ready_to_answer_def by (intro keeps_intros; simp)

lemma keeps_accept_heard [keeps_intros]: "keeps I (accept_heard ifc)"
  unfolding accept_heard_def by (intro keeps_intros; simp)

lemma keeps_handle_forward_mf_tone [keeps_intros]: "keeps I (handle_forward_mf_tone ifc t)"
  unfolding handle_forward_mf_tone_def by (intro keeps_intros; simp)

lemma keeps_handle_forward_mf_silence [keeps_intros]: "keeps I (handle_forward_mf_silence ifc)"
  unfolding handle_forward_mf_silence_def by (intro keeps_intros; simp)

end

end
