(* ===== verification/R2MfFwd.thy ===== *)
theory R2MfFwd
  imports R2Mf
begin

text \<open>
  The forward side of the MF engine and the entry points of both sides: sending category and ANI,
  serving the requests of groups A, B and C, accepting, the tone threshold, and the dispatch on a
  detected tone or on silence.
\<close>

section \<open>The forward side: serving requests\<close>

definition handle_backward_mf_tone :: "'w iface \<Rightarrow> int \<Rightarrow> ('w chan, unit) state" where
  "handle_backward_mf_tone ifc tone = do {
     openr2_chan_cancel_timer slot_mf_fwd_safety;
     set_silence ifc }"

definition mf_send_category :: "'w iface \<Rightarrow> ('w chan, unit) state" where
  "mf_send_category ifc = do {
     modify (\<lambda>s. s\<lparr>mf_state := OR2_MF_CATEGORY_TXD\<rparr>);
     modify (\<lambda>s. s\<lparr>category_sent := 1\<rparr>);
     c \<leftarrow> gets caller_category;
     prepare_mf_tone ifc c }"

text \<open>
  \<open>*r2chan->ani_ptr\<close>: \<open>None\<close> when the pointer is NULL or past the end of the array.
\<close>

definition ani_at_ptr :: "'w chan \<Rightarrow> int option" where
  "ani_at_ptr s = (case ani_ptr s of None \<Rightarrow> None | Some p \<Rightarrow> arr_get (ani s) p)"

definition send_ani_end :: "'w iface \<Rightarrow> int \<Rightarrow> ('w chan, unit) state" where
  "send_ani_end ifc tone = do {
     modify (\<lambda>s. s\<lparr>mf_state := OR2_MF_ANI_END_TXD\<rparr>);
     prepare_mf_tone ifc tone }"

definition mf_send_ani :: "'w iface \<Rightarrow> ('w chan, unit) state" where
  "mf_send_ani ifc = do {
     s \<leftarrow> gets id;
     if mf_state s = OR2_MF_ANI_END_TXD \<and>
        (ga_request_next_dnis_digit (GA_TONE s) = ga_request_next_ani_digit (GA_TONE s) \<or>
         ga_request_next_dnis_digit (GA_TONE s) = gc_request_next_ani_digit (GC_TONE s))
     then do {
       modify (\<lambda>s. s\<lparr>mf_group := OR2_MF_GI\<rparr>);
       mf_send_dnis ifc 1 }
     else if g1_caller_ani_is_restricted (GI_TONE s) \<noteq> 0 \<and> ani_ptr s = None
     then send_ani_end ifc (g1_caller_ani_is_restricted (GI_TONE s))
     else (case ani_at_ptr s of
             None \<Rightarrow> memory_fault
           | Some digit \<Rightarrow>
               if digit \<noteq> 0 then do {
                 modify (\<lambda>s. s\<lparr>mf_state := OR2_MF_ANI_TXD\<rparr>);
                 prepare_mf_tone ifc digit;
                 modify (\<lambda>s. s\<lparr>ani_ptr := map_option Suc (ani_ptr s)\<rparr>) }
               else if g1_no_more_ani_available (GI_TONE s) \<noteq> 0 \<and> caller_ani_is_restricted s = 0
               then send_ani_end ifc (g1_no_more_ani_available (GI_TONE s))
               else if g1_caller_ani_is_restricted (GI_TONE s) \<noteq> 0 \<and> caller_ani_is_restricted s \<noteq> 0
               then send_ani_end ifc (g1_caller_ani_is_restricted (GI_TONE s))
               else wait_far_end_timeout ifc) }"

definition r2_answer_timeout_expired :: "'w iface \<Rightarrow> ('w chan, unit) state" where
  "r2_answer_timeout_expired ifc = report_call_disconnection ifc OR2_CAUSE_NO_ANSWER"

text \<open>The second and third tests of the source look at the configured tone only, not at \<open>tone\<close>.\<close>

definition get_mode_from_tone :: "'w chan \<Rightarrow> int \<Rightarrow> call_mode" where
  "get_mode_from_tone s tone =
     (if tone = gb_accept_call_with_charge (GB_TONE s) then OR2_CALL_WITH_CHARGE
      else if gb_accept_call_no_charge (GB_TONE s) \<noteq> 0 then OR2_CALL_NO_CHARGE
      else if gb_special_info_tone (GB_TONE s) \<noteq> 0 then OR2_CALL_SPECIAL
      else OR2_CALL_UNKNOWN)"

definition handle_accept_tone :: "'w iface \<Rightarrow> call_mode \<Rightarrow> ('w chan, unit) state" where
  "handle_accept_tone ifc mode = do {
     st \<leftarrow> gets r2_state;
     if st = OR2_ANSWER_RXD_MF_PENDING then do {
       previous_mf_state \<leftarrow> gets mf_state;
       previous_call_state \<leftarrow> gets call_state;
       modify (\<lambda>s. s\<lparr>r2_state := OR2_ACCEPT_RXD\<rparr>);
       emit ifc (OnCallAccepted mode);
       s \<leftarrow> gets id;
       if r2_state s \<noteq> OR2_ACCEPT_RXD \<or> mf_state s \<noteq> previous_mf_state \<or> call_state s \<noteq> previous_call_state
       then skip
       else do {
         openr2_chan_cancel_timer slot_r2_answer;
         modify (\<lambda>s. s\<lparr>r2_state := OR2_ANSWER_RXD\<rparr>);
         modify (\<lambda>s. s\<lparr>call_state := OR2_CALL_ANSWERED\<rparr>);
         turn_off_mf_engine ifc;
         modify (\<lambda>s. s\<lparr>answered := 1\<rparr>);
         emit ifc OnCallAnswered;
         skip } }
     else do {
       modify (\<lambda>s. s\<lparr>r2_state := OR2_ACCEPT_RXD\<rparr>);
       ms \<leftarrow> gets (\<lambda>s. t_r2_answer (TIMER s));
       schedule ifc slot_r2_answer ms CB_r2_answer_timeout_expired ''r2_answer'';
       emit ifc (OnCallAccepted mode);
       skip } }"

definition handle_dnis_request :: "'w iface \<Rightarrow> int \<Rightarrow> ('w chan, bool) state" where
  "handle_dnis_request ifc tone = do {
     ga \<leftarrow> gets (\<lambda>s. GA_TONE s);
     if tone = ga_request_next_dnis_digit ga then do { mf_send_dnis ifc 1; return True }
     else if tone = ga_request_dnis_minus_1 ga then do { mf_send_dnis ifc (-1); return True }
     else if tone = ga_request_dnis_minus_2 ga then do { mf_send_dnis ifc (-2); return True }
     else if tone = ga_request_dnis_minus_3 ga then do { mf_send_dnis ifc (-3); return True }
     else if tone = ga_request_all_dnis_again ga then do {
       modify (\<lambda>s. s\<lparr>dnis_index := 0\<rparr>);
       mf_send_dnis ifc 0;
       return True }
     else return False }"

text \<open>The far end refused the call with a tone: wait for IDLE and tell the user the cause.\<close>

definition refused :: "'w iface \<Rightarrow> disconnect_cause \<Rightarrow> ('w chan, unit) state" where
  "refused ifc cause = do {
     modify (\<lambda>s. s\<lparr>r2_state := OR2_CLEAR_BACK_TONE_RXD\<rparr>);
     report_call_disconnection ifc cause }"

definition handle_group_a_request :: "'w iface \<Rightarrow> int \<Rightarrow> ('w chan, unit) state" where
  "handle_group_a_request ifc tone = do {
     ga \<leftarrow> gets (\<lambda>s. GA_TONE s);
     let request_category_tone = (if ga_request_category ga \<noteq> 0 then ga_request_category ga
                                  else ga_request_category_and_change_to_gc ga);
     handled \<leftarrow> handle_dnis_request ifc tone;
     if handled then skip
     else do {
       sent \<leftarrow> gets category_sent;
       if sent \<noteq> 0 \<and> tone = ga_request_next_ani_digit ga then mf_send_ani ifc
       else if tone = request_category_tone then do {
         (if request_category_tone = ga_request_category_and_change_to_gc ga
          then modify (\<lambda>s. s\<lparr>mf_group := OR2_MF_GIII\<rparr>) else skip);
         mf_send_category ifc }
       else if tone = ga_request_change_to_g2 ga then do {
         modify (\<lambda>s. s\<lparr>mf_group := OR2_MF_GII\<rparr>);
         mf_send_category ifc }
       else if tone = ga_address_complete_charge_setup ga then handle_accept_tone ifc OR2_CALL_WITH_CHARGE
       else if tone = ga_network_congestion ga then refused ifc OR2_CAUSE_NETWORK_CONGESTION
       else handle_protocol_error ifc OR2_INVALID_MF_TONE } }"

definition handle_group_c_request :: "'w iface \<Rightarrow> int \<Rightarrow> ('w chan, unit) state" where
  "handle_group_c_request ifc tone = do {
     gc \<leftarrow> gets (\<lambda>s. GC_TONE s);
     if tone = gc_request_next_ani_digit gc then mf_send_ani ifc
     else if tone = gc_request_change_to_g2 gc then do {
       modify (\<lambda>s. s\<lparr>mf_group := OR2_MF_GII\<rparr>);
       mf_send_category ifc }
     else if tone = gc_request_next_dnis_digit_and_change_to_ga gc then do {
       modify (\<lambda>s. s\<lparr>mf_group := OR2_MF_GI\<rparr>);
       mf_send_dnis ifc 1 }
     else if tone = gc_network_congestion gc then refused ifc OR2_CAUSE_NETWORK_CONGESTION
     else handle_protocol_error ifc OR2_INVALID_MF_TONE }"

definition handle_group_b_request :: "'w iface \<Rightarrow> int \<Rightarrow> ('w chan, unit) state" where
  "handle_group_b_request ifc tone = do {
     gb \<leftarrow> gets (\<lambda>s. GB_TONE s);
     if tone = gb_accept_call_with_charge gb \<or> tone = gb_accept_call_no_charge gb \<or>
        tone = gb_special_info_tone gb
     then do {
       mode \<leftarrow> gets (\<lambda>s. get_mode_from_tone s tone);
       handle_accept_tone ifc mode }
     else if tone = gb_busy_number gb then refused ifc OR2_CAUSE_BUSY_NUMBER
     else if tone = gb_network_congestion gb then refused ifc OR2_CAUSE_NETWORK_CONGESTION
     else if tone = gb_unallocated_number gb then refused ifc OR2_CAUSE_UNALLOCATED_NUMBER
     else if tone = gb_number_changed gb then refused ifc OR2_CAUSE_NUMBER_CHANGED
     else if tone = gb_line_out_of_order gb then refused ifc OR2_CAUSE_OUT_OF_ORDER
     else handle_protocol_error ifc OR2_INVALID_MF_TONE }"

definition handle_backward_mf_silence :: "'w iface \<Rightarrow> int \<Rightarrow> ('w chan, unit) state" where
  "handle_backward_mf_silence ifc tone = do {
     g \<leftarrow> gets mf_group;
     (case g of
        OR2_MF_GI \<Rightarrow> handle_group_a_request ifc tone
      | OR2_MF_GII \<Rightarrow> handle_group_b_request ifc tone
      | OR2_MF_GIII \<Rightarrow> handle_group_c_request ifc tone
      | _ \<Rightarrow> handle_protocol_error ifc OR2_INVALID_MF_GROUP) }"

section \<open>The threshold and the entry points\<close>

definition timediff :: "timeval \<Rightarrow> timeval \<Rightarrow> int" where
  "timediff t1 t2 =
     (if tv_sec t1 = tv_sec t2 then (tv_usec t1 - tv_usec t2) sdiv 1000
      else (if tv_usec t1 \<noteq> 0 then tv_usec t1 sdiv 1000 else 0) +
           (if tv_usec t2 \<noteq> 0 then 1000 - tv_usec t2 sdiv 1000 else 0))"

definition check_threshold :: "'w iface \<Rightarrow> int \<Rightarrow> ('w chan, int) state" where
  "check_threshold ifc tone = do {
     threshold \<leftarrow> gets (\<lambda>s. mf_threshold (r2context s));
     if threshold = 0 then return 0
     else do {
       last_tone \<leftarrow> gets mf_threshold_tone;
       failed \<leftarrow> (if last_tone \<noteq> tone then do {
                    t \<leftarrow> world_call (gettimeofday ifc);
                    (case t of
                       None \<Rightarrow> return True
                     | Some t \<Rightarrow> do {
                         modify (\<lambda>s. s\<lparr>mf_threshold_time := t\<rparr>);
                         modify (\<lambda>s. s\<lparr>mf_threshold_tone := tone\<rparr>);
                         return False }) }
                  else return False);
       if failed then return (-1)
       else do {
         currtime \<leftarrow> world_call (gettimeofday ifc);
         (case currtime of
            None \<Rightarrow> return (-1)
          | Some now \<Rightarrow> do {
              start \<leftarrow> gets mf_threshold_time;
              threshold \<leftarrow> gets (\<lambda>s. mf_threshold (r2context s));
              return (if timediff now start < threshold then -1 else 0) }) } } }"

definition openr2_proto_handle_mf_tone :: "'w iface \<Rightarrow> int \<Rightarrow> ('w chan, unit) state" where
  "openr2_proto_handle_mf_tone ifc tone = do {
     read_tone \<leftarrow> gets mf_read_tone;
     if tone \<noteq> 0 then
       (if read_tone = tone then skip
        else if read_tone \<noteq> 0 then handle_protocol_error ifc OR2_BROKEN_MF_SEQUENCE
        else do {
          r \<leftarrow> check_threshold ifc tone;
          if r \<noteq> 0 then skip
          else do {
            modify (\<lambda>s. s\<lparr>mf_read_tone := tone\<rparr>);
            dir \<leftarrow> gets direction;
            (case dir of
               OR2_DIR_BACKWARD \<Rightarrow> handle_forward_mf_tone ifc tone
             | OR2_DIR_FORWARD \<Rightarrow> handle_backward_mf_tone ifc tone
             | OR2_DIR_STOPPED \<Rightarrow> handle_protocol_error ifc OR2_LIBRARY_BUG) } })
     else if read_tone = 0 then skip
     else do {
       r \<leftarrow> check_threshold ifc 0;
       if r \<noteq> 0 then skip
       else do {
         dir \<leftarrow> gets direction;
         (case dir of
            OR2_DIR_BACKWARD \<Rightarrow> handle_forward_mf_silence ifc
          | OR2_DIR_FORWARD \<Rightarrow> do {
              heard \<leftarrow> gets mf_read_tone;
              handle_backward_mf_silence ifc heard }
          | OR2_DIR_STOPPED \<Rightarrow> handle_protocol_error ifc OR2_LIBRARY_BUG);
         modify (\<lambda>s. s\<lparr>mf_read_tone := 0\<rparr>) } } }"

definition openr2_proto_handle_dtmf_end :: "'w iface \<Rightarrow> ('w chan, unit) state" where
  "openr2_proto_handle_dtmf_end ifc = do {
     turn_off_mf_engine ifc;
     dir \<leftarrow> gets direction;
     if dir = OR2_DIR_FORWARD then do { emit ifc (OnCallAccepted OR2_CALL_UNKNOWN); skip }
     else do {
       modify (\<lambda>s. s\<lparr>caller_category := g2_national_subscriber (GII_TONE s)\<rparr>);
       offer_call ifc } }"

section \<open>The invariants are kept\<close>

context op_invariant
begin

lemma keeps_handle_backward_mf_tone [keeps_intros]: "keeps I (handle_backward_mf_tone ifc t)"
  unfolding handle_backward_mf_tone_def by (intro keeps_intros; simp)

lemma keeps_mf_send_category [keeps_intros]: "keeps I (mf_send_category ifc)"
  unfolding mf_send_category_def by (intro keeps_intros; simp)

lemma keeps_send_ani_end [keeps_intros]: "keeps I (send_ani_end ifc t)"
  unfolding send_ani_end_def by (intro keeps_intros; simp)

lemma keeps_mf_send_ani [keeps_intros]: "keeps I (mf_send_ani ifc)"
  unfolding mf_send_ani_def by (intro keeps_intros; simp)

lemma keeps_r2_answer_timeout_expired [keeps_intros]: "keeps I (r2_answer_timeout_expired ifc)"
  unfolding r2_answer_timeout_expired_def by (intro keeps_intros; simp)

lemma keeps_handle_accept_tone [keeps_intros]: "keeps I (handle_accept_tone ifc m)"
  unfolding handle_accept_tone_def by (intro keeps_intros; simp)

lemma keeps_handle_dnis_request [keeps_intros]: "keeps I (handle_dnis_request ifc t)"
  unfolding handle_dnis_request_def by (intro keeps_intros; simp)

lemma keeps_refused [keeps_intros]: "keeps I (refused ifc c)"
  unfolding refused_def by (intro keeps_intros; simp)

lemma keeps_handle_group_a_request [keeps_intros]: "keeps I (handle_group_a_request ifc t)"
  unfolding handle_group_a_request_def by (intro keeps_intros; simp)

lemma keeps_handle_group_c_request [keeps_intros]: "keeps I (handle_group_c_request ifc t)"
  unfolding handle_group_c_request_def by (intro keeps_intros; simp)

lemma keeps_handle_group_b_request [keeps_intros]: "keeps I (handle_group_b_request ifc t)"
  unfolding handle_group_b_request_def by (intro keeps_intros; simp)

lemma keeps_handle_backward_mf_silence [keeps_intros]: "keeps I (handle_backward_mf_silence ifc t)"
  unfolding handle_backward_mf_silence_def by (intro keeps_intros; simp)

lemma keeps_check_threshold [keeps_intros]: "keeps I (check_threshold ifc t)"
  unfolding check_threshold_def by (intro keeps_intros; simp)

lemma keeps_handle_mf_tone [keeps_intros]: "keeps I (openr2_proto_handle_mf_tone ifc t)"
  unfolding openr2_proto_handle_mf_tone_def by (intro keeps_intros; simp)

lemma keeps_handle_dtmf_end [keeps_intros]: "keeps I (openr2_proto_handle_dtmf_end ifc)"
  unfolding openr2_proto_handle_dtmf_end_def by (intro keeps_intros; simp)

end

end
