(* ===== verification/R2Call.thy ===== *)
theory R2Call
  imports R2MfFwd
begin

text \<open>
  The call operations of \<open>r2proto.c\<close> the user reaches through \<open>r2chan.c\<close>: making, accepting,
  answering, acknowledging and disconnecting a call, with the line signals and timers they set and
  the timer functions that belong to them.
\<close>

section \<open>Accepting and answering\<close>

text \<open>The tone for a call mode; an unknown mode is sent as "no charge".\<close>

fun get_tone_from_mode :: "'w chan \<Rightarrow> call_mode \<Rightarrow> int" where
  "get_tone_from_mode s OR2_CALL_WITH_CHARGE = gb_accept_call_with_charge (GB_TONE s)"
| "get_tone_from_mode s OR2_CALL_NO_CHARGE = gb_accept_call_no_charge (GB_TONE s)"
| "get_tone_from_mode s OR2_CALL_SPECIAL = gb_special_info_tone (GB_TONE s)"
| "get_tone_from_mode s OR2_CALL_UNKNOWN = gb_accept_call_no_charge (GB_TONE s)"

definition openr2_proto_accept_call :: "'w iface \<Rightarrow> call_mode \<Rightarrow> ('w chan, int) state" where
  "openr2_proto_accept_call ifc mode = do {
     cs \<leftarrow> gets call_state;
     if cs \<noteq> OR2_CALL_OFFERED then return (-1)
     else do {
       dtmf \<leftarrow> gets (\<lambda>s. DETECT_DTMF s);
       (if \<not> dtmf then do {
          modify (\<lambda>s. s\<lparr>mf_state := OR2_MF_ACCEPTED_TXD\<rparr>);
          tone \<leftarrow> gets (\<lambda>s. get_tone_from_mode s mode);
          prepare_mf_tone ifc tone }
        else do { emit ifc (OnCallAccepted OR2_CALL_UNKNOWN); skip });
       return 0 } }"

definition send_clear_backward :: "'w iface \<Rightarrow> ('w chan, int) state" where
  "send_clear_backward ifc = do {
     modify (\<lambda>s. s\<lparr>r2_state := OR2_CLEAR_BACK_TXD\<rparr>);
     turn_off_mf_engine ifc;
     set_cas_signal ifc OR2_CAS_CLEAR_BACK }"

definition send_forced_release :: "'w iface \<Rightarrow> ('w chan, int) state" where
  "send_forced_release ifc = do {
     modify (\<lambda>s. s\<lparr>r2_state := OR2_FORCED_RELEASE_TXD\<rparr>);
     turn_off_mf_engine ifc;
     set_cas_signal ifc OR2_CAS_FORCED_RELEASE }"

definition schedule_double_answer :: "'w iface \<Rightarrow> ('w chan, unit) state" where
  "schedule_double_answer ifc = do {
     ms \<leftarrow> gets (\<lambda>s. t_r2_double_answer (TIMER s));
     schedule ifc slot_r2_double_answer ms CB_double_answer_handler ''r2_double_answer'' }"

definition double_answer_handler :: "'w iface \<Rightarrow> ('w chan, unit) state" where
  "double_answer_handler ifc = do {
     st \<leftarrow> gets r2_state;
     if st = OR2_ANSWER_TXD then do {
       res \<leftarrow> send_clear_backward ifc;
       if res \<noteq> 0 then skip
       else do {
         modify (\<lambda>s. s\<lparr>r2_state := OR2_EXECUTING_DOUBLE_ANSWER\<rparr>);
         schedule_double_answer ifc } }
     else if st = OR2_EXECUTING_DOUBLE_ANSWER then do {
       res \<leftarrow> set_cas_signal ifc OR2_CAS_ANSWER;
       if res \<noteq> 0 then skip
       else modify (\<lambda>s. s\<lparr>r2_state := OR2_ANSWER_TXD\<rparr>) }
     else skip }"

definition openr2_proto_do_answer :: "'w iface \<Rightarrow> ('w chan, int) state" where
  "openr2_proto_do_answer ifc = do {
     s \<leftarrow> gets id;
     if \<not> IS_DTMF_R2 s \<and> call_state s \<noteq> OR2_CALL_ACCEPTED then return (-1)
     else do {
       res \<leftarrow> set_cas_signal ifc OR2_CAS_ANSWER;
       if res \<noteq> 0 then return (-1)
       else do {
         modify (\<lambda>s. s\<lparr>call_state := OR2_CALL_ANSWERED\<rparr>);
         modify (\<lambda>s. s\<lparr>r2_state := OR2_ANSWER_TXD\<rparr>);
         modify (\<lambda>s. s\<lparr>answered := 1\<rparr>);
         return 0 } } }"

definition openr2_proto_answer_call :: "'w iface \<Rightarrow> ('w chan, int) state" where
  "openr2_proto_answer_call ifc = do {
     res \<leftarrow> openr2_proto_do_answer ifc;
     if res \<noteq> 0 then return (-1)
     else do {
       twice \<leftarrow> gets (\<lambda>s. double_answer (r2context s));
       (if twice \<noteq> 0 then schedule_double_answer ifc else skip);
       return 0 } }"

definition openr2_proto_answer_call_with_mode :: "'w iface \<Rightarrow> answer_mode \<Rightarrow> ('w chan, int) state" where
  "openr2_proto_answer_call_with_mode ifc mode = do {
     res \<leftarrow> openr2_proto_do_answer ifc;
     if res \<noteq> 0 then return (-1)
     else do {
       (if mode = OR2_ANSWER_DOUBLE then schedule_double_answer ifc else skip);
       return 0 } }"

definition openr2_proto_ack_call :: "'w iface \<Rightarrow> ('w chan, int) state" where
  "openr2_proto_ack_call ifc = do {
     res \<leftarrow> set_cas_signal ifc OR2_CAS_SEIZE_ACK;
     if res \<noteq> 0 then do { handle_protocol_error ifc OR2_INTERNAL_ERROR; return (-1) }
     else return 0 }"

section \<open>Making a call\<close>

definition seize_timeout_expired :: "'w iface \<Rightarrow> ('w chan, unit) state" where
  "seize_timeout_expired ifc = handle_protocol_error ifc OR2_SEIZE_TIMEOUT"

definition start_dialing_dtmf :: "('w chan, unit) state" where
  "start_dialing_dtmf = do {
     modify (\<lambda>s. s\<lparr>dialing_dtmf := 1\<rparr>);
     modify (\<lambda>s. s\<lparr>mf_state := OR2_MF_DIALING_DTMF\<rparr>) }"

definition isdigit :: "int \<Rightarrow> bool" where
  "isdigit c \<longleftrightarrow> 48 \<le> c \<and> c \<le> 57"

text \<open>
  The caller's numbers: a number with a character that is no digit is not used, for the ANI as if it
  was NULL.  The arguments are C strings, the cells before the terminating 0.
\<close>

definition usable_ani :: "int list option \<Rightarrow> int list option" where
  "usable_ani num = (case num of None \<Rightarrow> None | Some a \<Rightarrow> if list_all isdigit a then Some a else None)"

definition start_dtmf_dialing :: "'w iface \<Rightarrow> ('w chan, int) state" where
  "start_dtmf_dialing ifc = do {
     h \<leftarrow> gets dtmf_write_handle;
     ok \<leftarrow> world_call (dtmf_tx_init ifc h);
     if ok = 0 then return (-1)
     else do {
       s \<leftarrow> gets id;
       world_do (dtmf_tx_set_timing ifc (dtmf_write_handle s) (dtmf_on (r2context s)) (dtmf_off (r2context s)));
       res \<leftarrow> world_call (dtmf_tx_put ifc (dtmf_write_handle s) (c_string (dnis s)) (-1));
       if res \<noteq> 0 then return (-1)
       else do {
         modify (\<lambda>s. s\<lparr>mf_group := OR2_MF_DTMF_FWD_INIT\<rparr>);
         return 0 } } }"

definition openr2_proto_make_call ::
  "'w iface \<Rightarrow> int list option \<Rightarrow> int list \<Rightarrow> category \<Rightarrow> int \<Rightarrow> ('w chan, int) state" where
  "openr2_proto_make_call ifc ani0 dnis0 category ani_restricted = do {
     s \<leftarrow> gets id;
     if inalarm s \<noteq> 0 then return (-1)
     else if call_state s \<noteq> OR2_CALL_IDLE then return (-1)
     else if cas_read s \<noteq> R2 s OR2_CAS_IDLE then return (-1)
     else do {
       open_logfile ifc False;
       res \<leftarrow> set_cas_signal ifc OR2_CAS_SEIZE;
       if res \<noteq> 0 then do { close_logfile ifc; return (-1) }
       else do {
         modify (\<lambda>s. s\<lparr>r2_state := OR2_SEIZE_TXD\<rparr>);
         ms \<leftarrow> gets (\<lambda>s. t_r2_seize (TIMER s));
         schedule ifc slot_r2_seize ms CB_seize_timeout_expired ''r2_seize'';
         (case usable_ani ani0 of
            Some a \<Rightarrow> modify (\<lambda>s. s\<lparr>ani := strncpy_z (length (ani s)) a\<rparr>)
          | None \<Rightarrow> modify (\<lambda>s. s\<lparr>ani := terminate_at_0 (ani s)\<rparr>));
         modify (\<lambda>s. s\<lparr>caller_ani_is_restricted := (if ani_restricted \<noteq> 0 then 1 else 0)\<rparr>);
         modify (\<lambda>s. s\<lparr>ani_ptr := (if usable_ani ani0 = None then None else Some 0)\<rparr>);
         (if list_all isdigit dnis0
          then modify (\<lambda>s. s\<lparr>dnis := strncpy_z (length (dnis s)) dnis0\<rparr>)
          else modify (\<lambda>s. s\<lparr>dnis := terminate_at_0 (dnis s)\<rparr>));
         modify (\<lambda>s. s\<lparr>dnis_index := 0\<rparr>);
         modify (\<lambda>s. s\<lparr>call_state := OR2_CALL_DIALING\<rparr>);
         modify (\<lambda>s. s\<lparr>direction := OR2_DIR_FORWARD\<rparr>);
         modify (\<lambda>s. s\<lparr>caller_category := category2tone s category\<rparr>);
         dial \<leftarrow> gets (\<lambda>s. DIAL_DTMF s);
         if \<not> dial then do {
           modify (\<lambda>s. s\<lparr>mf_group := OR2_MF_FWD_INIT\<rparr>);
           return 0 }
         else start_dtmf_dialing ifc } } }"

section \<open>Disconnecting\<close>

text \<open>The tone for a disconnect cause, before the fallback for a tone that is not configured.\<close>

fun disconnect_tone :: "gb_tones \<Rightarrow> disconnect_cause \<Rightarrow> int" where
  "disconnect_tone gb OR2_CAUSE_BUSY_NUMBER = gb_busy_number gb"
| "disconnect_tone gb OR2_CAUSE_NETWORK_CONGESTION = gb_network_congestion gb"
| "disconnect_tone gb OR2_CAUSE_UNALLOCATED_NUMBER = gb_unallocated_number gb"
| "disconnect_tone gb OR2_CAUSE_NUMBER_CHANGED =
     (if gb_number_changed gb \<noteq> 0 then gb_number_changed gb else gb_unallocated_number gb)"
| "disconnect_tone gb OR2_CAUSE_OUT_OF_ORDER = gb_line_out_of_order gb"
| "disconnect_tone gb OR2_CAUSE_NO_ANSWER = gb_network_congestion gb"
| "disconnect_tone gb OR2_CAUSE_NORMAL_CLEARING = gb_network_congestion gb"
| "disconnect_tone gb OR2_CAUSE_FORCED_RELEASE = gb_network_congestion gb"
| "disconnect_tone gb OR2_CAUSE_UNSPECIFIED = gb_network_congestion gb"
| "disconnect_tone gb OR2_CAUSE_GLARE = gb_network_congestion gb"

text \<open>The closing \<open>openr2_assert\<close> of \<open>send_disconnect\<close> only logs.\<close>

definition send_disconnect :: "'w iface \<Rightarrow> disconnect_cause \<Rightarrow> ('w chan, unit) state" where
  "send_disconnect ifc cause = do {
     modify (\<lambda>s. s\<lparr>mf_state := OR2_MF_DISCONNECT_TXD\<rparr>);
     gb \<leftarrow> gets (\<lambda>s. GB_TONE s);
     let tone = disconnect_tone gb cause;
     prepare_mf_tone ifc (if tone = OR2_MF_TONE_INVALID then gb_network_congestion gb else tone) }"

definition r2_set_call_down :: "'w iface \<Rightarrow> ('w chan, unit) state" where
  "r2_set_call_down ifc = report_call_end ifc"

text \<open>The id of the \<open>r2_set_call_down\<close> timer is not stored.\<close>

definition send_clear_forward :: "'w iface \<Rightarrow> ('w chan, int) state" where
  "send_clear_forward ifc = do {
     ms \<leftarrow> gets (\<lambda>s. t_r2_set_call_down (TIMER s));
     openr2_chan_add_timer ifc ms CB_r2_set_call_down ''r2_set_call_down'';
     modify (\<lambda>s. s\<lparr>r2_state := OR2_CLEAR_FWD_TXD\<rparr>);
     turn_off_mf_engine ifc;
     set_cas_signal ifc OR2_CAS_CLEAR_FORWARD }"

definition r2_seize_persist_expired :: "'w iface \<Rightarrow> ('w chan, unit) state" where
  "r2_seize_persist_expired ifc = do { send_clear_forward ifc; skip }"

definition disconnect_backward :: "'w iface \<Rightarrow> disconnect_cause \<Rightarrow> ('w chan, int) state" where
  "disconnect_backward ifc cause = do {
     s \<leftarrow> gets id;
     if DETECT_DTMF s then
       (if r2_state s = OR2_CLEAR_FWD_RXD then do { report_call_end ifc; return 0 }
        else do {
          res \<leftarrow> send_clear_backward ifc;
          return (if res \<noteq> 0 then -1 else 0) })
     else if call_state s = OR2_CALL_OFFERED then do { send_disconnect ifc cause; return 0 }
     else if r2_state s = OR2_CLEAR_FWD_RXD then do { report_call_end ifc; return 0 }
     else if cause = OR2_CAUSE_FORCED_RELEASE then do {
       res \<leftarrow> send_forced_release ifc;
       return (if res \<noteq> 0 then -1 else 0) }
     else do {
       res \<leftarrow> send_clear_backward ifc;
       return (if res \<noteq> 0 then -1 else 0) } }"

definition disconnect_forward :: "'w iface \<Rightarrow> ('w chan, int) state" where
  "disconnect_forward ifc = do {
     st \<leftarrow> gets r2_state;
     if st = OR2_SEIZE_TXD then do {
       modify (\<lambda>s. s\<lparr>r2_state := OR2_SEIZE_TXD_CLEAR_FWD_PENDING\<rparr>);
       return 0 }
     else if st = OR2_DOUBLE_SEIZURE then do {
       modify (\<lambda>s. s\<lparr>r2_state := OR2_DOUBLE_SEIZURE_CLEAR_FWD_PENDING\<rparr>);
       ms \<leftarrow> gets (\<lambda>s. t_r2_seize_persist (TIMER s));
       schedule ifc slot_r2_seize_persist ms CB_r2_seize_persist_expired ''r2_seize_persist_expired'';
       return 0 }
     else if st = OR2_CLEAR_FWD_RXD then do { report_call_end ifc; return 0 }
     else do {
       res \<leftarrow> send_clear_forward ifc;
       return (if res \<noteq> 0 then -1 else 0) } }"

definition openr2_proto_disconnect_call :: "'w iface \<Rightarrow> disconnect_cause \<Rightarrow> ('w chan, int) state" where
  "openr2_proto_disconnect_call ifc cause = do {
     cs \<leftarrow> gets call_state;
     dir \<leftarrow> gets direction;
     if cs = OR2_CALL_IDLE then return (-1)
     else if dir = OR2_DIR_BACKWARD then disconnect_backward ifc cause
     else disconnect_forward ifc }"

section \<open>The invariants are kept\<close>

context op_invariant
begin

lemma keeps_accept_call [keeps_intros]: "keeps I (openr2_proto_accept_call ifc m)"
  unfolding openr2_proto_accept_call_def by (intro keeps_intros; simp)

lemma keeps_send_clear_backward [keeps_intros]: "keeps I (send_clear_backward ifc)"
  unfolding send_clear_backward_def by (intro keeps_intros; simp)

lemma keeps_send_forced_release [keeps_intros]: "keeps I (send_forced_release ifc)"
  unfolding send_forced_release_def by (intro keeps_intros; simp)

lemma keeps_schedule_double_answer [keeps_intros]: "keeps I (schedule_double_answer ifc)"
  unfolding schedule_double_answer_def by (intro keeps_intros; simp)

lemma keeps_double_answer_handler [keeps_intros]: "keeps I (double_answer_handler ifc)"
  unfolding double_answer_handler_def by (intro keeps_intros; simp)

lemma keeps_do_answer [keeps_intros]: "keeps I (openr2_proto_do_answer ifc)"
  unfolding openr2_proto_do_answer_def by (intro keeps_intros; simp)

lemma keeps_answer_call [keeps_intros]: "keeps I (openr2_proto_answer_call ifc)"
  unfolding openr2_proto_answer_call_def by (intro keeps_intros; simp)

lemma keeps_answer_call_with_mode [keeps_intros]: "keeps I (openr2_proto_answer_call_with_mode ifc m)"
  unfolding openr2_proto_answer_call_with_mode_def by (intro keeps_intros; simp)

lemma keeps_ack_call [keeps_intros]: "keeps I (openr2_proto_ack_call ifc)"
  unfolding openr2_proto_ack_call_def by (intro keeps_intros; simp)

lemma keeps_seize_timeout_expired [keeps_intros]: "keeps I (seize_timeout_expired ifc)"
  unfolding seize_timeout_expired_def by (intro keeps_intros; simp)

lemma keeps_start_dialing_dtmf [keeps_intros]: "keeps I (start_dialing_dtmf)"
  unfolding start_dialing_dtmf_def by (intro keeps_intros; simp)

lemma keeps_start_dtmf_dialing [keeps_intros]: "keeps I (start_dtmf_dialing ifc)"
  unfolding start_dtmf_dialing_def by (intro keeps_intros; simp)

lemma keeps_make_call [keeps_intros]: "keeps I (openr2_proto_make_call ifc a d c r)"
  unfolding openr2_proto_make_call_def terminate_at_0_def by (intro keeps_intros; simp)

lemma keeps_send_disconnect [keeps_intros]: "keeps I (send_disconnect ifc c)"
  unfolding send_disconnect_def by (intro keeps_intros; simp)

lemma keeps_r2_set_call_down [keeps_intros]: "keeps I (r2_set_call_down ifc)"
  unfolding r2_set_call_down_def by (intro keeps_intros; simp)

lemma keeps_send_clear_forward [keeps_intros]: "keeps I (send_clear_forward ifc)"
  unfolding send_clear_forward_def by (intro keeps_intros; simp)

lemma keeps_r2_seize_persist_expired [keeps_intros]: "keeps I (r2_seize_persist_expired ifc)"
  unfolding r2_seize_persist_expired_def by (intro keeps_intros; simp)

lemma keeps_disconnect_backward [keeps_intros]: "keeps I (disconnect_backward ifc c)"
  unfolding disconnect_backward_def by (intro keeps_intros; simp)

lemma keeps_disconnect_forward [keeps_intros]: "keeps I (disconnect_forward ifc)"
  unfolding disconnect_forward_def by (intro keeps_intros; simp)

lemma keeps_disconnect_call [keeps_intros]: "keeps I (openr2_proto_disconnect_call ifc c)"
  unfolding openr2_proto_disconnect_call_def by (intro keeps_intros; simp)

end

end
