(* ===== verification/R2Cas.thy ===== *)
theory R2Cas
  imports R2Call
begin

text \<open>
  The line signalling of \<open>r2proto.c\<close>: an incoming seizure, the handler of a CAS change with its
  persistence check, and the handling of an alarm.  The switch of \<open>openr2_proto_handle_cas\<close> over
  the R2 state is one definition per group of cases and a dispatcher over them.
\<close>

text \<open>
  The macro \<open>CAS_LOG_RX\<close> records the meaning of the bits (the text for the log of an invalid signal
  is only printed).
\<close>

definition CAS_LOG_RX :: "cas_signal \<Rightarrow> ('w chan, unit) state" where
  "CAS_LOG_RX signal = modify (\<lambda>s. s\<lparr>cas_rx_signal := signal\<rparr>)"

definition invalid_cas :: "'w iface \<Rightarrow> protocol_error \<Rightarrow> ('w chan, unit) state" where
  "invalid_cas ifc reason = do { CAS_LOG_RX OR2_CAS_INVALID; handle_protocol_error ifc reason }"

section \<open>Incoming calls\<close>

text \<open>The part of \<open>handle_incoming_call\<close> after the detector is ready.\<close>

definition start_incoming_call :: "'w iface \<Rightarrow> ('w chan, unit) state" where
  "start_incoming_call ifc = do {
     modify (\<lambda>s. s\<lparr>r2_state := OR2_SEIZE_ACK_TXD\<rparr>);
     modify (\<lambda>s. s\<lparr>call_state := OR2_CALL_COLLECTING\<rparr>);
     modify (\<lambda>s. s\<lparr>direction := OR2_DIR_BACKWARD\<rparr>);
     emit ifc OnCallInit;
     auto \<leftarrow> gets (\<lambda>s. test_flag (ctx_flags (r2context s)) OR2_AUTO_SEIZE_ACK);
     if auto then do { openr2_proto_ack_call ifc; skip } else skip }"

definition handle_incoming_call :: "'w iface \<Rightarrow> ('w chan, unit) state" where
  "handle_incoming_call ifc = do {
     open_logfile ifc True;
     s \<leftarrow> gets id;
     if \<not> DETECT_DTMF s then do {
       wh \<leftarrow> world_call (mf_write_init ifc (mf_write_handle s) 0);
       if wh = 0 then handle_protocol_error ifc OR2_INTERNAL_ERROR
       else do {
         rh \<leftarrow> world_call (mf_read_init ifc (mf_read_handle s) 1);
         if rh = 0 then handle_protocol_error ifc OR2_INTERNAL_ERROR
         else do {
           modify (\<lambda>s. s\<lparr>mf_write_handle := wh, mf_read_handle := rh\<rparr>);
           modify (\<lambda>s. s\<lparr>mf_state := OR2_MF_SEIZE_ACK_TXD, mf_group := OR2_MF_BACK_INIT\<rparr>);
           start_incoming_call ifc } } }
     else do {
       ok \<leftarrow> world_call (dtmf_rx_init ifc (dtmf_read_handle s));
       if ok = 0 then handle_protocol_error ifc OR2_INTERNAL_ERROR
       else do {
         modify (\<lambda>s. s\<lparr>mf_group := OR2_MF_DTMF_BACK_INIT, mf_state := OR2_MF_DETECTING_DTMF\<rparr>);
         modify (\<lambda>s. s\<lparr>detecting_dtmf := 1\<rparr>);
         start_incoming_call ifc } } }"

section \<open>The cases of the CAS handler\<close>

text \<open>
  \<open>check_backward_disconnection\<close>: whether the bits disconnect, and then the new state and the
  cause; the signal is recorded as received.
\<close>

definition backward_disconnection :: "'w chan \<Rightarrow> int \<Rightarrow> (cas_signal \<times> cas_state \<times> disconnect_cause) option" where
  "backward_disconnection s cas =
     (if cas = R2 s OR2_CAS_CLEAR_BACK
      then Some (OR2_CAS_CLEAR_BACK, OR2_CLEAR_BACK_RXD, OR2_CAUSE_NORMAL_CLEARING)
      else if cas = R2 s OR2_CAS_FORCED_RELEASE
      then Some (OR2_CAS_FORCED_RELEASE, OR2_FORCED_RELEASE_RXD, OR2_CAUSE_FORCED_RELEASE)
      else None)"

definition check_backward_disconnection ::
  "int \<Rightarrow> ('w chan, (cas_state \<times> disconnect_cause) option) state" where
  "check_backward_disconnection cas = do {
     d \<leftarrow> gets (\<lambda>s. backward_disconnection s cas);
     case d of
       None \<Rightarrow> return None
     | Some (sig, st, cause) \<Rightarrow> do { CAS_LOG_RX sig; return (Some (st, cause)) } }"

text \<open>Case IDLE: blocked, idle again, or an incoming call.\<close>

definition cas_in_idle :: "'w iface \<Rightarrow> int \<Rightarrow> ('w chan, unit) state" where
  "cas_in_idle ifc cas = do {
     s \<leftarrow> gets id;
     if cas = R2 s OR2_CAS_BLOCK then do { CAS_LOG_RX OR2_CAS_BLOCK; emit ifc OnLineBlocked; skip }
     else if cas = R2 s OR2_CAS_IDLE then do { CAS_LOG_RX OR2_CAS_IDLE; emit ifc OnLineIdle; skip }
     else if cas = R2 s OR2_CAS_SEIZE then do { CAS_LOG_RX OR2_CAS_SEIZE; handle_incoming_call ifc }
     else invalid_cas ifc OR2_INVALID_CAS_BITS }"

text \<open>Cases SEIZE_ACK_TXD, ANSWER_TXD, EXECUTING_DOUBLE_ANSWER: only clear forward is expected.\<close>

definition cas_in_backward_call :: "'w iface \<Rightarrow> int \<Rightarrow> ('w chan, unit) state" where
  "cas_in_backward_call ifc cas = do {
     s \<leftarrow> gets id;
     if cas = R2 s OR2_CAS_CLEAR_FORWARD then do {
       CAS_LOG_RX OR2_CAS_CLEAR_FORWARD;
       modify (\<lambda>s. s\<lparr>r2_state := OR2_CLEAR_FWD_RXD\<rparr>);
       report_call_disconnection ifc OR2_CAUSE_NORMAL_CLEARING }
     else invalid_cas ifc OR2_INVALID_CAS_BITS }"

definition cas_seize_acked :: "'w iface \<Rightarrow> ('w chan, unit) state" where
  "cas_seize_acked ifc = do {
     modify (\<lambda>s. s\<lparr>r2_state := OR2_SEIZE_ACK_RXD\<rparr>);
     dial \<leftarrow> gets (\<lambda>s. DIAL_DTMF s);
     (if \<not> dial then do {
        modify (\<lambda>s. s\<lparr>mf_group := OR2_MF_GI\<rparr>);
        wh \<leftarrow> gets mf_write_handle;
        world_call (mf_write_init ifc wh 1);
        rh \<leftarrow> gets mf_read_handle;
        world_call (mf_read_init ifc rh 0);
        mf_send_dnis ifc 0 }
      else do {
        ms \<leftarrow> gets (\<lambda>s. t_dtmf_start_dial (TIMER s));
        schedule ifc slot_dtmf_start_dial ms CB_start_dialing_dtmf ''start_dialing_dtmf'';
        ms \<leftarrow> gets (\<lambda>s. t_r2_answer (TIMER s));
        schedule ifc slot_r2_answer ms CB_r2_answer_timeout_expired ''r2_answer'' });
     emit ifc OnCallProceed;
     skip }"

text \<open>Cases SEIZE_TXD and SEIZE_TXD_CLEAR_FWD_PENDING: the seize ack, or glare.\<close>

definition cas_in_seize :: "'w iface \<Rightarrow> int \<Rightarrow> ('w chan, unit) state" where
  "cas_in_seize ifc cas = do {
     s \<leftarrow> gets id;
     if cas = R2 s OR2_CAS_SEIZE_ACK then do {
       CAS_LOG_RX OR2_CAS_SEIZE_ACK;
       openr2_chan_cancel_timer slot_r2_seize;
       st \<leftarrow> gets r2_state;
       if st = OR2_SEIZE_TXD_CLEAR_FWD_PENDING then do { send_clear_forward ifc; skip }
       else cas_seize_acked ifc }
     else if cas = R2 s OR2_CAS_SEIZE then do {
       CAS_LOG_RX OR2_CAS_SEIZE;
       modify (\<lambda>s. s\<lparr>r2_state := OR2_DOUBLE_SEIZURE\<rparr>);
       openr2_chan_cancel_timer slot_r2_seize;
       report_call_disconnection ifc OR2_CAUSE_GLARE }
     else invalid_cas ifc OR2_INVALID_CAS_BITS }"

definition cas_in_double_seizure :: "'w iface \<Rightarrow> int \<Rightarrow> ('w chan, unit) state" where
  "cas_in_double_seizure ifc cas = do {
     s \<leftarrow> gets id;
     if cas = R2 s OR2_CAS_CLEAR_FORWARD then
       (if r2_state s = OR2_DOUBLE_SEIZURE then do {
          CAS_LOG_RX OR2_CAS_CLEAR_FORWARD;
          modify (\<lambda>s. s\<lparr>r2_state := OR2_CLEAR_FWD_RXD\<rparr>) }
        else do {
          CAS_LOG_RX OR2_CAS_IDLE;
          report_call_end ifc })
     else invalid_cas ifc OR2_INVALID_CAS_BITS }"

definition cas_in_clear_back_txd :: "'w iface \<Rightarrow> int \<Rightarrow> ('w chan, unit) state" where
  "cas_in_clear_back_txd ifc cas = do {
     s \<leftarrow> gets id;
     if cas = R2 s OR2_CAS_CLEAR_FORWARD then do {
       CAS_LOG_RX OR2_CAS_CLEAR_FORWARD;
       report_call_end ifc }
     else invalid_cas ifc OR2_INVALID_CAS_BITS }"

definition cas_in_accept_rxd :: "'w iface \<Rightarrow> int \<Rightarrow> ('w chan, unit) state" where
  "cas_in_accept_rxd ifc cas = do {
     s \<leftarrow> gets id;
     if cas = R2 s OR2_CAS_ANSWER then do {
       CAS_LOG_RX OR2_CAS_ANSWER;
       openr2_chan_cancel_timer slot_r2_answer;
       modify (\<lambda>s. s\<lparr>r2_state := OR2_ANSWER_RXD\<rparr>);
       modify (\<lambda>s. s\<lparr>call_state := OR2_CALL_ANSWERED\<rparr>);
       turn_off_mf_engine ifc;
       modify (\<lambda>s. s\<lparr>answered := 1\<rparr>);
       emit ifc OnCallAnswered;
       skip }
     else do {
       d \<leftarrow> check_backward_disconnection cas;
       (case d of
          Some (st, cause) \<Rightarrow> do {
            modify (\<lambda>s. s\<lparr>r2_state := st\<rparr>);
            report_call_disconnection ifc cause }
        | None \<Rightarrow> invalid_cas ifc OR2_INVALID_CAS_BITS) } }"

definition cas_in_seize_ack_rxd :: "'w iface \<Rightarrow> int \<Rightarrow> ('w chan, unit) state" where
  "cas_in_seize_ack_rxd ifc cas = do {
     s \<leftarrow> gets id;
     if \<not> DIAL_DTMF s \<and> cas = R2 s OR2_CAS_ANSWER then do {
       CAS_LOG_RX OR2_CAS_ANSWER;
       modify (\<lambda>s. s\<lparr>r2_state := OR2_ANSWER_RXD_MF_PENDING\<rparr>) }
     else do {
       d \<leftarrow> check_backward_disconnection cas;
       (case d of
          Some (st, cause) \<Rightarrow> do {
            modify (\<lambda>s. s\<lparr>r2_state := st\<rparr>);
            report_call_disconnection ifc cause }
        | None \<Rightarrow>
            if cas = R2 s OR2_CAS_ANSWER then do {
              CAS_LOG_RX OR2_CAS_ANSWER;
              openr2_chan_cancel_timer slot_r2_answer;
              modify (\<lambda>s. s\<lparr>r2_state := OR2_ANSWER_RXD\<rparr>);
              modify (\<lambda>s. s\<lparr>call_state := OR2_CALL_ANSWERED\<rparr>);
              modify (\<lambda>s. s\<lparr>answered := 1\<rparr>);
              emit ifc OnCallAnswered;
              skip }
            else invalid_cas ifc OR2_INVALID_CAS_BITS) } }"

text \<open>
  Cases ANSWER_RXD and ANSWER_RXD_MF_PENDING: a clear back or forced release that may be a metering
  pulse is only reported when the pulse timer expires.
\<close>

definition metering_or_disconnect :: "'w iface \<Rightarrow> disconnect_cause \<Rightarrow> ('w chan, unit) state" where
  "metering_or_disconnect ifc cause = do {
     ms \<leftarrow> gets (\<lambda>s. t_r2_metering_pulse (TIMER s));
     if ms \<noteq> 0 then schedule ifc slot_r2_metering_pulse ms CB_r2_metering_pulse ''r2_metering_pulse''
     else report_call_disconnection ifc cause }"

definition cas_in_answer_rxd :: "'w iface \<Rightarrow> int \<Rightarrow> ('w chan, unit) state" where
  "cas_in_answer_rxd ifc cas = do {
     s \<leftarrow> gets id;
     if cas = R2 s OR2_CAS_CLEAR_BACK then do {
       CAS_LOG_RX OR2_CAS_CLEAR_BACK;
       modify (\<lambda>s. s\<lparr>r2_state := OR2_CLEAR_BACK_RXD\<rparr>);
       metering_or_disconnect ifc OR2_CAUSE_NORMAL_CLEARING }
     else if IS_DTMF_R2 s \<and> cas = R2 s OR2_CAS_CLEAR_FORWARD then do {
       CAS_LOG_RX OR2_CAS_CLEAR_FORWARD;
       modify (\<lambda>s. s\<lparr>r2_state := OR2_CLEAR_FWD_RXD\<rparr>);
       report_call_disconnection ifc OR2_CAUSE_NORMAL_CLEARING }
     else if cas = R2 s OR2_CAS_FORCED_RELEASE then do {
       CAS_LOG_RX OR2_CAS_FORCED_RELEASE;
       modify (\<lambda>s. s\<lparr>r2_state := OR2_FORCED_RELEASE_RXD\<rparr>);
       metering_or_disconnect ifc OR2_CAUSE_FORCED_RELEASE }
     else invalid_cas ifc OR2_INVALID_CAS_BITS }"

text \<open>Cases CLEAR_BACK_TONE_RXD and CLEAR_BACK_AFTER_CLEAR_FWD_RXD: waiting for IDLE.\<close>

definition cas_wait_idle :: "'w iface \<Rightarrow> int \<Rightarrow> ('w chan, unit) state" where
  "cas_wait_idle ifc cas = do {
     s \<leftarrow> gets id;
     if cas = R2 s OR2_CAS_IDLE then do {
       CAS_LOG_RX OR2_CAS_IDLE;
       report_call_end ifc }
     else invalid_cas ifc OR2_INVALID_CAS_BITS }"

definition cas_in_clear_fwd_txd :: "'w iface \<Rightarrow> int \<Rightarrow> ('w chan, unit) state" where
  "cas_in_clear_fwd_txd ifc cas = do {
     s \<leftarrow> gets id;
     if cas = R2 s OR2_CAS_IDLE then do {
       CAS_LOG_RX OR2_CAS_IDLE;
       report_call_end ifc }
     else do {
       d \<leftarrow> check_backward_disconnection cas;
       (case d of
          Some _ \<Rightarrow> modify (\<lambda>s. s\<lparr>r2_state := OR2_CLEAR_BACK_AFTER_CLEAR_FWD_RXD\<rparr>)
        | None \<Rightarrow> invalid_cas ifc OR2_INVALID_CAS_BITS) } }"

text \<open>Cases CLEAR_BACK_RXD and FORCED_RELEASE_RXD: back to ANSWER means it was a metering pulse.\<close>

definition cas_in_clear_back_rxd :: "'w iface \<Rightarrow> int \<Rightarrow> ('w chan, unit) state" where
  "cas_in_clear_back_rxd ifc cas = do {
     s \<leftarrow> gets id;
     if t_r2_metering_pulse (TIMER s) \<noteq> 0 \<and> cas = R2 s OR2_CAS_ANSWER then do {
       CAS_LOG_RX OR2_CAS_ANSWER;
       openr2_chan_cancel_timer slot_r2_metering_pulse;
       modify (\<lambda>s. s\<lparr>r2_state := OR2_ANSWER_RXD\<rparr>);
       emit ifc OnBillingPulseReceived;
       skip }
     else invalid_cas ifc OR2_INVALID_CAS_BITS }"

definition cas_in_blocked :: "'w iface \<Rightarrow> int \<Rightarrow> ('w chan, unit) state" where
  "cas_in_blocked ifc cas = do {
     s \<leftarrow> gets id;
     if cas = R2 s OR2_CAS_IDLE then do { CAS_LOG_RX OR2_CAS_IDLE; emit ifc OnLineIdle; skip }
     else CAS_LOG_RX OR2_CAS_INVALID }"

definition cas_in_init :: "'w iface \<Rightarrow> int \<Rightarrow> ('w chan, unit) state" where
  "cas_in_init ifc cas = do {
     s \<leftarrow> gets id;
     if cas = R2 s OR2_CAS_IDLE then do { CAS_LOG_RX OR2_CAS_IDLE; emit ifc OnLineIdle; skip }
     else if cas = R2 s OR2_CAS_BLOCK then do { CAS_LOG_RX OR2_CAS_BLOCK; emit ifc OnLineBlocked; skip }
     else invalid_cas ifc OR2_INVALID_R2_STATE }"

text \<open>The switch over the R2 state.\<close>

definition handle_cas_bits :: "'w iface \<Rightarrow> int \<Rightarrow> ('w chan, unit) state" where
  "handle_cas_bits ifc cas = do {
     st \<leftarrow> gets r2_state;
     (case st of
        OR2_IDLE \<Rightarrow> cas_in_idle ifc cas
      | OR2_SEIZE_ACK_TXD \<Rightarrow> cas_in_backward_call ifc cas
      | OR2_ANSWER_TXD \<Rightarrow> cas_in_backward_call ifc cas
      | OR2_EXECUTING_DOUBLE_ANSWER \<Rightarrow> cas_in_backward_call ifc cas
      | OR2_SEIZE_TXD \<Rightarrow> cas_in_seize ifc cas
      | OR2_SEIZE_TXD_CLEAR_FWD_PENDING \<Rightarrow> cas_in_seize ifc cas
      | OR2_DOUBLE_SEIZURE \<Rightarrow> cas_in_double_seizure ifc cas
      | OR2_DOUBLE_SEIZURE_CLEAR_FWD_PENDING \<Rightarrow> cas_in_double_seizure ifc cas
      | OR2_CLEAR_BACK_TXD \<Rightarrow> cas_in_clear_back_txd ifc cas
      | OR2_FORCED_RELEASE_TXD \<Rightarrow> cas_in_clear_back_txd ifc cas
      | OR2_ACCEPT_RXD \<Rightarrow> cas_in_accept_rxd ifc cas
      | OR2_SEIZE_ACK_RXD \<Rightarrow> cas_in_seize_ack_rxd ifc cas
      | OR2_ANSWER_RXD_MF_PENDING \<Rightarrow> cas_in_answer_rxd ifc cas
      | OR2_ANSWER_RXD \<Rightarrow> cas_in_answer_rxd ifc cas
      | OR2_CLEAR_BACK_TONE_RXD \<Rightarrow> cas_wait_idle ifc cas
      | OR2_CLEAR_FWD_TXD \<Rightarrow> cas_in_clear_fwd_txd ifc cas
      | OR2_CLEAR_BACK_AFTER_CLEAR_FWD_RXD \<Rightarrow> cas_wait_idle ifc cas
      | OR2_CLEAR_BACK_RXD \<Rightarrow> cas_in_clear_back_rxd ifc cas
      | OR2_FORCED_RELEASE_RXD \<Rightarrow> cas_in_clear_back_rxd ifc cas
      | OR2_BLOCKED \<Rightarrow> cas_in_blocked ifc cas
      | OR2_INIT \<Rightarrow> cas_in_init ifc cas
      | OR2_INVALID_STATE \<Rightarrow> invalid_cas ifc OR2_INVALID_R2_STATE
      | OR2_CLEAR_FWD_RXD \<Rightarrow> invalid_cas ifc OR2_INVALID_R2_STATE) }"

section \<open>Reading the bits\<close>

text \<open>From the label \<open>handlecas\<close> on: in alarm the bits mean nothing.\<close>

definition handlecas :: "'w iface \<Rightarrow> int \<Rightarrow> ('w chan, int) state" where
  "handlecas ifc cas = do {
     alarm \<leftarrow> gets inalarm;
     if alarm \<noteq> 0 then return 0
     else do {
       modify (\<lambda>s. s\<lparr>cas_read := cas\<rparr>);
       handle_cas_bits ifc cas;
       return 0 } }"

definition start_persistence_check :: "'w iface \<Rightarrow> int \<Rightarrow> ('w chan, unit) state" where
  "start_persistence_check ifc cas = do {
     modify (\<lambda>s. s\<lparr>cas_persistence_check_signal := cas\<rparr>);
     ms \<leftarrow> gets (\<lambda>s. t_cas_persistence_check (TIMER s));
     schedule ifc slot_cas_persistence_check ms CB_persistence_check_expired ''cas_persistence_check'' }"

definition openr2_proto_handle_cas :: "'w iface \<Rightarrow> ('w chan, int) state" where
  "openr2_proto_handle_cas ifc = do {
     s \<leftarrow> gets id;
     if cas_persistence_check_signal s \<noteq> -1 \<and> id_cas_persistence_check (timer_ids s) = 0 then do {
       modify (\<lambda>s. s\<lparr>cas_persistence_check_signal := -1\<rparr>);
       handlecas ifc (cas_persistence_check_signal s) }
     else do {
       (res, rawcas) \<leftarrow> openr2_io_get_cas ifc;
       if res \<noteq> 0 then return (-1)
       else do {
         s \<leftarrow> gets id;
         let cas = rawcas AND cas_r2_bits (r2context s);
         if cas_read s = cas then do {
           (if id_cas_persistence_check (timer_ids s) \<noteq> 0 then do {
              openr2_chan_cancel_timer slot_cas_persistence_check;
              modify (\<lambda>s. s\<lparr>cas_persistence_check_signal := -1\<rparr>) }
            else skip);
           return 0 }
         else if t_cas_persistence_check (TIMER s) \<noteq> 0 then do {
           openr2_chan_cancel_timer slot_cas_persistence_check;
           start_persistence_check ifc cas;
           return 0 }
         else handlecas ifc cas } } }"

definition persistence_check_expired :: "'w iface \<Rightarrow> ('w chan, unit) state" where
  "persistence_check_expired ifc = do {
     modify (set_timer_id slot_cas_persistence_check 0);
     (res, rawcas) \<leftarrow> openr2_io_get_cas ifc;
     if res \<noteq> 0 then skip
     else do {
       s \<leftarrow> gets id;
       let cas = rawcas AND cas_r2_bits (r2context s);
       if cas_persistence_check_signal s = cas then do { openr2_proto_handle_cas ifc; skip }
       else if cas_read s \<noteq> cas then start_persistence_check ifc cas
       else modify (\<lambda>s. s\<lparr>cas_persistence_check_signal := -1\<rparr>) } }"

definition r2_metering_pulse :: "'w iface \<Rightarrow> ('w chan, unit) state" where
  "r2_metering_pulse ifc = do {
     st \<leftarrow> gets r2_state;
     if st = OR2_FORCED_RELEASE_RXD then report_call_disconnection ifc OR2_CAUSE_FORCED_RELEASE
     else report_call_disconnection ifc OR2_CAUSE_NORMAL_CLEARING }"

section \<open>Alarms\<close>

definition openr2_proto_handle_alarm_state :: "'w iface \<Rightarrow> ('w chan, int) state" where
  "openr2_proto_handle_alarm_state ifc = do {
     s \<leftarrow> gets id;
     (if inalarm s \<noteq> 0 then do {
        (if call_state s \<noteq> OR2_CALL_IDLE then handle_protocol_error ifc OR2_ALARM_RAISED else skip);
        modify (\<lambda>s. s\<lparr>cas_read := 0, cas_raw_read := 0, cas_rx_signal := OR2_CAS_INVALID\<rparr>);
        modify (\<lambda>s. s\<lparr>cas_write := 0, cas_tx_signal := OR2_CAS_INVALID\<rparr>) }
      else do {
        (if r2_state s \<noteq> OR2_BLOCKED then openr2_proto_set_idle ifc else openr2_proto_set_blocked ifc);
        openr2_proto_handle_cas ifc;
        skip });
     return 0 }"

section \<open>The invariants are kept\<close>

context op_invariant
begin

lemma keeps_CAS_LOG_RX [keeps_intros]: "keeps I (CAS_LOG_RX c)"
  unfolding CAS_LOG_RX_def by (intro keeps_intros; simp)

lemma keeps_invalid_cas [keeps_intros]: "keeps I (invalid_cas ifc r)"
  unfolding invalid_cas_def by (intro keeps_intros; simp)

lemma keeps_start_incoming_call [keeps_intros]: "keeps I (start_incoming_call ifc)"
  unfolding start_incoming_call_def by (intro keeps_intros; simp)

lemma keeps_handle_incoming_call [keeps_intros]: "keeps I (handle_incoming_call ifc)"
  unfolding handle_incoming_call_def by (intro keeps_intros; simp)

lemma keeps_check_backward_disconnection [keeps_intros]: "keeps I (check_backward_disconnection c)"
  unfolding check_backward_disconnection_def by (intro keeps_intros; simp)

lemma keeps_cas_in_idle [keeps_intros]: "keeps I (cas_in_idle ifc c)"
  unfolding cas_in_idle_def by (intro keeps_intros; simp)

lemma keeps_cas_in_backward_call [keeps_intros]: "keeps I (cas_in_backward_call ifc c)"
  unfolding cas_in_backward_call_def by (intro keeps_intros; simp)

lemma keeps_cas_seize_acked [keeps_intros]: "keeps I (cas_seize_acked ifc)"
  unfolding cas_seize_acked_def by (intro keeps_intros; simp)

lemma keeps_cas_in_seize [keeps_intros]: "keeps I (cas_in_seize ifc c)"
  unfolding cas_in_seize_def by (intro keeps_intros; simp)

lemma keeps_cas_in_double_seizure [keeps_intros]: "keeps I (cas_in_double_seizure ifc c)"
  unfolding cas_in_double_seizure_def by (intro keeps_intros; simp)

lemma keeps_cas_in_clear_back_txd [keeps_intros]: "keeps I (cas_in_clear_back_txd ifc c)"
  unfolding cas_in_clear_back_txd_def by (intro keeps_intros; simp)

lemma keeps_cas_in_accept_rxd [keeps_intros]: "keeps I (cas_in_accept_rxd ifc c)"
  unfolding cas_in_accept_rxd_def by (intro keeps_intros; simp)

lemma keeps_cas_in_seize_ack_rxd [keeps_intros]: "keeps I (cas_in_seize_ack_rxd ifc c)"
  unfolding cas_in_seize_ack_rxd_def by (intro keeps_intros; simp)

lemma keeps_metering_or_disconnect [keeps_intros]: "keeps I (metering_or_disconnect ifc c)"
  unfolding metering_or_disconnect_def by (intro keeps_intros; simp)

lemma keeps_cas_in_answer_rxd [keeps_intros]: "keeps I (cas_in_answer_rxd ifc c)"
  unfolding cas_in_answer_rxd_def by (intro keeps_intros; simp)

lemma keeps_cas_wait_idle [keeps_intros]: "keeps I (cas_wait_idle ifc c)"
  unfolding cas_wait_idle_def by (intro keeps_intros; simp)

lemma keeps_cas_in_clear_fwd_txd [keeps_intros]: "keeps I (cas_in_clear_fwd_txd ifc c)"
  unfolding cas_in_clear_fwd_txd_def by (intro keeps_intros; simp)

lemma keeps_cas_in_clear_back_rxd [keeps_intros]: "keeps I (cas_in_clear_back_rxd ifc c)"
  unfolding cas_in_clear_back_rxd_def by (intro keeps_intros; simp)

lemma keeps_cas_in_blocked [keeps_intros]: "keeps I (cas_in_blocked ifc c)"
  unfolding cas_in_blocked_def by (intro keeps_intros; simp)

lemma keeps_cas_in_init [keeps_intros]: "keeps I (cas_in_init ifc c)"
  unfolding cas_in_init_def by (intro keeps_intros; simp)

lemma keeps_handle_cas_bits [keeps_intros]: "keeps I (handle_cas_bits ifc c)"
  unfolding handle_cas_bits_def by (intro keeps_intros; simp)

lemma keeps_handlecas [keeps_intros]: "keeps I (handlecas ifc c)"
  unfolding handlecas_def by (intro keeps_intros; simp)

lemma keeps_start_persistence_check [keeps_intros]: "keeps I (start_persistence_check ifc c)"
  unfolding start_persistence_check_def by (intro keeps_intros; simp)

lemma keeps_handle_cas [keeps_intros]: "keeps I (openr2_proto_handle_cas ifc)"
  unfolding openr2_proto_handle_cas_def by (intro keeps_intros; simp)

lemma keeps_persistence_check_expired [keeps_intros]: "keeps I (persistence_check_expired ifc)"
  unfolding persistence_check_expired_def by (intro keeps_intros; simp)

lemma keeps_r2_metering_pulse [keeps_intros]: "keeps I (r2_metering_pulse ifc)"
  unfolding r2_metering_pulse_def by (intro keeps_intros; simp)

lemma keeps_handle_alarm_state [keeps_intros]: "keeps I (openr2_proto_handle_alarm_state ifc)"
  unfolding openr2_proto_handle_alarm_state_def by (intro keeps_intros; simp)

end

end
