(* ===== verification/R2Chan.thy ===== *)
theory R2Chan
  imports R2Cas
begin

text \<open>
  The channel layer, \<open>r2chan.c\<close>: creation and deletion, dispatch of due timers, media and
  out-of-band events, the processing loop, and the public functions, each the protocol operation
  under the channel lock.
\<close>

section \<open>Timers\<close>

text \<open>The function behind a scheduled timer.\<close>

fun timer_function :: "'w iface \<Rightarrow> timer_callback \<Rightarrow> ('w chan, unit) state" where
  "timer_function ifc CB_mf_fwd_safety_timeout_expired = mf_fwd_safety_timeout_expired ifc"
| "timer_function ifc CB_mf_back_cycle_timeout_expired = mf_back_cycle_timeout_expired ifc"
| "timer_function ifc CB_mf_back_resume_cycle = mf_back_resume_cycle ifc"
| "timer_function ifc CB_r2_metering_pulse = r2_metering_pulse ifc"
| "timer_function ifc CB_persistence_check_expired = persistence_check_expired ifc"
| "timer_function ifc CB_start_dialing_dtmf = start_dialing_dtmf"
| "timer_function ifc CB_r2_answer_timeout_expired = r2_answer_timeout_expired ifc"
| "timer_function ifc CB_double_answer_handler = double_answer_handler ifc"
| "timer_function ifc CB_ready_to_answer = ready_to_answer ifc"
| "timer_function ifc CB_seize_timeout_expired = seize_timeout_expired ifc"
| "timer_function ifc CB_r2_set_call_down = r2_set_call_down ifc"
| "timer_function ifc CB_r2_seize_persist_expired = r2_seize_persist_expired ifc"

fun for_each :: "('a \<Rightarrow> ('s, 'b) state) \<Rightarrow> 'a list \<Rightarrow> ('s, unit) state" where
  "for_each f [] = skip"
| "for_each f (x # xs) = do { f x; for_each f xs }"

definition due_timers :: "timeval \<Rightarrow> 'w chan \<Rightarrow> sched_timer list" where
  "due_timers now s = filter (\<lambda>t. ms_between (tm_time t) now \<le> 0) (sched_timers s)"

text \<open>
  The timers to dispatch are collected, cancelled, and then called: a timer cancelled by an earlier
  one of the same batch is still called.
\<close>

definition openr2_chan_handle_timers :: "'w iface \<Rightarrow> ('w chan, int) state" where
  "openr2_chan_handle_timers ifc = do {
     now \<leftarrow> world_call (gettimeofday ifc);
     case now of
       None \<Rightarrow> return (-1)
     | Some now \<Rightarrow> do {
         to_dispatch \<leftarrow> gets (due_timers now);
         for_each (\<lambda>t. cancel_timer_id (tm_id t)) to_dispatch;
         for_each (\<lambda>t. timer_function ifc (tm_callback t)) to_dispatch;
         return 0 } }"

definition openr2_chan_run_schedule :: "'w iface \<Rightarrow> ('w chan, int) state" where
  "openr2_chan_run_schedule ifc = do {
     openr2_chan_lock;
     retcode \<leftarrow> openr2_chan_handle_timers ifc;
     openr2_chan_unlock;
     return retcode }"

section \<open>Media and out-of-band events\<close>

text \<open>
  Converting a buffer sample by sample, into a local array of \<open>OR2_CHAN_READ_SIZE\<close> elements: a
  count outside of it writes past the end.
\<close>

definition convert_samples :: "(int \<Rightarrow> int) \<Rightarrow> int list \<Rightarrow> int \<Rightarrow> ('w chan, int list) state" where
  "convert_samples f buf n =
     (if n < 0 \<or> n > OR2_CHAN_READ_SIZE \<or> int (length buf) < n then do { memory_fault; return [] }
      else return (map f (take (nat n) buf)))"

definition openr2_chan_handle_media :: "'w iface \<Rightarrow> int list \<Rightarrow> int \<Rightarrow> ('w chan, int) state" where
  "openr2_chan_handle_media ifc read_buf res = do {
     s \<leftarrow> gets id;
     (if mf_state s \<noteq> OR2_MF_OFF_STATE then do {
        tone_buf \<leftarrow> (if res \<noteq> 0 then convert_samples (alaw_to_linear ifc) read_buf res else return []);
        (if detecting_dtmf s \<noteq> 0 then do {
           dtmf_rx ifc (dtmf_read_handle s) tone_buf res (on_dtmf_received ifc);
           h \<leftarrow> gets dtmf_read_handle;
           status \<leftarrow> world_call (dtmf_rx_status ifc h);
           if status = 0 then do {
             modify (\<lambda>s. s\<lparr>dtmf_silence_samples := dtmf_silence_samples s + OR2_CHAN_READ_SIZE\<rparr>);
             silence \<leftarrow> gets dtmf_silence_samples;
             if silence = OR2_DTMF_MAX_SILENCE_SAMPLES then openr2_proto_handle_dtmf_end ifc else skip }
           else skip }
         else do {
           tone_result \<leftarrow> world_call (mf_detect_tone ifc (mf_read_handle s) tone_buf res);
           if tone_result \<noteq> -1 then openr2_proto_handle_mf_tone ifc tone_result else skip }) }
      else if answered s \<noteq> 0 then do { emit ifc (OnCallRead read_buf res); skip }
      else skip);
     return 0 }"

definition openr2_chan_handle_oob_event :: "'w iface \<Rightarrow> oob_event \<Rightarrow> ('w chan, int) state" where
  "openr2_chan_handle_oob_event ifc event = do {
     (case event of
        OR2_OOB_EVENT_NONE \<Rightarrow> skip
      | OR2_OOB_EVENT_CAS_CHANGE \<Rightarrow> do { openr2_proto_handle_cas ifc; skip }
      | OR2_OOB_EVENT_ALARM_ON \<Rightarrow> do {
          modify (\<lambda>s. s\<lparr>inalarm := 1\<rparr>);
          alarm \<leftarrow> gets inalarm;
          emit ifc (OnHardwareAlarm alarm);
          openr2_proto_handle_alarm_state ifc;
          skip }
      | OR2_OOB_EVENT_ALARM_OFF \<Rightarrow> do {
          modify (\<lambda>s. s\<lparr>inalarm := 0\<rparr>);
          alarm \<leftarrow> gets inalarm;
          emit ifc (OnHardwareAlarm alarm);
          openr2_proto_handle_alarm_state ifc;
          skip }
      | OR2_OOB_EVENT_TONE_CHANGE \<Rightarrow> do { openr2_chan_handle_media ifc [] 0; skip });
     return 0 }"

section \<open>The processing loop\<close>

abbreviation (input) "OR2_CHAN_PROCESS_OOB \<equiv> 1 :: int"
abbreviation (input) "OR2_CHAN_PROCESS_MF \<equiv> 2 :: int"

text \<open>The events the loop asks the I/O layer for.\<close>

definition interesting_events :: "'w iface \<Rightarrow> int \<Rightarrow> ('w chan, int) state" where
  "interesting_events ifc pmask = do {
     s \<leftarrow> gets id;
     let ev = (if test_flag pmask OR2_CHAN_PROCESS_OOB then OR2_IO_OOB_EVENT else 0);
     let ev = (if read_enabled s \<noteq> 0 \<and> test_flag pmask OR2_CHAN_PROCESS_MF then ev OR OR2_IO_READ else ev);
     ev \<leftarrow> (if \<not> test_flag pmask OR2_CHAN_PROCESS_MF then return ev
            else if dialing_dtmf s \<noteq> 0 then return (ev OR OR2_IO_WRITE)
            else if mf_state s \<noteq> OR2_MF_OFF_STATE then do {
              want \<leftarrow> world_call (mf_want_generate ifc (mf_write_handle s) (mf_write_tone s));
              return (if want \<noteq> 0 then ev OR OR2_IO_WRITE else ev) }
            else return ev);
     return (if inalarm s \<noteq> 0 then OR2_IO_OOB_EVENT else ev) }"

text \<open>
  Writing the tone: \<open>None\<close> is the jump to \<open>tryagain\<close>, \<open>Some\<close> the value returned at \<open>done\<close>
  (\<open>HANDLE_IO_WRITE_RESULT\<close>).
\<close>

definition write_samples :: "'w iface \<Rightarrow> int list \<Rightarrow> int \<Rightarrow> ('w chan, int option) state" where
  "write_samples ifc tone_buf res = do {
     buf \<leftarrow> convert_samples (linear_to_alaw ifc) tone_buf res;
     wrote \<leftarrow> openr2_io_write ifc buf res;
     return (if wrote = 0 then Some 0 else if wrote = -1 then Some (-1) else None) }"

definition process_write :: "'w iface \<Rightarrow> int \<Rightarrow> ('w chan, int option) state" where
  "process_write ifc events = do {
     s \<leftarrow> gets id;
     if dialing_dtmf s \<noteq> 0 \<and> test_flag events OR2_IO_WRITE then do {
       (res, tone_buf) \<leftarrow> world_call (dtmf_tx ifc (dtmf_write_handle s) (io_buf_size s));
       if res \<le> 0 then do { openr2_proto_handle_dtmf_end ifc; return None }
       else write_samples ifc tone_buf res }
     else if mf_state s \<noteq> OR2_MF_OFF_STATE \<and> test_flag events OR2_IO_WRITE then do {
       (res, tone_buf) \<leftarrow> world_call (mf_generate_tone ifc (mf_write_handle s) (io_buf_size s));
       if res = 0 then return None
       else if res = -1 then return (Some (-1))
       else write_samples ifc tone_buf res }
     else return None }"

definition process_step :: "'w iface \<Rightarrow> int \<Rightarrow> ('w chan, int option) state" where
  "process_step ifc pmask = do {
     want \<leftarrow> interesting_events ifc pmask;
     (res, events) \<leftarrow> openr2_io_wait ifc want 0;
     if res \<noteq> 0 then return (Some (-1))
     else if events = 0 then return (Some 0)
     else do {
       (if test_flag events OR2_IO_OOB_EVENT then do {
          (res, event) \<leftarrow> openr2_io_get_oob_event ifc;
          if res = 0 \<and> event \<noteq> OR2_OOB_EVENT_NONE
          then do { openr2_chan_handle_oob_event ifc event; skip } else skip }
        else skip);
       enabled \<leftarrow> gets read_enabled;
       if enabled \<noteq> 0 \<and> test_flag events OR2_IO_READ then do {
         (res, read_buf) \<leftarrow> openr2_io_read ifc OR2_CHAN_READ_SIZE;
         if res = -1 then return (Some (-1))
         else if res = 0 then return None
         else do { openr2_chan_handle_media ifc read_buf res; process_write ifc events } }
       else process_write ifc events } }"

text \<open>The loop at \<open>tryagain\<close>; \<open>None\<close> when the given number of rounds does not suffice.\<close>

fun process_loop :: "nat \<Rightarrow> 'w iface \<Rightarrow> int \<Rightarrow> ('w chan, int option) state" where
  "process_loop 0 ifc pmask = return None"
| "process_loop (Suc fuel) ifc pmask = do {
     r \<leftarrow> process_step ifc pmask;
     (case r of
        Some retcode \<Rightarrow> return (Some retcode)
      | None \<Rightarrow> process_loop fuel ifc pmask) }"

definition openr2_chan_process :: "nat \<Rightarrow> 'w iface \<Rightarrow> int \<Rightarrow> ('w chan, int option) state" where
  "openr2_chan_process fuel ifc pmask = do {
     openr2_chan_lock;
     openr2_chan_handle_timers ifc;
     retcode \<leftarrow> process_loop fuel ifc pmask;
     openr2_chan_unlock;
     return retcode }"

definition openr2_chan_process_mf_signaling :: "nat \<Rightarrow> 'w iface \<Rightarrow> ('w chan, int option) state" where
  "openr2_chan_process_mf_signaling fuel ifc = openr2_chan_process fuel ifc OR2_CHAN_PROCESS_MF"

definition openr2_chan_process_oob_events :: "nat \<Rightarrow> 'w iface \<Rightarrow> ('w chan, int option) state" where
  "openr2_chan_process_oob_events fuel ifc = openr2_chan_process fuel ifc OR2_CHAN_PROCESS_OOB"

definition openr2_chan_process_cas_signaling :: "'w iface \<Rightarrow> ('w chan, int) state" where
  "openr2_chan_process_cas_signaling ifc = openr2_proto_handle_cas ifc"

definition openr2_chan_process_signaling :: "nat \<Rightarrow> 'w iface \<Rightarrow> ('w chan, int option) state" where
  "openr2_chan_process_signaling fuel ifc =
     openr2_chan_process fuel ifc (OR2_CHAN_PROCESS_MF OR OR2_CHAN_PROCESS_OOB)"

section \<open>Creating and deleting a channel\<close>

text \<open>
  The channel \<open>calloc\<close> and the assignments before the device is opened leave: everything 0 but the
  fields set explicitly.  The default handles are the addresses of four structures inside the
  channel, here 1 to 4.
\<close>

definition fresh_chan :: "r2ctx \<Rightarrow> 'w \<Rightarrow> 'w chan" where
  "fresh_chan ctx w =
     \<lparr> fd_created = False, fd = 0, io_buf_size = 0, number = 0, read_enabled = 0,
       direction = OR2_DIR_STOPPED, sched_timers = [], timer_id = 1, timer_ids = no_timer_ids,
       mf_state = OR2_MF_UNSET, mf_group = OR2_MF_NO_GROUP, r2_state = OR2_INIT, call_state = OR2_CALL_IDLE,
       cas_read = 0, cas_write = 0, cas_raw_read = 0, cas_persistence_check_signal = -1,
       cas_rx_signal = OR2_CAS_INVALID, cas_tx_signal = OR2_CAS_INVALID, inalarm = 0, r2context = ctx,
       ani = replicate 80 0, ani_ptr = None, ani_len = 0,
       dnis = replicate 80 0, dnis_index = 0, dnis_len = 0,
       caller_ani_is_restricted = 0, caller_category = OR2_MF_TONE_INVALID,
       mf_write_handle = 1, mf_read_handle = 2, dtmf_write_handle = 3, dtmf_read_handle = 4,
       dialing_dtmf = 0, detecting_dtmf = 0, dtmf_silence_samples = 0, mf_write_tone = 0, mf_read_tone = 0,
       mf_threshold_tone = 0, mf_threshold_time = Timeval 0 0, answered = 0, category_sent = 0,
       loglevel = 0, call_files = 0, call_count = 0, logname = [], logfile = 0, chan_flags = 0, span_id = 0,
       client_data = 0, lock_depth = 0, timers_lock_depth = 0, world = w, trace = [], mem_fault = False \<rparr>"

definition openr2_chan_delete :: "'w iface \<Rightarrow> ('w chan, unit) state" where
  "openr2_chan_delete ifc = do {
     openr2_chan_lock;
     openr2_proto_destroy ifc;
     created \<leftarrow> gets fd_created;
     (if created then do { openr2_io_close ifc; skip } else skip);
     f \<leftarrow> gets logfile;
     (if f \<noteq> 0 then do { world_call (sys_fclose ifc f); skip } else skip);
     openr2_chan_unlock }"

text \<open>
  \<open>__openr2_chan_new\<close> on a fresh channel: the result tells whether a channel is returned.  Linking
  the channel into the list of the context is \<open>openr2_context_add_channel\<close> (R2Context); what it
  does to the channel, inheriting the log level, is here.
\<close>

definition chan_new_opened :: "'w iface \<Rightarrow> int \<Rightarrow> ('w chan, bool) state" where
  "chan_new_opened ifc channo = do {
     modify (\<lambda>s. s\<lparr>number := channo, io_buf_size := OR2_CHAN_READ_SIZE\<rparr>);
     modify (\<lambda>s. s\<lparr>loglevel := ctx_loglevel (r2context s)\<rparr>);
     (res, alarm_state) \<leftarrow> openr2_io_get_alarm_state ifc 0;
     (if alarm_state \<noteq> 0 then do {
        modify (\<lambda>s. s\<lparr>inalarm := alarm_state\<rparr>);
        openr2_proto_handle_alarm_state ifc;
        skip }
      else skip);
     return True }"

definition openr2_chan_new :: "'w iface \<Rightarrow> int \<Rightarrow> ('w chan, bool) state" where
  "openr2_chan_new ifc channo =
     (if channo \<le> 0 then do {
        modify (\<lambda>s. s\<lparr>r2context := (r2context s)\<lparr>last_error := OR2_LIBERR_INVALID_CHAN_NUMBER\<rparr>\<rparr>);
        return False }
      else do {
        f \<leftarrow> openr2_io_open ifc channo;
        modify (\<lambda>s. s\<lparr>fd := f\<rparr>);
        if f = 0 then do { openr2_chan_delete ifc; return False }
        else do {
          res \<leftarrow> openr2_io_setup ifc;
          if res \<noteq> 0 then do { openr2_chan_delete ifc; return False }
          else do {
            modify (\<lambda>s. s\<lparr>fd_created := True\<rparr>);
            chan_new_opened ifc channo } } })"

definition openr2_chan_new_from_fd :: "'w iface \<Rightarrow> int \<Rightarrow> int \<Rightarrow> ('w chan, bool) state" where
  "openr2_chan_new_from_fd ifc chanfd channo =
     (if channo \<le> 0 then do {
        modify (\<lambda>s. s\<lparr>r2context := (r2context s)\<lparr>last_error := OR2_LIBERR_INVALID_CHAN_NUMBER\<rparr>\<rparr>);
        return False }
      else do {
        modify (\<lambda>s. s\<lparr>fd := chanfd, fd_created := False\<rparr>);
        chan_new_opened ifc channo })"

section \<open>The public functions\<close>

definition openr2_chan_accept_call :: "'w iface \<Rightarrow> call_mode \<Rightarrow> ('w chan, int) state" where
  "openr2_chan_accept_call ifc mode = do {
     openr2_chan_lock;
     retcode \<leftarrow> openr2_proto_accept_call ifc mode;
     openr2_chan_unlock;
     return retcode }"

definition openr2_chan_answer_call :: "'w iface \<Rightarrow> ('w chan, int) state" where
  "openr2_chan_answer_call ifc = do {
     openr2_chan_lock;
     retcode \<leftarrow> openr2_proto_answer_call ifc;
     openr2_chan_unlock;
     return retcode }"

definition openr2_chan_answer_call_with_mode :: "'w iface \<Rightarrow> answer_mode \<Rightarrow> ('w chan, int) state" where
  "openr2_chan_answer_call_with_mode ifc mode = do {
     openr2_chan_lock;
     retcode \<leftarrow> openr2_proto_answer_call_with_mode ifc mode;
     openr2_chan_unlock;
     return retcode }"

definition openr2_chan_disconnect_call :: "'w iface \<Rightarrow> disconnect_cause \<Rightarrow> ('w chan, int) state" where
  "openr2_chan_disconnect_call ifc cause = do {
     openr2_chan_lock;
     retcode \<leftarrow> openr2_proto_disconnect_call ifc cause;
     openr2_chan_unlock;
     return retcode }"

definition openr2_chan_set_idle :: "'w iface \<Rightarrow> ('w chan, int) state" where
  "openr2_chan_set_idle ifc = do {
     openr2_chan_lock;
     retcode \<leftarrow> openr2_proto_set_idle ifc;
     openr2_chan_unlock;
     return retcode }"

definition openr2_chan_set_blocked :: "'w iface \<Rightarrow> ('w chan, int) state" where
  "openr2_chan_set_blocked ifc = do {
     openr2_chan_lock;
     retcode \<leftarrow> openr2_proto_set_blocked ifc;
     openr2_chan_unlock;
     return retcode }"

definition openr2_chan_ack_call :: "'w iface \<Rightarrow> ('w chan, int) state" where
  "openr2_chan_ack_call ifc = do {
     openr2_chan_lock;
     retcode \<leftarrow> openr2_proto_ack_call ifc;
     openr2_chan_unlock;
     return retcode }"

definition openr2_chan_make_call ::
  "'w iface \<Rightarrow> int list option \<Rightarrow> int list \<Rightarrow> category \<Rightarrow> int \<Rightarrow> ('w chan, int) state" where
  "openr2_chan_make_call ifc ani0 dnis0 category ani_restricted = do {
     openr2_chan_lock;
     retcode \<leftarrow> openr2_proto_make_call ifc ani0 dnis0 category ani_restricted;
     openr2_chan_unlock;
     return retcode }"

definition openr2_chan_set_span_id :: "int \<Rightarrow> ('w chan, unit) state" where
  "openr2_chan_set_span_id i = do {
     openr2_chan_lock;
     modify (\<lambda>s. s\<lparr>span_id := i\<rparr>);
     openr2_chan_unlock }"

definition openr2_chan_set_dtmf_handles :: "int \<Rightarrow> int \<Rightarrow> ('w chan, int) state" where
  "openr2_chan_set_dtmf_handles rd wr = do {
     openr2_chan_lock;
     if wr = 0 then do {
       openr2_chan_unlock;
       return (-1) }
     else if rd = 0 then do {
       openr2_chan_unlock;
       return (-1) }
     else do {
       modify (\<lambda>s. s\<lparr>dtmf_write_handle := wr, dtmf_read_handle := rd\<rparr>);
       openr2_chan_unlock;
       return 0 } }"

definition openr2_chan_set_mflib_handles :: "int \<Rightarrow> int \<Rightarrow> ('w chan, int) state" where
  "openr2_chan_set_mflib_handles wr rd = do {
     openr2_chan_lock;
     (if wr \<noteq> 0 then modify (\<lambda>s. s\<lparr>mf_write_handle := wr\<rparr>) else skip);
     (if rd \<noteq> 0 then modify (\<lambda>s. s\<lparr>mf_read_handle := rd\<rparr>) else skip);
     openr2_chan_unlock;
     return 0 }"

definition openr2_chan_set_client_data :: "int \<Rightarrow> ('w chan, unit) state" where
  "openr2_chan_set_client_data d = do {
     openr2_chan_lock;
     modify (\<lambda>s. s\<lparr>client_data := d\<rparr>);
     openr2_chan_unlock }"

definition openr2_chan_set_log_level :: "int \<Rightarrow> ('w chan, int) state" where
  "openr2_chan_set_log_level level = do {
     openr2_chan_lock;
     retlevel \<leftarrow> gets loglevel;
     modify (\<lambda>s. s\<lparr>loglevel := level\<rparr>);
     openr2_chan_unlock;
     return retlevel }"

definition openr2_chan_enable_read :: "('w chan, unit) state" where
  "openr2_chan_enable_read = do {
     openr2_chan_lock;
     modify (\<lambda>s. s\<lparr>read_enabled := 1\<rparr>);
     openr2_chan_unlock }"

definition openr2_chan_disable_read :: "('w chan, unit) state" where
  "openr2_chan_disable_read = do {
     openr2_chan_lock;
     modify (\<lambda>s. s\<lparr>read_enabled := 0\<rparr>);
     openr2_chan_unlock }"

definition openr2_chan_enable_call_files :: "('w chan, unit) state" where
  "openr2_chan_enable_call_files = do {
     openr2_chan_lock;
     modify (\<lambda>s. s\<lparr>call_files := 1\<rparr>);
     openr2_chan_unlock }"

definition openr2_chan_disable_call_files :: "('w chan, unit) state" where
  "openr2_chan_disable_call_files = do {
     openr2_chan_lock;
     modify (\<lambda>s. s\<lparr>call_files := 0\<rparr>);
     openr2_chan_unlock }"

text \<open>
  Writing speech: \<open>buf\<close> is not advanced after a partial write, so every round offers the whole
  buffer again.  \<open>None\<close> when the rounds given do not suffice (the device keeps answering EAGAIN).
\<close>

abbreviation (input) "EAGAIN \<equiv> 11 :: int"

fun chan_write_loop :: "nat \<Rightarrow> 'w iface \<Rightarrow> int list \<Rightarrow> int \<Rightarrow> int \<Rightarrow> ('w chan, int option) state" where
  "chan_write_loop 0 ifc buf n wrote = return (if wrote < n then None else Some wrote)"
| "chan_write_loop (Suc fuel) ifc buf n wrote =
     (if \<not> wrote < n then return (Some wrote)
      else do {
        res \<leftarrow> openr2_io_write ifc buf n;
        myerrno \<leftarrow> gets (\<lambda>s. sys_errno ifc (world s));
        if res = -1 \<and> myerrno \<noteq> EAGAIN then do { emit ifc (OnOsError myerrno); return (Some wrote) }
        else if res = -1 then chan_write_loop fuel ifc buf n wrote
        else chan_write_loop fuel ifc buf n (wrote + res) })"

definition openr2_chan_write :: "nat \<Rightarrow> 'w iface \<Rightarrow> int list \<Rightarrow> int \<Rightarrow> ('w chan, int option) state" where
  "openr2_chan_write fuel ifc buf buf_size = do {
     openr2_chan_lock;
     wrote \<leftarrow> chan_write_loop fuel ifc buf buf_size 0;
     openr2_chan_unlock;
     return wrote }"

text \<open>
  Each of these is a computation between the lock and its unlock, whatever way it takes.
\<close>

lemma chan_as_locked:
  "openr2_chan_run_schedule ifc = with_chan_lock (openr2_chan_handle_timers ifc)"
  "openr2_chan_accept_call ifc mode = with_chan_lock (openr2_proto_accept_call ifc mode)"
  "openr2_chan_answer_call ifc = with_chan_lock (openr2_proto_answer_call ifc)"
  "openr2_chan_answer_call_with_mode ifc amode = with_chan_lock (openr2_proto_answer_call_with_mode ifc amode)"
  "openr2_chan_disconnect_call ifc cause = with_chan_lock (openr2_proto_disconnect_call ifc cause)"
  "openr2_chan_set_idle ifc = with_chan_lock (openr2_proto_set_idle ifc)"
  "openr2_chan_set_blocked ifc = with_chan_lock (openr2_proto_set_blocked ifc)"
  "openr2_chan_ack_call ifc = with_chan_lock (openr2_proto_ack_call ifc)"
  "openr2_chan_make_call ifc ani0 dnis0 category ani_restricted = with_chan_lock (openr2_proto_make_call ifc ani0 dnis0 category ani_restricted)"
  "openr2_chan_set_span_id i = with_chan_lock (modify (\<lambda>s. s\<lparr>span_id := i\<rparr>))"
  "openr2_chan_set_client_data d = with_chan_lock (modify (\<lambda>s. s\<lparr>client_data := d\<rparr>))"
  "openr2_chan_enable_read = with_chan_lock (modify (\<lambda>s. s\<lparr>read_enabled := 1\<rparr>))"
  "openr2_chan_disable_read = with_chan_lock (modify (\<lambda>s. s\<lparr>read_enabled := 0\<rparr>))"
  "openr2_chan_enable_call_files = with_chan_lock (modify (\<lambda>s. s\<lparr>call_files := 1\<rparr>))"
  "openr2_chan_disable_call_files = with_chan_lock (modify (\<lambda>s. s\<lparr>call_files := 0\<rparr>))"
  "openr2_chan_write fuel ifc buf buf_size = with_chan_lock (chan_write_loop fuel ifc buf buf_size 0)"
  "openr2_chan_process fuel ifc pmask = with_chan_lock (do { openr2_chan_handle_timers ifc; process_loop fuel ifc pmask })"
  "openr2_chan_set_dtmf_handles rd wr = with_chan_lock
     (if wr = 0 then return (-1)
      else if rd = 0 then return (-1)
      else do {
        modify (\<lambda>s. s\<lparr>dtmf_write_handle := wr, dtmf_read_handle := rd\<rparr>);
        return 0 })"
  "openr2_chan_set_mflib_handles wr rd = with_chan_lock (do {
     (if wr \<noteq> 0 then modify (\<lambda>s. s\<lparr>mf_write_handle := wr\<rparr>) else skip);
     (if rd \<noteq> 0 then modify (\<lambda>s. s\<lparr>mf_read_handle := rd\<rparr>) else skip);
     return 0 })"
  "openr2_chan_set_log_level level = with_chan_lock (do {
     retlevel \<leftarrow> gets loglevel;
     modify (\<lambda>s. s\<lparr>loglevel := level\<rparr>);
     return retlevel })"
  by (rule state_eqI; simp add: Let_def
      openr2_chan_run_schedule_def openr2_chan_accept_call_def openr2_chan_answer_call_def
      openr2_chan_answer_call_with_mode_def openr2_chan_disconnect_call_def
      openr2_chan_set_idle_def openr2_chan_set_blocked_def openr2_chan_ack_call_def
      openr2_chan_make_call_def openr2_chan_set_span_id_def openr2_chan_set_client_data_def
      openr2_chan_enable_read_def openr2_chan_disable_read_def
      openr2_chan_enable_call_files_def openr2_chan_disable_call_files_def
      openr2_chan_write_def openr2_chan_process_def openr2_chan_set_dtmf_handles_def
      openr2_chan_set_mflib_handles_def openr2_chan_set_log_level_def)+

section \<open>The invariants are kept\<close>

context op_invariant
begin

lemma keeps_for_each [keeps_intros]: "(\<And>x. keeps I (f x)) \<Longrightarrow> keeps I (for_each f xs)"
  by (induction xs) (simp_all add: keeps_skip keeps_bind)

lemma keeps_timer_function [keeps_intros]: "keeps I (timer_function ifc cb)"
  by (cases cb) (simp_all, (intro keeps_intros)+)

lemma keeps_dtmf_rx [keeps_intros]: "keeps I (dtmf_rx ifc h b n (on_dtmf_received ifc))"
  by (rule dtmf_rx_keeps) (intro keeps_intros)

lemma keeps_handle_timers [keeps_intros]: "keeps I (openr2_chan_handle_timers ifc)"
  unfolding openr2_chan_handle_timers_def by (intro keeps_intros; simp)

lemma keeps_convert_samples [keeps_intros]: "keeps I (convert_samples f b n)"
  unfolding convert_samples_def by (intro keeps_intros; simp)

lemma keeps_handle_media [keeps_intros]: "keeps I (openr2_chan_handle_media ifc b n)"
  unfolding openr2_chan_handle_media_def by (intro keeps_intros; simp)

lemma keeps_handle_oob_event [keeps_intros]: "keeps I (openr2_chan_handle_oob_event ifc e)"
  unfolding openr2_chan_handle_oob_event_def by (intro keeps_intros; simp)

lemma keeps_interesting_events [keeps_intros]: "keeps I (interesting_events ifc m)"
  unfolding interesting_events_def by (intro keeps_intros; simp)

lemma keeps_write_samples [keeps_intros]: "keeps I (write_samples ifc b n)"
  unfolding write_samples_def by (intro keeps_intros; simp)

lemma keeps_process_write [keeps_intros]: "keeps I (process_write ifc e)"
  unfolding process_write_def by (intro keeps_intros; simp)

lemma keeps_process_step [keeps_intros]: "keeps I (process_step ifc m)"
  unfolding process_step_def by (intro keeps_intros; simp)

lemma keeps_process_loop [keeps_intros]: "keeps I (process_loop fuel ifc m)"
  by (induction fuel) (auto intro!: keeps_intros)

lemma keeps_chan_write_loop [keeps_intros]: "keeps I (chan_write_loop fuel ifc b n w)"
  by (induction fuel arbitrary: w) (auto intro!: keeps_intros)

lemma keeps_chan_new_opened [keeps_intros]: "keeps I (chan_new_opened ifc n)"
  unfolding chan_new_opened_def by (intro keeps_intros; simp)

end

end
