(* ===== verification/R2Io.thy ===== *)
theory R2Io
  imports R2Timer
begin

text \<open>
  The two I/O drivers of \<open>r2ioabs.c\<close>: the dummy one of a build without DAHDI headers and the
  Zaptel/DAHDI one, over the system calls it makes (\<open>zt_sys\<close>, parameters) and the constants of the
  DAHDI header (\<open>zt_consts\<close>, parameters).  Each driver is plugged into an interface whose callbacks
  keep an invariant, and keeps it: the contracts of R2Iface hold for the drivers of the library.
\<close>

section \<open>The system below the driver\<close>

text \<open>\<open>ioctl\<close> requests with the integer they carry; the reply is the return code and an integer.\<close>

datatype zt_request =
    ZT_SPECIFY int | ZT_SETTXBITS int | ZT_GETRXBITS | ZT_FLUSH int
  | ZT_CHANNO | ZT_GET_PARAMS | ZT_GET_BUFINFO
  | ZT_SET_BUFINFO (txbufpolicy: int) (rxbufpolicy: int) (numbufs: int) (bufsize: int)
  | ZT_SETGAINS "int list" | ZT_SETLAW int | ZT_ECHOCANCEL int
  | ZT_IOMUX int | ZT_GETEVENT

record 'w zt_sys =
  zt_sys_open :: "'w \<Rightarrow> int \<times> 'w"
  zt_sys_close :: "int \<Rightarrow> 'w \<Rightarrow> int \<times> 'w"
  zt_sys_ioctl :: "int \<Rightarrow> zt_request \<Rightarrow> 'w \<Rightarrow> (int \<times> int) \<times> 'w"
  zt_sys_read :: "int \<Rightarrow> int \<Rightarrow> 'w \<Rightarrow> (int \<times> int list) \<times> 'w"
  zt_sys_write :: "int \<Rightarrow> int list \<Rightarrow> int \<Rightarrow> 'w \<Rightarrow> int \<times> 'w"

record zt_consts =
  c_FLUSH_WRITE :: int
  c_SIG_CAS :: int
  c_POLICY_IMMEDIATE :: int
  c_LAW_ALAW :: int
  c_IOMUX_NOWAIT :: int
  c_IOMUX_READ :: int
  c_IOMUX_WRITE :: int
  c_IOMUX_SIGEVENT :: int
  c_EVENT_BITSCHANGED :: int
  c_EVENT_ALARM :: int
  c_EVENT_NOALARM :: int
  c_ELAST :: int

section \<open>The Zaptel driver\<close>

definition set_last_error :: "liberr \<Rightarrow> ('w chan, unit) state" where
  "set_last_error e = modify (\<lambda>s. s\<lparr>r2context := (r2context s)\<lparr>last_error := e\<rparr>\<rparr>)"

definition report_os_error :: "'w iface \<Rightarrow> ('w chan, unit) state" where
  "report_os_error ifc = do {
     myerrno \<leftarrow> gets (\<lambda>s. sys_errno ifc (world s));
     emit ifc (OnOsError myerrno);
     skip }"

definition zt_open :: "'w zt_sys \<Rightarrow> int \<Rightarrow> ('w chan, int) state" where
  "zt_open z channo = do {
     chanfd \<leftarrow> world_call (zt_sys_open z);
     if chanfd = -1 then do { set_last_error OR2_LIBERR_SYSCALL_FAILED; return 0 }
     else do {
       (res, _) \<leftarrow> world_call (zt_sys_ioctl z chanfd (ZT_SPECIFY channo));
       if res \<noteq> 0 then do {
         set_last_error OR2_LIBERR_SYSCALL_FAILED;
         world_call (zt_sys_close z chanfd);
         return 0 }
       else return chanfd } }"

definition zt_close :: "'w zt_sys \<Rightarrow> 'w iface \<Rightarrow> ('w chan, int) state" where
  "zt_close z ifc = do {
     f \<leftarrow> gets fd;
     res \<leftarrow> world_call (zt_sys_close z f);
     if res \<noteq> 0 then do { report_os_error ifc; return (-1) } else return 0 }"

definition zt_set_cas :: "'w zt_sys \<Rightarrow> 'w iface \<Rightarrow> int \<Rightarrow> ('w chan, int) state" where
  "zt_set_cas z ifc cas = do {
     f \<leftarrow> gets fd;
     (res, _) \<leftarrow> world_call (zt_sys_ioctl z f (ZT_SETTXBITS cas));
     if res \<noteq> 0 then do { report_os_error ifc; return (-1) } else return 0 }"

definition zt_flush_write_buffers :: "'w zt_sys \<Rightarrow> zt_consts \<Rightarrow> 'w iface \<Rightarrow> ('w chan, int) state" where
  "zt_flush_write_buffers z c ifc = do {
     f \<leftarrow> gets fd;
     (res, _) \<leftarrow> world_call (zt_sys_ioctl z f (ZT_FLUSH (c_FLUSH_WRITE c)));
     if res \<noteq> 0 then do { report_os_error ifc; return (-1) } else return 0 }"

definition zt_get_cas :: "'w zt_sys \<Rightarrow> 'w iface \<Rightarrow> ('w chan, int \<times> int) state" where
  "zt_get_cas z ifc = do {
     f \<leftarrow> gets fd;
     (res, cas) \<leftarrow> world_call (zt_sys_ioctl z f ZT_GETRXBITS);
     if res \<noteq> 0 then do { report_os_error ifc; return (-1, cas) } else return (0, cas) }"

definition zt_read :: "'w zt_sys \<Rightarrow> zt_consts \<Rightarrow> 'w iface \<Rightarrow> int \<Rightarrow> ('w chan, int \<times> int list) state" where
  "zt_read z c ifc sz = do {
     f \<leftarrow> gets fd;
     (bytes, buf) \<leftarrow> world_call (zt_sys_read z f sz);
     if bytes = -1 then do {
       myerrno \<leftarrow> gets (\<lambda>s. sys_errno ifc (world s));
       if myerrno = c_ELAST c then return (0, buf)
       else do { emit ifc (OnOsError myerrno); return (-1, buf) } }
     else return (bytes, buf) }"

definition zt_write :: "'w zt_sys \<Rightarrow> zt_consts \<Rightarrow> 'w iface \<Rightarrow> int list \<Rightarrow> int \<Rightarrow> ('w chan, int) state" where
  "zt_write z c ifc buf sz = do {
     f \<leftarrow> gets fd;
     bytes \<leftarrow> world_call (zt_sys_write z f buf sz);
     if bytes = -1 then do {
       myerrno \<leftarrow> gets (\<lambda>s. sys_errno ifc (world s));
       if myerrno = c_ELAST c then return 0
       else do { emit ifc (OnOsError myerrno); return bytes } }
     else return bytes }"

text \<open>One step of \<open>zt_setup\<close> whose failure ends the setup with an error recorded in the context.\<close>

definition setup_ioctl :: "'w zt_sys \<Rightarrow> int \<Rightarrow> zt_request \<Rightarrow> (int \<Rightarrow> ('w chan, int) state) \<Rightarrow> ('w chan, int) state" where
  "setup_ioctl z f req next = do {
     (res, v) \<leftarrow> world_call (zt_sys_ioctl z f req);
     if res \<noteq> 0 then do { set_last_error OR2_LIBERR_SYSCALL_FAILED; return (-1) } else next v }"

definition zt_setup :: "'w zt_sys \<Rightarrow> zt_consts \<Rightarrow> ('w chan, int) state" where
  "zt_setup z c = do {
     f \<leftarrow> gets fd;
     setup_ioctl z f ZT_CHANNO (\<lambda>channo.
     setup_ioctl z f ZT_GET_PARAMS (\<lambda>sigtype.
       if c_SIG_CAS c \<noteq> sigtype then do { set_last_error OR2_LIBERR_INVALID_CHAN_SIGNALING; return (-1) }
       else
     setup_ioctl z f ZT_GET_BUFINFO (\<lambda>_.
     setup_ioctl z f (ZT_SET_BUFINFO (c_POLICY_IMMEDIATE c) (c_POLICY_IMMEDIATE c) 4 OR2_CHAN_READ_SIZE) (\<lambda>_.
     setup_ioctl z f (ZT_SETGAINS (map int [0..<256])) (\<lambda>_.
     setup_ioctl z f (ZT_SETLAW (c_LAW_ALAW c)) (\<lambda>_.
     setup_ioctl z f (ZT_ECHOCANCEL 0) (\<lambda>_. return 0))))))) }"

definition iomux_request :: "zt_consts \<Rightarrow> int \<Rightarrow> int \<Rightarrow> int" where
  "iomux_request c flags block =
     (if block = 0 then c_IOMUX_NOWAIT c else 0) OR
     (if test_flag flags OR2_IO_READ then c_IOMUX_READ c else 0) OR
     (if test_flag flags OR2_IO_WRITE then c_IOMUX_WRITE c else 0) OR
     (if test_flag flags OR2_IO_OOB_EVENT then c_IOMUX_SIGEVENT c else 0)"

definition iomux_reply :: "zt_consts \<Rightarrow> int \<Rightarrow> int" where
  "iomux_reply c zapflags =
     (if test_flag zapflags (c_IOMUX_SIGEVENT c) then OR2_IO_OOB_EVENT else 0) OR
     (if test_flag zapflags (c_IOMUX_READ c) then OR2_IO_READ else 0) OR
     (if test_flag zapflags (c_IOMUX_WRITE c) then OR2_IO_WRITE else 0)"

definition zt_wait :: "'w zt_sys \<Rightarrow> zt_consts \<Rightarrow> 'w iface \<Rightarrow> int \<Rightarrow> int \<Rightarrow> ('w chan, int \<times> int) state" where
  "zt_wait z c ifc flags block =
     (if flags = 0 then return (-1, flags)
      else do {
        f \<leftarrow> gets fd;
        (res, zapflags) \<leftarrow> world_call (zt_sys_ioctl z f (ZT_IOMUX (iomux_request c flags block)));
        if res \<noteq> 0 then do { report_os_error ifc; return (-1, flags) }
        else return (0, iomux_reply c zapflags) })"

definition zt_get_oob_event :: "'w zt_sys \<Rightarrow> zt_consts \<Rightarrow> ('w chan, int \<times> oob_event) state" where
  "zt_get_oob_event z c = do {
     f \<leftarrow> gets fd;
     (res, zapevent) \<leftarrow> world_call (zt_sys_ioctl z f ZT_GETEVENT);
     return (if res \<noteq> 0 then (-1, OR2_OOB_EVENT_NONE)
             else if zapevent = c_EVENT_BITSCHANGED c then (0, OR2_OOB_EVENT_CAS_CHANGE)
             else if zapevent = c_EVENT_ALARM c then (0, OR2_OOB_EVENT_ALARM_ON)
             else if zapevent = c_EVENT_NOALARM c then (0, OR2_OOB_EVENT_ALARM_OFF)
             else (0, OR2_OOB_EVENT_NONE)) }"

definition zt_get_alarm_state :: "int \<Rightarrow> ('w chan, int \<times> int) state" where
  "zt_get_alarm_state alarm = return (0, 0)"

text \<open>\<open>zt_io_interface\<close>, plugged into the other interfaces of a context.\<close>

definition with_zt :: "'w zt_sys \<Rightarrow> zt_consts \<Rightarrow> 'w iface \<Rightarrow> 'w iface" where
  "with_zt z c ifc = ifc\<lparr>
     io_open := zt_open z, io_close := zt_close z ifc, io_set_cas := zt_set_cas z ifc,
     io_get_cas := zt_get_cas z ifc, io_flush_write_buffers := zt_flush_write_buffers z c ifc,
     io_write := zt_write z c ifc, io_read := zt_read z c ifc, io_setup := zt_setup z c,
     io_wait := zt_wait z c ifc, io_get_oob_event := zt_get_oob_event z c,
     io_get_alarm_state := Some (zt_get_alarm_state 0) \<rparr>"

section \<open>The dummy driver\<close>

definition dummy_open :: "int \<Rightarrow> ('w chan, int) state" where
  "dummy_open channo = return 0"

definition DUMMY_CHAN_RETURN :: "('w chan, int) state" where
  "DUMMY_CHAN_RETURN = return (-1)"

text \<open>
  \<open>dummy_io_interface\<close>: what a pointer argument holds afterwards is what it held before, and the
  function for the alarm state is missing.
\<close>

definition with_dummy :: "'w iface \<Rightarrow> 'w iface" where
  "with_dummy ifc = ifc\<lparr>
     io_open := dummy_open, io_close := DUMMY_CHAN_RETURN, io_set_cas := (\<lambda>_. DUMMY_CHAN_RETURN),
     io_get_cas := do { r \<leftarrow> DUMMY_CHAN_RETURN; return (r, 0) },
     io_flush_write_buffers := DUMMY_CHAN_RETURN, io_write := (\<lambda>_ _. DUMMY_CHAN_RETURN),
     io_read := (\<lambda>_. do { r \<leftarrow> DUMMY_CHAN_RETURN; return (r, []) }), io_setup := DUMMY_CHAN_RETURN,
     io_wait := (\<lambda>flags _. do { r \<leftarrow> DUMMY_CHAN_RETURN; return (r, flags) }),
     io_get_oob_event := do { r \<leftarrow> DUMMY_CHAN_RETURN; return (r, OR2_OOB_EVENT_NONE) },
     io_get_alarm_state := None \<rparr>"

section \<open>Both drivers honour the contract of the interfaces\<close>

text \<open>What a driver needs: the user's callbacks and the DTMF engine keep \<open>I\<close>.\<close>

locale user_contract =
  fixes ifc :: "'w iface" and I :: "'w chan \<Rightarrow> bool"
  assumes user_keeps: "\<And>e. keeps I (evmanager ifc e)"
    and engine_keeps: "\<And>h b n cb. (\<And>d l. keeps I (cb d l)) \<Longrightarrow> keeps I (dtmf_rx ifc h b n cb)"
    and I_updates [simp]: "\<And>s w. I (s\<lparr>world := w\<rparr>) = I s" "\<And>s t. I (s\<lparr>trace := t\<rparr>) = I s"
      "\<And>s b. I (s\<lparr>mem_fault := b\<rparr>) = I s" "\<And>s c. I (s\<lparr>cas_raw_read := c\<rparr>) = I s"
      "\<And>s e. I (s\<lparr>r2context := (r2context s)\<lparr>last_error := e\<rparr>\<rparr>) = I s"
begin

lemma user_world_call: "keeps I (world_call f)"
  by (simp add: keeps_def)

lemma user_last_error: "keeps I (set_last_error e)"
  by (simp add: keeps_def set_last_error_def)

lemma user_emit: "keeps I (emit ifc e)"
  unfolding emit_def by (intro keeps_intros user_keeps) (simp add: keeps_def)

lemma user_report: "keeps I (report_os_error ifc)"
  unfolding report_os_error_def by (intro keeps_intros user_emit)

lemmas user_intros = keeps_intros user_world_call user_last_error user_emit user_report

lemma user_setup_ioctl: "(\<And>v. keeps I (next v)) \<Longrightarrow> keeps I (setup_ioctl z f req next)"
  unfolding setup_ioctl_def by (intro user_intros)

lemma user_zt_setup: "keeps I (zt_setup z c)"
  unfolding zt_setup_def by (intro user_intros user_setup_ioctl)

lemma user_zt_open: "keeps I (zt_open z n)"
  unfolding zt_open_def by (intro user_intros)

lemma user_zt_io:
  "keeps I (zt_close z ifc)" "keeps I (zt_set_cas z ifc cas)" "keeps I (zt_get_cas z ifc)"
  "keeps I (zt_flush_write_buffers z c ifc)" "keeps I (zt_write z c ifc b n)" "keeps I (zt_read z c ifc n)"
  "keeps I (zt_wait z c ifc f k)" "keeps I (zt_get_oob_event z c)" "keeps I (zt_get_alarm_state a)"
  unfolding zt_close_def zt_set_cas_def zt_get_cas_def zt_flush_write_buffers_def zt_write_def zt_read_def
    zt_wait_def zt_get_oob_event_def zt_get_alarm_state_def
  by (intro user_intros)+

lemma zt_channel_invariant: "channel_invariant (with_zt z c ifc) I"
  by unfold_locales
    (auto simp: with_zt_def user_keeps user_zt_open user_zt_setup user_zt_io intro: engine_keeps)

lemma dummy_channel_invariant: "channel_invariant (with_dummy ifc) I"
  by unfold_locales
    (auto simp: with_dummy_def user_keeps dummy_open_def DUMMY_CHAN_RETURN_def intro: engine_keeps intro!: keeps_intros)

end

sublocale user_contract \<subseteq> zt: channel_invariant "with_zt z c ifc" I for z c
  by (rule zt_channel_invariant)

sublocale user_contract \<subseteq> dummy: channel_invariant "with_dummy ifc" I
  by (rule dummy_channel_invariant)

lemma chan_ok_last_error [simp]: "chan_ok (s\<lparr>r2context := (r2context s)\<lparr>last_error := e\<rparr>\<rparr>) = chan_ok s"
  by (rule chan_ok_fields) simp_all

lemma locks_at_last_error [simp]: "locks_at d e (s\<lparr>r2context := (r2context s)\<lparr>last_error := x\<rparr>\<rparr>) = locks_at d e s"
  by (simp add: locks_at_def)

section \<open>Properties\<close>

text \<open>
  The Zaptel driver asks the device exactly for the events it was asked for and reports exactly
  the events of the answer: with distinct bits for the device's flags, the reply to a device that
  signals everything it was asked for is the set of flags the caller passed.
\<close>

theorem zt_wait_flags:
  assumes "c_IOMUX_READ c = 1" "c_IOMUX_WRITE c = 2" "c_IOMUX_SIGEVENT c = 8" "c_IOMUX_NOWAIT c = 256"
    and "flags \<in> {1 .. 7}" and "val (world_call (zt_sys_ioctl z (fd s) (ZT_IOMUX (iomux_request c flags block)))) s =
      (0, iomux_request c flags block)"
  shows "val (zt_wait z c ifc flags block) s = (0, flags)"
proof -
  have "flags = 1 \<or> flags = 2 \<or> flags = 3 \<or> flags = 4 \<or> flags = 5 \<or> flags = 6 \<or> flags = 7"
    using assms(5) by auto
  then have "iomux_reply c (iomux_request c flags block) = flags"
    using assms(1-4) by (auto simp: iomux_reply_def iomux_request_def test_flag_def)
  moreover have "flags \<noteq> 0" using assms(5) by simp
  ultimately show ?thesis using assms(6) by (simp add: zt_wait_def)
qed

end
