(* ===== verification/R2Client.thy ===== *)
theory R2Client
  imports R2Chan R2Io
begin

text \<open>
  The user of the library: the public calls as one datatype, programs of calls, and event callbacks
  that themselves call back into the library to any depth, over either driver of \<open>r2ioabs.c\<close>.  The two
  invariant contracts are interpreted here: no user, however it nests its calls, corrupts the timers or
  leaves a lock held.
\<close>

section \<open>Calls\<close>

datatype api =
    Accept call_mode | Answer | AnswerWithMode answer_mode | Disconnect disconnect_cause
  | SetIdle | SetBlocked | Ack
  | MakeCall "int list option" "int list" category int
  | Process nat int | ProcessCas | RunSchedule | TimeToNextEvent
  | WriteSpeech nat "int list" int
  | EnableRead | DisableRead | EnableCallFiles | DisableCallFiles
  | SetSpanId int | SetLogLevel int | SetClientData int | SetDtmfHandles int int | SetMflibHandles int int

fun run_api :: "'w iface \<Rightarrow> api \<Rightarrow> ('w chan, int) state" where
  "run_api ifc (Accept m) = openr2_chan_accept_call ifc m"
| "run_api ifc Answer = openr2_chan_answer_call ifc"
| "run_api ifc (AnswerWithMode m) = openr2_chan_answer_call_with_mode ifc m"
| "run_api ifc (Disconnect c) = openr2_chan_disconnect_call ifc c"
| "run_api ifc SetIdle = openr2_chan_set_idle ifc"
| "run_api ifc SetBlocked = openr2_chan_set_blocked ifc"
| "run_api ifc Ack = openr2_chan_ack_call ifc"
| "run_api ifc (MakeCall a d c r) = openr2_chan_make_call ifc a d c r"
| "run_api ifc (Process fuel m) = do { r \<leftarrow> openr2_chan_process fuel ifc m; return (case r of None \<Rightarrow> 0 | Some x \<Rightarrow> x) }"
| "run_api ifc ProcessCas = openr2_chan_process_cas_signaling ifc"
| "run_api ifc RunSchedule = openr2_chan_run_schedule ifc"
| "run_api ifc TimeToNextEvent = openr2_chan_get_time_to_next_event ifc"
| "run_api ifc (WriteSpeech fuel b n) =
     do { r \<leftarrow> openr2_chan_write fuel ifc b n; return (case r of None \<Rightarrow> 0 | Some x \<Rightarrow> x) }"
| "run_api ifc EnableRead = do { openr2_chan_enable_read; return 0 }"
| "run_api ifc DisableRead = do { openr2_chan_disable_read; return 0 }"
| "run_api ifc EnableCallFiles = do { openr2_chan_enable_call_files; return 0 }"
| "run_api ifc DisableCallFiles = do { openr2_chan_disable_call_files; return 0 }"
| "run_api ifc (SetSpanId i) = do { openr2_chan_set_span_id i; return 0 }"
| "run_api ifc (SetLogLevel l) = openr2_chan_set_log_level l"
| "run_api ifc (SetClientData d) = do { openr2_chan_set_client_data d; return 0 }"
| "run_api ifc (SetDtmfHandles a b) = openr2_chan_set_dtmf_handles a b"
| "run_api ifc (SetMflibHandles a b) = openr2_chan_set_mflib_handles a b"

text \<open>A program of calls: the next call may depend on what the calls before it returned.\<close>

datatype prog = Finish int | Call api "int \<Rightarrow> prog"

primrec run_prog :: "'w iface \<Rightarrow> prog \<Rightarrow> ('w chan, int) state" where
  "run_prog ifc (Finish r) = return r"
| "run_prog ifc (Call a next) = do { r \<leftarrow> run_api ifc a; run_prog ifc (next r) }"

section \<open>Users that call back\<close>

text \<open>What a user does in a callback: a program depending on the event and the channel.\<close>

type_synonym 'w user = "event \<Rightarrow> 'w chan \<Rightarrow> prog"

text \<open>
  The DTMF detector delivers digits through the callback it was given: any function of the samples
  and its own state that says which digits to deliver.
\<close>

type_synonym 'w detector = "int \<Rightarrow> int list \<Rightarrow> int \<Rightarrow> 'w \<Rightarrow> (int \<times> (int list option \<times> int) list) \<times> 'w"

definition deliver :: "'w detector \<Rightarrow> int \<Rightarrow> int list \<Rightarrow> int \<Rightarrow>
    (int list option \<Rightarrow> int \<Rightarrow> ('w chan, unit) state) \<Rightarrow> ('w chan, int) state" where
  "deliver det h buf n cb = do {
     (rc, calls) \<leftarrow> world_call (det h buf n);
     for_each (\<lambda>(d, l). cb d l) calls;
     return rc }"

datatype 'w driver = Dummy | Zaptel "'w zt_sys" zt_consts

fun plug :: "'w driver \<Rightarrow> 'w iface \<Rightarrow> 'w iface" where
  "plug Dummy ifc = with_dummy ifc"
| "plug (Zaptel z c) ifc = with_zt z c ifc"

text \<open>
  The library under a user whose callbacks nest at most \<open>depth\<close> deep; the callbacks of the last
  level return 0 without calling back.
\<close>

fun library :: "nat \<Rightarrow> 'w driver \<Rightarrow> 'w detector \<Rightarrow> 'w iface \<Rightarrow> 'w user \<Rightarrow> 'w iface" where
  "library 0 dr det base user =
     plug dr (base\<lparr>dtmf_rx := deliver det, evmanager := (\<lambda>e. return 0)\<rparr>)"
| "library (Suc depth) dr det base user =
     plug dr (base\<lparr>dtmf_rx := deliver det, evmanager := (\<lambda>e. do {
       p \<leftarrow> gets (user e);
       run_prog (library depth dr det base user) p })\<rparr>)"

text \<open>Calls one after the other, then a result.\<close>

definition calls :: "api list \<Rightarrow> int \<Rightarrow> prog" where
  "calls as r = foldr (\<lambda>a p. Call a (\<lambda>_. p)) as (Finish r)"

section \<open>Calls keep the invariants\<close>

text \<open>The public functions as computations between the locks.\<close>

lemmas api_defs = chan_as_locked time_to_next_event_as_locked openr2_chan_process_cas_signaling_def

lemma chan_ok_timers_lock: "keeps chan_ok m \<Longrightarrow> keeps chan_ok (with_timers_lock m)"
  by (simp add: keeps_def Let_def)

lemma keeps_case_list: "keeps I m \<Longrightarrow> (\<And>x xs. keeps I (f x xs)) \<Longrightarrow> keeps I (case l of [] \<Rightarrow> m | x # xs \<Rightarrow> f x xs)"
  by (cases l) simp_all

context chan_interfaces
begin

lemma chan_ok_run_api: "keeps chan_ok (run_api ifc a)"
proof (cases a)
  case (SetDtmfHandles x y)
  show ?thesis unfolding SetDtmfHandles run_api.simps api_defs by (auto intro!: keeps_intros chan_ok_lock)
qed (simp_all only: run_api.simps api_defs,
  (intro keeps_intros chan_ok_lock chan_ok_timers_lock keeps_case_list; simp)+)

lemma chan_ok_run_prog: "keeps chan_ok (run_prog ifc p)"
  by (induction p) (auto intro!: keeps_bind chan_ok_run_api keeps_return)

end

lemma balanced_bind: "balanced m \<Longrightarrow> (\<And>a. balanced (f a)) \<Longrightarrow> balanced (State_Monad.bind m f)"
  by (simp add: balanced_def keeps_bind)

lemma balanced_return: "balanced (return a)"
  by (simp add: balanced_def keeps_return)

context lock_interfaces
begin

lemma balancedI_keeps: "(\<And>d e. keeps (locks_at d e) m) \<Longrightarrow> balanced m"
  by (simp add: balanced_def)

lemma balanced_run_api: "balanced (run_api ifc a)"
proof (cases a)
  case (SetDtmfHandles x y)
  show ?thesis unfolding SetDtmfHandles run_api.simps api_defs
    by (intro balanced_lock balancedI_keeps) (auto intro!: keeps_intros)
qed (simp_all only: run_api.simps api_defs,
  (rule balanced_bind balanced_return balanced_lock balanced_timers_lock |
   (rule balancedI_keeps, (intro keeps_intros keeps_case_list; simp)))+)

lemma balanced_run_prog: "balanced (run_prog ifc p)"
  by (induction p) (auto intro!: balanced_bind balanced_run_api balanced_return)

end

section \<open>Every user keeps the contracts\<close>

lemma keeps_deliver:
  assumes "\<And>d l. keeps I (cb d l)" and "\<And>s w. I (s\<lparr>world := w\<rparr>) = I s"
  shows "keeps I (deliver det h b n cb)"
proof -
  have fe: "keeps I (for_each (\<lambda>(d, l). cb d l) xs)" for xs
    by (induction xs) (auto intro!: keeps_skip keeps_bind assms(1))
  have wc: "keeps I (world_call f)" for f :: "'a \<Rightarrow> 'x \<times> 'a" using assms(2) by (simp add: keeps_def)
  show ?thesis unfolding deliver_def by (intro keeps_intros fe wc)
qed

text \<open>What plugging a driver under a user gives, for an invariant.\<close>

lemma plug_invariant:
  assumes "user_contract ifc I"
  shows "channel_invariant (plug dr ifc) I"
  using user_contract.zt_channel_invariant [OF assms] user_contract.dummy_channel_invariant [OF assms]
  by (cases dr) simp_all

lemma library_invariant:
  assumes upd: "\<And>s w. I (s\<lparr>world := w\<rparr>) = I s" "\<And>s t. I (s\<lparr>trace := t\<rparr>) = I s"
      "\<And>s b. I (s\<lparr>mem_fault := b\<rparr>) = I s" "\<And>s c. I (s\<lparr>cas_raw_read := c\<rparr>) = I s"
      "\<And>s e. I (s\<lparr>r2context := (r2context s)\<lparr>last_error := e\<rparr>\<rparr>) = I s"
    and prog: "\<And>d p. channel_invariant (library d dr det base user) I \<Longrightarrow> keeps I (run_prog (library d dr det base user) p)"
  shows "channel_invariant (library depth dr det base user) I"
proof (induction depth)
  case 0
  have "user_contract (base\<lparr>dtmf_rx := deliver det, evmanager := (\<lambda>e. return 0)\<rparr>) I"
    by unfold_locales (simp_all add: upd keeps_deliver keeps_return)
  then show ?case by (simp add: plug_invariant)
next
  case (Suc depth)
  have "keeps I (State_Monad.bind (gets (user e)) (run_prog (library depth dr det base user)))" for e
    by (intro keeps_bind keeps_gets prog [OF Suc.IH])
  then have "user_contract (base\<lparr>dtmf_rx := deliver det, evmanager := (\<lambda>e. do {
       p \<leftarrow> gets (user e); run_prog (library depth dr det base user) p })\<rparr>) I"
    by unfold_locales (simp_all add: upd keeps_deliver)
  then show ?case by (simp add: plug_invariant)
qed

interpretation lib: chan_interfaces "library depth dr det base user" for depth dr det base user
  unfolding chan_interfaces_def
  by (rule library_invariant)
    (simp_all add: chan_interfaces.chan_ok_run_prog chan_interfaces_def)

lemma library_locks: "\<forall>d e. channel_invariant (library depth dr det base user) (locks_at d e)"
proof (induction depth)
  case 0
  have "user_contract (base\<lparr>dtmf_rx := deliver det, evmanager := (\<lambda>e. return 0)\<rparr>) (locks_at d e)" for d e
    by unfold_locales (simp_all add: keeps_deliver keeps_return)
  then show ?case by (simp add: plug_invariant)
next
  case (Suc depth)
  then have "lock_interfaces (library depth dr det base user)" by (simp add: lock_interfaces_def)
  then have "keeps (locks_at d e) (run_prog (library depth dr det base user) p)" for d e p
    using lock_interfaces.balanced_run_prog by (fastforce simp: balanced_def)
  then have "keeps (locks_at d e) (State_Monad.bind (gets (user ev)) (run_prog (library depth dr det base user)))" for d e ev
    by (intro keeps_bind keeps_gets)
  then have "user_contract (base\<lparr>dtmf_rx := deliver det, evmanager := (\<lambda>e. do {
       p \<leftarrow> gets (user e); run_prog (library depth dr det base user) p })\<rparr>) (locks_at d e)" for d e
    by unfold_locales (simp_all add: keeps_deliver)
  then show ?case by (simp add: plug_invariant)
qed

interpretation lib: lock_interfaces "library depth dr det base user" for depth dr det base user
  by (simp add: lock_interfaces_def library_locks)

end
