(* ===== verification/R2Silent.thy ===== *)
theory R2Silent
  imports R2Client
begin

text \<open>
  Interfaces that leave the channel alone: callbacks that only print, as the default ones of
  \<open>r2context.c\<close> do, and a driver that reports no error to the user.  Under such interfaces the effect
  of an operation is the library's own; it is computed with weakest preconditions, one rule for each
  operation, in which the world is a fresh variable after every call outside.
  \<open>working_interfaces\<close> adds that the device and the MF engine do what they are asked.  Both contracts
  are interpreted on the line simulator of R2Sim.
\<close>

section \<open>Weakest preconditions\<close>

named_theorems wp_intros \<open>weakest precondition rules of operations\<close>

definition wp :: "('s, 'a) state \<Rightarrow> ('a \<Rightarrow> 's \<Rightarrow> bool) \<Rightarrow> 's \<Rightarrow> bool" where
  "wp m P s \<longleftrightarrow> P (val m s) (exec m s)"

lemma wp_bind [simp]: "wp (State_Monad.bind m f) P s = wp m (\<lambda>v. wp (f v) P) s"
  by (simp add: wp_def)

lemma wp_basic [simp]:
  "wp (return a) P s = P a s" "wp (gets f) P s = P (f s) s" "wp skip Q s = Q () s" "wp (modify g) Q s = Q () (g s)"
  by (simp_all add: wp_def)

lemma wp_if [simp]: "wp (if b then m else n) P s = (if b then wp m P s else wp n P s)"
  by simp

lemma wp_world [simp]:
  "wp (world_call f) P s = P (fst (f (world s))) (s\<lparr>world := snd (f (world s))\<rparr>)"
  "wp (world_do g) Q s = Q () (s\<lparr>world := g (world s)\<rparr>)"
  by (simp_all add: wp_def)

lemma wp_record_act [simp]: "wp (record_act a) Q s = Q () (s\<lparr>trace := trace s @ [a]\<rparr>)"
  by (simp add: wp_def)

lemma wp_memory_fault [simp]: "wp memory_fault Q s = Q () (s\<lparr>mem_fault := True\<rparr>)"
  by (simp add: wp_def)

lemma wp_exec: "wp m (\<lambda>_. Q) s = Q (exec m s)"
  by (simp add: wp_def)

lemma wpD: "wp m P s \<Longrightarrow> P (val m s) (exec m s)"
  by (simp add: wp_def)

lemma wp_timers_lock [simp]:
  "wp (with_timers_lock m) P s =
     wp m (\<lambda>v s'. P v (s'\<lparr>timers_lock_depth := timers_lock_depth s' - 1\<rparr>)) (s\<lparr>timers_lock_depth := timers_lock_depth s + 1\<rparr>)"
  by (simp add: wp_def Let_def)

lemma wp_chan_lock [simp]:
  "wp (with_chan_lock m) P s =
     wp m (\<lambda>v s'. P v (s'\<lparr>lock_depth := lock_depth s' - 1\<rparr>)) (s\<lparr>lock_depth := lock_depth s + 1\<rparr>)"
  by (simp add: wp_def Let_def)

section \<open>The contracts\<close>

definition silent :: "('w chan, 'a) state \<Rightarrow> bool" where
  "silent m \<longleftrightarrow> (\<forall>s. exec m s = s\<lparr>world := world (exec m s)\<rparr>)"

lemma wp_silent: "silent m \<Longrightarrow> (\<And>v w. P v (s\<lparr>world := w\<rparr>)) \<Longrightarrow> wp m P s"
  unfolding silent_def wp_def by metis

lemma silentI:
  assumes "\<And>s. \<exists>w. exec m s = s\<lparr>world := w\<rparr>"
  shows "silent m"
  unfolding silent_def
proof
  fix s
  obtain w where w: "exec m s = s\<lparr>world := w\<rparr>" using assms by blast
  then have "world (exec m s) = w" by simp
  with w show "exec m s = s\<lparr>world := world (exec m s)\<rparr>" by simp
qed

lemma world_same: "(\<And>v w. P v (s\<lparr>world := w\<rparr>)) \<Longrightarrow> P v (s :: 'w chan)"
proof -
  assume "\<And>v w. P v (s\<lparr>world := w\<rparr>)"
  then have "P v (s\<lparr>world := world s\<rparr>)" .
  then show ?thesis by simp
qed

lemma silent_return: "silent (return a)"
  by (simp add: silent_def)

lemma silent_gets: "silent (gets f)"
  by (simp add: silent_def)

lemma silent_world_call: "silent (world_call g)"
  by (simp add: silent_def)

lemma silent_bind: "silent m \<Longrightarrow> (\<And>a. silent (f a)) \<Longrightarrow> silent (State_Monad.bind m f)"
proof (rule silentI)
  fix s assume m: "silent m" and f: "\<And>a. silent (f a)"
  obtain w where w: "exec m s = s\<lparr>world := w\<rparr>" using m unfolding silent_def by blast
  obtain w' where "exec (f (val m s)) (exec m s) = (exec m s)\<lparr>world := w'\<rparr>" using f unfolding silent_def by blast
  then show "\<exists>w. exec (State_Monad.bind m f) s = s\<lparr>world := w\<rparr>" by (auto simp: w)
qed

lemma silent_if: "silent m \<Longrightarrow> silent n \<Longrightarrow> silent (if b then m else n)"
  by simp

lemmas silent_intros = silent_return silent_gets silent_world_call silent_bind silent_if

locale silent_interfaces =
  fixes ifc :: "'w iface"
  assumes silent_event: "\<And>e. silent (evmanager ifc e)"
    and silent_open: "\<And>n. silent (io_open ifc n)"
    and silent_close: "silent (io_close ifc)"
    and silent_set_cas: "\<And>c. silent (io_set_cas ifc c)"
    and silent_get_cas: "silent (io_get_cas ifc)"
    and silent_flush: "silent (io_flush_write_buffers ifc)"
    and silent_write: "\<And>b n. silent (io_write ifc b n)"
    and silent_read: "\<And>n. silent (io_read ifc n)"
    and silent_setup: "silent (io_setup ifc)"
    and silent_wait: "\<And>f b. silent (io_wait ifc f b)"
    and silent_oob: "silent (io_get_oob_event ifc)"
begin

lemma wp_emit [wp_intros]:
  "(\<And>v w. P v (s\<lparr>trace := trace s @ [Ev e], world := w\<rparr>)) \<Longrightarrow> wp (emit ifc e) P s"
  unfolding emit_def by (auto intro: wp_silent silent_event)

lemma wp_select_tone [wp_intros]:
  "(\<And>v w. P v (s\<lparr>trace := trace s @ [TxTone t], world := w\<rparr>)) \<Longrightarrow> wp (select_tone ifc t) P s"
  unfolding select_tone_def by simp

lemma silent_wrappers:
  "silent (openr2_io_flush_write_buffers ifc)" "silent (openr2_io_write ifc b n)" "silent (openr2_io_read ifc n)"
  "silent (openr2_io_wait ifc f k)" "silent (openr2_io_get_oob_event ifc)" "silent (openr2_io_close ifc)"
  "silent (openr2_io_open ifc n)" "silent (openr2_io_setup ifc)"
  unfolding openr2_io_flush_write_buffers_def openr2_io_write_def openr2_io_read_def openr2_io_wait_def
    openr2_io_get_oob_event_def openr2_io_close_def openr2_io_open_def openr2_io_setup_def
  by (intro silent_intros silent_flush silent_write silent_read silent_wait silent_oob silent_close silent_open
      silent_setup)+

lemmas wp_wrappers [wp_intros] = silent_wrappers [THEN wp_silent]

lemma wp_set_cas [wp_intros]:
  assumes "\<And>v w. P v (s\<lparr>trace := trace s @ (if io_present (r2context s) then [TxCas c] else []), world := w\<rparr>)"
  shows "wp (openr2_io_set_cas ifc c) P s"
proof (cases "io_present (r2context s)")
  case True
  then show ?thesis using assms
    by (auto simp: openr2_io_set_cas_def intro!: wp_silent [OF silent_set_cas])
next
  case False
  then show ?thesis using assms [of "-1" "world s"] by (simp add: openr2_io_set_cas_def)
qed

lemma wp_get_cas [wp_intros]:
  assumes "\<And>cas w. P (0, cas) (s\<lparr>world := w, cas_raw_read := cas\<rparr>)"
    and "\<And>rc cas w. rc \<noteq> 0 \<Longrightarrow> P (rc, cas) (s\<lparr>world := w\<rparr>)"
  shows "wp (openr2_io_get_cas ifc) P s"
proof (cases "io_present (r2context s)")
  case True
  have raw: "P (0, cas) (s\<lparr>world := w\<rparr>)" if "cas = cas_raw_read s" for cas w
    using assms(1) [where w = w and cas = "cas_raw_read s"] that by simp
  show ?thesis unfolding openr2_io_get_cas_def using True
    by (auto simp: case_prod_beta intro!: wp_silent [OF silent_get_cas])
      (metis assms raw prod.collapse)+
next
  case False
  then show ?thesis using assms(2) [of "-1" 0 "world s"] by (simp add: openr2_io_get_cas_def)
qed

end

text \<open>
  The device takes CAS bits and buffers, the MF engine selects tones and starts, the clock and the
  log files work.
\<close>

locale working_interfaces = silent_interfaces ifc for ifc :: "'w iface" +
  assumes cas_taken: "\<And>c s. val (io_set_cas ifc c) s = 0"
    and flushed: "\<And>s. val (io_flush_write_buffers ifc) s = 0"
    and tone_selected: "\<And>h t w. fst (mf_select_tone ifc h t w) \<noteq> -1"
    and mf_starts: "\<And>h d w. fst (mf_write_init ifc h d w) \<noteq> 0" "\<And>h d w. fst (mf_read_init ifc h d w) \<noteq> 0"
    and clock: "\<And>w. fst (gettimeofday ifc w) \<noteq> None"
    and closes: "\<And>f w. fst (sys_fclose ifc f w) = 0"

section \<open>Timers\<close>

definition cancelled :: "timer_slot \<Rightarrow> 'w chan \<Rightarrow> sched_timer list" where
  "cancelled slot s =
     (let i = fst slot (timer_ids s) in if i < 1 then sched_timers s else remove_timer i (sched_timers s))"

definition cancelled_ids :: "timer_slot \<Rightarrow> 'w chan \<Rightarrow> chan_timer_ids" where
  "cancelled_ids slot s =
     (let i = fst slot (timer_ids s) in
      snd slot (if 1 \<le> i \<and> i \<in> tm_id ` set (sched_timers s) then 0 else i) (timer_ids s))"

lemma remove_timer_absent: "i \<notin> tm_id ` set ts \<Longrightarrow> remove_timer i ts = ts"
  by (induction ts) auto

lemma wp_cancel_timer [simp]:
  "wp (openr2_chan_cancel_timer slot) Q s = Q () (s\<lparr>sched_timers := cancelled slot s, timer_ids := cancelled_ids slot s\<rparr>)"
proof (cases s)
  case (fields)
  have e: "(\<exists>t \<in> set ts. tm_id t = i) \<longleftrightarrow> i \<in> tm_id ` set ts" for i :: int and ts by auto
  show ?thesis
    by (simp add: fields openr2_chan_cancel_timer_def cancel_timer_id_as_locked cancelled_def cancelled_ids_def Let_def
        set_timer_id_def e remove_timer_absent)
qed

lemma exec_cancel_timer:
  "exec (openr2_chan_cancel_timer slot) s = s\<lparr>sched_timers := cancelled slot s, timer_ids := cancelled_ids slot s\<rparr>"
  using wp_cancel_timer [where Q = "\<lambda>_ s'. s' = s\<lparr>sched_timers := cancelled slot s, timer_ids := cancelled_ids slot s\<rparr>"]
  by (simp add: wp_def)

lemma wp_cancel_all [simp]:
  "wp openr2_chan_cancel_all_timers Q s = Q () (s\<lparr>sched_timers := [], timer_id := 1, timer_ids := no_timer_ids\<rparr>)"
  by (cases s) (simp add: cancel_all_timers_as_locked)

definition added :: "timer_slot \<Rightarrow> int \<Rightarrow> timer_callback \<Rightarrow> string \<Rightarrow> timeval \<Rightarrow> 'w chan \<Rightarrow> 'w chan" where
  "added slot ms cb name t s =
     (if length (sched_timers s) = OR2_MAX_SCHED_TIMERS then s\<lparr>timer_ids := snd slot (-1) (timer_ids s)\<rparr>
      else s\<lparr>timer_id := timer_id s + 1,
             sched_timers := insert_timer \<lparr>tm_time = timer_deadline t ms, tm_callback = cb, tm_name = name,
               tm_id = timer_id s + 1\<rparr> (sched_timers s),
             timer_ids := snd slot (timer_id s + 1) (timer_ids s)\<rparr>)"

context working_interfaces
begin

lemma wp_schedule [wp_intros]:
  assumes "\<And>t w. P () ((added slot ms cb name t s)\<lparr>world := w\<rparr>)"
  shows "wp (schedule ifc slot ms cb name) P s"
proof -
  obtain t where t: "fst (gettimeofday ifc (world s)) = Some t" using clock by fast
  have d: "timers_lock_depth s + 1 - 1 = timers_lock_depth s" by simp
  have "exec (schedule ifc slot ms cb name) s = (added slot ms cb name t s)\<lparr>world := snd (gettimeofday ifc (world s))\<rparr>"
    by (cases s) (use t in \<open>simp add: schedule_def add_timer_as_locked add_timer_locked_def
        set_timer_id_def added_def Let_def\<close>)
  then show ?thesis using assms by (simp add: wp_def)
qed

end

section \<open>Base operations\<close>

text \<open>What switching the MF engine off does to the channel: \<open>rh\<close> and \<open>wh\<close> are the handles left.\<close>

definition mf_off :: "'w iface \<Rightarrow> 'w chan \<Rightarrow> 'w chan" where
  "mf_off ifc s =
     (if mf_state s = OR2_MF_OFF_STATE then s
      else s\<lparr>sched_timers := cancelled slot_mf_back_cycle s, timer_ids := cancelled_ids slot_mf_back_cycle s,
             mf_state := OR2_MF_OFF_STATE, dialing_dtmf := 0, detecting_dtmf := 0,
             mf_read_handle := (if mf_read_dispose ifc = None then mf_read_handle s else 0),
             mf_write_handle := (if mf_write_dispose ifc = None then mf_write_handle s else 0)\<rparr>)"

lemma wp_turn_off [wp_intros]:
  assumes "\<And>w. Q () ((mf_off ifc s)\<lparr>world := w\<rparr>)"
  shows "wp (turn_off_mf_engine ifc) Q s"
proof -
  have "\<exists>w. exec (turn_off_mf_engine ifc) s = (mf_off ifc s)\<lparr>world := w\<rparr>"
  proof -
    show ?thesis
      by (cases "mf_read_dispose ifc"; cases "mf_write_dispose ifc"; cases s)
        (auto simp: turn_off_mf_engine_def mf_off_def exec_cancel_timer)
  qed
  then show ?thesis using assms by (auto simp: wp_def)
qed

lemma mf_off_fields [simp]:
  "mf_state (mf_off ifc s) = OR2_MF_OFF_STATE" "r2_state (mf_off ifc s) = r2_state s"
  "call_state (mf_off ifc s) = call_state s" "direction (mf_off ifc s) = direction s"
  "r2context (mf_off ifc s) = r2context s" "trace (mf_off ifc s) = trace s" "answered (mf_off ifc s) = answered s"
  "cas_read (mf_off ifc s) = cas_read s" "cas_rx_signal (mf_off ifc s) = cas_rx_signal s"
  "timer_id (mf_off ifc s) = timer_id s" "inalarm (mf_off ifc s) = inalarm s"
  "mf_group (mf_off ifc s) = mf_group s" "call_files (mf_off ifc s) = call_files s" "logfile (mf_off ifc s) = logfile s"
  "lock_depth (mf_off ifc s) = lock_depth s" "timers_lock_depth (mf_off ifc s) = timers_lock_depth s"
  by (simp_all add: mf_off_def)

lemma R2_simps [simp]:
  "R2 (s\<lparr>world := w\<rparr>) sig = R2 s sig" "R2 (s\<lparr>trace := t\<rparr>) sig = R2 s sig"
  "R2 (mf_off ifc s) sig = R2 s sig" "R2 (s\<lparr>cas_rx_signal := x\<rparr>) sig = R2 s sig"
  "R2 (s\<lparr>r2_state := st\<rparr>) sig = R2 s sig" "R2 (s\<lparr>cas_write := c\<rparr>) sig = R2 s sig"
  by (simp_all add: R2_def)

text \<open>The channel after a signal was put on the line.\<close>

definition signalled :: "cas_signal \<Rightarrow> 'w chan \<Rightarrow> 'w chan" where
  "signalled sig s = s\<lparr>cas_write := R2 s sig, cas_tx_signal := sig,
     trace := trace s @ (if io_present (r2context s) then [TxCas (R2 s sig OR cas_nonr2_bits (r2context s))] else [])\<rparr>"

context silent_interfaces
begin

lemma wp_set_cas_signal [wp_intros]:
  assumes "sig \<noteq> OR2_CAS_INVALID" "\<And>v w. P v ((signalled sig s)\<lparr>world := w\<rparr>)"
  shows "wp (set_cas_signal ifc sig) P s"
proof -
  have "wp (set_cas_signal ifc sig) (\<lambda>v s'. \<exists>w. s' = (signalled sig s)\<lparr>world := w\<rparr>) s"
    using assms(1) unfolding set_cas_signal_def
    by (auto simp: signalled_def intro!: wp_intros)
  then show ?thesis using assms(2) by (auto simp: wp_def)
qed

end

section \<open>Back to idle, and protocol errors\<close>

text \<open>The reception signal \<open>fix_rx_signal\<close> leaves.\<close>

definition fixed_rx :: "'w chan \<Rightarrow> cas_signal" where
  "fixed_rx s =
     (if R2 s OR2_CAS_CLEAR_FORWARD = R2 s OR2_CAS_IDLE \<and> cas_rx_signal s = OR2_CAS_CLEAR_FORWARD then OR2_CAS_IDLE
      else if cas_read s = R2 s OR2_CAS_IDLE then OR2_CAS_IDLE else cas_rx_signal s)"

text \<open>The channel as \<open>openr2_proto_init\<close> leaves it, the world and the log file apart.\<close>

definition cleared :: "'w iface \<Rightarrow> 'w chan \<Rightarrow> 'w chan" where
  "cleared ifc s =
     (let t = mf_off ifc (s\<lparr>sched_timers := [], timer_id := 1, timer_ids := no_timer_ids\<rparr>) in
      t\<lparr>timer_ids := no_timer_ids, read_enabled := 0,
        ani := terminate_at_0 (ani s), ani_len := 0, ani_ptr := None,
        dnis := terminate_at_0 (dnis s), dnis_len := 0, dnis_index := 0,
        caller_ani_is_restricted := 0, caller_category := OR2_MF_TONE_INVALID, r2_state := OR2_IDLE,
        mf_group := OR2_MF_NO_GROUP, call_state := OR2_CALL_IDLE, direction := OR2_DIR_STOPPED,
        answered := 0, category_sent := 0, mf_write_tone := 0, mf_read_tone := 0, logname := [],
        chan_flags := set_flag (chan_flags s) OR2_CHAN_CALL_DNIS_CALLBACK, cas_rx_signal := fixed_rx s,
        logfile := (if call_files s = 0 then logfile s else 0)\<rparr>)"

lemma cleared_fields [simp]:
  "r2_state (cleared ifc s) = OR2_IDLE" "mf_state (cleared ifc s) = OR2_MF_OFF_STATE"
  "mf_group (cleared ifc s) = OR2_MF_NO_GROUP" "call_state (cleared ifc s) = OR2_CALL_IDLE"
  "direction (cleared ifc s) = OR2_DIR_STOPPED" "answered (cleared ifc s) = 0" "category_sent (cleared ifc s) = 0"
  "mf_write_tone (cleared ifc s) = 0" "mf_read_tone (cleared ifc s) = 0" "read_enabled (cleared ifc s) = 0"
  "ani (cleared ifc s) = terminate_at_0 (ani s)" "ani_len (cleared ifc s) = 0" "ani_ptr (cleared ifc s) = None"
  "dnis (cleared ifc s) = terminate_at_0 (dnis s)" "dnis_len (cleared ifc s) = 0" "dnis_index (cleared ifc s) = 0"
  "caller_ani_is_restricted (cleared ifc s) = 0" "caller_category (cleared ifc s) = 0"
  "sched_timers (cleared ifc s) = []" "timer_id (cleared ifc s) = 1" "timer_ids (cleared ifc s) = no_timer_ids"
  "trace (cleared ifc s) = trace s" "r2context (cleared ifc s) = r2context s" "R2 (cleared ifc s) sig = R2 s sig"
  "inalarm (cleared ifc s) = inalarm s" "cas_read (cleared ifc s) = cas_read s"
  "cas_rx_signal (cleared ifc s) = fixed_rx s"
  "cas_persistence_check_signal (cleared ifc s) = cas_persistence_check_signal s"
  "lock_depth (cleared ifc s) = lock_depth s" "timers_lock_depth (cleared ifc s) = timers_lock_depth s"
  "mem_fault (cleared ifc s) = mem_fault s"
  by (simp_all add: cleared_def mf_off_def Let_def R2_def cancelled_def no_timer_ids_def)

text \<open>The channel after a protocol error: silence, idle, and the report.\<close>

definition failed :: "'w iface \<Rightarrow> protocol_error \<Rightarrow> 'w chan \<Rightarrow> 'w chan" where
  "failed ifc reason s =
     (let t = signalled OR2_CAS_IDLE (cleared ifc (s\<lparr>trace := trace s @ [TxTone 0]\<rparr>))
      in t\<lparr>trace := trace t @ [Ev (OnProtocolError reason)]\<rparr>)"

lemma signalled_fields [simp]:
  "r2_state (signalled sig s) = r2_state s" "mf_state (signalled sig s) = mf_state s"
  "call_state (signalled sig s) = call_state s" "r2context (signalled sig s) = r2context s"
  "direction (signalled sig s) = direction s" "answered (signalled sig s) = answered s"
  "sched_timers (signalled sig s) = sched_timers s" "timer_ids (signalled sig s) = timer_ids s"
  "timer_id (signalled sig s) = timer_id s" "mf_group (signalled sig s) = mf_group s"
  "inalarm (signalled sig s) = inalarm s" "cas_read (signalled sig s) = cas_read s"
  "R2 (signalled sig s) sig' = R2 s sig'" "cas_write (signalled sig s) = R2 s sig" "cas_tx_signal (signalled sig s) = sig"
  "io_present (r2context s) \<Longrightarrow> trace (signalled sig s) =
     trace s @ [TxCas (R2 s sig OR cas_nonr2_bits (r2context s))]"
  by (simp_all add: signalled_def R2_def)

context working_interfaces
begin

lemma wp_close_logfile [wp_intros]:
  assumes "\<And>w. Q () (s\<lparr>world := w, logfile := (if call_files s = 0 then logfile s else 0)\<rparr>)"
  shows "wp (close_logfile ifc) Q s"
proof (cases "call_files s = 0 \<or> logfile s = 0")
  case True
  then have "s\<lparr>world := world s, logfile := (if call_files s = 0 then logfile s else 0)\<rparr> = s"
    by (cases s) auto
  then show ?thesis using assms [of "world s"] True by (simp add: close_logfile_def)
next
  case False
  then show ?thesis using assms closes by (simp add: close_logfile_def)
qed

lemma exec_proto_init: "\<exists>w. exec (openr2_proto_init ifc) s = (cleared ifc s)\<lparr>world := w\<rparr>"
proof -
  let ?s = "s\<lparr>sched_timers := [], timer_id := 1, timer_ids := no_timer_ids\<rparr>"
  have nc: "cancelled_ids slot_mf_back_cycle x = no_timer_ids" "cancelled slot_mf_back_cycle x = []"
    if "timer_ids x = no_timer_ids" "sched_timers x = []" for x :: "'w chan"
    using that by (simp_all add: cancelled_ids_def cancelled_def no_timer_ids_def)
  have "wp (openr2_proto_init ifc) (\<lambda>_ s'. \<exists>w. s' = (cleared ifc s)\<lparr>world := w\<rparr>) s"
    unfolding openr2_proto_init_def fix_rx_signal_def
    by (cases s)
      (auto simp: cleared_def mf_off_def Let_def fixed_rx_def R2_def nc intro!: wp_intros)
  then show ?thesis by (simp add: wp_def)
qed

lemma wp_proto_init [wp_intros]:
  "(\<And>w. Q () ((cleared ifc s)\<lparr>world := w\<rparr>)) \<Longrightarrow> wp (openr2_proto_init ifc) Q s"
  using exec_proto_init [of s] by (auto simp: wp_def)

lemma val_set_cas_signal: "io_present (r2context s) \<Longrightarrow> sig \<noteq> OR2_CAS_INVALID \<Longrightarrow> val (set_cas_signal ifc sig) s = 0"
  by (simp add: set_cas_signal_def openr2_io_set_cas_def cas_taken)

text \<open>A working device takes the signal: the rule with the result known.\<close>

lemma wp_signal:
  assumes "io_present (r2context s)" "sig \<noteq> OR2_CAS_INVALID" "\<And>w. P 0 ((signalled sig s)\<lparr>world := w\<rparr>)"
  shows "wp (set_cas_signal ifc sig) P s"
proof -
  have "wp (set_cas_signal ifc sig) (\<lambda>v s'. \<exists>w. s' = (signalled sig s)\<lparr>world := w\<rparr>) s"
    using assms(2) by (auto intro!: wp_set_cas_signal)
  then show ?thesis using assms val_set_cas_signal [OF assms(1,2)] by (auto simp: wp_def)
qed

lemma signalled_world: "signalled sig (s\<lparr>world := w\<rparr>) = (signalled sig s)\<lparr>world := w\<rparr>"
  by (simp add: signalled_def)

lemma wp_set_idle [wp_intros]:
  assumes "io_present (r2context s)" "\<And>w. P 0 ((signalled OR2_CAS_IDLE (cleared ifc s))\<lparr>world := w\<rparr>)"
  shows "wp (openr2_proto_set_idle ifc) P s"
  unfolding openr2_proto_set_idle_def using assms
  by (auto simp: signalled_world intro!: wp_proto_init wp_signal)

lemma wp_set_blocked [wp_intros]:
  assumes "io_present (r2context s)"
    "\<And>w. P 0 ((signalled OR2_CAS_BLOCK ((cleared ifc s)\<lparr>r2_state := OR2_BLOCKED\<rparr>))\<lparr>world := w\<rparr>)"
  shows "wp (openr2_proto_set_blocked ifc) P s"
  unfolding openr2_proto_set_blocked_def using assms
  by (auto simp: signalled_def R2_def intro!: wp_proto_init wp_signal)

lemma wp_protocol_error [wp_intros]:
  assumes "io_present (r2context s)" "\<And>w. Q () ((failed ifc reason s)\<lparr>world := w\<rparr>)"
  shows "wp (handle_protocol_error ifc reason) Q s"
proof -
  have c: "cleared ifc (s\<lparr>trace := t, world := w\<rparr>) = (cleared ifc (s\<lparr>trace := t\<rparr>))\<lparr>world := w\<rparr>" for t w
    by (simp add: cleared_def mf_off_def Let_def fixed_rx_def R2_def cancelled_def cancelled_ids_def no_timer_ids_def)
  show ?thesis
    unfolding handle_protocol_error_def using assms
    by (auto simp: failed_def Let_def signalled_def R2_def c intro!: wp_intros)
qed

end

lemma failed_fields [simp]:
  "r2_state (failed ifc r s) = OR2_IDLE" "mf_state (failed ifc r s) = OR2_MF_OFF_STATE" "mf_group (failed ifc r s) = OR2_MF_NO_GROUP"
  "call_state (failed ifc r s) = OR2_CALL_IDLE" "direction (failed ifc r s) = OR2_DIR_STOPPED" "answered (failed ifc r s) = 0"
  "sched_timers (failed ifc r s) = []" "r2context (failed ifc r s) = r2context s" "inalarm (failed ifc r s) = inalarm s"
  "cas_read (failed ifc r s) = cas_read s" "timer_ids (failed ifc r s) = no_timer_ids" "R2 (failed ifc r s) sig = R2 s sig"
  "cas_write (failed ifc r s) = R2 s OR2_CAS_IDLE" "cas_tx_signal (failed ifc r s) = OR2_CAS_IDLE"
  "io_present (r2context s) \<Longrightarrow> trace (failed ifc r s) =
     trace s @ [TxTone 0, TxCas (R2 s OR2_CAS_IDLE OR cas_nonr2_bits (r2context s)), Ev (OnProtocolError r)]"
  by (simp_all add: failed_def Let_def R2_def)

section \<open>Tones\<close>

lemma ex_world: "(\<exists>w. x = y\<lparr>world := w\<rparr>) \<longleftrightarrow> x\<lparr>world := undefined\<rparr> = y\<lparr>world := undefined\<rparr>" for x y :: "'w chan"
proof
  assume "x\<lparr>world := undefined\<rparr> = y\<lparr>world := undefined\<rparr>"
  then have "x\<lparr>world := undefined\<rparr>\<lparr>world := world x\<rparr> = y\<lparr>world := undefined\<rparr>\<lparr>world := world x\<rparr>" by simp
  then show "\<exists>w. x = y\<lparr>world := w\<rparr>" by (intro exI [of _ "world x"]) simp
qed auto

definition tone_set :: "int \<Rightarrow> timeval \<Rightarrow> 'w chan \<Rightarrow> 'w chan" where
  "tone_set tone t s =
     (if mf_write_tone s = tone then s
      else
        let s1 = s\<lparr>trace := trace s @ [TxTone tone]\<rparr>;
            s2 = (if tone \<noteq> 0 \<and> direction s = OR2_DIR_BACKWARD
                  then added slot_mf_back_cycle (t_mf_back_cycle (TIMER s)) CB_mf_back_cycle_timeout_expired
                    ''mf_back_cycle'' t s1
                  else s1)
        in s2\<lparr>mf_write_tone := tone\<rparr>)"

lemma added_fields [simp]:
  "r2_state (added sl ms cb n t s) = r2_state s" "mf_state (added sl ms cb n t s) = mf_state s"
  "mf_group (added sl ms cb n t s) = mf_group s" "call_state (added sl ms cb n t s) = call_state s"
  "direction (added sl ms cb n t s) = direction s" "answered (added sl ms cb n t s) = answered s"
  "r2context (added sl ms cb n t s) = r2context s" "trace (added sl ms cb n t s) = trace s"
  "mf_write_tone (added sl ms cb n t s) = mf_write_tone s" "mf_read_tone (added sl ms cb n t s) = mf_read_tone s"
  "ani (added sl ms cb n t s) = ani s" "dnis (added sl ms cb n t s) = dnis s" "ani_ptr (added sl ms cb n t s) = ani_ptr s"
  "dnis_index (added sl ms cb n t s) = dnis_index s" "dnis_len (added sl ms cb n t s) = dnis_len s"
  "ani_len (added sl ms cb n t s) = ani_len s" "caller_category (added sl ms cb n t s) = caller_category s"
  "caller_ani_is_restricted (added sl ms cb n t s) = caller_ani_is_restricted s"
  "category_sent (added sl ms cb n t s) = category_sent s" "mem_fault (added sl ms cb n t s) = mem_fault s"
  "cas_read (added sl ms cb n t s) = cas_read s" "inalarm (added sl ms cb n t s) = inalarm s"
  "cas_rx_signal (added sl ms cb n t s) = cas_rx_signal s" "R2 (added sl ms cb n t s) sig = R2 s sig"
  "mf_write_handle (added sl ms cb n t s) = mf_write_handle s" "mf_read_handle (added sl ms cb n t s) = mf_read_handle s"
  "cas_persistence_check_signal (added sl ms cb n t s) = cas_persistence_check_signal s"
  by (simp_all add: added_def R2_def)

lemma tone_set_fields [simp]:
  "r2_state (tone_set tn t s) = r2_state s" "mf_state (tone_set tn t s) = mf_state s"
  "mf_group (tone_set tn t s) = mf_group s" "call_state (tone_set tn t s) = call_state s"
  "direction (tone_set tn t s) = direction s" "answered (tone_set tn t s) = answered s"
  "r2context (tone_set tn t s) = r2context s" "mf_write_tone (tone_set tn t s) = tn"
  "trace (tone_set tn t s) = trace s @ (if mf_write_tone s = tn then [] else [TxTone tn])"
  "mf_read_tone (tone_set tn t s) = mf_read_tone s"
  "ani (tone_set tn t s) = ani s" "dnis (tone_set tn t s) = dnis s" "ani_ptr (tone_set tn t s) = ani_ptr s"
  "dnis_index (tone_set tn t s) = dnis_index s" "dnis_len (tone_set tn t s) = dnis_len s"
  "ani_len (tone_set tn t s) = ani_len s" "caller_category (tone_set tn t s) = caller_category s"
  "caller_ani_is_restricted (tone_set tn t s) = caller_ani_is_restricted s"
  "category_sent (tone_set tn t s) = category_sent s" "mem_fault (tone_set tn t s) = mem_fault s"
  by (simp_all add: tone_set_def Let_def)

context working_interfaces
begin

lemma wp_flush [wp_intros]:
  assumes "io_present (r2context s)" "\<And>w. P 0 (s\<lparr>world := w\<rparr>)"
  shows "wp (openr2_io_flush_write_buffers ifc) P s"
proof -
  have "wp (openr2_io_flush_write_buffers ifc) (\<lambda>v s'. \<exists>w. s' = s\<lparr>world := w\<rparr>) s"
    by (auto intro!: wp_wrappers)
  moreover have "val (openr2_io_flush_write_buffers ifc) s = 0"
    using assms(1) by (simp add: openr2_io_flush_write_buffers_def flushed)
  ultimately show ?thesis using assms(2) by (auto simp: wp_def)
qed

lemma wp_tone:
  assumes "\<And>v w. v \<noteq> -1 \<Longrightarrow> P v (s\<lparr>trace := trace s @ [TxTone t], world := w\<rparr>)"
  shows "wp (select_tone ifc t) P s"
  using assms tone_selected unfolding select_tone_def by simp

lemma wp_prepare_mf_tone [wp_intros]:
  assumes "io_present (r2context s)" "\<And>t w. Q () ((tone_set tone t s)\<lparr>world := w\<rparr>)"
  shows "wp (prepare_mf_tone ifc tone) Q s"
proof -
  have "wp (prepare_mf_tone ifc tone) (\<lambda>_ s'. \<exists>t w. s' = (tone_set tone t s)\<lparr>world := w\<rparr>) s"
    unfolding prepare_mf_tone_def using assms(1)
    by (auto intro!: wp_flush wp_tone wp_schedule)
      (auto simp: tone_set_def added_def Let_def ex_world intro!: exI)
  then show ?thesis using assms(2) by (auto simp: wp_def)
qed

end

end
