(* ===== verification/R2Line.thy ===== *)
theory R2Line
  imports R2Variant
begin

text \<open>
  The line signalling of one channel as an abstract machine, for MF R2 with the standard signals:
  which signal the received bits mean in each state, what every state does on each signal, in one
  table (\<open>on_signal\<close>), and what the calls of the user and the timers do.  R2CasSpec shows that the
  handlers of the library refine it.  Its own properties are at the end: the state of the call fits the
  state of the line, and no report is about a call that is not there.
\<close>

section \<open>The state\<close>

text \<open>The settings of the channel the line depends on; \<open>cfg_plain\<close> says the line is of the kind treated here.\<close>

record line_cfg =
  cfg_plain :: bool
  cfg_nonr2 :: int
  cfg_metering :: bool
  cfg_auto_ack :: bool

text \<open>\<open>l_seen\<close> are the bits handled last, \<open>l_out\<close> is what the user and the line have seen.\<close>

record line =
  l_cfg :: line_cfg
  l_r2 :: cas_state
  l_call :: call_state_t
  l_dir :: direction_t
  l_alarm :: bool
  l_seen :: int
  l_out :: "act list"

section \<open>The meaning of the bits\<close>

text \<open>The signals a state expects, the first that fits winning (IDLE and CLEAR FORWARD share their bits).\<close>

fun expected :: "line_cfg \<Rightarrow> cas_state \<Rightarrow> cas_signal list" where
  "expected c OR2_INIT = [OR2_CAS_IDLE, OR2_CAS_BLOCK]"
| "expected c OR2_IDLE = [OR2_CAS_BLOCK, OR2_CAS_IDLE, OR2_CAS_SEIZE]"
| "expected c OR2_BLOCKED = [OR2_CAS_IDLE]"
| "expected c OR2_SEIZE_ACK_TXD = [OR2_CAS_CLEAR_FORWARD]"
| "expected c OR2_ANSWER_TXD = [OR2_CAS_CLEAR_FORWARD]"
| "expected c OR2_EXECUTING_DOUBLE_ANSWER = [OR2_CAS_CLEAR_FORWARD]"
| "expected c OR2_CLEAR_BACK_TXD = [OR2_CAS_CLEAR_FORWARD]"
| "expected c OR2_FORCED_RELEASE_TXD = [OR2_CAS_CLEAR_FORWARD]"
| "expected c OR2_SEIZE_TXD = [OR2_CAS_SEIZE_ACK, OR2_CAS_SEIZE]"
| "expected c OR2_SEIZE_TXD_CLEAR_FWD_PENDING = [OR2_CAS_SEIZE_ACK, OR2_CAS_SEIZE]"
| "expected c OR2_DOUBLE_SEIZURE = [OR2_CAS_CLEAR_FORWARD]"
| "expected c OR2_DOUBLE_SEIZURE_CLEAR_FWD_PENDING = [OR2_CAS_CLEAR_FORWARD]"
| "expected c OR2_SEIZE_ACK_RXD = [OR2_CAS_ANSWER, OR2_CAS_CLEAR_BACK, OR2_CAS_FORCED_RELEASE]"
| "expected c OR2_ACCEPT_RXD = [OR2_CAS_ANSWER, OR2_CAS_CLEAR_BACK, OR2_CAS_FORCED_RELEASE]"
| "expected c OR2_ANSWER_RXD = [OR2_CAS_CLEAR_BACK, OR2_CAS_FORCED_RELEASE]"
| "expected c OR2_ANSWER_RXD_MF_PENDING = [OR2_CAS_CLEAR_BACK, OR2_CAS_FORCED_RELEASE]"
| "expected c OR2_CLEAR_BACK_RXD = (if cfg_metering c then [OR2_CAS_ANSWER] else [])"
| "expected c OR2_FORCED_RELEASE_RXD = (if cfg_metering c then [OR2_CAS_ANSWER] else [])"
| "expected c OR2_CLEAR_BACK_TONE_RXD = [OR2_CAS_IDLE]"
| "expected c OR2_CLEAR_FWD_TXD = [OR2_CAS_IDLE, OR2_CAS_CLEAR_BACK, OR2_CAS_FORCED_RELEASE]"
| "expected c OR2_CLEAR_BACK_AFTER_CLEAR_FWD_RXD = [OR2_CAS_IDLE]"
| "expected c OR2_CLEAR_FWD_RXD = []"
| "expected c OR2_INVALID_STATE = []"

definition bits_of :: "cas_signal \<Rightarrow> int" where
  "bits_of sig = standard_cas_signals ! cas_index sig"

definition meaning :: "line_cfg \<Rightarrow> cas_state \<Rightarrow> int \<Rightarrow> cas_signal" where
  "meaning c st bits =
     (case filter (\<lambda>sig. bits_of sig = bits) (expected c st) of [] \<Rightarrow> OR2_CAS_INVALID | sig # _ \<Rightarrow> sig)"

section \<open>The moves\<close>

definition say :: "event \<Rightarrow> line \<Rightarrow> line" where
  "say e l = l\<lparr>l_out := l_out l @ [Ev e]\<rparr>"

definition signal :: "cas_signal \<Rightarrow> line \<Rightarrow> line" where
  "signal sig l = l\<lparr>l_out := l_out l @ [TxCas (bits_of sig OR cfg_nonr2 (l_cfg l))]\<rparr>"

definition to_idle :: "line \<Rightarrow> line" where
  "to_idle l = signal OR2_CAS_IDLE (l\<lparr>l_r2 := OR2_IDLE, l_call := OR2_CALL_IDLE, l_dir := OR2_DIR_STOPPED\<rparr>)"

definition end_call :: "line \<Rightarrow> line" where
  "end_call l = say OnCallEnd (to_idle l)"

definition fail :: "protocol_error \<Rightarrow> line \<Rightarrow> line" where
  "fail e l = say (OnProtocolError e) (to_idle l)"

definition disconnected :: "cas_state \<Rightarrow> disconnect_cause \<Rightarrow> line \<Rightarrow> line" where
  "disconnected st cause l = say (OnCallDisconnect cause) (l\<lparr>l_r2 := st, l_call := OR2_CALL_DISCONNECTED\<rparr>)"

definition seized :: "line \<Rightarrow> line" where
  "seized l =
     (let l' = say OnCallInit (l\<lparr>l_r2 := OR2_SEIZE_ACK_TXD, l_call := OR2_CALL_COLLECTING, l_dir := OR2_DIR_BACKWARD\<rparr>)
      in if cfg_auto_ack (l_cfg l) then signal OR2_CAS_SEIZE_ACK l' else l')"

definition cleared_forward :: "line \<Rightarrow> line" where
  "cleared_forward l = disconnected OR2_CLEAR_FWD_RXD OR2_CAUSE_NORMAL_CLEARING l"

definition cleared_back :: "line \<Rightarrow> line" where
  "cleared_back l = disconnected OR2_CLEAR_BACK_RXD OR2_CAUSE_NORMAL_CLEARING l"

definition released :: "line \<Rightarrow> line" where
  "released l = disconnected OR2_FORCED_RELEASE_RXD OR2_CAUSE_FORCED_RELEASE l"

definition pulse_or :: "cas_state \<Rightarrow> (line \<Rightarrow> line) \<Rightarrow> line \<Rightarrow> line" where
  "pulse_or st next l = (if cfg_metering (l_cfg l) then l\<lparr>l_r2 := st\<rparr> else next l)"

definition billed :: "line \<Rightarrow> line" where
  "billed l = say OnBillingPulseReceived (l\<lparr>l_r2 := OR2_ANSWER_RXD\<rparr>)"

definition clear_forward :: "line \<Rightarrow> line" where
  "clear_forward l = signal OR2_CAS_CLEAR_FORWARD (l\<lparr>l_r2 := OR2_CLEAR_FWD_TXD\<rparr>)"

text \<open>The table.  Arguments: the state, the signal its expectations give to the bits, the line.\<close>

definition on_signal :: "cas_state \<Rightarrow> cas_signal \<Rightarrow> line \<Rightarrow> line" where
  "on_signal st sig l =
     (case st of
        OR2_INIT \<Rightarrow> (case sig of OR2_CAS_IDLE \<Rightarrow> say OnLineIdle l | OR2_CAS_BLOCK \<Rightarrow> say OnLineBlocked l | _ \<Rightarrow> fail OR2_INVALID_R2_STATE l)
      | OR2_IDLE \<Rightarrow> (case sig of OR2_CAS_IDLE \<Rightarrow> say OnLineIdle l | OR2_CAS_BLOCK \<Rightarrow> say OnLineBlocked l | OR2_CAS_SEIZE \<Rightarrow> seized l | _ \<Rightarrow> fail OR2_INVALID_CAS_BITS l)
      | OR2_BLOCKED \<Rightarrow> (case sig of OR2_CAS_IDLE \<Rightarrow> say OnLineIdle l | _ \<Rightarrow> l)
      | OR2_SEIZE_ACK_TXD \<Rightarrow> (case sig of OR2_CAS_CLEAR_FORWARD \<Rightarrow> cleared_forward l | _ \<Rightarrow> fail OR2_INVALID_CAS_BITS l)
      | OR2_ANSWER_TXD \<Rightarrow> (case sig of OR2_CAS_CLEAR_FORWARD \<Rightarrow> cleared_forward l | _ \<Rightarrow> fail OR2_INVALID_CAS_BITS l)
      | OR2_EXECUTING_DOUBLE_ANSWER \<Rightarrow> (case sig of OR2_CAS_CLEAR_FORWARD \<Rightarrow> cleared_forward l | _ \<Rightarrow> fail OR2_INVALID_CAS_BITS l)
      | OR2_CLEAR_BACK_TXD \<Rightarrow> (case sig of OR2_CAS_CLEAR_FORWARD \<Rightarrow> end_call l | _ \<Rightarrow> fail OR2_INVALID_CAS_BITS l)
      | OR2_FORCED_RELEASE_TXD \<Rightarrow> (case sig of OR2_CAS_CLEAR_FORWARD \<Rightarrow> end_call l | _ \<Rightarrow> fail OR2_INVALID_CAS_BITS l)
      | OR2_SEIZE_TXD \<Rightarrow> (case sig of OR2_CAS_SEIZE_ACK \<Rightarrow> say OnCallProceed (l\<lparr>l_r2 := OR2_SEIZE_ACK_RXD\<rparr>) | OR2_CAS_SEIZE \<Rightarrow> disconnected OR2_DOUBLE_SEIZURE OR2_CAUSE_GLARE l | _ \<Rightarrow> fail OR2_INVALID_CAS_BITS l)
      | OR2_SEIZE_TXD_CLEAR_FWD_PENDING \<Rightarrow> (case sig of OR2_CAS_SEIZE_ACK \<Rightarrow> clear_forward l | OR2_CAS_SEIZE \<Rightarrow> disconnected OR2_DOUBLE_SEIZURE OR2_CAUSE_GLARE l | _ \<Rightarrow> fail OR2_INVALID_CAS_BITS l)
      | OR2_DOUBLE_SEIZURE \<Rightarrow> (case sig of OR2_CAS_CLEAR_FORWARD \<Rightarrow> l\<lparr>l_r2 := OR2_CLEAR_FWD_RXD\<rparr> | _ \<Rightarrow> fail OR2_INVALID_CAS_BITS l)
      | OR2_DOUBLE_SEIZURE_CLEAR_FWD_PENDING \<Rightarrow> (case sig of OR2_CAS_CLEAR_FORWARD \<Rightarrow> end_call l | _ \<Rightarrow> fail OR2_INVALID_CAS_BITS l)
      | OR2_SEIZE_ACK_RXD \<Rightarrow> (case sig of OR2_CAS_ANSWER \<Rightarrow> l\<lparr>l_r2 := OR2_ANSWER_RXD_MF_PENDING\<rparr> | OR2_CAS_CLEAR_BACK \<Rightarrow> cleared_back l | OR2_CAS_FORCED_RELEASE \<Rightarrow> released l | _ \<Rightarrow> fail OR2_INVALID_CAS_BITS l)
      | OR2_ACCEPT_RXD \<Rightarrow> (case sig of OR2_CAS_ANSWER \<Rightarrow> say OnCallAnswered (l\<lparr>l_r2 := OR2_ANSWER_RXD, l_call := OR2_CALL_ANSWERED\<rparr>) | OR2_CAS_CLEAR_BACK \<Rightarrow> cleared_back l | OR2_CAS_FORCED_RELEASE \<Rightarrow> released l | _ \<Rightarrow> fail OR2_INVALID_CAS_BITS l)
      | OR2_ANSWER_RXD \<Rightarrow> (case sig of OR2_CAS_CLEAR_BACK \<Rightarrow> pulse_or OR2_CLEAR_BACK_RXD cleared_back l | OR2_CAS_FORCED_RELEASE \<Rightarrow> pulse_or OR2_FORCED_RELEASE_RXD released l | _ \<Rightarrow> fail OR2_INVALID_CAS_BITS l)
      | OR2_ANSWER_RXD_MF_PENDING \<Rightarrow> (case sig of OR2_CAS_CLEAR_BACK \<Rightarrow> pulse_or OR2_CLEAR_BACK_RXD cleared_back l | OR2_CAS_FORCED_RELEASE \<Rightarrow> pulse_or OR2_FORCED_RELEASE_RXD released l | _ \<Rightarrow> fail OR2_INVALID_CAS_BITS l)
      | OR2_CLEAR_BACK_RXD \<Rightarrow> (case sig of OR2_CAS_ANSWER \<Rightarrow> billed l | _ \<Rightarrow> fail OR2_INVALID_CAS_BITS l)
      | OR2_FORCED_RELEASE_RXD \<Rightarrow> (case sig of OR2_CAS_ANSWER \<Rightarrow> billed l | _ \<Rightarrow> fail OR2_INVALID_CAS_BITS l)
      | OR2_CLEAR_BACK_TONE_RXD \<Rightarrow> (case sig of OR2_CAS_IDLE \<Rightarrow> end_call l | _ \<Rightarrow> fail OR2_INVALID_CAS_BITS l)
      | OR2_CLEAR_FWD_TXD \<Rightarrow> (case sig of OR2_CAS_IDLE \<Rightarrow> end_call l | OR2_CAS_CLEAR_BACK \<Rightarrow> l\<lparr>l_r2 := OR2_CLEAR_BACK_AFTER_CLEAR_FWD_RXD\<rparr> | OR2_CAS_FORCED_RELEASE \<Rightarrow> l\<lparr>l_r2 := OR2_CLEAR_BACK_AFTER_CLEAR_FWD_RXD\<rparr> | _ \<Rightarrow> fail OR2_INVALID_CAS_BITS l)
      | OR2_CLEAR_BACK_AFTER_CLEAR_FWD_RXD \<Rightarrow> (case sig of OR2_CAS_IDLE \<Rightarrow> end_call l | _ \<Rightarrow> fail OR2_INVALID_CAS_BITS l)
      | OR2_CLEAR_FWD_RXD \<Rightarrow> fail OR2_INVALID_R2_STATE l
      | OR2_INVALID_STATE \<Rightarrow> fail OR2_INVALID_R2_STATE l)"

definition bits_step :: "int \<Rightarrow> line \<Rightarrow> line" where
  "bits_step bits l = on_signal (l_r2 l) (meaning (l_cfg l) (l_r2 l) bits) l"

section \<open>Events\<close>

text \<open>
  The far end changes its bits; the user calls; an alarm is raised; a timer expires.  Of the arguments
  of a new call the line shows nothing.
\<close>

datatype line_event =
    Bits int
  | Dial "int list option" "int list" category int | Pickup | Hangup disconnect_cause | GoIdle | GoBlocked | AckSeize
  | AlarmOn
  | SeizeTimeout | AnswerTimeout | PulseTimeout | CallDownTimeout | SeizePersistTimeout | DoubleAnswerTimeout

definition dial :: "line \<Rightarrow> line" where
  "dial l =
     (if l_alarm l \<or> l_call l \<noteq> OR2_CALL_IDLE \<or> l_seen l \<noteq> bits_of OR2_CAS_IDLE then l
      else signal OR2_CAS_SEIZE (l\<lparr>l_r2 := OR2_SEIZE_TXD, l_call := OR2_CALL_DIALING, l_dir := OR2_DIR_FORWARD\<rparr>))"

definition pickup :: "line \<Rightarrow> line" where
  "pickup l =
     (if l_call l \<noteq> OR2_CALL_ACCEPTED then l
      else signal OR2_CAS_ANSWER (l\<lparr>l_r2 := OR2_ANSWER_TXD, l_call := OR2_CALL_ANSWERED\<rparr>))"

text \<open>An incoming call that was offered is refused with a tone, which the line does not show.\<close>

definition hangup :: "disconnect_cause \<Rightarrow> line \<Rightarrow> line" where
  "hangup cause l =
     (if l_call l = OR2_CALL_IDLE then l
      else if l_dir l = OR2_DIR_BACKWARD then
        (if l_call l = OR2_CALL_OFFERED then l
         else if l_r2 l = OR2_CLEAR_FWD_RXD then end_call l
         else if cause = OR2_CAUSE_FORCED_RELEASE
         then signal OR2_CAS_FORCED_RELEASE (l\<lparr>l_r2 := OR2_FORCED_RELEASE_TXD\<rparr>)
         else signal OR2_CAS_CLEAR_BACK (l\<lparr>l_r2 := OR2_CLEAR_BACK_TXD\<rparr>))
      else if l_r2 l = OR2_SEIZE_TXD then l\<lparr>l_r2 := OR2_SEIZE_TXD_CLEAR_FWD_PENDING\<rparr>
      else if l_r2 l = OR2_DOUBLE_SEIZURE then l\<lparr>l_r2 := OR2_DOUBLE_SEIZURE_CLEAR_FWD_PENDING\<rparr>
      else if l_r2 l = OR2_CLEAR_FWD_RXD then end_call l
      else clear_forward l)"

definition blocked :: "line \<Rightarrow> line" where
  "blocked l = signal OR2_CAS_BLOCK (l\<lparr>l_r2 := OR2_BLOCKED, l_call := OR2_CALL_IDLE, l_dir := OR2_DIR_STOPPED\<rparr>)"

definition alarmed :: "line \<Rightarrow> line" where
  "alarmed l =
     (let l' = say (OnHardwareAlarm 1) (l\<lparr>l_alarm := True\<rparr>)
      in (if l_call l \<noteq> OR2_CALL_IDLE then fail OR2_ALARM_RAISED l' else l')\<lparr>l_seen := 0\<rparr>)"

definition pulse_over :: "line \<Rightarrow> line" where
  "pulse_over l =
     disconnected (l_r2 l) (if l_r2 l = OR2_FORCED_RELEASE_RXD then OR2_CAUSE_FORCED_RELEASE else OR2_CAUSE_NORMAL_CLEARING) l"

definition flash :: "line \<Rightarrow> line" where
  "flash l =
     (if l_r2 l = OR2_ANSWER_TXD then signal OR2_CAS_CLEAR_BACK (l\<lparr>l_r2 := OR2_EXECUTING_DOUBLE_ANSWER\<rparr>)
      else if l_r2 l = OR2_EXECUTING_DOUBLE_ANSWER then signal OR2_CAS_ANSWER (l\<lparr>l_r2 := OR2_ANSWER_TXD\<rparr>)
      else l)"

fun line_step :: "line_event \<Rightarrow> line \<Rightarrow> line" where
  "line_step (Bits b) l = (if l_alarm l then l else bits_step b (l\<lparr>l_seen := b\<rparr>))"
| "line_step (Dial a d c r) l = dial l"
| "line_step Pickup l = pickup l"
| "line_step (Hangup cause) l = hangup cause l"
| "line_step GoIdle l = to_idle l"
| "line_step GoBlocked l = blocked l"
| "line_step AckSeize l = signal OR2_CAS_SEIZE_ACK l"
| "line_step AlarmOn l = alarmed l"
| "line_step SeizeTimeout l = fail OR2_SEIZE_TIMEOUT l"
| "line_step AnswerTimeout l = disconnected (l_r2 l) OR2_CAUSE_NO_ANSWER l"
| "line_step PulseTimeout l = pulse_over l"
| "line_step CallDownTimeout l = end_call l"
| "line_step SeizePersistTimeout l = clear_forward l"
| "line_step DoubleAnswerTimeout l = flash l"

lemmas line_moves = say_def signal_def to_idle_def end_call_def fail_def disconnected_def seized_def
  cleared_forward_def cleared_back_def released_def pulse_or_def billed_def clear_forward_def

lemmas line_defs = bits_step_def on_signal_def meaning_def line_moves

lemma bits_of_simps [simp]:
  "bits_of OR2_CAS_IDLE = 8" "bits_of OR2_CAS_BLOCK = 12" "bits_of OR2_CAS_SEIZE = 0" "bits_of OR2_CAS_SEIZE_ACK = 12"
  "bits_of OR2_CAS_CLEAR_BACK = 12" "bits_of OR2_CAS_FORCED_RELEASE = 0" "bits_of OR2_CAS_CLEAR_FORWARD = 8"
  "bits_of OR2_CAS_ANSWER = 4"
  by (simp_all add: bits_of_def standard_cas_signals_def)

section \<open>The call fits the line\<close>

text \<open>The states of an outgoing and of an incoming call; \<open>OR2_CLEAR_FWD_RXD\<close> ends both.\<close>

definition outgoing_state :: "cas_state \<Rightarrow> bool" where
  "outgoing_state st \<longleftrightarrow> st \<in> {OR2_SEIZE_TXD, OR2_SEIZE_ACK_RXD, OR2_CLEAR_BACK_TONE_RXD, OR2_ACCEPT_RXD, OR2_ANSWER_RXD,
     OR2_CLEAR_BACK_RXD, OR2_ANSWER_RXD_MF_PENDING, OR2_CLEAR_FWD_TXD, OR2_FORCED_RELEASE_RXD,
     OR2_CLEAR_BACK_AFTER_CLEAR_FWD_RXD, OR2_SEIZE_TXD_CLEAR_FWD_PENDING, OR2_DOUBLE_SEIZURE_CLEAR_FWD_PENDING,
     OR2_DOUBLE_SEIZURE, OR2_CLEAR_FWD_RXD}"

definition incoming_state :: "cas_state \<Rightarrow> bool" where
  "incoming_state st \<longleftrightarrow> st \<in> {OR2_SEIZE_ACK_TXD, OR2_ANSWER_TXD, OR2_CLEAR_BACK_TXD, OR2_CLEAR_FWD_RXD,
     OR2_EXECUTING_DOUBLE_ANSWER, OR2_FORCED_RELEASE_TXD}"

definition idle_state :: "cas_state \<Rightarrow> bool" where
  "idle_state st \<longleftrightarrow> st \<in> {OR2_INIT, OR2_IDLE, OR2_BLOCKED}"

lemmas line_states = outgoing_state_def incoming_state_def idle_state_def

text \<open>There is a call exactly when the line is not idle, and its direction is that of the line state.\<close>

definition consistent :: "line \<Rightarrow> bool" where
  "consistent l \<longleftrightarrow>
     (if l_call l = OR2_CALL_IDLE then l_dir l = OR2_DIR_STOPPED \<and> idle_state (l_r2 l)
      else l_dir l = OR2_DIR_FORWARD \<and> outgoing_state (l_r2 l) \<or> l_dir l = OR2_DIR_BACKWARD \<and> incoming_state (l_r2 l)
        \<and> l_call l \<noteq> OR2_CALL_DIALING)"

text \<open>The timers of a call only expire while the call is there, the one of glare in an outgoing call.\<close>

definition allowed :: "line_event \<Rightarrow> line \<Rightarrow> bool" where
  "allowed e l \<longleftrightarrow>
     (case e of AnswerTimeout \<Rightarrow> l_call l \<noteq> OR2_CALL_IDLE | PulseTimeout \<Rightarrow> l_call l \<noteq> OR2_CALL_IDLE
      | CallDownTimeout \<Rightarrow> l_call l \<noteq> OR2_CALL_IDLE | SeizePersistTimeout \<Rightarrow> l_dir l = OR2_DIR_FORWARD
      | Pickup \<Rightarrow> l_dir l = OR2_DIR_BACKWARD | _ \<Rightarrow> True)"

fun allowed_run :: "line_event list \<Rightarrow> line \<Rightarrow> bool" where
  "allowed_run [] l \<longleftrightarrow> True"
| "allowed_run (e # es) l \<longleftrightarrow> allowed e l \<and> allowed_run es (line_step e l)"

lemma consistent_bits: "consistent l \<Longrightarrow> consistent (bits_step b l)"
  by (cases "l_r2 l")
    (auto simp: line_defs consistent_def line_states Let_def split: cas_signal.split if_splits)

lemma consistent_step: "consistent l \<Longrightarrow> allowed e l \<Longrightarrow> consistent (line_step e l)"
proof (cases e)
  case (Bits b)
  assume c: "consistent l"
  then have "consistent (l\<lparr>l_seen := b\<rparr>)" by (simp add: consistent_def)
  then show ?thesis using c Bits consistent_bits by simp
qed (auto simp: consistent_def line_states allowed_def line_moves dial_def pickup_def hangup_def blocked_def
    alarmed_def pulse_over_def flash_def Let_def split: if_splits)

lemma consistent_run: "consistent l \<Longrightarrow> allowed_run es l \<Longrightarrow> consistent (foldl (\<lambda>l e. line_step e l) l es)"
  by (induction es arbitrary: l) (auto intro: consistent_step)

section \<open>Reports\<close>

text \<open>The reports about a call that must be there, and what an event adds to the output.\<close>

fun call_report :: "act \<Rightarrow> bool" where
  "call_report (Ev OnCallEnd) = True"
| "call_report (Ev (OnCallDisconnect c)) = True"
| "call_report (Ev OnCallAnswered) = True"
| "call_report (Ev OnCallProceed) = True"
| "call_report (Ev OnBillingPulseReceived) = True"
| "call_report _ = False"

definition new_acts :: "line \<Rightarrow> line \<Rightarrow> act list" where
  "new_acts l l' = drop (length (l_out l)) (l_out l')"

text \<open>
  Reports fit the call: they are about a call that is there, a new call is reported on an idle line, and
  after the report of an end or of an error there is no call.
\<close>

definition well_reported :: "line \<Rightarrow> line \<Rightarrow> bool" where
  "well_reported l l' \<longleftrightarrow>
     list_all (\<lambda>a. (call_report a \<longrightarrow> l_call l \<noteq> OR2_CALL_IDLE) \<and>
       (a = Ev OnCallInit \<longrightarrow> l_call l = OR2_CALL_IDLE \<and> l_dir l' = OR2_DIR_BACKWARD) \<and>
       (a = Ev OnCallEnd \<longrightarrow> l_call l' = OR2_CALL_IDLE \<and> l_r2 l' = OR2_IDLE)) (new_acts l l')"

lemmas report_defs = well_reported_def new_acts_def

lemma reports_bits: "consistent l \<Longrightarrow> well_reported l (bits_step b l)"
  by (cases "l_r2 l")
    (auto simp: line_defs report_defs consistent_def line_states Let_def split: cas_signal.split if_splits)

lemma reports_step: "consistent l \<Longrightarrow> allowed e l \<Longrightarrow> well_reported l (line_step e l)"
proof (cases e)
  case (Bits b)
  assume c: "consistent l"
  then have "consistent (l\<lparr>l_seen := b\<rparr>)" by (simp add: consistent_def)
  from reports_bits [OF this, of b] show ?thesis using Bits by (simp add: report_defs)
qed (auto simp: report_defs consistent_def line_states allowed_def line_moves dial_def pickup_def hangup_def blocked_def
    alarmed_def pulse_over_def flash_def Let_def split: if_splits)

section \<open>A call can always be ended\<close>

text \<open>What the far end answers to a hangup: the acknowledgement of a pending seizure, and the release.\<close>

definition release_reply :: "cas_state \<Rightarrow> int list" where
  "release_reply st = (if st \<in> {OR2_SEIZE_TXD, OR2_SEIZE_TXD_CLEAR_FWD_PENDING} then [12, 8] else [8])"

definition hangup_run :: "disconnect_cause \<Rightarrow> cas_state \<Rightarrow> line_event list" where
  "hangup_run cause st = Hangup cause # map Bits (release_reply st) @ [Hangup cause]"

lemma hangup_ends:
  assumes "consistent l" "\<not> l_alarm l" "l_call l \<noteq> OR2_CALL_IDLE"
  shows "l_call (foldl (\<lambda>l e. line_step e l) l (hangup_run cause (l_r2 l))) = OR2_CALL_IDLE \<and>
    l_r2 (foldl (\<lambda>l e. line_step e l) l (hangup_run cause (l_r2 l))) = OR2_IDLE"
  using assms
  by (cases "l_r2 l"; cases "l_dir l"; cases "l_call l = OR2_CALL_OFFERED")
    (auto simp: hangup_run_def release_reply_def consistent_def line_states hangup_def line_defs)

end
