(* ===== verification/R2Context.thy ===== *)
theory R2Context
  imports R2Variant
begin

text \<open>
  The context layer, \<open>r2context.c\<close>: creation, the checks of the interfaces a user installs, the
  settings, the list of channels and the time to the next event over all of them, and the reader of
  the advanced protocol file.  A function pointer is a value of type \<open>'f\<close>, NULL is \<open>None\<close>.
\<close>

section \<open>Settings\<close>

definition openr2_context_set_ani_first :: "int \<Rightarrow> r2ctx \<Rightarrow> r2ctx" where
  "openr2_context_set_ani_first v c = (if v < 0 then c else c\<lparr>get_ani_first := (if v \<noteq> 0 then 1 else 0)\<rparr>)"

definition openr2_context_set_skip_category_request :: "int \<Rightarrow> r2ctx \<Rightarrow> r2ctx" where
  "openr2_context_set_skip_category_request v c =
     (if v < 0 then c else c\<lparr>skip_category := (if v \<noteq> 0 then 1 else 0)\<rparr>)"

definition openr2_context_set_immediate_accept :: "int \<Rightarrow> r2ctx \<Rightarrow> r2ctx" where
  "openr2_context_set_immediate_accept v c =
     (if v < 0 then c else c\<lparr>immediate_accept := (if v \<noteq> 0 then 1 else 0)\<rparr>)"

definition openr2_context_set_log_level :: "int \<Rightarrow> r2ctx \<Rightarrow> r2ctx" where
  "openr2_context_set_log_level level c = c\<lparr>ctx_loglevel := level\<rparr>"

definition openr2_context_set_max_ani :: "int \<Rightarrow> r2ctx \<Rightarrow> r2ctx" where
  "openr2_context_set_max_ani v c = c\<lparr>max_ani := (if v \<ge> OR2_MAX_ANI then OR2_MAX_ANI - 1 else v)\<rparr>"

definition openr2_context_set_max_dnis :: "int \<Rightarrow> r2ctx \<Rightarrow> r2ctx" where
  "openr2_context_set_max_dnis v c = c\<lparr>max_dnis := (if v \<ge> OR2_MAX_DNIS then OR2_MAX_DNIS - 1 else v)\<rparr>"

definition openr2_context_set_auto_seize_ack :: "int \<Rightarrow> r2ctx \<Rightarrow> r2ctx" where
  "openr2_context_set_auto_seize_ack enable c =
     c\<lparr>ctx_flags := (if enable \<noteq> 0 then set_flag (ctx_flags c) OR2_AUTO_SEIZE_ACK
                     else clear_flag (ctx_flags c) OR2_AUTO_SEIZE_ACK)\<rparr>"

definition openr2_context_set_mf_threshold :: "int \<Rightarrow> r2ctx \<Rightarrow> r2ctx" where
  "openr2_context_set_mf_threshold v c = c\<lparr>mf_threshold := (if v < 0 then 0 else v)\<rparr>"

definition openr2_context_set_dtmf_detection :: "int \<Rightarrow> r2ctx \<Rightarrow> r2ctx" where
  "openr2_context_set_dtmf_detection v c = (if v < 0 then c else c\<lparr>detect_dtmf := (if v \<noteq> 0 then 1 else 0)\<rparr>)"

definition openr2_context_set_dtmf_dialing :: "int \<Rightarrow> int \<Rightarrow> int \<Rightarrow> r2ctx \<Rightarrow> r2ctx" where
  "openr2_context_set_dtmf_dialing enable on off c =
     (if enable < 0 then c
      else
        let c = c\<lparr>dial_with_dtmf := (if enable \<noteq> 0 then 1 else 0)\<rparr> in
        if dial_with_dtmf c \<noteq> 0
        then c\<lparr>dtmf_on := (if on > 0 then on else OR2_DEFAULT_DTMF_ON),
               dtmf_off := (if off > 0 then off else OR2_DEFAULT_DTMF_OFF)\<rparr>
        else c)"

definition openr2_context_get_dtmf_dialing :: "r2ctx \<Rightarrow> int \<times> int \<times> int" where
  "openr2_context_get_dtmf_dialing c = (dial_with_dtmf c, dtmf_on c, dtmf_off c)"

definition openr2_context_set_mf_back_timeout :: "int \<Rightarrow> r2ctx \<Rightarrow> r2ctx" where
  "openr2_context_set_mf_back_timeout ms c =
     (if ms < 0 then c else c\<lparr>timers := (timers c)\<lparr>t_mf_back_cycle := ms\<rparr>\<rparr>)"

definition openr2_context_set_metering_pulse_timeout :: "int \<Rightarrow> r2ctx \<Rightarrow> r2ctx" where
  "openr2_context_set_metering_pulse_timeout ms c =
     (if ms < 0 then c else c\<lparr>timers := (timers c)\<lparr>t_r2_metering_pulse := ms\<rparr>\<rparr>)"

definition openr2_context_set_double_answer :: "int \<Rightarrow> r2ctx \<Rightarrow> r2ctx" where
  "openr2_context_set_double_answer v c = (if v < 0 then c else c\<lparr>double_answer := v\<rparr>)"

definition openr2_context_get_double_answer :: "r2ctx \<Rightarrow> int" where
  "openr2_context_get_double_answer c = (if double_answer c \<noteq> 0 then 1 else 0)"

text \<open>
  The log directory: \<open>stat_rc\<close>, \<open>stat_errno\<close> and \<open>mkdir_rc\<close> are what the system calls return;
  255 is \<open>OR2_MAX_PATH\<close>.
\<close>

abbreviation (input) "OR2_MAX_PATH \<equiv> 255 :: nat"
abbreviation (input) "ENOENT \<equiv> 2 :: int"

definition openr2_context_set_log_directory :: "string option \<Rightarrow> int \<Rightarrow> int \<Rightarrow> int \<Rightarrow> r2ctx \<Rightarrow> int \<times> r2ctx" where
  "openr2_context_set_log_directory directory stat_rc stat_errno mkdir_rc c =
     (case directory of
        None \<Rightarrow> (-1, c)
      | Some d \<Rightarrow>
          if length d \<ge> OR2_MAX_PATH then (-1, c)
          else if stat_rc \<noteq> 0 \<and> stat_errno \<noteq> ENOENT then (-1, c)
          else if stat_rc \<noteq> 0 \<and> mkdir_rc \<noteq> 0 then (-1, c)
          else (0, c\<lparr>logdir := take (OR2_MAX_PATH - 1) d\<rparr>))"

definition openr2_context_get_log_directory :: "nat \<Rightarrow> r2ctx \<Rightarrow> string" where
  "openr2_context_get_log_directory len c = take (len - 1) (logdir c)"

fun openr2_context_error_string :: "liberr \<Rightarrow> string" where
  "openr2_context_error_string OR2_LIBERR_SYSCALL_FAILED = ''System call failed''"
| "openr2_context_error_string OR2_LIBERR_INVALID_CHAN_SIGNALING = ''Invalid channel signaling''"
| "openr2_context_error_string OR2_LIBERR_CANNOT_SET_IDLE = ''Failed to set IDLE state on channel''"
| "openr2_context_error_string OR2_LIBERR_NO_IO_IFACE_AVAILABLE = ''No I/O interface available for channel''"
| "openr2_context_error_string OR2_LIBERR_INVALID_CHAN_NUMBER = ''Invalid channel number''"
| "openr2_context_error_string OR2_LIBERR_OUT_OF_MEMORY = ''Out of memory''"
| "openr2_context_error_string OR2_LIBERR_INVALID_INTERFACE = ''Invalid interface''"

section \<open>Interfaces\<close>

record 'f mflib_interface =
  m_read_init :: "'f option"
  m_write_init :: "'f option"
  m_detect_tone :: "'f option"
  m_generate_tone :: "'f option"
  m_select_tone :: "'f option"
  m_want_generate :: "'f option"
  m_read_dispose :: "'f option"
  m_write_dispose :: "'f option"

record 'f transcoder_interface =
  x_alaw_to_linear :: "'f option"
  x_linear_to_alaw :: "'f option"

record 'f dtmf_interface =
  d_tx_init :: "'f option"
  d_tx_set_timing :: "'f option"
  d_tx_put :: "'f option"
  d_tx :: "'f option"
  d_rx_init :: "'f option"
  d_rx_status :: "'f option"
  d_rx :: "'f option"

record 'f io_interface =
  i_open :: "'f option"
  i_close :: "'f option"
  i_set_cas :: "'f option"
  i_get_cas :: "'f option"
  i_flush_write_buffers :: "'f option"
  i_write :: "'f option"
  i_read :: "'f option"
  i_setup :: "'f option"
  i_wait :: "'f option"
  i_get_oob_event :: "'f option"
  i_get_alarm_state :: "'f option"

datatype io_type = OR2_IO_CUSTOM | OR2_IO_ZT | OR2_IO_DEFAULT | OR2_IO_OTHER int

text \<open>A context: the settings, the installed interfaces and the list of channels (addresses).\<close>

record 'f context_t =
  settings :: r2ctx
  mflib :: "'f mflib_interface"
  transcoder :: "'f transcoder_interface"
  dtmfeng :: "'f dtmf_interface"
  io_iface :: "'f io_interface option"
  iotype :: io_type
  chanlist :: "nat list"

definition invalid_interface :: "'f context_t \<Rightarrow> int \<times> 'f context_t" where
  "invalid_interface c = (-1, c\<lparr>settings := (settings c)\<lparr>last_error := OR2_LIBERR_INVALID_INTERFACE\<rparr>\<rparr>)"

text \<open>NULL is answered with 0, but only a local variable is assigned the default interface.\<close>

definition openr2_context_set_mflib_interface :: "'f mflib_interface option \<Rightarrow> 'f context_t \<Rightarrow> int \<times> 'f context_t" where
  "openr2_context_set_mflib_interface m c =
     (case m of
        None \<Rightarrow> (0, c)
      | Some m \<Rightarrow>
          if m_read_init m = None then invalid_interface c
          else if m_write_init m = None then invalid_interface c
          else if m_detect_tone m = None then invalid_interface c
          else if m_generate_tone m = None then invalid_interface c
          else if m_select_tone m = None then invalid_interface c
          else if m_want_generate m = None then invalid_interface c
          else (0, c\<lparr>mflib := m\<rparr>))"

definition openr2_context_set_transcoder_interface ::
  "'f transcoder_interface option \<Rightarrow> 'f context_t \<Rightarrow> int \<times> 'f context_t" where
  "openr2_context_set_transcoder_interface x c =
     (case x of
        None \<Rightarrow> (0, c)
      | Some x \<Rightarrow>
          if x_alaw_to_linear x = None then invalid_interface c
          else if x_linear_to_alaw x = None then invalid_interface c
          else (0, c\<lparr>transcoder := x\<rparr>))"

definition openr2_context_set_dtmf_interface ::
  "'f dtmf_interface \<Rightarrow> 'f dtmf_interface option \<Rightarrow> 'f context_t \<Rightarrow> int \<times> 'f context_t" where
  "openr2_context_set_dtmf_interface default_dtmf_engine d c =
     (case d of
        None \<Rightarrow> (0, c\<lparr>dtmfeng := default_dtmf_engine\<rparr>)
      | Some d \<Rightarrow>
          if d_tx_init d = None then (-1, c)
          else if d_tx_set_timing d = None then (-1, c)
          else if d_tx_put d = None then (-1, c)
          else if d_tx d = None then (-1, c)
          else if d_rx_init d = None then (-1, c)
          else if d_rx_status d = None then (-1, c)
          else if d_rx d = None then (-1, c)
          else (0, c\<lparr>dtmfeng := d\<rparr>))"

text \<open>The ten functions the check of a custom I/O interface asks for, \<open>get_alarm_state\<close> not among them.\<close>

definition io_complete :: "'f io_interface \<Rightarrow> bool" where
  "io_complete i \<longleftrightarrow> i_open i \<noteq> None \<and> i_close i \<noteq> None \<and> i_set_cas i \<noteq> None \<and> i_get_cas i \<noteq> None \<and>
     i_flush_write_buffers i \<noteq> None \<and> i_write i \<noteq> None \<and> i_read i \<noteq> None \<and> i_setup i \<noteq> None \<and>
     i_wait i \<noteq> None \<and> i_get_oob_event i \<noteq> None"

definition install_io :: "io_type \<Rightarrow> 'f io_interface \<Rightarrow> 'f context_t \<Rightarrow> 'f context_t" where
  "install_io t i c = c\<lparr>iotype := t, io_iface := Some i, settings := (settings c)\<lparr>io_present := True\<rparr>\<rparr>"

text \<open>\<open>zt\<close> and \<open>dummy\<close> are the results of \<open>openr2_io_get_zt_interface\<close> (NULL without DAHDI) and its dummy.\<close>

definition openr2_context_set_io_type ::
  "'f io_interface option \<Rightarrow> 'f io_interface \<Rightarrow> io_type \<Rightarrow> 'f io_interface option \<Rightarrow> 'f context_t \<Rightarrow> int \<times> 'f context_t" where
  "openr2_context_set_io_type zt dummy t i c =
     (case t of
        OR2_IO_CUSTOM \<Rightarrow>
          (case i of
             None \<Rightarrow> (-1, c)
           | Some i \<Rightarrow> if \<not> io_complete i then (-1, c) else (0, install_io t i c))
      | OR2_IO_ZT \<Rightarrow> (case zt of None \<Rightarrow> (-1, c) | Some z \<Rightarrow> (0, install_io t z c))
      | OR2_IO_DEFAULT \<Rightarrow> (0, install_io t (case zt of None \<Rightarrow> dummy | Some z \<Rightarrow> z) c)
      | OR2_IO_OTHER _ \<Rightarrow> (-1, c))"

section \<open>Creating a context\<close>

datatype ev_slot =
    S_call_init | S_call_proceed | S_call_offered | S_call_accepted | S_call_answered | S_call_disconnect
  | S_call_end | S_call_read | S_hardware_alarm | S_os_error | S_protocol_error | S_line_blocked
  | S_line_idle | S_context_log | S_dnis_digit_received | S_ani_digit_received | S_billing_pulse_received
  | S_call_log_created

text \<open>The event functions missing in the user's structure are replaced by the default ones.\<close>

definition fix_evmanager :: "(ev_slot \<Rightarrow> 'f) \<Rightarrow> (ev_slot \<Rightarrow> 'f option) option \<Rightarrow> ev_slot \<Rightarrow> 'f" where
  "fix_evmanager default_evmanager evmanager slot =
     (case evmanager of
        None \<Rightarrow> default_evmanager slot
      | Some m \<Rightarrow> (case m slot of None \<Rightarrow> default_evmanager slot | Some f \<Rightarrow> f))"

text \<open>What \<open>calloc\<close> leaves: every field 0, so the first variant and the first error code.\<close>

definition zero_ctx :: r2ctx where
  "zero_ctx = \<lparr> last_error = OR2_LIBERR_SYSCALL_FAILED, io_present = False, variant = OR2_VAR_ARGENTINA,
     cas_signals = replicate 8 0, cas_nonr2_bits = 0, cas_r2_bits = 0,
     mf_ga_tones = \<lparr> ga_request_next_dnis_digit = 0, ga_request_dnis_minus_1 = 0, ga_request_dnis_minus_2 = 0,
       ga_request_dnis_minus_3 = 0, ga_request_all_dnis_again = 0, ga_request_next_ani_digit = 0,
       ga_request_category = 0, ga_request_category_and_change_to_gc = 0, ga_request_change_to_g2 = 0,
       ga_address_complete_charge_setup = 0, ga_network_congestion = 0 \<rparr>,
     mf_gb_tones = \<lparr> gb_accept_call_with_charge = 0, gb_accept_call_no_charge = 0, gb_busy_number = 0,
       gb_network_congestion = 0, gb_unallocated_number = 0, gb_line_out_of_order = 0,
       gb_special_info_tone = 0, gb_number_changed = 0 \<rparr>,
     mf_gc_tones = \<lparr> gc_request_next_ani_digit = 0, gc_request_change_to_g2 = 0,
       gc_request_next_dnis_digit_and_change_to_ga = 0, gc_network_congestion = 0 \<rparr>,
     mf_g1_tones = \<lparr> g1_no_more_dnis_available = 0, g1_no_more_ani_available = 0, g1_caller_ani_is_restricted = 0 \<rparr>,
     mf_g2_tones = \<lparr> g2_national_subscriber = 0, g2_national_priority_subscriber = 0, g2_international_subscriber = 0,
       g2_international_priority_subscriber = 0, g2_collect_call = 0, g2_test_equipment = 0, g2_pay_phone = 0 \<rparr>,
     timers = \<lparr> t_mf_back_cycle = 0, t_mf_back_resume_cycle = 0, t_mf_fwd_safety = 0, t_r2_seize = 0,
       t_r2_answer = 0, t_r2_metering_pulse = 0, t_r2_double_answer = 0, t_r2_answer_delay = 0,
       t_cas_persistence_check = 0, t_dtmf_start_dial = 0, t_r2_set_call_down = 0, t_r2_seize_persist = 0 \<rparr>,
     max_dnis = 0, max_ani = 0, get_ani_first = 0, skip_category = 0, immediate_accept = 0, double_answer = 0,
     mf_threshold = 0, dial_with_dtmf = 0, detect_dtmf = 0, dtmf_on = 0, dtmf_off = 0, ctx_loglevel = 0,
     logdir = [], configured_from_file = 0, ctx_flags = 0 \<rparr>"

text \<open>\<open>None\<close> is the NULL returned when the variant is unknown or no I/O interface can be set.\<close>

definition openr2_context_new ::
  "'f io_interface option \<Rightarrow> 'f io_interface \<Rightarrow> 'f mflib_interface \<Rightarrow> 'f transcoder_interface \<Rightarrow> 'f dtmf_interface \<Rightarrow>
   variant_t \<Rightarrow> int \<Rightarrow> int \<Rightarrow> 'f context_t option" where
  "openr2_context_new zt dummy default_mf default_tr default_dtmf v ani_limit dnis_limit =
     (let ctx = zero_ctx\<lparr>variant := v, ctx_loglevel := OR2_LOG_ERROR OR OR2_LOG_WARNING OR OR2_LOG_NOTICE\<rparr>;
          (rc, ctx) = openr2_proto_configure_context ctx v ani_limit dnis_limit
      in if rc \<noteq> 0 then None
         else
           let c = \<lparr> settings = ctx, mflib = default_mf, transcoder = default_tr, dtmfeng = default_dtmf,
                     io_iface = None, iotype = OR2_IO_CUSTOM, chanlist = [] \<rparr>;
               (rc, c) = openr2_context_set_io_type zt dummy OR2_IO_DEFAULT None c
           in if rc = -1 then None else Some c)"

section \<open>The channels of a context\<close>

definition openr2_context_add_channel :: "nat \<Rightarrow> 'f context_t \<Rightarrow> 'f context_t" where
  "openr2_context_add_channel r2chan c = c\<lparr>chanlist := r2chan # chanlist c\<rparr>"

text \<open>
  Removing a channel: the list after the loop.  \<open>prev\<close> is unset only at the head, and there the list
  of the context becomes empty.
\<close>

fun unlink_after :: "nat \<Rightarrow> nat list \<Rightarrow> nat list" where
  "unlink_after x [] = []"
| "unlink_after x (y # ys) = (if y = x then ys else y # unlink_after x ys)"

definition openr2_context_remove_channel :: "nat \<Rightarrow> 'f context_t \<Rightarrow> 'f context_t" where
  "openr2_context_remove_channel r2chan c =
     (case chanlist c of
        [] \<Rightarrow> c
      | h # rest \<Rightarrow> c\<lparr>chanlist := (if h = r2chan then [] else h # unlink_after r2chan rest)\<rparr>)"

text \<open>
  The search for the channel with the earliest timer.  Of a channel the loop reads the number of
  timers and the time in slot 0 of its array, the latter also when there are no timers.
\<close>

record chan_head =
  timers_count :: nat
  slot0 :: timeval

fun next_event_scan :: "chan_head option \<Rightarrow> chan_head list \<Rightarrow> chan_head option" where
  "next_event_scan winner [] = None"
| "next_event_scan winner (current # rest) =
     (if timers_count current < 1 then next_event_scan winner rest
      else
        let w = (case winner of None \<Rightarrow> current | Some w \<Rightarrow> w) in
        case rest of
          [] \<Rightarrow> Some w
        | n # _ \<Rightarrow> next_event_scan (Some (if slot0 w > slot0 n then n else w)) rest)"

definition openr2_context_get_time_to_next_event :: "timeval option \<Rightarrow> chan_head list \<Rightarrow> int" where
  "openr2_context_get_time_to_next_event now chans =
     (case now of
        None \<Rightarrow> -1
      | Some now \<Rightarrow>
          (case next_event_scan None chans of
             None \<Rightarrow> -1
           | Some w \<Rightarrow> let ms = ms_between (slot0 w) now in if ms < 0 then 0 else ms))"

section \<open>The advanced protocol file\<close>

text \<open>\<open>sscanf(line, "name=%c", ...)\<close> and \<open>sscanf(line, "name=%d", ...)\<close>: the literal, then the conversion.\<close>

fun strip_literal :: "int list \<Rightarrow> int list \<Rightarrow> int list option" where
  "strip_literal [] rest = Some rest"
| "strip_literal (x # xs) [] = None"
| "strip_literal (x # xs) (y # ys) = (if x = y then strip_literal xs ys else None)"

definition scan_char :: "int list \<Rightarrow> int option" where
  "scan_char rest = (case rest of [] \<Rightarrow> None | c # _ \<Rightarrow> if c = 0 then None else Some c)"

definition is_space :: "int \<Rightarrow> bool" where
  "is_space c \<longleftrightarrow> c = 32 \<or> (9 \<le> c \<and> c \<le> 13)"

definition is_digit_char :: "int \<Rightarrow> bool" where
  "is_digit_char c \<longleftrightarrow> 48 \<le> c \<and> c \<le> 57"

definition digits_value :: "int list \<Rightarrow> int" where
  "digits_value ds = foldl (\<lambda>v d. 10 * v + (d - 48)) 0 ds"

text \<open>\<open>%d\<close>.  A number outside \<open>int\<close>, for which C leaves the conversion undefined, is taken as it is.\<close>

definition scan_int :: "int list \<Rightarrow> int option" where
  "scan_int rest =
     (let s = dropWhile is_space rest;
          (neg, s) = (case s of [] \<Rightarrow> (False, s)
                      | c # cs \<Rightarrow> if c = 45 then (True, cs) else if c = 43 then (False, cs) else (False, s));
          ds = takeWhile is_digit_char s
      in if ds = [] then None else Some (if neg then - digits_value ds else digits_value ds))"

text \<open>
  The lines the reader knows, in the order of its \<open>else if\<close> chain: a tone (\<open>LOADTONE\<close>) or a number
  (\<open>LOADTIMER\<close>, \<open>LOADSETTING\<close>).
\<close>

datatype setter = Tone "int \<Rightarrow> r2ctx \<Rightarrow> r2ctx" | Number "int \<Rightarrow> r2ctx \<Rightarrow> r2ctx"

definition file_settings :: "(string \<times> setter) list" where
  "file_settings =
     [(''mf_ga_tones.request_next_ani_digit='', Tone (\<lambda>v c. c\<lparr>mf_ga_tones := (mf_ga_tones c)\<lparr>ga_request_next_ani_digit := v\<rparr>\<rparr>)),
      (''mf_ga_tones.request_next_dnis_digit='', Tone (\<lambda>v c. c\<lparr>mf_ga_tones := (mf_ga_tones c)\<lparr>ga_request_next_dnis_digit := v\<rparr>\<rparr>)),
      (''mf_ga_tones.request_dnis_minus_1='', Tone (\<lambda>v c. c\<lparr>mf_ga_tones := (mf_ga_tones c)\<lparr>ga_request_dnis_minus_1 := v\<rparr>\<rparr>)),
      (''mf_ga_tones.request_dnis_minus_2='', Tone (\<lambda>v c. c\<lparr>mf_ga_tones := (mf_ga_tones c)\<lparr>ga_request_dnis_minus_2 := v\<rparr>\<rparr>)),
      (''mf_ga_tones.request_dnis_minus_3='', Tone (\<lambda>v c. c\<lparr>mf_ga_tones := (mf_ga_tones c)\<lparr>ga_request_dnis_minus_3 := v\<rparr>\<rparr>)),
      (''mf_ga_tones.request_all_dnis_again='', Tone (\<lambda>v c. c\<lparr>mf_ga_tones := (mf_ga_tones c)\<lparr>ga_request_all_dnis_again := v\<rparr>\<rparr>)),
      (''mf_ga_tones.request_category='', Tone (\<lambda>v c. c\<lparr>mf_ga_tones := (mf_ga_tones c)\<lparr>ga_request_category := v\<rparr>\<rparr>)),
      (''mf_ga_tones.request_category_and_change_to_gc='', Tone (\<lambda>v c. c\<lparr>mf_ga_tones := (mf_ga_tones c)\<lparr>ga_request_category_and_change_to_gc := v\<rparr>\<rparr>)),
      (''mf_ga_tones.request_change_to_g2='', Tone (\<lambda>v c. c\<lparr>mf_ga_tones := (mf_ga_tones c)\<lparr>ga_request_change_to_g2 := v\<rparr>\<rparr>)),
      (''mf_ga_tones.address_complete_charge_setup='', Tone (\<lambda>v c. c\<lparr>mf_ga_tones := (mf_ga_tones c)\<lparr>ga_address_complete_charge_setup := v\<rparr>\<rparr>)),
      (''mf_ga_tones.network_congestion='', Tone (\<lambda>v c. c\<lparr>mf_ga_tones := (mf_ga_tones c)\<lparr>ga_network_congestion := v\<rparr>\<rparr>)),
      (''mf_gb_tones.accept_call_with_charge='', Tone (\<lambda>v c. c\<lparr>mf_gb_tones := (mf_gb_tones c)\<lparr>gb_accept_call_with_charge := v\<rparr>\<rparr>)),
      (''mf_gb_tones.accept_call_no_charge='', Tone (\<lambda>v c. c\<lparr>mf_gb_tones := (mf_gb_tones c)\<lparr>gb_accept_call_no_charge := v\<rparr>\<rparr>)),
      (''mf_gb_tones.busy_number='', Tone (\<lambda>v c. c\<lparr>mf_gb_tones := (mf_gb_tones c)\<lparr>gb_busy_number := v\<rparr>\<rparr>)),
      (''mf_gb_tones.network_congestion='', Tone (\<lambda>v c. c\<lparr>mf_gb_tones := (mf_gb_tones c)\<lparr>gb_network_congestion := v\<rparr>\<rparr>)),
      (''mf_gb_tones.unallocated_number='', Tone (\<lambda>v c. c\<lparr>mf_gb_tones := (mf_gb_tones c)\<lparr>gb_unallocated_number := v\<rparr>\<rparr>)),
      (''mf_gb_tones.line_out_of_order='', Tone (\<lambda>v c. c\<lparr>mf_gb_tones := (mf_gb_tones c)\<lparr>gb_line_out_of_order := v\<rparr>\<rparr>)),
      (''mf_gb_tones.special_info_tone='', Tone (\<lambda>v c. c\<lparr>mf_gb_tones := (mf_gb_tones c)\<lparr>gb_special_info_tone := v\<rparr>\<rparr>)),
      (''mf_gb_tones.number_changed='', Tone (\<lambda>v c. c\<lparr>mf_gb_tones := (mf_gb_tones c)\<lparr>gb_number_changed := v\<rparr>\<rparr>)),
      (''mf_gc_tones.request_next_ani_digit='', Tone (\<lambda>v c. c\<lparr>mf_gc_tones := (mf_gc_tones c)\<lparr>gc_request_next_ani_digit := v\<rparr>\<rparr>)),
      (''mf_gc_tones.request_change_to_g2='', Tone (\<lambda>v c. c\<lparr>mf_gc_tones := (mf_gc_tones c)\<lparr>gc_request_change_to_g2 := v\<rparr>\<rparr>)),
      (''mf_gc_tones.request_next_dnis_digit_and_change_to_ga='', Tone (\<lambda>v c. c\<lparr>mf_gc_tones := (mf_gc_tones c)\<lparr>gc_request_next_dnis_digit_and_change_to_ga := v\<rparr>\<rparr>)),
      (''mf_g1_tones.no_more_dnis_available='', Tone (\<lambda>v c. c\<lparr>mf_g1_tones := (mf_g1_tones c)\<lparr>g1_no_more_dnis_available := v\<rparr>\<rparr>)),
      (''mf_g1_tones.no_more_ani_available='', Tone (\<lambda>v c. c\<lparr>mf_g1_tones := (mf_g1_tones c)\<lparr>g1_no_more_ani_available := v\<rparr>\<rparr>)),
      (''mf_g1_tones.caller_ani_is_restricted='', Tone (\<lambda>v c. c\<lparr>mf_g1_tones := (mf_g1_tones c)\<lparr>g1_caller_ani_is_restricted := v\<rparr>\<rparr>)),
      (''mf_g2_tones.national_subscriber='', Tone (\<lambda>v c. c\<lparr>mf_g2_tones := (mf_g2_tones c)\<lparr>g2_national_subscriber := v\<rparr>\<rparr>)),
      (''mf_g2_tones.national_priority_subscriber='', Tone (\<lambda>v c. c\<lparr>mf_g2_tones := (mf_g2_tones c)\<lparr>g2_national_priority_subscriber := v\<rparr>\<rparr>)),
      (''mf_g2_tones.international_subscriber='', Tone (\<lambda>v c. c\<lparr>mf_g2_tones := (mf_g2_tones c)\<lparr>g2_international_subscriber := v\<rparr>\<rparr>)),
      (''mf_g2_tones.international_priority_subscriber='', Tone (\<lambda>v c. c\<lparr>mf_g2_tones := (mf_g2_tones c)\<lparr>g2_international_priority_subscriber := v\<rparr>\<rparr>)),
      (''mf_g2_tones.collect_call='', Tone (\<lambda>v c. c\<lparr>mf_g2_tones := (mf_g2_tones c)\<lparr>g2_collect_call := v\<rparr>\<rparr>)),
      (''mf_g2_tones.pay_phone='', Tone (\<lambda>v c. c\<lparr>mf_g2_tones := (mf_g2_tones c)\<lparr>g2_pay_phone := v\<rparr>\<rparr>)),
      (''timers.mf_back_cycle='', Number (\<lambda>v c. c\<lparr>timers := (timers c)\<lparr>t_mf_back_cycle := v\<rparr>\<rparr>)),
      (''timers.mf_back_resume_cycle='', Number (\<lambda>v c. c\<lparr>timers := (timers c)\<lparr>t_mf_back_resume_cycle := v\<rparr>\<rparr>)),
      (''timers.mf_fwd_safety='', Number (\<lambda>v c. c\<lparr>timers := (timers c)\<lparr>t_mf_fwd_safety := v\<rparr>\<rparr>)),
      (''timers.r2_seize='', Number (\<lambda>v c. c\<lparr>timers := (timers c)\<lparr>t_r2_seize := v\<rparr>\<rparr>)),
      (''timers.r2_seize_persist='', Number (\<lambda>v c. c\<lparr>timers := (timers c)\<lparr>t_r2_seize_persist := v\<rparr>\<rparr>)),
      (''timers.r2_answer='', Number (\<lambda>v c. c\<lparr>timers := (timers c)\<lparr>t_r2_answer := v\<rparr>\<rparr>)),
      (''timers.r2_metering_pulse='', Number (\<lambda>v c. c\<lparr>timers := (timers c)\<lparr>t_r2_metering_pulse := v\<rparr>\<rparr>)),
      (''timers.r2_double_answer='', Number (\<lambda>v c. c\<lparr>timers := (timers c)\<lparr>t_r2_double_answer := v\<rparr>\<rparr>)),
      (''timers.r2_answer_delay='', Number (\<lambda>v c. c\<lparr>timers := (timers c)\<lparr>t_r2_answer_delay := v\<rparr>\<rparr>)),
      (''timers.r2_set_call_down='', Number (\<lambda>v c. c\<lparr>timers := (timers c)\<lparr>t_r2_set_call_down := v\<rparr>\<rparr>)),
      (''timers.cas_persistence_check='', Number (\<lambda>v c. c\<lparr>timers := (timers c)\<lparr>t_cas_persistence_check := v\<rparr>\<rparr>)),
      (''timers.dtmf_start_dial='', Number (\<lambda>v c. c\<lparr>timers := (timers c)\<lparr>t_dtmf_start_dial := v\<rparr>\<rparr>)),
      (''mf_threshold='', Number (\<lambda>v c. c\<lparr>mf_threshold := v\<rparr>)),
      (''cas_r2_bits='', Number (\<lambda>v c. c\<lparr>cas_r2_bits := v\<rparr>)),
      (''cas_nonr2_bits='', Number (\<lambda>v c. c\<lparr>cas_nonr2_bits := v\<rparr>))]"

definition tone_chars :: "int list" where
  "tone_chars = cstr ''1234567890BCDEF''"

text \<open>
  \<open>%c\<close> writes one byte, the lowest of the local \<open>int\<close>, which keeps its other bytes from the line
  before; \<open>strchr\<close> looks at that byte only, and the whole \<open>int\<close> is stored.
\<close>

fun load_setting :: "setter \<Rightarrow> int list \<Rightarrow> int \<times> r2ctx \<Rightarrow> (int \<times> r2ctx) option" where
  "load_setting (Tone upd) rest (intvalue, c) =
     (case scan_char rest of
        None \<Rightarrow> None
      | Some ch \<Rightarrow>
          let intvalue = (intvalue AND NOT 255) OR ch in
          Some (intvalue, upd (if ch \<in> set tone_chars then intvalue else OR2_MF_TONE_INVALID) c))"
| "load_setting (Number upd) rest (intvalue, c) =
     (case scan_int rest of
        None \<Rightarrow> None
      | Some v \<Rightarrow> Some (v, if v \<ge> 0 then upd v c else c))"

fun load_line :: "(string \<times> setter) list \<Rightarrow> int list \<Rightarrow> int \<times> r2ctx \<Rightarrow> int \<times> r2ctx" where
  "load_line [] line st = st"
| "load_line ((name, k) # others) line st =
     (case Option.bind (strip_literal (cstr name) line) (\<lambda>rest. load_setting k rest st) of
        None \<Rightarrow> load_line others line st
      | Some st' \<Rightarrow> st')"

text \<open>
  A line as \<open>fgets\<close> with a buffer of \<open>n\<close> bytes returns it: up to a newline, \<open>n - 1\<close> characters at
  most; and all lines of a file.
\<close>

definition first_line :: "nat \<Rightarrow> int list \<Rightarrow> int list" where
  "first_line n contents =
     (let chunk = take (n - 1) contents; line = takeWhile (\<lambda>x. x \<noteq> 10) chunk
      in if length line < length chunk then line @ [10] else line)"

lemma first_line_nonempty: "contents \<noteq> [] \<Longrightarrow> 1 < n \<Longrightarrow> first_line n contents \<noteq> []"
  by (cases contents; cases n) (auto simp: first_line_def Let_def take_Cons split: nat.split)

function file_lines :: "nat \<Rightarrow> int list \<Rightarrow> int list list" where
  "file_lines n contents =
     (if contents = [] \<or> n \<le> 1 then []
      else first_line n contents # file_lines n (drop (length (first_line n contents)) contents))"
  by pat_completeness auto
termination
  by (relation "measure (length \<circ> snd)") (auto intro!: diff_less simp: first_line_nonempty)

declare file_lines.simps [simp del]

definition skipped_line :: "int list \<Rightarrow> bool" where
  "skipped_line line \<longleftrightarrow> (case line of [] \<Rightarrow> False | c # _ \<Rightarrow> c = 35 \<or> c = 10 \<or> c = 32)"

definition openr2_context_configure_from_advanced_file :: "int list option \<Rightarrow> r2ctx \<Rightarrow> int \<times> r2ctx" where
  "openr2_context_configure_from_advanced_file file c =
     (case file of
        None \<Rightarrow> (-1, c)
      | Some contents \<Rightarrow>
          let lines = filter (\<lambda>l. \<not> skipped_line l) (file_lines 255 contents);
              (_, c) = foldl (\<lambda>st l. load_line file_settings l st) (0, c) lines
          in (0, c\<lparr>configured_from_file := 1\<rparr>))"

section \<open>The time to the next event\<close>

lemma scan_winner:
  assumes "\<forall>c \<in> set xs. 1 \<le> timers_count c" "1 \<le> timers_count x"
  shows "\<exists>r. next_event_scan (Some w) (x # xs) = Some r \<and> r \<in> insert w (set xs) \<and>
     (\<forall>c \<in> insert w (set xs). slot0 r \<le> slot0 c)"
  using assms
proof (induction xs arbitrary: x w)
  case Nil
  then show ?case by simp
next
  case (Cons n xs)
  let ?w = "if slot0 w > slot0 n then n else w"
  obtain r where "next_event_scan (Some ?w) (n # xs) = Some r" "r \<in> insert ?w (set xs)"
      "\<forall>c \<in> insert ?w (set xs). slot0 r \<le> slot0 c"
    using Cons.IH [of n ?w] Cons.prems by auto
  then show ?case using Cons.prems
    by (intro exI [of _ r]) (auto split: if_splits intro: order.trans less_imp_le)
qed

text \<open>
  C28: when every channel of the context has a timer, the function answers the time left until the
  earliest of them, and 0 when that is in the past.
\<close>

theorem context_next_event:
  assumes "chans \<noteq> []" and "list_all (\<lambda>c. 1 \<le> timers_count c) chans"
  shows "openr2_context_get_time_to_next_event (Some now) chans =
     max 0 (ms_between (Min (slot0 ` set chans)) now)"
proof -
  obtain x xs where chans: "chans = x # xs" using assms(1) by (cases chans) auto
  then have "\<forall>c \<in> set xs. 1 \<le> timers_count c" "1 \<le> timers_count x" using assms(2) by (auto simp: list_all_iff)
  from scan_winner [OF this, of x] obtain r where
    r: "next_event_scan (Some x) (x # xs) = Some r" "r \<in> set chans" "\<forall>c \<in> set chans. slot0 r \<le> slot0 c"
    by (auto simp: chans)
  have "next_event_scan None chans = Some r"
    using r(1) \<open>1 \<le> timers_count x\<close> by (cases xs) (simp_all add: chans)
  moreover have "Min (slot0 ` set chans) = slot0 r" using r(2,3) by (intro Min_eqI) auto
  ultimately show ?thesis by (simp add: openr2_context_get_time_to_next_event_def Let_def)
qed

lemma context_next_event_witness:
  "openr2_context_get_time_to_next_event (Some (Timeval 5 0))
     [\<lparr>timers_count = 1, slot0 = Timeval 7 0\<rparr>, \<lparr>timers_count = 2, slot0 = Timeval 6 0\<rparr>] = 1000"
proof -
  have "Min {Timeval 7 0, Timeval 6 0} = Timeval 6 0" by (simp add: less_eq_timeval_def min_def)
  then show ?thesis
    using context_next_event [of "[\<lparr>timers_count = 1, slot0 = Timeval 7 0\<rparr>, \<lparr>timers_count = 2, slot0 = Timeval 6 0\<rparr>]" "Timeval 5 0"]
    by (simp add: ms_between_def)
qed

text \<open>
  The search does not survive channels without timers: a timer due in one second is not seen
  when the last channel of the list has none.
\<close>

theorem context_next_event_missed:
  "openr2_context_get_time_to_next_event (Some (Timeval 5 0))
     [\<lparr>timers_count = 1, slot0 = Timeval 6 0\<rparr>, \<lparr>timers_count = 0, slot0 = Timeval 0 0\<rparr>] = -1"
  by (simp add: openr2_context_get_time_to_next_event_def)

section \<open>The list of channels\<close>

text \<open>
  Removing a channel from the list of its context removes that channel and no other, when it is
  not the one added last; removing the one added last empties the list.
\<close>

theorem remove_channel_list:
  "chanlist (openr2_context_remove_channel x c) =
     (if chanlist c \<noteq> [] \<and> hd (chanlist c) = x then [] else remove1 x (chanlist c))"
proof -
  have "unlink_after x ys = remove1 x ys" for ys by (induction ys) auto
  then show ?thesis by (cases "chanlist c") (auto simp: openr2_context_remove_channel_def)
qed

section \<open>Interfaces of a context\<close>

text \<open>
  After a successful choice of the I/O type the context has an I/O interface with all the ten
  functions the library calls without asking; on failure it is as before.
\<close>

theorem set_io_type_complete:
  assumes "openr2_context_set_io_type zt dummy t i c = (rc, c')"
    and "pred_option io_complete zt" and "io_complete dummy"
  shows "(rc = 0 \<and> pred_option io_complete (io_iface c') \<and> io_iface c' \<noteq> None \<and> io_present (settings c')) \<or>
     (rc = -1 \<and> c' = c)"
  using assms
  by (auto simp: openr2_context_set_io_type_def install_io_def split: io_type.splits option.splits if_splits)

definition full_io :: "nat io_interface" where
  "full_io = \<lparr> i_open = Some 1, i_close = Some 2, i_set_cas = Some 3, i_get_cas = Some 4,
     i_flush_write_buffers = Some 5, i_write = Some 6, i_read = Some 7, i_setup = Some 8, i_wait = Some 9,
     i_get_oob_event = Some 10, i_get_alarm_state = None \<rparr>"

definition bare_context :: "nat context_t" where
  "bare_context = \<lparr> settings = zero_ctx,
     mflib = \<lparr> m_read_init = None, m_write_init = None, m_detect_tone = None, m_generate_tone = None,
       m_select_tone = None, m_want_generate = None, m_read_dispose = None, m_write_dispose = None \<rparr>,
     transcoder = \<lparr> x_alaw_to_linear = None, x_linear_to_alaw = None \<rparr>,
     dtmfeng = \<lparr> d_tx_init = None, d_tx_set_timing = None, d_tx_put = None, d_tx = None, d_rx_init = None,
       d_rx_status = None, d_rx = None \<rparr>,
     io_iface = None, iotype = OR2_IO_DEFAULT, chanlist = [] \<rparr>"

lemma set_io_type_complete_witness:
  "fst (openr2_context_set_io_type None full_io OR2_IO_DEFAULT None bare_context) = 0 \<and>
   io_iface (snd (openr2_context_set_io_type None full_io OR2_IO_DEFAULT None bare_context)) \<noteq> None"
  using set_io_type_complete [of None full_io OR2_IO_DEFAULT None bare_context, OF prod.collapse [symmetric]]
  by (simp add: full_io_def io_complete_def openr2_context_set_io_type_def)

section \<open>A file of settings\<close>

definition timers_nonneg :: "timers_cfg \<Rightarrow> bool" where
  "timers_nonneg t \<longleftrightarrow> list_all (\<lambda>f. 0 \<le> f t) [t_mf_back_cycle, t_mf_back_resume_cycle, t_mf_fwd_safety, t_r2_seize,
     t_r2_answer, t_r2_metering_pulse, t_r2_double_answer, t_r2_answer_delay, t_cas_persistence_check,
     t_dtmf_start_dial, t_r2_set_call_down, t_r2_seize_persist]"

fun setter_keeps :: "(r2ctx \<Rightarrow> bool) \<Rightarrow> setter \<Rightarrow> bool" where
  "setter_keeps P (Tone f) \<longleftrightarrow> (\<forall>v c. P c \<longrightarrow> P (f v c))"
| "setter_keeps P (Number f) \<longleftrightarrow> (\<forall>v c. 0 \<le> v \<longrightarrow> P c \<longrightarrow> P (f v c))"

lemma load_line_keeps:
  assumes "\<forall>(n, k) \<in> set table. setter_keeps P k" "P (snd st)"
  shows "P (snd (load_line table line st))"
  using assms
proof (induction table line st rule: load_line.induct)
  case (2 name k others line st)
  have "P (snd st')" if "load_setting k rest st = Some st'" for rest st'
    using that 2(2,3) by (cases k; cases st) (auto simp: Let_def split: option.splits)
  then show ?case using 2 by (auto split: option.splits Option.bind_splits)
qed simp

lemma file_settings_timers: "\<forall>(n, k) \<in> set file_settings. setter_keeps (\<lambda>c. timers_nonneg (timers c)) k"
  unfolding file_settings_def by (simp add: timers_nonneg_def)

text \<open>C29: no advanced protocol file, whatever it contains, makes a timer of the context negative.\<close>

theorem advanced_file_timers:
  assumes "timers_nonneg (timers c)"
  shows "timers_nonneg (timers (snd (openr2_context_configure_from_advanced_file file c)))"
proof -
  have "timers_nonneg (timers (snd (foldl (\<lambda>st l. load_line file_settings l st) (i, c) ls)))" for i ls
    using assms
  proof (induction ls arbitrary: i c)
    case (Cons l ls)
    show ?case
      using Cons.IH [of "snd (load_line file_settings l (i, c))" "fst (load_line file_settings l (i, c))"]
        load_line_keeps [OF file_settings_timers, of "(i, c)" l] Cons.prems by simp
  qed simp
  then show ?thesis using assms
    by (auto simp: openr2_context_configure_from_advanced_file_def Let_def case_prod_beta split: option.split)
qed

lemma advanced_file_timers_witness:
  "timers_nonneg (timers (snd (openr2_context_configure_from_advanced_file (Some [45, 49]) zero_ctx)))"
  using advanced_file_timers [of zero_ctx "Some [45, 49]"] by (simp add: zero_ctx_def timers_nonneg_def)

text \<open>
  A tone read after a number keeps the high bytes of the number: the line for the answer timer
  turns the tone 1 (code 49) of the next line into 305, which is no tone.
\<close>

theorem advanced_file_stale_bytes:
  "ga_request_next_dnis_digit (mf_ga_tones (snd (openr2_context_configure_from_advanced_file
     (Some (cstr ''timers.r2_answer=300'' @ [10] @ cstr ''mf_ga_tones.request_next_dnis_digit=1'' @ [10])) zero_ctx))) = 305"
  by code_simp

end
