(* ===== verification/R2Sim.thy ===== *)
theory R2Sim
  imports R2Silent R2Context R2Codec
begin

text \<open>
  A line simulator: a concrete world (the clock and the bits the far end shows) and concrete interfaces
  over it.  The contracts \<open>silent_interfaces\<close> and \<open>working_interfaces\<close> hold for it, so what is proved
  under them is about something, and the witnesses of the properties are runs on it.
\<close>

section \<open>The world\<close>

record sim =
  sim_clock :: timeval
  sim_rx :: int

text \<open>The callbacks are the default ones of \<open>r2context.c\<close>: they print, and ask for more digits.\<close>

definition sim_iface :: "sim iface" where
  "sim_iface = \<lparr>
     evmanager = (\<lambda>e. return 1), io_open = (\<lambda>n. return n), io_close = return 0, io_set_cas = (\<lambda>c. return 0),
     io_get_cas = world_call (\<lambda>w. ((0, sim_rx w), w)), io_flush_write_buffers = return 0,
     io_write = (\<lambda>b n. return n), io_read = (\<lambda>n. return (0, [])), io_setup = return 0,
     io_wait = (\<lambda>f b. return (0, 0)), io_get_oob_event = return (0, OR2_OOB_EVENT_NONE),
     io_get_alarm_state = Some (return (0, 0)),
     mf_read_init = (\<lambda>h d w. (2, w)), mf_write_init = (\<lambda>h d w. (1, w)),
     mf_detect_tone = (\<lambda>h b n w. (-1, w)), mf_generate_tone = (\<lambda>h n w. ((0, []), w)),
     mf_select_tone = (\<lambda>h t w. (0, w)), mf_want_generate = (\<lambda>h t w. (1, w)),
     mf_read_dispose = None, mf_write_dispose = None,
     alaw_to_linear = (\<lambda>b. openr2_alaw_to_linear (word_of_int b)), linear_to_alaw = (\<lambda>x. uint (openr2_linear_to_alaw x)),
     dtmf_tx_init = (\<lambda>h w. (1, w)), dtmf_tx_set_timing = (\<lambda>h a b w. w), dtmf_tx_put = (\<lambda>h d n w. (0, w)),
     dtmf_tx = (\<lambda>h n w. ((0, []), w)), dtmf_rx_init = (\<lambda>h w. (1, w)), dtmf_rx_status = (\<lambda>h w. (0, w)),
     dtmf_rx = (\<lambda>h b n cb. return 0), gettimeofday = (\<lambda>w. (Some (sim_clock w), w)), sys_errno = (\<lambda>w. 0),
     sys_time = (\<lambda>w. (None, w)), sys_localtime = (\<lambda>t w. (None, w)), sys_fopen = (\<lambda>n w. (0, w)),
     sys_fclose = (\<lambda>f w. (0, w)) \<rparr>"

interpretation sim: silent_interfaces sim_iface
  by unfold_locales (simp_all add: sim_iface_def silent_return silent_world_call)

interpretation sim: working_interfaces sim_iface
  by unfold_locales (simp_all add: sim_iface_def)

section \<open>Channels on the simulator\<close>

text \<open>A context of a variant, with the limits the tests use, and a channel of it at time 0.\<close>

definition sim_ctx :: "variant_t \<Rightarrow> r2ctx" where
  "sim_ctx v = (snd (openr2_proto_configure_context zero_ctx v 10 4))\<lparr>io_present := True\<rparr>"

definition sim_chan :: "variant_t \<Rightarrow> int \<Rightarrow> sim chan" where
  "sim_chan v rx = fresh_chan (sim_ctx v) \<lparr>sim_clock = Timeval 0 0, sim_rx = rx\<rparr>"

section \<open>The device\<close>

text \<open>A Zaptel device that signals every event it is asked for.\<close>

definition echo_device :: "sim zt_sys" where
  "echo_device = \<lparr> zt_sys_open = (\<lambda>w. (3, w)), zt_sys_close = (\<lambda>f w. (0, w)),
     zt_sys_ioctl = (\<lambda>f r w. ((0, case r of ZT_IOMUX m \<Rightarrow> m | _ \<Rightarrow> 0), w)),
     zt_sys_read = (\<lambda>f n w. ((0, []), w)), zt_sys_write = (\<lambda>f b n w. (n, w)) \<rparr>"

text \<open>Distinct bits for the flags of the device.\<close>

definition dahdi_consts :: zt_consts where
  "dahdi_consts = \<lparr> c_FLUSH_WRITE = 2, c_SIG_CAS = 15, c_POLICY_IMMEDIATE = 0, c_LAW_ALAW = 2, c_IOMUX_NOWAIT = 256,
     c_IOMUX_READ = 1, c_IOMUX_WRITE = 2, c_IOMUX_SIGEVENT = 8, c_EVENT_BITSCHANGED = 13, c_EVENT_ALARM = 4,
     c_EVENT_NOALARM = 5, c_ELAST = 500 \<rparr>"

lemma zt_wait_flags_witness:
  "val (zt_wait echo_device dahdi_consts sim_iface 5 0) (sim_chan OR2_VAR_ITU 9) = (0, 5)"
  using zt_wait_flags [of dahdi_consts 5 echo_device "sim_chan OR2_VAR_ITU 9" 0 sim_iface]
  by (simp add: echo_device_def dahdi_consts_def)

end
