(* ===== verification/R2CasSpec.thy ===== *)
theory R2CasSpec
  imports R2Silent R2Line R2Sim
begin

text \<open>
  The handlers of the library refine the abstract line of R2Line, for MF R2 with the standard signals
  over interfaces that work: one lemma for each state of the switch in \<open>openr2_proto_handle_cas\<close>, one
  for each call of the user and each timer function, and then for whole sequences of events
  (\<open>line_refinement\<close>).
\<close>

section \<open>The abstraction\<close>

definition no_tone :: "act \<Rightarrow> bool" where
  "no_tone a = (case a of TxTone _ \<Rightarrow> False | _ \<Rightarrow> True)"

lemma no_tone_simps [simp]: "no_tone (Ev e)" "no_tone (TxCas b)" "\<not> no_tone (TxTone t)"
  by (simp_all add: no_tone_def)

text \<open>The settings of the line are those of the context and the channel; \<open>files\<close> is the flag of the call files.\<close>

definition cfg_from :: "r2ctx \<Rightarrow> int \<Rightarrow> line_cfg" where
  "cfg_from ctx files =
     \<lparr>cfg_plain = (io_present ctx \<and> cas_signals ctx = standard_cas_signals \<and> dial_with_dtmf ctx = 0 \<and>
        detect_dtmf ctx = 0 \<and> files = 0),
      cfg_nonr2 = cas_nonr2_bits ctx, cfg_metering = t_r2_metering_pulse (timers ctx) \<noteq> 0,
      cfg_auto_ack = test_flag (ctx_flags ctx) OR2_AUTO_SEIZE_ACK\<rparr>"

lemma cfg_from_simps [simp]:
  "cfg_nonr2 (cfg_from c f) = cas_nonr2_bits c"
  "cfg_metering (cfg_from c f) \<longleftrightarrow> t_r2_metering_pulse (timers c) \<noteq> 0"
  "cfg_auto_ack (cfg_from c f) \<longleftrightarrow> test_flag (ctx_flags c) OR2_AUTO_SEIZE_ACK"
  by (simp_all add: cfg_from_def)

definition line_of :: "'w chan \<Rightarrow> line" where
  "line_of s =
     \<lparr>l_cfg = cfg_from (r2context s) (call_files s), l_r2 = r2_state s, l_call = call_state s, l_dir = direction s,
      l_alarm = (inalarm s \<noteq> 0), l_seen = cas_read s, l_out = filter no_tone (trace s)\<rparr>"

definition mf_r2 :: "'w chan \<Rightarrow> bool" where
  "mf_r2 s \<longleftrightarrow> cfg_plain (l_cfg (line_of s))"

lemma mf_r2_unfold: "mf_r2 s \<longleftrightarrow> io_present (r2context s) \<and> cas_signals (r2context s) = standard_cas_signals \<and>
     dial_with_dtmf (r2context s) = 0 \<and> detect_dtmf (r2context s) = 0 \<and> call_files s = 0"
  by (auto simp: mf_r2_def line_of_def cfg_from_def)

lemma R2_standard: "mf_r2 s \<Longrightarrow> R2 s sig = bits_of sig"
  by (simp add: mf_r2_unfold R2_def bits_of_def)

lemma mf_r2_io: "mf_r2 s \<Longrightarrow> io_present (r2context s)"
  by (simp add: mf_r2_unfold)

lemma mf_r2_cong: "r2context t = r2context s \<Longrightarrow> call_files t = call_files s \<Longrightarrow> mf_r2 t = mf_r2 s"
  by (simp add: mf_r2_unfold)

lemma R2_chan: "r2context t = r2context s \<Longrightarrow> R2 t sig = R2 s sig"
  by (simp add: R2_def)

lemma files_fields [simp]:
  "call_files (cleared ifc s) = call_files s" "call_files (signalled sig s) = call_files s"
  "call_files (failed ifc e s) = call_files s" "call_files (added sl ms cb n t s) = call_files s"
  "call_files (tone_set tn t s) = call_files s"
  "inalarm (tone_set tn t s) = inalarm s" "cas_read (tone_set tn t s) = cas_read s"
  by (simp_all add: cleared_def mf_off_def signalled_def failed_def added_def tone_set_def Let_def)

section \<open>The handler of the bits\<close>

context working_interfaces
begin

lemma wp_report_call_end [wp_intros]:
  assumes "io_present (r2context s)"
    "\<And>w. Q () ((signalled OR2_CAS_IDLE (cleared ifc s))\<lparr>trace := trace (signalled OR2_CAS_IDLE (cleared ifc s)) @ [Ev OnCallEnd], world := w\<rparr>)"
  shows "wp (report_call_end ifc) Q s"
  unfolding report_call_end_def using assms by (auto intro!: wp_set_idle wp_emit)

lemma wp_report_disconnection [wp_intros]:
  assumes "\<And>w. Q () (s\<lparr>call_state := OR2_CALL_DISCONNECTED, trace := trace s @ [Ev (OnCallDisconnect cause)], world := w\<rparr>)"
  shows "wp (report_call_disconnection ifc cause) Q s"
  unfolding report_call_disconnection_def using assms by (auto intro!: wp_emit)

lemma refine_failed: "mf_r2 s \<Longrightarrow> line_of (failed ifc e s\<lparr>world := w\<rparr>) = fail e (line_of s)"
  by (simp add: line_of_def line_defs mf_r2_io R2_standard)

lemma wp_invalid_cas:
  assumes "mf_r2 s" "\<And>w. Q () (failed ifc e (s\<lparr>cas_rx_signal := OR2_CAS_INVALID\<rparr>)\<lparr>world := w\<rparr>)"
  shows "wp (invalid_cas ifc e) Q s"
  unfolding invalid_cas_def CAS_LOG_RX_def using assms by (auto simp: mf_r2_unfold intro!: wp_protocol_error)

lemma refine_init:
  assumes "mf_r2 s" "r2_state s = OR2_INIT"
  shows "wp (cas_in_init ifc bits) (\<lambda>_ s'. line_of s' = bits_step bits (line_of s)) s"
  unfolding cas_in_init_def CAS_LOG_RX_def using assms
  by (auto simp: R2_standard line_of_def line_defs intro!: wp_emit wp_invalid_cas simp: mf_r2_io)

lemma refine_blocked:
  assumes "mf_r2 s" "r2_state s = OR2_BLOCKED"
  shows "wp (cas_in_blocked ifc bits) (\<lambda>_ s'. line_of s' = bits_step bits (line_of s)) s"
  unfolding cas_in_blocked_def CAS_LOG_RX_def using assms
  by (auto simp: R2_standard line_of_def line_defs intro!: wp_emit)

lemma refine_backward_call:
  assumes "mf_r2 s" "r2_state s \<in> {OR2_SEIZE_ACK_TXD, OR2_ANSWER_TXD, OR2_EXECUTING_DOUBLE_ANSWER}"
  shows "wp (cas_in_backward_call ifc bits) (\<lambda>_ s'. line_of s' = bits_step bits (line_of s)) s"
  unfolding cas_in_backward_call_def CAS_LOG_RX_def using assms
  by (auto simp: R2_standard line_of_def line_defs intro!: wp_report_disconnection wp_invalid_cas simp: mf_r2_io)

text \<open>Scheduling a timer whose id is not stored.\<close>

lemma wp_add_timer:
  assumes "\<And>v i ts w. P v (s\<lparr>timer_id := i, sched_timers := ts, world := w\<rparr>)"
  shows "wp (openr2_chan_add_timer ifc ms cb name) P s"
proof -
  obtain t where t: "fst (gettimeofday ifc (world s)) = Some t" using clock by fast
  have "\<exists>i ts w. exec (openr2_chan_add_timer ifc ms cb name) s = s\<lparr>timer_id := i, sched_timers := ts, world := w\<rparr>"
    by (cases s) (use t in \<open>auto simp: add_timer_as_locked add_timer_locked_def Let_def\<close>)
  then show ?thesis using assms by (auto simp: wp_def)
qed

lemma wp_send_clear_forward:
  assumes "mf_r2 s" "\<And>s'. line_of s' = clear_forward (line_of s) \<Longrightarrow> P 0 s'"
  shows "wp (send_clear_forward ifc) P s"
  unfolding send_clear_forward_def using assms(1)
  by (auto intro!: wp_add_timer wp_turn_off wp_signal assms(2) simp: mf_r2_io line_of_def line_defs R2_standard)
    (simp_all add: R2_def mf_r2_unfold standard_cas_signals_def)

lemma refine_double_seizure:
  assumes "mf_r2 s" "r2_state s \<in> {OR2_DOUBLE_SEIZURE, OR2_DOUBLE_SEIZURE_CLEAR_FWD_PENDING}"
  shows "wp (cas_in_double_seizure ifc bits) (\<lambda>_ s'. line_of s' = bits_step bits (line_of s)) s"
  unfolding cas_in_double_seizure_def CAS_LOG_RX_def using assms
  by (auto simp: R2_standard line_of_def line_defs mf_r2_io intro!: wp_report_call_end wp_invalid_cas)

lemma refine_clear_back_txd:
  assumes "mf_r2 s" "r2_state s \<in> {OR2_CLEAR_BACK_TXD, OR2_FORCED_RELEASE_TXD}"
  shows "wp (cas_in_clear_back_txd ifc bits) (\<lambda>_ s'. line_of s' = bits_step bits (line_of s)) s"
  unfolding cas_in_clear_back_txd_def CAS_LOG_RX_def using assms
  by (auto simp: R2_standard line_of_def line_defs mf_r2_io intro!: wp_report_call_end wp_invalid_cas)

lemma refine_wait_idle:
  assumes "mf_r2 s" "r2_state s \<in> {OR2_CLEAR_BACK_TONE_RXD, OR2_CLEAR_BACK_AFTER_CLEAR_FWD_RXD}"
  shows "wp (cas_wait_idle ifc bits) (\<lambda>_ s'. line_of s' = bits_step bits (line_of s)) s"
  unfolding cas_wait_idle_def CAS_LOG_RX_def using assms
  by (auto simp: R2_standard line_of_def line_defs mf_r2_io intro!: wp_report_call_end wp_invalid_cas)

lemma refine_accept_rxd:
  assumes "mf_r2 s" "r2_state s = OR2_ACCEPT_RXD"
  shows "wp (cas_in_accept_rxd ifc bits) (\<lambda>_ s'. line_of s' = bits_step bits (line_of s)) s"
  unfolding cas_in_accept_rxd_def CAS_LOG_RX_def check_backward_disconnection_def backward_disconnection_def using assms
  by (auto simp: R2_standard line_of_def line_defs mf_r2_io
      intro!: wp_turn_off wp_emit wp_report_disconnection wp_invalid_cas)

lemma refine_clear_fwd_txd:
  assumes "mf_r2 s" "r2_state s = OR2_CLEAR_FWD_TXD"
  shows "wp (cas_in_clear_fwd_txd ifc bits) (\<lambda>_ s'. line_of s' = bits_step bits (line_of s)) s"
  unfolding cas_in_clear_fwd_txd_def CAS_LOG_RX_def check_backward_disconnection_def backward_disconnection_def using assms
  by (auto simp: R2_standard line_of_def line_defs mf_r2_io intro!: wp_report_call_end wp_invalid_cas)

lemma refine_clear_back_rxd:
  assumes "mf_r2 s" "r2_state s \<in> {OR2_CLEAR_BACK_RXD, OR2_FORCED_RELEASE_RXD}"
  shows "wp (cas_in_clear_back_rxd ifc bits) (\<lambda>_ s'. line_of s' = bits_step bits (line_of s)) s"
  unfolding cas_in_clear_back_rxd_def CAS_LOG_RX_def using assms
  by (auto simp: R2_standard line_of_def line_defs mf_r2_io intro!: wp_emit wp_invalid_cas)

lemma refine_seize_ack_rxd:
  assumes "mf_r2 s" "r2_state s = OR2_SEIZE_ACK_RXD"
  shows "wp (cas_in_seize_ack_rxd ifc bits) (\<lambda>_ s'. line_of s' = bits_step bits (line_of s)) s"
  unfolding cas_in_seize_ack_rxd_def CAS_LOG_RX_def check_backward_disconnection_def backward_disconnection_def using assms
  by (auto simp: R2_standard line_of_def line_defs mf_r2_io intro!: wp_report_disconnection wp_invalid_cas)
    (simp_all add: mf_r2_unfold)

lemma refine_answer_rxd:
  assumes "mf_r2 s" "r2_state s \<in> {OR2_ANSWER_RXD, OR2_ANSWER_RXD_MF_PENDING}"
  shows "wp (cas_in_answer_rxd ifc bits) (\<lambda>_ s'. line_of s' = bits_step bits (line_of s)) s"
  unfolding cas_in_answer_rxd_def CAS_LOG_RX_def metering_or_disconnect_def using assms
  by (auto simp: R2_standard line_of_def line_defs mf_r2_io IS_DTMF_R2_def mf_r2_unfold
      intro!: wp_report_disconnection wp_invalid_cas wp_schedule)

text \<open>An incoming call, and the seize ack the other way: the MF engine starts, which the line does not show.\<close>

lemma wp_ack_call:
  assumes "mf_r2 s" "\<And>w. P 0 ((signalled OR2_CAS_SEIZE_ACK s)\<lparr>world := w\<rparr>)"
  shows "wp (openr2_proto_ack_call ifc) P s"
  unfolding openr2_proto_ack_call_def using assms by (auto simp: mf_r2_io intro!: wp_signal)

lemma wp_incoming_call:
  assumes "mf_r2 s" "\<And>s'. line_of s' = seized (line_of s) \<Longrightarrow> Q () s'"
  shows "wp (handle_incoming_call ifc) Q s"
proof -
  have d: "\<not> DETECT_DTMF s" "call_files s = 0" using assms(1) by (simp_all add: mf_r2_unfold)
  have m: "mf_r2 (s\<lparr>mf_write_handle := a, mf_read_handle := b, mf_state := c, mf_group := d, r2_state := e, call_state := f,
      direction := g, trace := h, world := w\<rparr>)" for a b c d e f g h w
    using assms(1) by (simp add: mf_r2_unfold)
  show ?thesis
    unfolding handle_incoming_call_def start_incoming_call_def open_logfile_def using d mf_starts
    by (auto intro!: wp_emit wp_ack_call assms(2) simp: m)
      (use assms(1) in \<open>simp_all add: line_of_def line_defs mf_r2_unfold R2_def standard_cas_signals_def\<close>)
qed

lemma refine_idle:
  assumes "mf_r2 s" "r2_state s = OR2_IDLE"
  shows "wp (cas_in_idle ifc bits) (\<lambda>_ s'. line_of s' = bits_step bits (line_of s)) s"
proof -
  have m: "mf_r2 (s\<lparr>cas_rx_signal := x\<rparr>)" "line_of (s\<lparr>cas_rx_signal := x\<rparr>) = line_of s" for x
    using assms(1) by (simp_all add: mf_r2_unfold line_of_def)
  consider "bits = 12" | "bits = 8" | "bits = 0" | "bits \<notin> {0, 8, 12}" by blast
  then show ?thesis
  proof cases
    case 3
    then have "bits_step bits (line_of s) = seized (line_of s)"
      using assms(2) by (simp add: bits_step_def on_signal_def meaning_def line_of_def)
    then show ?thesis unfolding cas_in_idle_def CAS_LOG_RX_def using assms 3
      by (simp add: R2_standard) (rule wp_incoming_call; simp add: m)
  qed (use assms in \<open>auto simp: cas_in_idle_def CAS_LOG_RX_def R2_standard line_of_def line_defs mf_r2_io
      intro!: wp_emit wp_invalid_cas\<close>)
qed

lemma wp_send_dnis:
  assumes "mf_r2 s" "offset \<in> {-3, -2, -1, 0, 1}"
    "\<And>s'. line_of s' = line_of s \<Longrightarrow> Q () s'"
  shows "wp (mf_send_dnis ifc offset) Q s"
proof -
  obtain i where i: "dnis_index_for offset (dnis_index s) = Some i"
    using assms(2) by (fastforce simp: dnis_index_for_def)
  show ?thesis
    unfolding mf_send_dnis_def wait_far_end_timeout_def using assms(1) i
    by (auto split: option.split intro!: wp_prepare_mf_tone wp_schedule assms(3) simp: mf_r2_io line_of_def)
qed

lemma refine_seize:
  assumes "mf_r2 s" "r2_state s \<in> {OR2_SEIZE_TXD, OR2_SEIZE_TXD_CLEAR_FWD_PENDING}"
  shows "wp (cas_in_seize ifc bits) (\<lambda>_ s'. line_of s' = bits_step bits (line_of s)) s"
proof -
  consider "bits = 12" | "bits = 0" | "bits \<notin> {0, 12}" by blast
  then show ?thesis
  proof cases
    case 1
    show ?thesis unfolding cas_in_seize_def CAS_LOG_RX_def cas_seize_acked_def using assms 1
      by (auto simp: R2_standard line_of_def line_defs mf_r2_io mf_r2_unfold
          intro!: wp_send_clear_forward wp_send_dnis wp_emit)
  qed (use assms in \<open>auto simp: cas_in_seize_def CAS_LOG_RX_def R2_standard line_of_def line_defs mf_r2_io
      intro!: wp_report_disconnection wp_invalid_cas\<close>)
qed

lemma refine_bits:
  assumes "mf_r2 s"
  shows "wp (handle_cas_bits ifc bits) (\<lambda>_ s'. line_of s' = bits_step bits (line_of s)) s"
proof (cases "r2_state s \<in> {OR2_INVALID_STATE, OR2_CLEAR_FWD_RXD}")
  case True
  then show ?thesis unfolding handle_cas_bits_def using assms
    by (auto simp: line_of_def line_defs mf_r2_io R2_standard intro!: wp_invalid_cas)
next
  case False
  then show ?thesis unfolding handle_cas_bits_def using assms
    by (cases "r2_state s")
      (simp_all add: refine_init refine_blocked refine_backward_call refine_double_seizure refine_clear_back_txd
        refine_wait_idle refine_accept_rxd refine_clear_fwd_txd refine_clear_back_rxd refine_seize_ack_rxd
        refine_answer_rxd refine_idle refine_seize)
qed

lemma refine_handlecas:
  assumes "mf_r2 s"
  shows "wp (handlecas ifc bits) (\<lambda>_ s'. line_of s' = line_step (Bits bits) (line_of s)) s"
proof -
  have m: "mf_r2 (s\<lparr>cas_read := bits\<rparr>)" using assms by (simp add: mf_r2_unfold)
  have "line_of (s\<lparr>cas_read := bits\<rparr>) = (line_of s)\<lparr>l_seen := bits\<rparr>" by (simp add: line_of_def)
  then show ?thesis unfolding handlecas_def using refine_bits [OF m, of bits]
    by (cases "inalarm s = 0") (simp_all add: wp_def line_of_def)
qed

section \<open>The calls of the user\<close>

lemma refine_dial:
  assumes "mf_r2 s"
  shows "wp (openr2_proto_make_call ifc a d c r) (\<lambda>_ s'. line_of s' = dial (line_of s)) s"
proof (cases "inalarm s \<noteq> 0 \<or> call_state s \<noteq> OR2_CALL_IDLE \<or> cas_read s \<noteq> R2 s OR2_CAS_IDLE")
  case True
  then show ?thesis using assms
    by (auto simp: openr2_proto_make_call_def dial_def line_of_def R2_standard)
next
  case False
  have f: "wp (open_logfile ifc b) Q s = Q () s" for b Q using assms by (simp add: open_logfile_def mf_r2_unfold)
  have dtmf: "dial_with_dtmf (r2context s) = 0" using assms by (simp add: mf_r2_unfold)
  show ?thesis unfolding openr2_proto_make_call_def using False
    by (cases "usable_ani a"; cases "list_all isdigit d"; cases "r = 0"; simp add: f)
      (rule wp_signal, simp add: mf_r2_io assms, simp, simp, rule wp_schedule, simp add: dtmf,
        simp add: line_of_def dial_def line_moves R2_standard assms mf_r2_io)+
qed

lemma refine_pickup:
  assumes "mf_r2 s"
  shows "wp (openr2_proto_answer_call ifc) (\<lambda>_ s'. line_of s' = pickup (line_of s)) s"
  unfolding openr2_proto_answer_call_def openr2_proto_do_answer_def schedule_double_answer_def using assms
  by (auto simp: pickup_def line_of_def line_moves mf_r2_io R2_standard IS_DTMF_R2_def
      intro!: wp_signal wp_schedule)
    (simp_all add: mf_r2_unfold)

lemma refine_set_idle:
  assumes "mf_r2 s"
  shows "wp (openr2_proto_set_idle ifc) (\<lambda>_ s'. line_of s' = to_idle (line_of s)) s"
  using assms by (auto simp: line_of_def line_moves mf_r2_io R2_standard intro!: wp_set_idle)

lemma refine_set_blocked:
  assumes "mf_r2 s"
  shows "wp (openr2_proto_set_blocked ifc) (\<lambda>_ s'. line_of s' = blocked (line_of s)) s"
  using assms by (auto simp: line_of_def blocked_def line_moves mf_r2_io R2_standard R2_chan intro!: wp_set_blocked)

lemma refine_ack:
  assumes "mf_r2 s"
  shows "wp (openr2_proto_ack_call ifc) (\<lambda>_ s'. line_of s' = signal OR2_CAS_SEIZE_ACK (line_of s)) s"
  using assms by (auto simp: line_of_def line_moves mf_r2_io R2_standard intro!: wp_ack_call)

lemma wp_send_clear_backward:
  assumes "mf_r2 s"
    "\<And>s'. line_of s' = signal OR2_CAS_CLEAR_BACK ((line_of s)\<lparr>l_r2 := OR2_CLEAR_BACK_TXD\<rparr>) \<Longrightarrow> P 0 s'"
  shows "wp (send_clear_backward ifc) P s"
  unfolding send_clear_backward_def using assms(1)
  by (auto intro!: wp_turn_off wp_signal assms(2) simp: mf_r2_io line_of_def line_moves R2_standard R2_chan)

lemma refine_end:
  assumes "mf_r2 s"
  shows "wp (report_call_end ifc) (\<lambda>_ s'. line_of s' = end_call (line_of s)) s"
  using assms by (auto simp: line_of_def line_moves mf_r2_io R2_standard intro!: wp_report_call_end)

lemma wp_end: "mf_r2 s \<Longrightarrow> (\<And>s'. line_of s' = end_call (line_of s) \<Longrightarrow> Q () s') \<Longrightarrow> wp (report_call_end ifc) Q s"
  using refine_end [of s] by (simp add: wp_def)

lemma wp_set_call_state:
  "(\<And>s'. line_of s' = line_of s \<Longrightarrow> Q () s') \<Longrightarrow> mf_r2 s \<Longrightarrow> wp (send_disconnect ifc cause) Q s"
  unfolding send_disconnect_def Let_def
  by (auto intro!: wp_prepare_mf_tone simp: mf_r2_io line_of_def)

lemma refine_hangup:
  assumes "mf_r2 s"
  shows "wp (openr2_proto_disconnect_call ifc cause) (\<lambda>_ s'. line_of s' = hangup cause (line_of s)) s"
proof -
  have d: "detect_dtmf (r2context s) = 0" using assms by (simp add: mf_r2_unfold)
  have sel: "l_call (line_of s) = call_state s" "l_dir (line_of s) = direction s" "l_r2 (line_of s) = r2_state s"
    by (simp_all add: line_of_def)
  have fr: "wp (send_forced_release ifc) P s" if
      "\<And>s'. line_of s' = signal OR2_CAS_FORCED_RELEASE ((line_of s)\<lparr>l_r2 := OR2_FORCED_RELEASE_TXD\<rparr>) \<Longrightarrow> P 0 s'" for P
    unfolding send_forced_release_def using assms
    by (auto intro!: wp_turn_off wp_signal that simp: mf_r2_io line_of_def line_moves R2_standard R2_chan)
  show ?thesis
    unfolding openr2_proto_disconnect_call_def disconnect_backward_def disconnect_forward_def using assms d
    by (auto simp: hangup_def sel intro!: wp_end wp_send_clear_forward wp_send_clear_backward fr wp_set_call_state wp_schedule)
      (simp_all add: line_of_def)
qed

section \<open>The timers\<close>

lemma refine_flash:
  assumes "mf_r2 s"
  shows "wp (double_answer_handler ifc) (\<lambda>_ s'. line_of s' = flash (line_of s)) s"
proof -
  have sel: "l_r2 (line_of s) = r2_state s" by (simp add: line_of_def)
  show ?thesis unfolding double_answer_handler_def schedule_double_answer_def using assms
    by (auto simp: flash_def sel intro!: wp_send_clear_backward wp_schedule wp_signal)
      (simp_all add: line_of_def line_moves mf_r2_io R2_standard)
qed

lemma refine_alarm:
  assumes "mf_r2 s"
  shows "wp (openr2_chan_handle_oob_event ifc OR2_OOB_EVENT_ALARM_ON) (\<lambda>_ s'. line_of s' = alarmed (line_of s)) s"
  unfolding openr2_chan_handle_oob_event_def openr2_proto_handle_alarm_state_def using assms
  by (auto simp: alarmed_def line_of_def line_moves mf_r2_io R2_standard R2_chan intro!: wp_emit wp_protocol_error)

end

section \<open>Events\<close>

text \<open>The code an event runs.\<close>

fun event_fun :: "'w iface \<Rightarrow> line_event \<Rightarrow> ('w chan, unit) state" where
  "event_fun ifc (Bits b) = do { handlecas ifc b; skip }"
| "event_fun ifc (Dial a d c r) = do { openr2_proto_make_call ifc a d c r; skip }"
| "event_fun ifc Pickup = do { openr2_proto_answer_call ifc; skip }"
| "event_fun ifc (Hangup cause) = do { openr2_proto_disconnect_call ifc cause; skip }"
| "event_fun ifc GoIdle = do { openr2_proto_set_idle ifc; skip }"
| "event_fun ifc GoBlocked = do { openr2_proto_set_blocked ifc; skip }"
| "event_fun ifc AckSeize = do { openr2_proto_ack_call ifc; skip }"
| "event_fun ifc AlarmOn = do { openr2_chan_handle_oob_event ifc OR2_OOB_EVENT_ALARM_ON; skip }"
| "event_fun ifc SeizeTimeout = timer_function ifc CB_seize_timeout_expired"
| "event_fun ifc AnswerTimeout = timer_function ifc CB_r2_answer_timeout_expired"
| "event_fun ifc PulseTimeout = timer_function ifc CB_r2_metering_pulse"
| "event_fun ifc CallDownTimeout = timer_function ifc CB_r2_set_call_down"
| "event_fun ifc SeizePersistTimeout = timer_function ifc CB_r2_seize_persist_expired"
| "event_fun ifc DoubleAnswerTimeout = timer_function ifc CB_double_answer_handler"

fun run_events :: "'w iface \<Rightarrow> line_event list \<Rightarrow> 'w chan \<Rightarrow> 'w chan" where
  "run_events ifc [] s = s"
| "run_events ifc (e # es) s = run_events ifc es (exec (event_fun ifc e) s)"

lemma line_step_cfg [simp]: "l_cfg (line_step e l) = l_cfg l"
  by (cases e) (auto simp: line_defs dial_def pickup_def hangup_def blocked_def alarmed_def pulse_over_def flash_def
      Let_def split: cas_state.split cas_signal.split)

context working_interfaces
begin

lemma refine_event:
  assumes "mf_r2 s"
  shows "wp (event_fun ifc e) (\<lambda>_ s'. line_of s' = line_step e (line_of s)) s"
proof (cases e)
  case (Bits b)
  then show ?thesis using refine_handlecas [OF assms, of b] by (simp add: wp_def)
next
  case SeizeTimeout
  then show ?thesis using assms by (auto simp: seize_timeout_expired_def refine_failed mf_r2_io intro!: wp_protocol_error)
next
  case AnswerTimeout
  then show ?thesis
    by (auto simp: r2_answer_timeout_expired_def line_of_def line_moves intro!: wp_report_disconnection)
next
  case PulseTimeout
  then show ?thesis
    by (auto simp: r2_metering_pulse_def line_of_def line_moves pulse_over_def intro!: wp_report_disconnection)
next
  case CallDownTimeout
  then show ?thesis using assms by (auto simp: r2_set_call_down_def intro!: wp_end)
next
  case SeizePersistTimeout
  then show ?thesis using assms by (auto simp: r2_seize_persist_expired_def intro!: wp_send_clear_forward)
qed (use assms in \<open>simp_all add: wp_def refine_dial [unfolded wp_def] refine_pickup [unfolded wp_def]
  refine_hangup [unfolded wp_def] refine_set_idle [unfolded wp_def] refine_set_blocked [unfolded wp_def]
  refine_ack [unfolded wp_def] refine_alarm [unfolded wp_def] refine_flash [unfolded wp_def]\<close>)

lemma refine_events: "mf_r2 s \<Longrightarrow> line_of (run_events ifc es s) = foldl (\<lambda>l e. line_step e l) (line_of s) es"
proof (induction es arbitrary: s)
  case (Cons e es)
  have l: "line_of (exec (event_fun ifc e) s) = line_step e (line_of s)"
    using refine_event [OF Cons.prems] by (simp add: wp_def)
  then have "mf_r2 (exec (event_fun ifc e) s)" using Cons.prems by (simp add: mf_r2_def)
  then show ?case using Cons.IH l by simp
qed simp

end

lemma allowed_run_append: "allowed_run (es @ [e]) l \<longleftrightarrow> allowed_run es l \<and> allowed e (foldl (\<lambda>l e. line_step e l) l es)"
  by (induction es arbitrary: l) auto

section \<open>Channels of the simulator\<close>

lemma sim_line:
  "line_of (sim_chan OR2_VAR_ITU rx) =
     \<lparr>l_cfg = \<lparr>cfg_plain = True, cfg_nonr2 = 1, cfg_metering = False, cfg_auto_ack = True\<rparr>, l_r2 = OR2_INIT,
      l_call = OR2_CALL_IDLE, l_dir = OR2_DIR_STOPPED, l_alarm = False, l_seen = 0, l_out = []\<rparr>"
  by (simp add: line_of_def cfg_from_def sim_chan_def sim_ctx_def fresh_chan_def openr2_proto_configure_context_def
      r2variants_def configure_defaults_def zero_ctx_def set_flag_def test_flag_def default_timers_def r2config_itu_def)

lemma sim_alarm: "inalarm (sim_chan v rx) = 0"
  by (simp add: sim_chan_def fresh_chan_def)

section \<open>Properties\<close>

text \<open>
  C1: The library implements the abstract line: after any sequence of received bits, calls of the user,
  alarms and timeouts, what the channel shows (the R2 state, the state and the direction of the call, the
  alarm, the signals put on the line and the events reported, in order) is what the abstract machine shows.
\<close>

theorem line_refinement:
  assumes "working_interfaces ifc" "mf_r2 s"
  shows "line_of (run_events ifc es s) = foldl (\<lambda>l e. line_step e l) (line_of s) es"
  using assms by (rule working_interfaces.refine_events)

lemma line_refinement_witness:
  "l_call (line_of (run_events sim_iface [GoIdle, Bits 0, Bits 8] (sim_chan OR2_VAR_ITU 8))) = OR2_CALL_DISCONNECTED"
  by (subst line_refinement [OF sim.working_interfaces_axioms])
    (simp_all add: mf_r2_def sim_line line_defs)

text \<open>
  C2: However bits, calls, alarms and timeouts follow each other, the state of the call fits the state of
  the line: there is a call exactly when the line is not idle, and its direction is the one of the R2
  state.  This holds as long as (\<open>allowed_run\<close>) the timers of a call expire only while there is a call,
  that of the seizure only in an outgoing one, and the user answers only incoming calls; a timer of a batch
  that outlives its call can break it.
\<close>

theorem call_fits_line:
  assumes "working_interfaces ifc" "mf_r2 s" "consistent (line_of s)" "allowed_run es (line_of s)"
  shows "consistent (line_of (run_events ifc es s))"
  using assms by (simp add: working_interfaces.refine_events consistent_run)

lemma call_fits_line_witness:
  "consistent (line_of (run_events sim_iface [GoIdle, Bits 0, AnswerTimeout] (sim_chan OR2_VAR_ITU 8)))"
  by (rule call_fits_line [OF sim.working_interfaces_axioms])
    (simp_all add: mf_r2_def sim_line line_defs consistent_def line_states allowed_def)

text \<open>
  C3: As long as the timers of a call expire only while there is a call, that of the seizure only in an outgoing
  one, and the user answers only incoming calls, every event reports to the user what fits the call:
  progress, answer, disconnection and end only of a call that is there, a new incoming call only on an idle
  line, and after the report of the end the call and the line are idle.
\<close>

theorem reports_fit_call:
  assumes "working_interfaces ifc" "mf_r2 s" "consistent (line_of s)" "allowed_run (es @ [e]) (line_of s)"
  shows "well_reported (line_of (run_events ifc es s)) (line_of (run_events ifc (es @ [e]) s))"
  using assms by (simp add: working_interfaces.refine_events allowed_run_append consistent_run reports_step)

lemma reports_fit_call_witness:
  "well_reported (line_of (run_events sim_iface [GoIdle, Bits 0] (sim_chan OR2_VAR_ITU 8)))
     (line_of (run_events sim_iface ([GoIdle, Bits 0] @ [Bits 8]) (sim_chan OR2_VAR_ITU 8)))"
  by (rule reports_fit_call [OF sim.working_interfaces_axioms])
    (simp_all add: mf_r2_def sim_line line_defs consistent_def line_states allowed_def)

text \<open>
  C4: A call can always be ended: from whatever state of a call, when the user hangs up (again if the far
  end releases first) and the far end answers with its acknowledgement and its release, the channel is idle.
\<close>

theorem hangup_reaches_idle:
  assumes "working_interfaces ifc" "mf_r2 s" "consistent (line_of s)" "inalarm s = 0" "call_state s \<noteq> OR2_CALL_IDLE"
  shows "call_state (run_events ifc (hangup_run cause (r2_state s)) s) = OR2_CALL_IDLE \<and>
    r2_state (run_events ifc (hangup_run cause (r2_state s)) s) = OR2_IDLE"
proof -
  have sel: "l_call (line_of t) = call_state t" "l_r2 (line_of t) = r2_state t" "l_alarm (line_of t) = (inalarm t \<noteq> 0)" for t :: "'a chan"
    by (simp_all add: line_of_def)
  show ?thesis
    using hangup_ends [of "line_of s" cause] working_interfaces.refine_events [OF assms(1,2), of "hangup_run cause (r2_state s)"]
      assms(3-5) sel by metis
qed

lemma hangup_reaches_idle_witness:
  "r2_state (run_events sim_iface (hangup_run OR2_CAUSE_NORMAL_CLEARING OR2_SEIZE_TXD)
      ((sim_chan OR2_VAR_ITU 8)\<lparr>r2_state := OR2_SEIZE_TXD, call_state := OR2_CALL_DIALING, direction := OR2_DIR_FORWARD\<rparr>)) = OR2_IDLE"
proof -
  let ?s = "(sim_chan OR2_VAR_ITU 8)\<lparr>r2_state := OR2_SEIZE_TXD, call_state := OR2_CALL_DIALING, direction := OR2_DIR_FORWARD\<rparr>"
  have l: "line_of ?s = (line_of (sim_chan OR2_VAR_ITU 8))\<lparr>l_r2 := OR2_SEIZE_TXD, l_call := OR2_CALL_DIALING, l_dir := OR2_DIR_FORWARD\<rparr>"
    by (simp add: line_of_def)
  show ?thesis
    using hangup_reaches_idle [OF sim.working_interfaces_axioms, of ?s OR2_CAUSE_NORMAL_CLEARING]
    by (simp add: mf_r2_def l sim_line sim_alarm consistent_def line_states)
qed

end
