(* ===== verification/R2MfSpec.thy ===== *)
theory R2MfSpec
  imports R2CasSpec
begin

text \<open>
  The compelled MF dialogue over interfaces that work: a caller that is asked for its digits one by one
  sends them in order, each between silences; a called side that asks for them collects what it hears.
  A cycle of the dialogue is a tone heard and its end, the two events the detector delivers.
\<close>

section \<open>Cycles\<close>

definition mf_cycle :: "'w iface \<Rightarrow> int \<Rightarrow> ('w chan, unit) state" where
  "mf_cycle ifc tone = do { openr2_proto_handle_mf_tone ifc tone; openr2_proto_handle_mf_tone ifc 0 }"

fun mf_cycles :: "'w iface \<Rightarrow> int list \<Rightarrow> ('w chan, unit) state" where
  "mf_cycles ifc [] = skip"
| "mf_cycles ifc (tone # tones) = do { mf_cycle ifc tone; mf_cycles ifc tones }"

definition tones_of :: "act list \<Rightarrow> int list" where
  "tones_of tr = concat (map (\<lambda>a. case a of TxTone t \<Rightarrow> [t] | _ \<Rightarrow> []) tr)"

lemma tones_of_simps [simp]:
  "tones_of [] = []" "tones_of (TxTone t # tr) = t # tones_of tr" "tones_of (Ev e # tr) = tones_of tr"
  "tones_of (TxCas c # tr) = tones_of tr" "tones_of (tr @ tr') = tones_of tr @ tones_of tr'"
  by (simp_all add: tones_of_def)

lemma tone_set_more [simp]:
  "mf_threshold_tone (tone_set tn t s) = mf_threshold_tone s" "mf_threshold_tone (added sl ms cb n t s) = mf_threshold_tone s"
  by (simp_all add: tone_set_def added_def Let_def)

section \<open>Sending the number\<close>

text \<open>A caller in the middle of its number, no tone being heard; \<open>tone\<close> asks for the next digit.\<close>

definition dialing_digits :: "int \<Rightarrow> 'w chan \<Rightarrow> bool" where
  "dialing_digits tone s \<longleftrightarrow> direction s = OR2_DIR_FORWARD \<and> mf_group s = OR2_MF_GI \<and> mf_read_tone s = 0 \<and>
     io_present (r2context s) \<and> mf_threshold (r2context s) = 0 \<and> tone \<noteq> 0 \<and> tone = ga_request_next_dnis_digit (GA_TONE s)"

context working_interfaces
begin

lemma dialing_cycle:
  assumes "dialing_digits tone s" "arr_get (dnis s) (nat (dnis_index s + 1)) = Some d" "0 \<le> dnis_index s"
  shows "wp (mf_cycle ifc tone) (\<lambda>_ s'. dialing_digits tone s' \<and> dnis s' = dnis s \<and> dnis_index s' = dnis_index s + 1 \<and>
    mem_fault s' = mem_fault s \<and>
    (d \<noteq> 0 \<and> mf_write_tone s \<noteq> 0 \<longrightarrow> mf_write_tone s' \<noteq> 0 \<and> tones_of (trace s') = tones_of (trace s) @ [0, d])) s"
  unfolding mf_cycle_def openr2_proto_handle_mf_tone_def check_threshold_def handle_backward_mf_tone_def set_silence_def
    handle_backward_mf_silence_def handle_group_a_request_def handle_dnis_request_def mf_send_dnis_def
    wait_far_end_timeout_def dnis_index_for_def dnis_at_def Let_def
  using assms
  by (auto simp: dialing_digits_def intro!: wp_prepare_mf_tone wp_schedule)

lemma dialing_overrun:
  assumes "dialing_digits tone s" "arr_get (dnis s) (nat (dnis_index s + 1)) = None" "0 \<le> dnis_index s"
  shows "wp (mf_cycle ifc tone) (\<lambda>_ s'. mem_fault s') s"
  unfolding mf_cycle_def openr2_proto_handle_mf_tone_def check_threshold_def handle_backward_mf_tone_def set_silence_def
    handle_backward_mf_silence_def handle_group_a_request_def handle_dnis_request_def mf_send_dnis_def
    dnis_index_for_def dnis_at_def Let_def
  using assms
  by (auto simp: dialing_digits_def intro!: wp_prepare_mf_tone)

lemma dialing_run:
  assumes "dialing_digits tone s" "mf_write_tone s \<noteq> 0" "dnis s = ds @ 0 # rest" "0 \<notin> set ds" "dnis_index s = int i" "i + k < length ds"
  shows "tones_of (trace (exec (mf_cycles ifc (replicate k tone)) s)) =
      tones_of (trace s) @ concat (map (\<lambda>d. [0, d]) (take k (drop (Suc i) ds))) \<and>
    dnis_index (exec (mf_cycles ifc (replicate k tone)) s) = int (i + k)"
  using assms
proof (induction k arbitrary: s i)
  case (Suc k)
  have get: "arr_get (dnis s) (nat (dnis_index s + 1)) = Some (ds ! Suc i)"
    using Suc.prems by (simp add: arr_get_def nth_append nat_add_distrib)
  have nz: "ds ! Suc i \<noteq> 0" using Suc.prems(4,6) by (metis add_Suc_right add_lessD1 add_Suc nth_mem)
  let ?s = "exec (mf_cycle ifc tone) s"
  have c: "dialing_digits tone ?s" "dnis ?s = dnis s" "dnis_index ?s = int (Suc i)" "mf_write_tone ?s \<noteq> 0"
      "tones_of (trace ?s) = tones_of (trace s) @ [0, ds ! Suc i]"
    using dialing_cycle [OF Suc.prems(1) get] Suc.prems(2,5) nz by (simp_all add: wp_def)
  have d: "drop (Suc i) ds = ds ! Suc i # drop (Suc (Suc i)) ds" using Suc.prems(6) by (simp add: Cons_nth_drop_Suc)
  show ?case using Suc.IH [OF c(1,4) _ _ c(3)] Suc.prems c d by simp
qed simp

lemma dialing_faults:
  assumes "dialing_digits tone s" "0 \<le> dnis_index s" "dnis_index s + int (Suc k) = int (length (dnis s))"
  shows "mem_fault (exec (mf_cycles ifc (replicate (Suc k) tone)) s)"
  using assms
proof (induction k arbitrary: s)
  case 0
  then have "arr_get (dnis s) (nat (dnis_index s + 1)) = None" by (simp add: arr_get_def)
  then show ?case using dialing_overrun [OF 0(1) _ 0(2)] by (simp add: wp_def)
next
  case (Suc k)
  have "nat (dnis_index s + 1) < length (dnis s)" using Suc.prems by linarith
  then have get: "arr_get (dnis s) (nat (dnis_index s + 1)) = Some (dnis s ! nat (dnis_index s + 1))"
    by (simp add: arr_get_def)
  let ?s = "exec (mf_cycle ifc tone) s"
  have c: "dialing_digits tone ?s" "dnis ?s = dnis s" "dnis_index ?s = dnis_index s + 1"
    using dialing_cycle [OF Suc.prems(1) get Suc.prems(2)] by (simp_all add: wp_def)
  have "mem_fault (exec (mf_cycles ifc (replicate (Suc k) tone)) ?s)"
    by (rule Suc.IH [OF c(1)]) (use c Suc.prems in simp_all)
  then show ?case by simp
qed

end

section \<open>Collecting the number\<close>

text \<open>A called side that waits for a digit, \<open>ds\<close> being those it has.\<close>

definition collecting_digits :: "int list \<Rightarrow> 'w chan \<Rightarrow> bool" where
  "collecting_digits ds s \<longleftrightarrow> direction s = OR2_DIR_BACKWARD \<and>
     (mf_group s = OR2_MF_BACK_INIT \<and> mf_state s = OR2_MF_SEIZE_ACK_TXD \<or> mf_group s = OR2_MF_GA \<and> mf_state s = OR2_MF_DNIS_RQ_TXD) \<and>
     mf_read_tone s = 0 \<and> mf_write_tone s = 0 \<and> io_present (r2context s) \<and> mf_threshold (r2context s) = 0 \<and>
     get_ani_first (r2context s) = 0 \<and> ga_request_next_dnis_digit (GA_TONE s) \<noteq> 0 \<and>
     length (dnis s) = 80 \<and> dnis_len s = length ds \<and> take (length ds) (dnis s) = ds"

text \<open>A user that always wants more digits.\<close>

definition wants_digits :: "'w iface \<Rightarrow> bool" where
  "wants_digits ifc \<longleftrightarrow> (\<forall>d s. val (evmanager ifc (OnDnisDigitReceived d)) s \<noteq> 0)"

context working_interfaces
begin

lemma wp_emit_digit:
  assumes "wants_digits ifc" "\<And>v w. v \<noteq> 0 \<Longrightarrow> P v (s\<lparr>trace := trace s @ [Ev (OnDnisDigitReceived d)], world := w\<rparr>)"
  shows "wp (emit ifc (OnDnisDigitReceived d)) P s"
proof -
  let ?t = "s\<lparr>trace := trace s @ [Ev (OnDnisDigitReceived d)]\<rparr>"
  obtain w where "exec (evmanager ifc (OnDnisDigitReceived d)) ?t = ?t\<lparr>world := w\<rparr>"
    using silent_event [of "OnDnisDigitReceived d"] unfolding silent_def by metis
  then show ?thesis using assms by (simp add: emit_def wp_def wants_digits_def)
qed

lemma collecting_cycle:
  assumes "wants_digits ifc" "collecting_digits ds s" "48 \<le> d" "d \<le> 57" "length ds < 79" "\<not> DNIS_COMPLETE (s\<lparr>dnis_len := Suc (length ds)\<rparr>)"
  shows "wp (mf_cycle ifc d) (\<lambda>_ s'. collecting_digits (ds @ [d]) s' \<and> r2context s' = r2context s \<and> dnis s' ! length (ds @ [d]) = 0 \<and>
    tones_of (trace s') = tones_of (trace s) @ [ga_request_next_dnis_digit (GA_TONE s), 0]) s"
  unfolding mf_cycle_def openr2_proto_handle_mf_tone_def check_threshold_def handle_forward_mf_tone_def set_silence_def
    handle_forward_mf_silence_def mf_receive_expected_dnis_def append_dnis_def dnis_poke_def request_next_dnis_digit_def Let_def
  using assms
  by (auto simp: collecting_digits_def DNIS_COMPLETE_def take_Suc_conv_app_nth intro!: wp_prepare_mf_tone wp_emit_digit)

lemma collecting_run:
  assumes "wants_digits ifc" "collecting_digits ds s" "list_all (\<lambda>d. 48 \<le> d \<and> d \<le> 57) ds'"
    "length ds + length ds' < 80" "length ds + length ds' < to_uint32 (max_dnis (r2context s))"
  shows "collecting_digits (ds @ ds') (exec (mf_cycles ifc ds') s) \<and>
    (ds' \<noteq> [] \<longrightarrow> dnis (exec (mf_cycles ifc ds') s) ! length (ds @ ds') = 0) \<and>
    tones_of (trace (exec (mf_cycles ifc ds') s)) =
      tones_of (trace s) @ concat (replicate (length ds') [ga_request_next_dnis_digit (GA_TONE s), 0])"
  using assms
proof (induction ds' arbitrary: s ds)
  case (Cons d ds')
  let ?s = "exec (mf_cycle ifc d) s"
  have "\<not> DNIS_COMPLETE (s\<lparr>dnis_len := Suc (length ds)\<rparr>)" using Cons.prems(5) by (simp add: DNIS_COMPLETE_def)
  then have c: "collecting_digits (ds @ [d]) ?s" "r2context ?s = r2context s" "dnis ?s ! length (ds @ [d]) = 0"
      "tones_of (trace ?s) = tones_of (trace s) @ [ga_request_next_dnis_digit (GA_TONE s), 0]"
    using collecting_cycle [OF Cons.prems(1,2), of d] Cons.prems(3,4) by (simp_all add: wp_def)
  show ?case using Cons.IH [OF Cons.prems(1) c(1)] Cons.prems(3-5) c by (cases ds') simp_all
qed simp

end

lemma c_string_prefix:
  assumes "xs = ds @ 0 # rest" "list_all (\<lambda>d. d \<noteq> 0) ds"
  shows "c_string xs = ds"
  using assms by (simp add: c_string_def takeWhile_append2 list_all_iff)

section \<open>Properties\<close>

text \<open>
  C10: A caller that is asked for its digits one by one sends the number: from its digit number \<open>i\<close> on, each
  request of the far end, a tone and its end, is answered with silence and then with the next digit, and
  with nothing else.
\<close>

theorem dnis_digits_sent:
  assumes "working_interfaces ifc" "dialing_digits tone s" "mf_write_tone s \<noteq> 0"
    "dnis s = ds @ 0 # rest" "0 \<notin> set ds" "dnis_index s = int i" "i + k < length ds"
  shows "tones_of (trace (exec (mf_cycles ifc (replicate k tone)) s)) =
    tones_of (trace s) @ concat (map (\<lambda>d. [0, d]) (take k (drop (Suc i) ds)))"
  using working_interfaces.dialing_run [OF assms] by simp

definition sim_caller :: "sim chan" where
  "sim_caller = (sim_chan OR2_VAR_ITU 8)\<lparr>direction := OR2_DIR_FORWARD, mf_group := OR2_MF_GI, mf_state := OR2_MF_DNIS_TXD,
     mf_write_tone := 53, dnis := [53, 54, 55] @ 0 # replicate 76 0\<rparr>"

lemma sim_itu:
  "r2context (sim_chan OR2_VAR_ITU rx) = sim_ctx OR2_VAR_ITU" "io_present (sim_ctx OR2_VAR_ITU)"
  "mf_threshold (sim_ctx OR2_VAR_ITU) = 0" "mf_ga_tones (sim_ctx OR2_VAR_ITU) = itu_ga_tones"
  by (simp_all add: sim_chan_def fresh_chan_def sim_ctx_def openr2_proto_configure_context_def r2variants_def
      r2config_itu_def configure_defaults_def zero_ctx_def)

lemma sim_chan_fields:
  "dnis_index (sim_chan v rx) = 0" "mf_read_tone (sim_chan v rx) = 0" "mf_write_tone (sim_chan v rx) = 0" "trace (sim_chan v rx) = []"
  "dnis_len (sim_chan v rx) = 0" "length (dnis (sim_chan v rx)) = 80"
  by (simp_all add: sim_chan_def fresh_chan_def)

lemma dnis_digits_sent_witness:
  "tones_of (trace (exec (mf_cycles sim_iface (replicate 2 49)) sim_caller)) = [0, 54, 0, 55]"
  using dnis_digits_sent [OF sim.working_interfaces_axioms, of 49 sim_caller "[53, 54, 55]" "replicate 76 0" 0 2]
  by (simp add: sim_caller_def dialing_digits_def sim_itu sim_chan_fields itu_ga_tones_def numeral_2_eq_2)

lemma digits_collected:
  assumes "working_interfaces ifc" "wants_digits ifc" "collecting_digits [] s" "ds \<noteq> []"
    "list_all (\<lambda>d. 48 \<le> d \<and> d \<le> 57) ds" "length ds < 80" "length ds < to_uint32 (max_dnis (r2context s))"
  shows "c_string (dnis (exec (mf_cycles ifc ds) s)) = ds \<and>
    tones_of (trace (exec (mf_cycles ifc ds) s)) =
      tones_of (trace s) @ concat (replicate (length ds) [ga_request_next_dnis_digit (GA_TONE s), 0])"
proof -
  let ?s = "exec (mf_cycles ifc ds) s"
  have c: "collecting_digits ds ?s" "dnis ?s ! length ds = 0"
      "tones_of (trace ?s) = tones_of (trace s) @ concat (replicate (length ds) [ga_request_next_dnis_digit (GA_TONE s), 0])"
    using working_interfaces.collecting_run [OF assms(1-3,5)] assms(4,6,7) by simp_all
  have t: "take (length ds) (dnis ?s) = ds" "length ds < length (dnis ?s)"
    using c(1) assms(6) by (simp_all add: collecting_digits_def)
  have z: "list_all (\<lambda>d. d \<noteq> 0) ds" using assms(5) by (rule list.pred_mono_strong) simp
  have "dnis ?s = ds @ 0 # drop (Suc (length ds)) (dnis ?s)"
    using id_take_nth_drop [OF t(2)] t(1) c(2) by simp
  then have "c_string (dnis ?s) = ds" by (rule c_string_prefix) (rule z)
  then show ?thesis using c by simp
qed

text \<open>
  A called side that asks for the digits one by one, of a user that wants them all, has collected exactly
  the digits it heard, in order, as long as they are fewer than the maximum configured: the number is a C
  string in the array, and each digit was acknowledged by the request tone and silence.
\<close>

theorem dnis_collected:
  assumes "working_interfaces ifc" "wants_digits ifc" "collecting_digits [] s" "ds \<noteq> []"
    "list_all (\<lambda>d. 48 \<le> d \<and> d \<le> 57) ds" "length ds < 80" "length ds < to_uint32 (max_dnis (r2context s))"
  shows "c_string (dnis (exec (mf_cycles ifc ds) s)) = ds \<and>
    tones_of (trace (exec (mf_cycles ifc ds) s)) =
      tones_of (trace s) @ concat (replicate (length ds) [ga_request_next_dnis_digit (GA_TONE s), 0])"
  by (rule digits_collected [OF assms])

definition sim_called :: "sim chan" where
  "sim_called = (sim_chan OR2_VAR_ITU 8)\<lparr>direction := OR2_DIR_BACKWARD, mf_group := OR2_MF_BACK_INIT,
     mf_state := OR2_MF_SEIZE_ACK_TXD, r2context := (sim_ctx OR2_VAR_ITU)\<lparr>get_ani_first := 0, max_dnis := 10\<rparr>\<rparr>"

lemma dnis_collected_witness:
  "c_string (dnis (exec (mf_cycles sim_iface [53, 48, 57]) sim_called)) = [53, 48, 57]"
  using dnis_collected [OF sim.working_interfaces_axioms, of sim_called "[53, 48, 57]"]
  by (simp add: sim_called_def collecting_digits_def sim_itu sim_chan_fields itu_ga_tones_def wants_digits_def sim_iface_def
      to_uint32_def)

text \<open>
  C21: The index of the digit to send is never checked against the number: a far end that goes on asking for
  digits makes the caller read past its array of digits.
\<close>

theorem dnis_overrun:
  assumes "working_interfaces ifc" "dialing_digits tone s" "0 \<le> dnis_index s" "dnis_index s < int (length (dnis s))"
  shows "\<exists>k. mem_fault (exec (mf_cycles ifc (replicate k tone)) s)"
proof -
  let ?k = "nat (int (length (dnis s)) - dnis_index s - 1)"
  have "dnis_index s + int (Suc ?k) = int (length (dnis s))" using assms(4) by simp
  then show ?thesis using working_interfaces.dialing_faults [OF assms(1-3)] by blast
qed

lemma dnis_overrun_witness: "\<exists>k. mem_fault (exec (mf_cycles sim_iface (replicate k 49)) sim_caller)"
  by (rule dnis_overrun [OF sim.working_interfaces_axioms])
    (simp_all add: sim_caller_def dialing_digits_def sim_itu sim_chan_fields itu_ga_tones_def)

end
