(* ===== verification/R2Sine.thy ===== *)
theory R2Sine
  imports R2Prelude
begin

text \<open>
  The sine table of \<open>r2engine.c\<close>, the wave form of the tone generators: 2048 literals over a full turn,
  here in units of 1e-8, as written in the source, in sixteen parts of a sixteenth of a turn each.
  The table is checked to be a circle: symmetric, of radius 1, in equal steps.
\<close>

section \<open>The table\<close>

definition sine_table_0 :: "int list" where
  "sine_table_0 = [
     0, 306796, 613588, 920375, 1227154, 1533921, 1840673, 2147408, 2454123, 2760815, 3067480, 3374117, 3680722, 3987293, 4293826, 4600318,
     4906767, 5213170, 5519524, 5825826, 6132074, 6438263, 6744392, 7050457, 7356456, 7662386, 7968244, 8274026, 8579731, 8885355, 9190896, 9496350,
     9801714, 10106986, 10412163, 10717242, 11022221, 11327095, 11631863, 11936521, 12241068, 12545498, 12849811, 13154003, 13458071, 13762012, 14065824, 14369503,
     14673047, 14976453, 15279719, 15582840, 15885814, 16188639, 16491312, 16793829, 17096189, 17398387, 17700422, 18002290, 18303989, 18605515, 18906866, 19208040,
     19509032, 19809841, 20110463, 20410897, 20711138, 21011184, 21311032, 21610680, 21910124, 22209362, 22508391, 22807208, 23105811, 23404196, 23702361, 24000302,
     24298018, 24595505, 24892761, 25189782, 25486566, 25783110, 26079412, 26375468, 26671276, 26966833, 27262136, 27557182, 27851969, 28146494, 28440754, 28734746,
     29028468, 29321916, 29615089, 29907983, 30200595, 30492923, 30784964, 31076715, 31368174, 31659338, 31950203, 32240768, 32531029, 32820984, 33110631, 33399965,
     33688985, 33977688, 34266072, 34554132, 34841868, 35129276, 35416353, 35703096, 35989504, 36275572, 36561300, 36846683, 37131719, 37416406, 37700741, 37984721]"

definition sine_table_1 :: "int list" where
  "sine_table_1 = [
     38268343, 38551605, 38834505, 39117038, 39399204, 39680999, 39962420, 40243465, 40524131, 40804416, 41084317, 41363831, 41642956, 41921689, 42200027, 42477968,
     42755509, 43032648, 43309382, 43585708, 43861624, 44137127, 44412214, 44686884, 44961133, 45234959, 45508359, 45781330, 46053871, 46325978, 46597650, 46868882,
     47139674, 47410021, 47679923, 47949376, 48218377, 48486925, 48755016, 49022648, 49289819, 49556526, 49822767, 50088538, 50353838, 50618665, 50883014, 51146885,
     51410274, 51673180, 51935599, 52197529, 52458968, 52719913, 52980362, 53240313, 53499762, 53758708, 54017147, 54275078, 54532499, 54789406, 55045797, 55301671,
     55557023, 55811853, 56066158, 56319934, 56573181, 56825895, 57078075, 57329717, 57580819, 57831380, 58081396, 58330865, 58579786, 58828155, 59075970, 59323230,
     59569930, 59816071, 60061648, 60306660, 60551104, 60794978, 61038281, 61281008, 61523159, 61764731, 62005721, 62246128, 62485949, 62725182, 62963824, 63201874,
     63439328, 63676186, 63912444, 64148101, 64383154, 64617601, 64851440, 65084668, 65317284, 65549285, 65780669, 66011434, 66241578, 66471098, 66699992, 66928259,
     67155895, 67382900, 67609270, 67835004, 68060100, 68284555, 68508367, 68731534, 68954054, 69175926, 69397146, 69617713, 69837625, 70056879, 70275474, 70493408]"

definition sine_table_2 :: "int list" where
  "sine_table_2 = [
     70710678, 70927283, 71143220, 71358487, 71573083, 71787005, 72000251, 72212819, 72424708, 72635916, 72846439, 73056277, 73265427, 73473888, 73681657, 73888732,
     74095113, 74300795, 74505779, 74710061, 74913639, 75116513, 75318680, 75520138, 75720885, 75920919, 76120239, 76318842, 76516727, 76713891, 76910334, 77106052,
     77301045, 77495311, 77688847, 77881651, 78073723, 78265060, 78455660, 78645521, 78834643, 79023022, 79210658, 79397548, 79583690, 79769084, 79953727, 80137617,
     80320753, 80503133, 80684755, 80865618, 81045720, 81225059, 81403633, 81581441, 81758481, 81934752, 82110251, 82284978, 82458930, 82632106, 82804505, 82976123,
     83146961, 83317016, 83486287, 83654773, 83822471, 83989379, 84155498, 84320824, 84485357, 84649094, 84812034, 84974177, 85135519, 85296060, 85455799, 85614733,
     85772861, 85930182, 86086694, 86242396, 86397286, 86551362, 86704625, 86857071, 87008699, 87159509, 87309498, 87458665, 87607009, 87754529, 87901223, 88047089,
     88192126, 88336334, 88479710, 88622253, 88763962, 88904836, 89044872, 89184071, 89322430, 89459949, 89596625, 89732458, 89867447, 90001589, 90134885, 90267332,
     90398929, 90529676, 90659570, 90788612, 90916798, 91044129, 91170603, 91296219, 91420976, 91544872, 91667906, 91790078, 91911385, 92031828, 92151404, 92270113]"

definition sine_table_3 :: "int list" where
  "sine_table_3 = [
     92387953, 92504924, 92621024, 92736253, 92850608, 92964090, 93076696, 93188427, 93299280, 93409255, 93518351, 93626567, 93733901, 93840353, 93945922, 94050607,
     94154407, 94257320, 94359346, 94460484, 94560733, 94660091, 94758559, 94856135, 94952818, 95048607, 95143502, 95237501, 95330604, 95422810, 95514117, 95604525,
     95694034, 95782641, 95870347, 95957151, 96043052, 96128049, 96212140, 96295327, 96377607, 96458979, 96539444, 96619000, 96697647, 96775384, 96852209, 96928124,
     97003125, 97077214, 97150389, 97222650, 97293995, 97364425, 97433938, 97502535, 97570213, 97636973, 97702814, 97767736, 97831737, 97894818, 97956977, 98018214,
     98078528, 98137919, 98196387, 98253930, 98310549, 98366242, 98421009, 98474850, 98527764, 98579751, 98630810, 98680940, 98730142, 98778414, 98825757, 98872169,
     98917651, 98962202, 99005821, 99048508, 99090264, 99131086, 99170975, 99209931, 99247953, 99285041, 99321195, 99356414, 99390697, 99424045, 99456457, 99487933,
     99518473, 99548076, 99576741, 99604470, 99631261, 99657115, 99682030, 99706007, 99729046, 99751146, 99772307, 99792529, 99811811, 99830154, 99847558, 99864022,
     99879546, 99894129, 99907773, 99920476, 99932238, 99943060, 99952942, 99961882, 99969882, 99976941, 99983058, 99988235, 99992470, 99995764, 99998118, 99999529]"

definition sine_table_4 :: "int list" where
  "sine_table_4 = [
     100000000, 99999529, 99998118, 99995764, 99992470, 99988235, 99983058, 99976941, 99969882, 99961882, 99952942, 99943060, 99932238, 99920476, 99907773, 99894129,
     99879546, 99864022, 99847558, 99830154, 99811811, 99792529, 99772307, 99751146, 99729046, 99706007, 99682030, 99657115, 99631261, 99604470, 99576741, 99548076,
     99518473, 99487933, 99456457, 99424045, 99390697, 99356414, 99321195, 99285041, 99247953, 99209931, 99170975, 99131086, 99090264, 99048508, 99005821, 98962202,
     98917651, 98872169, 98825757, 98778414, 98730142, 98680940, 98630810, 98579751, 98527764, 98474850, 98421009, 98366242, 98310549, 98253930, 98196387, 98137919,
     98078528, 98018214, 97956977, 97894818, 97831737, 97767736, 97702814, 97636973, 97570213, 97502535, 97433938, 97364425, 97293995, 97222650, 97150389, 97077214,
     97003125, 96928124, 96852209, 96775384, 96697647, 96619000, 96539444, 96458979, 96377607, 96295327, 96212140, 96128049, 96043052, 95957151, 95870347, 95782641,
     95694034, 95604525, 95514117, 95422810, 95330604, 95237501, 95143502, 95048607, 94952818, 94856135, 94758559, 94660091, 94560733, 94460484, 94359346, 94257320,
     94154407, 94050607, 93945922, 93840353, 93733901, 93626567, 93518351, 93409255, 93299280, 93188427, 93076696, 92964090, 92850608, 92736253, 92621024, 92504924]"

definition sine_table_5 :: "int list" where
  "sine_table_5 = [
     92387953, 92270113, 92151404, 92031828, 91911385, 91790078, 91667906, 91544872, 91420976, 91296219, 91170603, 91044129, 90916798, 90788612, 90659570, 90529676,
     90398929, 90267332, 90134885, 90001589, 89867447, 89732458, 89596625, 89459949, 89322430, 89184071, 89044872, 88904836, 88763962, 88622253, 88479710, 88336334,
     88192126, 88047089, 87901223, 87754529, 87607009, 87458665, 87309498, 87159509, 87008699, 86857071, 86704625, 86551362, 86397286, 86242396, 86086694, 85930182,
     85772861, 85614733, 85455799, 85296060, 85135519, 84974177, 84812034, 84649094, 84485357, 84320824, 84155498, 83989379, 83822471, 83654773, 83486287, 83317016,
     83146961, 82976123, 82804505, 82632106, 82458930, 82284978, 82110251, 81934752, 81758481, 81581441, 81403633, 81225059, 81045720, 80865618, 80684755, 80503133,
     80320753, 80137617, 79953727, 79769084, 79583690, 79397548, 79210658, 79023022, 78834643, 78645521, 78455660, 78265060, 78073723, 77881651, 77688847, 77495311,
     77301045, 77106052, 76910334, 76713891, 76516727, 76318842, 76120239, 75920919, 75720885, 75520138, 75318680, 75116513, 74913639, 74710061, 74505779, 74300795,
     74095113, 73888732, 73681657, 73473888, 73265427, 73056277, 72846439, 72635916, 72424708, 72212819, 72000251, 71787005, 71573083, 71358487, 71143220, 70927283]"

definition sine_table_6 :: "int list" where
  "sine_table_6 = [
     70710678, 70493408, 70275474, 70056879, 69837625, 69617713, 69397146, 69175926, 68954054, 68731534, 68508367, 68284555, 68060100, 67835004, 67609270, 67382900,
     67155895, 66928259, 66699992, 66471098, 66241578, 66011434, 65780669, 65549285, 65317284, 65084668, 64851440, 64617601, 64383154, 64148101, 63912444, 63676186,
     63439328, 63201874, 62963824, 62725182, 62485949, 62246128, 62005721, 61764731, 61523159, 61281008, 61038281, 60794978, 60551104, 60306660, 60061648, 59816071,
     59569930, 59323230, 59075970, 58828155, 58579786, 58330865, 58081396, 57831380, 57580819, 57329717, 57078075, 56825895, 56573181, 56319934, 56066158, 55811853,
     55557023, 55301671, 55045797, 54789406, 54532499, 54275078, 54017147, 53758708, 53499762, 53240313, 52980362, 52719913, 52458968, 52197529, 51935599, 51673180,
     51410274, 51146885, 50883014, 50618665, 50353838, 50088538, 49822767, 49556526, 49289819, 49022648, 48755016, 48486925, 48218377, 47949376, 47679923, 47410021,
     47139674, 46868882, 46597650, 46325978, 46053871, 45781330, 45508359, 45234959, 44961133, 44686884, 44412214, 44137127, 43861624, 43585708, 43309382, 43032648,
     42755509, 42477968, 42200027, 41921689, 41642956, 41363831, 41084317, 40804416, 40524131, 40243465, 39962420, 39680999, 39399204, 39117038, 38834505, 38551605]"

definition sine_table_7 :: "int list" where
  "sine_table_7 = [
     38268343, 37984721, 37700741, 37416406, 37131719, 36846683, 36561300, 36275572, 35989504, 35703096, 35416353, 35129276, 34841868, 34554132, 34266072, 33977688,
     33688985, 33399965, 33110631, 32820984, 32531029, 32240768, 31950203, 31659338, 31368174, 31076715, 30784964, 30492923, 30200595, 29907983, 29615089, 29321916,
     29028468, 28734746, 28440754, 28146494, 27851969, 27557182, 27262136, 26966833, 26671276, 26375468, 26079412, 25783110, 25486566, 25189782, 24892761, 24595505,
     24298018, 24000302, 23702361, 23404196, 23105811, 22807208, 22508391, 22209362, 21910124, 21610680, 21311032, 21011184, 20711138, 20410897, 20110463, 19809841,
     19509032, 19208040, 18906866, 18605515, 18303989, 18002290, 17700422, 17398387, 17096189, 16793829, 16491312, 16188639, 15885814, 15582840, 15279719, 14976453,
     14673047, 14369503, 14065824, 13762012, 13458071, 13154003, 12849811, 12545498, 12241068, 11936521, 11631863, 11327095, 11022221, 10717242, 10412163, 10106986,
     9801714, 9496350, 9190896, 8885355, 8579731, 8274026, 7968244, 7662386, 7356456, 7050457, 6744392, 6438263, 6132074, 5825826, 5519524, 5213170,
     4906767, 4600318, 4293826, 3987293, 3680722, 3374117, 3067480, 2760815, 2454123, 2147408, 1840673, 1533921, 1227154, 920375, 613588, 306796]"

definition sine_table_8 :: "int list" where
  "sine_table_8 = [
     0, - 306796, - 613588, - 920375, - 1227154, - 1533921, - 1840673, - 2147408, - 2454123, - 2760815, - 3067480, - 3374117, - 3680722, - 3987293, - 4293826, - 4600318,
     - 4906767, - 5213170, - 5519524, - 5825826, - 6132074, - 6438263, - 6744392, - 7050457, - 7356456, - 7662386, - 7968244, - 8274026, - 8579731, - 8885355, - 9190896, - 9496350,
     - 9801714, - 10106986, - 10412163, - 10717242, - 11022221, - 11327095, - 11631863, - 11936521, - 12241068, - 12545498, - 12849811, - 13154003, - 13458071, - 13762012, - 14065824, - 14369503,
     - 14673047, - 14976453, - 15279719, - 15582840, - 15885814, - 16188639, - 16491312, - 16793829, - 17096189, - 17398387, - 17700422, - 18002290, - 18303989, - 18605515, - 18906866, - 19208040,
     - 19509032, - 19809841, - 20110463, - 20410897, - 20711138, - 21011184, - 21311032, - 21610680, - 21910124, - 22209362, - 22508391, - 22807208, - 23105811, - 23404196, - 23702361, - 24000302,
     - 24298018, - 24595505, - 24892761, - 25189782, - 25486566, - 25783110, - 26079412, - 26375468, - 26671276, - 26966833, - 27262136, - 27557182, - 27851969, - 28146494, - 28440754, - 28734746,
     - 29028468, - 29321916, - 29615089, - 29907983, - 30200595, - 30492923, - 30784964, - 31076715, - 31368174, - 31659338, - 31950203, - 32240768, - 32531029, - 32820984, - 33110631, - 33399965,
     - 33688985, - 33977688, - 34266072, - 34554132, - 34841868, - 35129276, - 35416353, - 35703096, - 35989504, - 36275572, - 36561300, - 36846683, - 37131719, - 37416406, - 37700741, - 37984721]"

definition sine_table_9 :: "int list" where
  "sine_table_9 = [
     - 38268343, - 38551605, - 38834505, - 39117038, - 39399204, - 39680999, - 39962420, - 40243465, - 40524131, - 40804416, - 41084317, - 41363831, - 41642956, - 41921689, - 42200027, - 42477968,
     - 42755509, - 43032648, - 43309382, - 43585708, - 43861624, - 44137127, - 44412214, - 44686884, - 44961133, - 45234959, - 45508359, - 45781330, - 46053871, - 46325978, - 46597650, - 46868882,
     - 47139674, - 47410021, - 47679923, - 47949376, - 48218377, - 48486925, - 48755016, - 49022648, - 49289819, - 49556526, - 49822767, - 50088538, - 50353838, - 50618665, - 50883014, - 51146885,
     - 51410274, - 51673180, - 51935599, - 52197529, - 52458968, - 52719913, - 52980362, - 53240313, - 53499762, - 53758708, - 54017147, - 54275078, - 54532499, - 54789406, - 55045797, - 55301671,
     - 55557023, - 55811853, - 56066158, - 56319934, - 56573181, - 56825895, - 57078075, - 57329717, - 57580819, - 57831380, - 58081396, - 58330865, - 58579786, - 58828155, - 59075970, - 59323230,
     - 59569930, - 59816071, - 60061648, - 60306660, - 60551104, - 60794978, - 61038281, - 61281008, - 61523159, - 61764731, - 62005721, - 62246128, - 62485949, - 62725182, - 62963824, - 63201874,
     - 63439328, - 63676186, - 63912444, - 64148101, - 64383154, - 64617601, - 64851440, - 65084668, - 65317284, - 65549285, - 65780669, - 66011434, - 66241578, - 66471098, - 66699992, - 66928259,
     - 67155895, - 67382900, - 67609270, - 67835004, - 68060100, - 68284555, - 68508367, - 68731534, - 68954054, - 69175926, - 69397146, - 69617713, - 69837625, - 70056879, - 70275474, - 70493408]"

definition sine_table_10 :: "int list" where
  "sine_table_10 = [
     - 70710678, - 70927283, - 71143220, - 71358487, - 71573083, - 71787005, - 72000251, - 72212819, - 72424708, - 72635916, - 72846439, - 73056277, - 73265427, - 73473888, - 73681657, - 73888732,
     - 74095113, - 74300795, - 74505779, - 74710061, - 74913639, - 75116513, - 75318680, - 75520138, - 75720885, - 75920919, - 76120239, - 76318842, - 76516727, - 76713891, - 76910334, - 77106052,
     - 77301045, - 77495311, - 77688847, - 77881651, - 78073723, - 78265060, - 78455660, - 78645521, - 78834643, - 79023022, - 79210658, - 79397548, - 79583690, - 79769084, - 79953727, - 80137617,
     - 80320753, - 80503133, - 80684755, - 80865618, - 81045720, - 81225059, - 81403633, - 81581441, - 81758481, - 81934752, - 82110251, - 82284978, - 82458930, - 82632106, - 82804505, - 82976123,
     - 83146961, - 83317016, - 83486287, - 83654773, - 83822471, - 83989379, - 84155498, - 84320824, - 84485357, - 84649094, - 84812034, - 84974177, - 85135519, - 85296060, - 85455799, - 85614733,
     - 85772861, - 85930182, - 86086694, - 86242396, - 86397286, - 86551362, - 86704625, - 86857071, - 87008699, - 87159509, - 87309498, - 87458665, - 87607009, - 87754529, - 87901223, - 88047089,
     - 88192126, - 88336334, - 88479710, - 88622253, - 88763962, - 88904836, - 89044872, - 89184071, - 89322430, - 89459949, - 89596625, - 89732458, - 89867447, - 90001589, - 90134885, - 90267332,
     - 90398929, - 90529676, - 90659570, - 90788612, - 90916798, - 91044129, - 91170603, - 91296219, - 91420976, - 91544872, - 91667906, - 91790078, - 91911385, - 92031828, - 92151404, - 92270113]"

definition sine_table_11 :: "int list" where
  "sine_table_11 = [
     - 92387953, - 92504924, - 92621024, - 92736253, - 92850608, - 92964090, - 93076696, - 93188427, - 93299280, - 93409255, - 93518351, - 93626567, - 93733901, - 93840353, - 93945922, - 94050607,
     - 94154407, - 94257320, - 94359346, - 94460484, - 94560733, - 94660091, - 94758559, - 94856135, - 94952818, - 95048607, - 95143502, - 95237501, - 95330604, - 95422810, - 95514117, - 95604525,
     - 95694034, - 95782641, - 95870347, - 95957151, - 96043052, - 96128049, - 96212140, - 96295327, - 96377607, - 96458979, - 96539444, - 96619000, - 96697647, - 96775384, - 96852209, - 96928124,
     - 97003125, - 97077214, - 97150389, - 97222650, - 97293995, - 97364425, - 97433938, - 97502535, - 97570213, - 97636973, - 97702814, - 97767736, - 97831737, - 97894818, - 97956977, - 98018214,
     - 98078528, - 98137919, - 98196387, - 98253930, - 98310549, - 98366242, - 98421009, - 98474850, - 98527764, - 98579751, - 98630810, - 98680940, - 98730142, - 98778414, - 98825757, - 98872169,
     - 98917651, - 98962202, - 99005821, - 99048508, - 99090264, - 99131086, - 99170975, - 99209931, - 99247953, - 99285041, - 99321195, - 99356414, - 99390697, - 99424045, - 99456457, - 99487933,
     - 99518473, - 99548076, - 99576741, - 99604470, - 99631261, - 99657115, - 99682030, - 99706007, - 99729046, - 99751146, - 99772307, - 99792529, - 99811811, - 99830154, - 99847558, - 99864022,
     - 99879546, - 99894129, - 99907773, - 99920476, - 99932238, - 99943060, - 99952942, - 99961882, - 99969882, - 99976941, - 99983058, - 99988235, - 99992470, - 99995764, - 99998118, - 99999529]"

definition sine_table_12 :: "int list" where
  "sine_table_12 = [
     - 100000000, - 99999529, - 99998118, - 99995764, - 99992470, - 99988235, - 99983058, - 99976941, - 99969882, - 99961882, - 99952942, - 99943060, - 99932238, - 99920476, - 99907773, - 99894129,
     - 99879546, - 99864022, - 99847558, - 99830154, - 99811811, - 99792529, - 99772307, - 99751146, - 99729046, - 99706007, - 99682030, - 99657115, - 99631261, - 99604470, - 99576741, - 99548076,
     - 99518473, - 99487933, - 99456457, - 99424045, - 99390697, - 99356414, - 99321195, - 99285041, - 99247953, - 99209931, - 99170975, - 99131086, - 99090264, - 99048508, - 99005821, - 98962202,
     - 98917651, - 98872169, - 98825757, - 98778414, - 98730142, - 98680940, - 98630810, - 98579751, - 98527764, - 98474850, - 98421009, - 98366242, - 98310549, - 98253930, - 98196387, - 98137919,
     - 98078528, - 98018214, - 97956977, - 97894818, - 97831737, - 97767736, - 97702814, - 97636973, - 97570213, - 97502535, - 97433938, - 97364425, - 97293995, - 97222650, - 97150389, - 97077214,
     - 97003125, - 96928124, - 96852209, - 96775384, - 96697647, - 96619000, - 96539444, - 96458979, - 96377607, - 96295327, - 96212140, - 96128049, - 96043052, - 95957151, - 95870347, - 95782641,
     - 95694034, - 95604525, - 95514117, - 95422810, - 95330604, - 95237501, - 95143502, - 95048607, - 94952818, - 94856135, - 94758559, - 94660091, - 94560733, - 94460484, - 94359346, - 94257320,
     - 94154407, - 94050607, - 93945922, - 93840353, - 93733901, - 93626567, - 93518351, - 93409255, - 93299280, - 93188427, - 93076696, - 92964090, - 92850608, - 92736253, - 92621024, - 92504924]"

definition sine_table_13 :: "int list" where
  "sine_table_13 = [
     - 92387953, - 92270113, - 92151404, - 92031828, - 91911385, - 91790078, - 91667906, - 91544872, - 91420976, - 91296219, - 91170603, - 91044129, - 90916798, - 90788612, - 90659570, - 90529676,
     - 90398929, - 90267332, - 90134885, - 90001589, - 89867447, - 89732458, - 89596625, - 89459949, - 89322430, - 89184071, - 89044872, - 88904836, - 88763962, - 88622253, - 88479710, - 88336334,
     - 88192126, - 88047089, - 87901223, - 87754529, - 87607009, - 87458665, - 87309498, - 87159509, - 87008699, - 86857071, - 86704625, - 86551362, - 86397286, - 86242396, - 86086694, - 85930182,
     - 85772861, - 85614733, - 85455799, - 85296060, - 85135519, - 84974177, - 84812034, - 84649094, - 84485357, - 84320824, - 84155498, - 83989379, - 83822471, - 83654773, - 83486287, - 83317016,
     - 83146961, - 82976123, - 82804505, - 82632106, - 82458930, - 82284978, - 82110251, - 81934752, - 81758481, - 81581441, - 81403633, - 81225059, - 81045720, - 80865618, - 80684755, - 80503133,
     - 80320753, - 80137617, - 79953727, - 79769084, - 79583690, - 79397548, - 79210658, - 79023022, - 78834643, - 78645521, - 78455660, - 78265060, - 78073723, - 77881651, - 77688847, - 77495311,
     - 77301045, - 77106052, - 76910334, - 76713891, - 76516727, - 76318842, - 76120239, - 75920919, - 75720885, - 75520138, - 75318680, - 75116513, - 74913639, - 74710061, - 74505779, - 74300795,
     - 74095113, - 73888732, - 73681657, - 73473888, - 73265427, - 73056277, - 72846439, - 72635916, - 72424708, - 72212819, - 72000251, - 71787005, - 71573083, - 71358487, - 71143220, - 70927283]"

definition sine_table_14 :: "int list" where
  "sine_table_14 = [
     - 70710678, - 70493408, - 70275474, - 70056879, - 69837625, - 69617713, - 69397146, - 69175926, - 68954054, - 68731534, - 68508367, - 68284555, - 68060100, - 67835004, - 67609270, - 67382900,
     - 67155895, - 66928259, - 66699992, - 66471098, - 66241578, - 66011434, - 65780669, - 65549285, - 65317284, - 65084668, - 64851440, - 64617601, - 64383154, - 64148101, - 63912444, - 63676186,
     - 63439328, - 63201874, - 62963824, - 62725182, - 62485949, - 62246128, - 62005721, - 61764731, - 61523159, - 61281008, - 61038281, - 60794978, - 60551104, - 60306660, - 60061648, - 59816071,
     - 59569930, - 59323230, - 59075970, - 58828155, - 58579786, - 58330865, - 58081396, - 57831380, - 57580819, - 57329717, - 57078075, - 56825895, - 56573181, - 56319934, - 56066158, - 55811853,
     - 55557023, - 55301671, - 55045797, - 54789406, - 54532499, - 54275078, - 54017147, - 53758708, - 53499762, - 53240313, - 52980362, - 52719913, - 52458968, - 52197529, - 51935599, - 51673180,
     - 51410274, - 51146885, - 50883014, - 50618665, - 50353838, - 50088538, - 49822767, - 49556526, - 49289819, - 49022648, - 48755016, - 48486925, - 48218377, - 47949376, - 47679923, - 47410021,
     - 47139674, - 46868882, - 46597650, - 46325978, - 46053871, - 45781330, - 45508359, - 45234959, - 44961133, - 44686884, - 44412214, - 44137127, - 43861624, - 43585708, - 43309382, - 43032648,
     - 42755509, - 42477968, - 42200027, - 41921689, - 41642956, - 41363831, - 41084317, - 40804416, - 40524131, - 40243465, - 39962420, - 39680999, - 39399204, - 39117038, - 38834505, - 38551605]"

definition sine_table_15 :: "int list" where
  "sine_table_15 = [
     - 38268343, - 37984721, - 37700741, - 37416406, - 37131719, - 36846683, - 36561300, - 36275572, - 35989504, - 35703096, - 35416353, - 35129276, - 34841868, - 34554132, - 34266072, - 33977688,
     - 33688985, - 33399965, - 33110631, - 32820984, - 32531029, - 32240768, - 31950203, - 31659338, - 31368174, - 31076715, - 30784964, - 30492923, - 30200595, - 29907983, - 29615089, - 29321916,
     - 29028468, - 28734746, - 28440754, - 28146494, - 27851969, - 27557182, - 27262136, - 26966833, - 26671276, - 26375468, - 26079412, - 25783110, - 25486566, - 25189782, - 24892761, - 24595505,
     - 24298018, - 24000302, - 23702361, - 23404196, - 23105811, - 22807208, - 22508391, - 22209362, - 21910124, - 21610680, - 21311032, - 21011184, - 20711138, - 20410897, - 20110463, - 19809841,
     - 19509032, - 19208040, - 18906866, - 18605515, - 18303989, - 18002290, - 17700422, - 17398387, - 17096189, - 16793829, - 16491312, - 16188639, - 15885814, - 15582840, - 15279719, - 14976453,
     - 14673047, - 14369503, - 14065824, - 13762012, - 13458071, - 13154003, - 12849811, - 12545498, - 12241068, - 11936521, - 11631863, - 11327095, - 11022221, - 10717242, - 10412163, - 10106986,
     - 9801714, - 9496350, - 9190896, - 8885355, - 8579731, - 8274026, - 7968244, - 7662386, - 7356456, - 7050457, - 6744392, - 6438263, - 6132074, - 5825826, - 5519524, - 5213170,
     - 4906767, - 4600318, - 4293826, - 3987293, - 3680722, - 3374117, - 3067480, - 2760815, - 2454123, - 2147408, - 1840673, - 1533921, - 1227154, - 920375, - 613588, - 306796]"

definition sine_table :: "int list" where
  "sine_table = sine_table_0 @ sine_table_1 @ sine_table_2 @ sine_table_3 @ sine_table_4 @ sine_table_5 @ sine_table_6 @ sine_table_7 @
     sine_table_8 @ sine_table_9 @ sine_table_10 @ sine_table_11 @ sine_table_12 @ sine_table_13 @ sine_table_14 @ sine_table_15"

lemmas sine_table_defs = sine_table_def sine_table_0_def sine_table_1_def sine_table_2_def sine_table_3_def sine_table_4_def sine_table_5_def sine_table_6_def sine_table_7_def sine_table_8_def sine_table_9_def sine_table_10_def sine_table_11_def sine_table_12_def sine_table_13_def sine_table_14_def sine_table_15_def

section \<open>It is a circle\<close>

text \<open>The table turned by an angle.\<close>

definition turned :: "nat \<Rightarrow> int list \<Rightarrow> int list" where
  "turned k t = drop k t @ take k t"

definition near :: "int \<Rightarrow> int \<Rightarrow> int \<Rightarrow> bool" where
  "near e x y \<longleftrightarrow> y - e \<le> x \<and> x \<le> y + e"

text \<open>Sine and cosine of each step on the unit circle, and each step the same angle on.\<close>

definition unit_radius :: "int list \<Rightarrow> int list \<Rightarrow> bool" where
  "unit_radius s c = list_all2 (\<lambda>x y. near 200000000 (x * x + y * y) 10000000000000000) s c"

fun equal_steps :: "int list \<Rightarrow> int list \<Rightarrow> bool" where
  "equal_steps (x # x' # xs) (y # y' # ys) \<longleftrightarrow>
     near 200000000 (x' * y - x * y') 30679568000000 \<and> equal_steps (x' # xs) (y' # ys)"
| "equal_steps xs ys \<longleftrightarrow> length xs = length ys"

lemma equal_steps_append:
  "length a = length c \<Longrightarrow> equal_steps (a @ [hd b]) (c @ [hd d]) \<Longrightarrow> b \<noteq> [] \<Longrightarrow> d \<noteq> [] \<Longrightarrow> equal_steps b d \<Longrightarrow>
   equal_steps (a @ b) (c @ d)"
proof (induction a c rule: list_induct2)
  case (Cons x xs y ys)
  obtain h r where b: "b = h # r" using Cons.prems by (cases b) auto
  obtain k q where d: "d = k # q" using Cons.prems by (cases d) auto
  show ?case using Cons b d by (cases xs; cases ys) auto
qed simp

lemma unit_radius_append: "unit_radius a c \<Longrightarrow> unit_radius b d \<Longrightarrow> unit_radius (a @ b) (c @ d)"
  by (simp add: unit_radius_def list_all2_appendI)

lemma equal_steps_neg: "equal_steps (map uminus a) (map uminus c) = equal_steps a c"
  by (induction a c rule: equal_steps.induct) auto

lemma equal_steps_neg_hd:
  "equal_steps (a @ [hd b]) (c @ [hd d]) \<Longrightarrow> b \<noteq> [] \<Longrightarrow> d \<noteq> [] \<Longrightarrow>
   equal_steps (map uminus a @ [hd (map uminus b)]) (map uminus c @ [hd (map uminus d)])"
  using equal_steps_neg [of "a @ [hd b]" "c @ [hd d]"] by (simp add: hd_map)

lemma equal_steps_init: "length a = length c \<Longrightarrow> equal_steps (a @ [x]) (c @ [y]) \<Longrightarrow> equal_steps a c"
proof (induction a c rule: list_induct2)
  case (Cons x xs y ys)
  then show ?case by (cases xs; cases ys) auto
qed simp

lemma unit_radius_neg: "unit_radius (map uminus a) (map uminus c) = unit_radius a c"
  by (simp add: unit_radius_def list_all2_map1 list_all2_map2)

text \<open>The parts, one by one.\<close>

lemma part_lengths [simp]:
  "length sine_table_0 = 128"
  "length sine_table_1 = 128"
  "length sine_table_2 = 128"
  "length sine_table_3 = 128"
  "length sine_table_4 = 128"
  "length sine_table_5 = 128"
  "length sine_table_6 = 128"
  "length sine_table_7 = 128"
  "length sine_table_8 = 128"
  "length sine_table_9 = 128"
  "length sine_table_10 = 128"
  "length sine_table_11 = 128"
  "length sine_table_12 = 128"
  "length sine_table_13 = 128"
  "length sine_table_14 = 128"
  "length sine_table_15 = 128"
  by (simp_all add: sine_table_defs)

lemma part_nonempty [simp]:
  "sine_table_0 \<noteq> []"
  "sine_table_1 \<noteq> []"
  "sine_table_2 \<noteq> []"
  "sine_table_3 \<noteq> []"
  "sine_table_4 \<noteq> []"
  "sine_table_5 \<noteq> []"
  "sine_table_6 \<noteq> []"
  "sine_table_7 \<noteq> []"
  "sine_table_8 \<noteq> []"
  "sine_table_9 \<noteq> []"
  "sine_table_10 \<noteq> []"
  "sine_table_11 \<noteq> []"
  "sine_table_12 \<noteq> []"
  "sine_table_13 \<noteq> []"
  "sine_table_14 \<noteq> []"
  "sine_table_15 \<noteq> []"
  by (simp_all add: sine_table_defs)

text \<open>The first half is checked entry by entry; the second is its negation.\<close>

lemma first_radius:
  "list_all2 unit_radius
     [sine_table_0, sine_table_1, sine_table_2, sine_table_3, sine_table_4, sine_table_5, sine_table_6, sine_table_7]
     [sine_table_4, sine_table_5, sine_table_6, sine_table_7, sine_table_8, sine_table_9, sine_table_10, sine_table_11]"
  by code_simp

lemma first_steps:
  "list_all2 equal_steps
     [sine_table_0 @ [hd sine_table_1], sine_table_1 @ [hd sine_table_2], sine_table_2 @ [hd sine_table_3],
      sine_table_3 @ [hd sine_table_4], sine_table_4 @ [hd sine_table_5], sine_table_5 @ [hd sine_table_6],
      sine_table_6 @ [hd sine_table_7], sine_table_7 @ [hd sine_table_8]]
     [sine_table_4 @ [hd sine_table_5], sine_table_5 @ [hd sine_table_6], sine_table_6 @ [hd sine_table_7],
      sine_table_7 @ [hd sine_table_8], sine_table_8 @ [hd sine_table_9], sine_table_9 @ [hd sine_table_10],
      sine_table_10 @ [hd sine_table_11], sine_table_11 @ [hd sine_table_12]]"
  by code_simp

lemma part_negated:
  "map uminus sine_table_0 = sine_table_8"
  "map uminus sine_table_1 = sine_table_9"
  "map uminus sine_table_2 = sine_table_10"
  "map uminus sine_table_3 = sine_table_11"
  "map uminus sine_table_4 = sine_table_12"
  "map uminus sine_table_5 = sine_table_13"
  "map uminus sine_table_6 = sine_table_14"
  "map uminus sine_table_7 = sine_table_15"
  "map uminus sine_table_8 = sine_table_0"
  "map uminus sine_table_9 = sine_table_1"
  "map uminus sine_table_10 = sine_table_2"
  "map uminus sine_table_11 = sine_table_3"
  "map uminus sine_table_12 = sine_table_4"
  "map uminus sine_table_13 = sine_table_5"
  "map uminus sine_table_14 = sine_table_6"
  "map uminus sine_table_15 = sine_table_7"
  by (simp_all add: sine_table_defs)

lemma part_radius:
  "list_all2 unit_radius
     [sine_table_0, sine_table_1, sine_table_2, sine_table_3, sine_table_4, sine_table_5, sine_table_6, sine_table_7,
      sine_table_8, sine_table_9, sine_table_10, sine_table_11, sine_table_12, sine_table_13, sine_table_14, sine_table_15]
     [sine_table_4, sine_table_5, sine_table_6, sine_table_7, sine_table_8, sine_table_9, sine_table_10, sine_table_11,
      sine_table_12, sine_table_13, sine_table_14, sine_table_15, sine_table_0, sine_table_1, sine_table_2, sine_table_3]"
  using first_radius unit_radius_neg [of sine_table_0 sine_table_4] unit_radius_neg [of sine_table_1 sine_table_5]
    unit_radius_neg [of sine_table_2 sine_table_6] unit_radius_neg [of sine_table_3 sine_table_7]
    unit_radius_neg [of sine_table_4 sine_table_8] unit_radius_neg [of sine_table_5 sine_table_9]
    unit_radius_neg [of sine_table_6 sine_table_10] unit_radius_neg [of sine_table_7 sine_table_11]
  by (simp add: part_negated)

lemma last_steps: "equal_steps sine_table_15 sine_table_3"
  using first_steps equal_steps_init [of sine_table_7 sine_table_11 "hd sine_table_8" "hd sine_table_12"] equal_steps_neg [of sine_table_7 sine_table_11]
  by (simp add: part_negated)

lemma part_steps:
  "list_all2 equal_steps
     [sine_table_0 @ [hd sine_table_1], sine_table_1 @ [hd sine_table_2], sine_table_2 @ [hd sine_table_3],
      sine_table_3 @ [hd sine_table_4], sine_table_4 @ [hd sine_table_5], sine_table_5 @ [hd sine_table_6],
      sine_table_6 @ [hd sine_table_7], sine_table_7 @ [hd sine_table_8], sine_table_8 @ [hd sine_table_9],
      sine_table_9 @ [hd sine_table_10], sine_table_10 @ [hd sine_table_11], sine_table_11 @ [hd sine_table_12],
      sine_table_12 @ [hd sine_table_13], sine_table_13 @ [hd sine_table_14], sine_table_14 @ [hd sine_table_15], sine_table_15]
     [sine_table_4 @ [hd sine_table_5], sine_table_5 @ [hd sine_table_6], sine_table_6 @ [hd sine_table_7],
      sine_table_7 @ [hd sine_table_8], sine_table_8 @ [hd sine_table_9], sine_table_9 @ [hd sine_table_10],
      sine_table_10 @ [hd sine_table_11], sine_table_11 @ [hd sine_table_12], sine_table_12 @ [hd sine_table_13],
      sine_table_13 @ [hd sine_table_14], sine_table_14 @ [hd sine_table_15], sine_table_15 @ [hd sine_table_0],
      sine_table_0 @ [hd sine_table_1], sine_table_1 @ [hd sine_table_2], sine_table_2 @ [hd sine_table_3], sine_table_3]"
  using first_steps last_steps
    equal_steps_neg_hd [of sine_table_0 sine_table_1 sine_table_4 sine_table_5]
    equal_steps_neg_hd [of sine_table_1 sine_table_2 sine_table_5 sine_table_6]
    equal_steps_neg_hd [of sine_table_2 sine_table_3 sine_table_6 sine_table_7]
    equal_steps_neg_hd [of sine_table_3 sine_table_4 sine_table_7 sine_table_8]
    equal_steps_neg_hd [of sine_table_4 sine_table_5 sine_table_8 sine_table_9]
    equal_steps_neg_hd [of sine_table_5 sine_table_6 sine_table_9 sine_table_10]
    equal_steps_neg_hd [of sine_table_6 sine_table_7 sine_table_10 sine_table_11]
  by (simp add: part_negated)

lemma turned_table:
  "turned 512 sine_table = sine_table_4 @ sine_table_5 @ sine_table_6 @ sine_table_7 @ sine_table_8 @ sine_table_9 @ sine_table_10 @ sine_table_11 @
     sine_table_12 @ sine_table_13 @ sine_table_14 @ sine_table_15 @ sine_table_0 @ sine_table_1 @ sine_table_2 @ sine_table_3"
  "turned 1024 sine_table = sine_table_8 @ sine_table_9 @ sine_table_10 @ sine_table_11 @ sine_table_12 @ sine_table_13 @ sine_table_14 @ sine_table_15 @
     sine_table_0 @ sine_table_1 @ sine_table_2 @ sine_table_3 @ sine_table_4 @ sine_table_5 @ sine_table_6 @ sine_table_7"
  by (simp_all add: turned_def sine_table_def)

lemma sine_length: "length sine_table = 2048"
  by (simp add: sine_table_def)

text \<open>
  The sine table is a full turn of a unit circle in 2048 equal steps, to the precision of its literals:
  every entry with the one a quarter turn on has square sum 1, consecutive ones enclose the angle of a
  step, the second half is the first negated, and it starts at 0.
\<close>

theorem sine_table_circle:
  "unit_radius sine_table (turned 512 sine_table) \<and> equal_steps sine_table (turned 512 sine_table) \<and>
   turned 1024 sine_table = map uminus sine_table \<and> hd sine_table = 0"
proof (intro conjI)
  show "unit_radius sine_table (turned 512 sine_table)"
    unfolding turned_table unfolding sine_table_def using part_radius by (simp add: unit_radius_append)
  show "equal_steps sine_table (turned 512 sine_table)"
    unfolding turned_table unfolding sine_table_def
    using part_steps by (simp add: equal_steps_append)
  show "turned 1024 sine_table = map uminus sine_table"
    unfolding turned_table unfolding sine_table_def by (simp add: part_negated)
  show "hd sine_table = 0" by (simp add: sine_table_defs)
qed

end
