(* ===== verification/R2Tone.thy ===== *)
theory R2Tone
  imports R2Sine Complex_Main "HOL-Library.Word"
begin

text \<open>
  The tone generator and the MF generator of \<open>r2engine.c\<close>.  C's single precision arithmetic and the
  functions of \<open>math.h\<close> are a parameter, the record \<open>flops\<close> over an arbitrary type of floats; the
  control of the generators (sections, positions, phases, tables of digits) is the code's.
  \<open>tone_gen\<close> fills a buffer section by section; it is shown to be the sample by sample machine
  \<open>tone_ref\<close>, so that how the caller cuts the stream into buffers does not matter.
\<close>

section \<open>Floats\<close>

text \<open>
  \<open>f_lit m k\<close> is the literal \<open>m / 10^k\<close> with suffix \<open>f\<close>; \<open>f_trunc\<close> the conversion to an integer
  type, \<open>f_rint\<close> the function \<open>lfastrintf\<close>; \<open>f_cos_turn x\<close> is \<open>cosf(2.0f*M_PI*x)\<close> with its argument
  computed in double precision.
\<close>

record 'f flops =
  f_add :: "'f \<Rightarrow> 'f \<Rightarrow> 'f"
  f_sub :: "'f \<Rightarrow> 'f \<Rightarrow> 'f"
  f_mul :: "'f \<Rightarrow> 'f \<Rightarrow> 'f"
  f_div :: "'f \<Rightarrow> 'f \<Rightarrow> 'f"
  f_le :: "'f \<Rightarrow> 'f \<Rightarrow> bool"
  f_lt :: "'f \<Rightarrow> 'f \<Rightarrow> bool"
  f_of_int :: "int \<Rightarrow> 'f"
  f_lit :: "int \<Rightarrow> nat \<Rightarrow> 'f"
  f_trunc :: "'f \<Rightarrow> int"
  f_rint :: "'f \<Rightarrow> int"
  f_pow :: "'f \<Rightarrow> 'f \<Rightarrow> 'f"
  f_log10 :: "'f \<Rightarrow> 'f"
  f_cos_turn :: "'f \<Rightarrow> 'f"

abbreviation (input) "SAMPLE_RATE \<equiv> 8000 :: int"
abbreviation (input) "SLENK \<equiv> 11 :: nat"

section \<open>Direct digital synthesis\<close>

definition dds_phase_ratef :: "'f flops \<Rightarrow> 'f \<Rightarrow> int" where
  "dds_phase_ratef fo frequency =
     f_trunc fo (f_div fo (f_mul fo (f_mul fo frequency (f_lit fo 65536 0)) (f_lit fo 65536 0)) (f_of_int fo SAMPLE_RATE))"

definition dds_scaling_dbm0f :: "'f flops \<Rightarrow> 'f \<Rightarrow> 'f" where
  "dds_scaling_dbm0f fo level =
     f_mul fo (f_pow fo (f_lit fo 10 0) (f_div fo (f_sub fo level (f_lit fo 314 2)) (f_lit fo 20 0))) (f_lit fo 32767 0)"

text \<open>
  The accumulator is the \<open>i\<close>-th of the phases; the source adds \<open>phase\<close> to the pointer, so that it
  chooses another accumulator.  All callers pass 0.
\<close>

definition dds_modf :: "'f flops \<Rightarrow> 32 word list \<Rightarrow> nat \<Rightarrow> int \<Rightarrow> 'f \<Rightarrow> nat \<Rightarrow> 'f \<times> 32 word list" where
  "dds_modf fo phases i phase_rate scale phase =
     (f_mul fo (f_lit fo (sine_table ! unat (drop_bit (32 - SLENK) (phases ! (i + phase)))) 8) scale,
      phases[i := phases ! i + word_of_int phase_rate])"

section \<open>The generator\<close>

record 'f tone_descriptor =
  phase_rate :: int
  gain :: 'f

record 'f tone_gen_descriptor =
  td_tone :: "'f tone_descriptor list"
  td_duration :: "int list"
  td_repeat :: bool

record 'f tone_gen_state =
  tg_tone :: "'f tone_descriptor list"
  tg_phase :: "32 word list"
  tg_duration :: "int list"
  tg_repeat :: bool
  current_section :: int
  current_position :: int

text \<open>A tone the \<open>memset\<close> leaves: rate 0, gain 0.\<close>

definition no_tone_descriptor :: "'f flops \<Rightarrow> 'f tone_descriptor" where
  "no_tone_descriptor fo = \<lparr>phase_rate = 0, gain = f_of_int fo 0\<rparr>"

definition make_tone_gen_descriptor ::
  "'f flops \<Rightarrow> int \<Rightarrow> int \<Rightarrow> int \<Rightarrow> int \<Rightarrow> int \<Rightarrow> int \<Rightarrow> int \<Rightarrow> int \<Rightarrow> bool \<Rightarrow> 'f tone_gen_descriptor" where
  "make_tone_gen_descriptor fo f1 l1 f2 l2 d1 d2 d3 d4 repeat =
     (let none = no_tone_descriptor fo;
          rate1 = dds_phase_ratef fo (f_of_int fo f1);
          tone0 = (if f1 \<noteq> 0
            then \<lparr>phase_rate = (if f2 < 0 then - rate1 else rate1), gain = dds_scaling_dbm0f fo (f_of_int fo l1)\<rparr>
            else none);
          tone1 = (if f2 \<noteq> 0
            then \<lparr>phase_rate = dds_phase_ratef fo (f_of_int fo (abs f2)),
                  gain = (if f2 < 0 then f_div fo (f_of_int fo l2) (f_lit fo 100 0)
                          else dds_scaling_dbm0f fo (f_of_int fo l2))\<rparr>
            else none)
      in \<lparr>td_tone = [tone0, tone1, none, none],
          td_duration = map (\<lambda>d. d * SAMPLE_RATE sdiv 1000) [d1, d2, d3, d4], td_repeat = repeat\<rparr>)"

definition tone_gen_init :: "'f tone_gen_descriptor \<Rightarrow> 'f tone_gen_state" where
  "tone_gen_init t =
     \<lparr>tg_tone = td_tone t, tg_phase = [0, 0, 0, 0], tg_duration = td_duration t, tg_repeat = td_repeat t,
      current_section = 0, current_position = 0\<rparr>"

text \<open>\<open>(int16_t) lfastrintf(x)\<close>\<close>

definition to_int16 :: "'f flops \<Rightarrow> 'f \<Rightarrow> int" where
  "to_int16 fo x = signed_take_bit 15 (f_rint fo x)"

text \<open>The sum of the tones up to the first with rate 0; \<open>tones\<close> are those from the \<open>i\<close>-th on.\<close>

fun sum_tones :: "'f flops \<Rightarrow> 'f tone_descriptor list \<Rightarrow> nat \<Rightarrow> 'f \<Rightarrow> 32 word list \<Rightarrow> 'f \<times> 32 word list" where
  "sum_tones fo [] i xamp phases = (xamp, phases)"
| "sum_tones fo (t # ts) i xamp phases =
     (if phase_rate t = 0 then (xamp, phases)
      else let (x, phases') = dds_modf fo phases i (phase_rate t) (gain t) 0
           in sum_tones fo ts (i + 1) (f_add fo xamp x) phases')"

text \<open>The modulated pair of tones, for a negative first rate.\<close>

definition modulated :: "'f flops \<Rightarrow> 'f tone_descriptor list \<Rightarrow> 32 word list \<Rightarrow> 'f \<times> 32 word list" where
  "modulated fo tones phases =
     (let (x, p1) = dds_modf fo phases 0 (- phase_rate (tones ! 0)) (gain (tones ! 0)) 0;
          (y, p2) = dds_modf fo p1 1 (phase_rate (tones ! 1)) (gain (tones ! 1)) 0
      in (f_mul fo x (f_add fo (f_lit fo 1 0) y), p2))"

text \<open>One sample of the current section.\<close>

definition section_sample :: "'f flops \<Rightarrow> 'f tone_gen_state \<Rightarrow> int \<times> 'f tone_gen_state" where
  "section_sample fo s =
     (if odd (current_section s) then (0, s)
      else
        let (x, phases) = (if phase_rate (tg_tone s ! 0) < 0 then modulated fo (tg_tone s) (tg_phase s)
                           else sum_tones fo (tg_tone s) 0 (f_lit fo 0 1) (tg_phase s))
        in (to_int16 fo x, s\<lparr>tg_phase := phases\<rparr>))"

fun section_samples :: "'f flops \<Rightarrow> nat \<Rightarrow> 'f tone_gen_state \<Rightarrow> int list \<times> 'f tone_gen_state" where
  "section_samples fo 0 s = ([], s)"
| "section_samples fo (Suc n) s =
     (let (x, s1) = section_sample fo s; (xs, s2) = section_samples fo n s1 in (x # xs, s2))"

text \<open>The end of a round of the loop: the next section when the current one is over; the flag is the \<open>break\<close>.\<close>

definition next_section :: "'f tone_gen_state \<Rightarrow> bool \<times> 'f tone_gen_state" where
  "next_section s =
     (if current_position s \<ge> tg_duration s ! nat (current_section s) then
        (let sec = current_section s + 1; s1 = s\<lparr>current_position := 0, current_section := sec\<rparr> in
         if sec > 3 \<or> tg_duration s ! nat sec = 0 then
           (if \<not> tg_repeat s then (True, s1\<lparr>current_section := -1\<rparr>) else (False, s1\<lparr>current_section := 0\<rparr>))
         else (False, s1))
      else (False, s))"

definition tone_gen_round :: "'f flops \<Rightarrow> nat \<Rightarrow> 'f tone_gen_state \<Rightarrow> int list \<Rightarrow> bool \<times> 'f tone_gen_state \<times> int list" where
  "tone_gen_round fo max_samples s amp =
     (let samples = int (length amp);
          limit = min (samples + tg_duration s ! nat (current_section s) - current_position s) (int max_samples);
          s1 = s\<lparr>current_position := current_position s + (limit - samples)\<rparr>;
          (out, s2) = section_samples fo (nat (limit - samples)) s1;
          (stop, s3) = next_section s2
      in (stop, s3, amp @ out))"

text \<open>The loop: it need not end when a repeated tone has an empty first section.\<close>

partial_function (option) tone_gen_loop ::
  "'f flops \<Rightarrow> nat \<Rightarrow> 'f tone_gen_state \<Rightarrow> int list \<Rightarrow> (int list \<times> 'f tone_gen_state) option" where
  "tone_gen_loop fo max_samples s amp =
     (if length amp < max_samples then
        (case tone_gen_round fo max_samples s amp of
           (stop, s', amp') \<Rightarrow> if stop then Some (amp', s') else tone_gen_loop fo max_samples s' amp')
      else Some (amp, s))"

text \<open>The samples written and the state left; the number of samples is the result of the C function.\<close>

definition tone_gen :: "'f flops \<Rightarrow> 'f tone_gen_state \<Rightarrow> nat \<Rightarrow> (int list \<times> 'f tone_gen_state) option" where
  "tone_gen fo s max_samples =
     (if current_section s < 0 then Some ([], s) else tone_gen_loop fo max_samples s [])"

section \<open>Sample by sample\<close>

definition tone_next :: "'f flops \<Rightarrow> 'f tone_gen_state \<Rightarrow> int \<times> 'f tone_gen_state" where
  "tone_next fo s =
     (let (x, s1) = section_sample fo s in (x, snd (next_section (s1\<lparr>current_position := current_position s1 + 1\<rparr>))))"

fun tone_ref :: "'f flops \<Rightarrow> nat \<Rightarrow> 'f tone_gen_state \<Rightarrow> int list \<times> 'f tone_gen_state" where
  "tone_ref fo 0 s = ([], s)"
| "tone_ref fo (Suc n) s =
     (if current_section s < 0 then ([], s)
      else let (x, s1) = tone_next fo s; (xs, s2) = tone_ref fo n s1 in (x # xs, s2))"

text \<open>The states in use: off, or inside a section that is not empty; a repeated tone starts with one.\<close>

definition tone_ok :: "'f tone_gen_state \<Rightarrow> bool" where
  "tone_ok s \<longleftrightarrow>
     length (tg_duration s) = 4 \<and> list_all (\<lambda>d. 0 \<le> d) (tg_duration s) \<and> (tg_repeat s \<longrightarrow> 0 < tg_duration s ! 0) \<and>
     (current_section s < 0 \<or> current_section s \<le> 3 \<and> 0 \<le> current_position s \<and>
        current_position s < tg_duration s ! nat (current_section s))"

lemma section_sample_fields [simp]:
  "current_section (snd (section_sample fo s)) = current_section s"
  "current_position (snd (section_sample fo s)) = current_position s"
  "tg_duration (snd (section_sample fo s)) = tg_duration s" "tg_repeat (snd (section_sample fo s)) = tg_repeat s"
  by (simp_all add: section_sample_def case_prod_beta Let_def)

lemma section_sample_position:
  "section_sample fo (s\<lparr>current_position := p\<rparr>) =
     (fst (section_sample fo s), (snd (section_sample fo s))\<lparr>current_position := p\<rparr>)"
  by (simp add: section_sample_def case_prod_beta Let_def)

lemma section_samples_position:
  "section_samples fo n (s\<lparr>current_position := p\<rparr>) =
     (fst (section_samples fo n s), (snd (section_samples fo n s))\<lparr>current_position := p\<rparr>)"
  by (induction n arbitrary: s) (simp_all add: section_sample_position case_prod_beta Let_def)

lemma section_samples_fields [simp]:
  "current_section (snd (section_samples fo n s)) = current_section s"
  "current_position (snd (section_samples fo n s)) = current_position s"
  "tg_duration (snd (section_samples fo n s)) = tg_duration s" "tg_repeat (snd (section_samples fo n s)) = tg_repeat s"
  "length (fst (section_samples fo n s)) = n"
  by (induction n arbitrary: s) (simp_all add: case_prod_beta Let_def)

text \<open>One round, seen as samples: up to the end of the section or of the buffer.\<close>

lemma section_run:
  assumes "tone_ok s" "0 \<le> current_section s" "0 < k" "int k \<le> tg_duration s ! nat (current_section s) - current_position s"
  shows "tone_ref fo k s =
    (let (out, s2) = section_samples fo k (s\<lparr>current_position := current_position s + int k\<rparr>) in (out, snd (next_section s2)))"
  using assms
proof (induction k arbitrary: s)
  case (Suc k)
  show ?case
  proof (cases "k = 0")
    case True
    then show ?thesis using Suc.prems
      by (simp add: tone_next_def case_prod_beta Let_def section_sample_position)
  next
    case False
    let ?t = "(snd (section_sample fo s))\<lparr>current_position := current_position s + 1\<rparr>"
    have n: "tone_next fo s = (fst (section_sample fo s), ?t)"
      using Suc.prems False by (simp add: tone_next_def case_prod_beta Let_def next_section_def)
    have ok: "tone_ok ?t" using Suc.prems False by (auto simp: tone_ok_def)
    have ih: "tone_ref fo k ?t =
        (let (out, s2) = section_samples fo k (?t\<lparr>current_position := current_position ?t + int k\<rparr>) in (out, snd (next_section s2)))"
      by (rule Suc.IH [OF ok]) (use Suc.prems False in auto)
    show ?thesis using Suc.prems n ih
      by (simp add: case_prod_beta Let_def section_sample_position section_samples_position algebra_simps)
  qed
qed simp

lemma next_section_ok:
  assumes "length (tg_duration s) = 4" "list_all (\<lambda>d. 0 \<le> d) (tg_duration s)" "tg_repeat s \<longrightarrow> 0 < tg_duration s ! 0"
    and "0 \<le> current_section s" "current_section s \<le> 3" "0 \<le> current_position s"
  shows "tone_ok (snd (next_section s)) \<and> (fst (next_section s) \<longleftrightarrow> current_section (snd (next_section s)) < 0)"
proof (cases "current_position s \<ge> tg_duration s ! nat (current_section s)")
  case True
  let ?n = "current_section s + 1"
  have "0 \<le> tg_duration s ! nat ?n" if "?n \<le> 3"
    using assms(1,2,4) that by (simp add: list_all_length)
  then show ?thesis using True assms
    by (cases "?n > 3 \<or> tg_duration s ! nat ?n = 0"; cases "tg_repeat s") (simp_all add: next_section_def tone_ok_def Let_def)
next
  case False
  then show ?thesis using assms by (simp add: next_section_def tone_ok_def)
qed

lemma tone_ok_round:
  assumes "tone_ok s" "0 \<le> current_section s" "length amp < max_samples" "tone_gen_round fo max_samples s amp = (stop, s', amp')"
  shows "tone_ok s' \<and> (stop \<longleftrightarrow> current_section s' < 0) \<and> length amp < length amp' \<and> length amp' \<le> max_samples \<and>
    (\<exists>out. amp' = amp @ out \<and> tone_ref fo (length out) s = (out, s'))"
proof -
  let ?k = "nat (min (int (length amp) + tg_duration s ! nat (current_section s) - current_position s) (int max_samples) - int (length amp))"
  have k: "0 < ?k" "int ?k \<le> tg_duration s ! nat (current_section s) - current_position s" "length amp + ?k \<le> max_samples"
    using assms(1-3) by (auto simp: tone_ok_def)
  have r: "tone_gen_round fo max_samples s amp =
      (let (out, s2) = section_samples fo ?k (s\<lparr>current_position := current_position s + int ?k\<rparr>);
           (stop, s3) = next_section s2 in (stop, s3, amp @ out))"
    using k(1) by (simp add: tone_gen_round_def Let_def)
  define s2 where "s2 = snd (section_samples fo ?k (s\<lparr>current_position := current_position s + int ?k\<rparr>))"
  have s2: "current_section s2 = current_section s" "current_position s2 = current_position s + int ?k"
      "tg_duration s2 = tg_duration s" "tg_repeat s2 = tg_repeat s"
    by (simp_all add: s2_def)
  have e: "stop = fst (next_section s2)" "s' = snd (next_section s2)"
      "amp' = amp @ fst (section_samples fo ?k (s\<lparr>current_position := current_position s + int ?k\<rparr>))"
    using assms(4) r by (simp_all add: case_prod_beta Let_def s2_def)
  have "tone_ok s' \<and> (stop \<longleftrightarrow> current_section s' < 0)"
    unfolding e by (rule next_section_ok) (use s2 assms(1,2) in \<open>simp_all add: tone_ok_def\<close>)
  moreover have "tone_ref fo ?k s = (fst (section_samples fo ?k (s\<lparr>current_position := current_position s + int ?k\<rparr>)), s')"
    using section_run [OF assms(1,2) k(1,2), of fo] by (simp add: case_prod_beta Let_def e s2_def)
  ultimately show ?thesis using k e by (auto simp: e)
qed

lemma tone_ref_off [simp]: "current_section s < 0 \<Longrightarrow> tone_ref fo n s = ([], s)"
  by (cases n) simp_all

text \<open>Cutting the stream does not matter.\<close>

lemma tone_ref_add:
  "tone_ref fo (m + n) s = (let (xs, s1) = tone_ref fo m s; (ys, s2) = tone_ref fo n s1 in (xs @ ys, s2))"
  by (induction m arbitrary: s) (simp_all add: case_prod_beta Let_def)

lemma tone_gen_loop_ref:
  assumes "tone_ok s" "0 \<le> current_section s" "length amp \<le> max_samples"
  shows "tone_gen_loop fo max_samples s amp =
    (let (out, s') = tone_ref fo (max_samples - length amp) s in Some (amp @ out, s'))"
  using assms
proof (induction "max_samples - length amp" arbitrary: s amp rule: less_induct)
  case less
  show ?case
  proof (cases "length amp < max_samples")
    case True
    obtain stop s1 amp1 where r: "tone_gen_round fo max_samples s amp = (stop, s1, amp1)" by (cases "tone_gen_round fo max_samples s amp")
    obtain out where o: "amp1 = amp @ out" "tone_ref fo (length out) s = (out, s1)"
      and ok: "tone_ok s1" "stop \<longleftrightarrow> current_section s1 < 0" "length amp < length amp1" "length amp1 \<le> max_samples"
      using tone_ok_round [OF less.prems(1,2) True r] by blast
    have split: "max_samples - length amp = length out + (max_samples - length amp1)" using o ok by simp
    have ref: "tone_ref fo (max_samples - length amp) s =
        (let (ys, s2) = tone_ref fo (max_samples - length amp1) s1 in (out @ ys, s2))"
      unfolding split tone_ref_add o(2) by simp
    have step: "tone_gen_loop fo max_samples s amp = (if stop then Some (amp1, s1) else tone_gen_loop fo max_samples s1 amp1)"
      using True r by (subst tone_gen_loop.simps) simp
    show ?thesis
    proof (cases stop)
      case True
      then show ?thesis unfolding step ref using ok(2) o(1) by simp
    next
      case False
      have "tone_gen_loop fo max_samples s1 amp1 =
          (let (out, s') = tone_ref fo (max_samples - length amp1) s1 in Some (amp1 @ out, s'))"
        by (rule less.hyps) (use ok False True in auto)
      then show ?thesis unfolding step ref using False o(1) by (simp add: case_prod_beta Let_def)
    qed
  next
    case False
    then show ?thesis using less.prems by (subst tone_gen_loop.simps) simp
  qed
qed

lemma tone_gen_is_ref: "tone_ok s \<Longrightarrow> tone_gen fo s n = Some (tone_ref fo n s)"
  using tone_gen_loop_ref [of s "[]" n fo] by (simp add: tone_gen_def case_prod_beta Let_def)

lemma tone_ok_next: "tone_ok s \<Longrightarrow> 0 \<le> current_section s \<Longrightarrow> tone_ok (snd (tone_next fo s))"
  unfolding tone_next_def case_prod_beta Let_def snd_conv
  by (rule conjunct1 [OF next_section_ok]) (simp_all add: tone_ok_def)

lemma tone_ok_ref: "tone_ok s \<Longrightarrow> tone_ok (snd (tone_ref fo n s))"
  by (induction n arbitrary: s) (auto simp: case_prod_beta Let_def tone_ok_next)

lemma tone_ok_init:
  "length (td_duration t) = 4 \<Longrightarrow> list_all (\<lambda>d. 0 \<le> d) (td_duration t) \<Longrightarrow> 0 < td_duration t ! 0 \<Longrightarrow> tone_ok (tone_gen_init t)"
  by (simp add: tone_ok_def tone_gen_init_def)

section \<open>Bursts\<close>

text \<open>A tone that is not repeated ends after its sections.\<close>

definition tone_left :: "'f tone_gen_state \<Rightarrow> nat" where
  "tone_left s =
     (if current_section s < 0 then 0
      else nat (sum_list (takeWhile (\<lambda>d. d \<noteq> 0) (drop (nat (current_section s)) (tg_duration s))) - current_position s))"

lemma tone_left_next:
  assumes "tone_ok s" "0 \<le> current_section s" "\<not> tg_repeat s"
  shows "tone_left s = Suc (tone_left (snd (tone_next fo s)))"
proof -
  let ?c = "nat (current_section s)"
  have len: "length (tg_duration s) = 4" and c: "?c < 4" and pos: "0 \<le> current_position s" "current_position s < tg_duration s ! ?c"
    and nn: "\<And>i. i < 4 \<Longrightarrow> 0 \<le> tg_duration s ! i"
    using assms(1,2) by (auto simp: tone_ok_def list_all_length)
  have d: "drop ?c (tg_duration s) = tg_duration s ! ?c # drop (Suc ?c) (tg_duration s)"
    using c len by (simp add: Cons_nth_drop_Suc)
  have rest: "0 \<le> sum_list (takeWhile (\<lambda>d. d \<noteq> 0) (drop (Suc ?c) (tg_duration s)))"
    by (rule sum_list_nonneg) (metis assms(1) in_set_dropD list.pred_set set_takeWhileD tone_ok_def)
  have left: "tone_left s = nat (tg_duration s ! ?c + sum_list (takeWhile (\<lambda>d. d \<noteq> 0) (drop (Suc ?c) (tg_duration s))) - current_position s)"
    using assms(2) d pos by (simp add: tone_left_def)
  have f: "current_section (snd (section_sample fo s)) = current_section s"
      "tg_duration (snd (section_sample fo s)) = tg_duration s" "tg_repeat (snd (section_sample fo s)) = tg_repeat s"
    by simp_all
  show ?thesis
  proof (cases "current_position s + 1 < tg_duration s ! ?c")
    case True
    then have "tone_left (snd (tone_next fo s)) =
        nat (tg_duration s ! ?c + sum_list (takeWhile (\<lambda>d. d \<noteq> 0) (drop (Suc ?c) (tg_duration s))) - (current_position s + 1))"
      using assms(2) d pos by (simp add: tone_next_def case_prod_beta Let_def next_section_def tone_left_def)
    then show ?thesis using left rest pos True by linarith
  next
    case False
    then have e: "current_position s + 1 = tg_duration s ! ?c" using pos by simp
    have last: "tone_left s = Suc (nat (sum_list (takeWhile (\<lambda>d. d \<noteq> 0) (drop (Suc ?c) (tg_duration s)))))"
      unfolding left using e rest by (simp add: nat_diff_distrib Suc_nat_eq_nat_zadd1)
    have n: "nat (current_section s + 1) = Suc ?c" using assms(2) by simp
    show ?thesis
    proof (cases "current_section s + 1 > 3")
      case True
      then have "drop (Suc ?c) (tg_duration s) = []" using len by simp
      then show ?thesis using last True e assms
        by (simp add: tone_next_def case_prod_beta Let_def next_section_def tone_left_def)
    next
      case False
      then have d2: "drop (Suc ?c) (tg_duration s) = tg_duration s ! Suc ?c # drop (Suc (Suc ?c)) (tg_duration s)"
        using len assms(2) by (simp add: Cons_nth_drop_Suc)
      show ?thesis using last False e assms d2 n
        by (simp add: tone_next_def case_prod_beta Let_def next_section_def tone_left_def)
    qed
  qed
qed

lemma tone_next_repeat [simp]: "tg_repeat (snd (tone_next fo s)) = tg_repeat s"
  by (simp add: tone_next_def case_prod_beta Let_def next_section_def)

lemma tone_left_0: "tone_ok s \<Longrightarrow> tone_left s = 0 \<longleftrightarrow> current_section s < 0"
proof
  assume ok: "tone_ok s" and z: "tone_left s = 0"
  show "current_section s < 0"
  proof (rule ccontr)
    assume c: "\<not> current_section s < 0"
    then have "0 < tg_duration s ! nat (current_section s) - current_position s" "nat (current_section s) < length (tg_duration s)"
      using ok by (auto simp: tone_ok_def)
    moreover have "0 \<le> sum_list (takeWhile (\<lambda>d. d \<noteq> 0) (drop (Suc (nat (current_section s))) (tg_duration s)))"
      by (rule sum_list_nonneg) (metis ok in_set_dropD list.pred_set set_takeWhileD tone_ok_def)
    ultimately show False using z c ok
      by (auto simp: tone_left_def tone_ok_def Cons_nth_drop_Suc [symmetric])
  qed
qed (simp add: tone_left_def)

lemma tone_ref_length: "tone_ok s \<Longrightarrow> \<not> tg_repeat s \<Longrightarrow> length (fst (tone_ref fo n s)) = min n (tone_left s) \<and>
    tone_left (snd (tone_ref fo n s)) = tone_left s - n"
proof (induction n arbitrary: s)
  case (Suc n)
  show ?case
  proof (cases "current_section s < 0")
    case True
    then show ?thesis by (simp add: tone_left_def)
  next
    case False
    then show ?thesis using Suc.IH [of "snd (tone_next fo s)"] Suc.prems tone_left_next [of s fo] tone_ok_next [of s fo]
      by (simp add: case_prod_beta Let_def)
  qed
qed simp

section \<open>Properties\<close>

text \<open>
  Exact arithmetic for the examples; powers, logarithms and cosines are not rational and are constants
  here.
\<close>

definition rat_flops :: "rat flops" where
  "rat_flops = \<lparr>f_add = (+), f_sub = (-), f_mul = (*), f_div = (/), f_le = (\<le>), f_lt = (<), f_of_int = of_int,
     f_lit = (\<lambda>m k. of_int m / 10 ^ k), f_trunc = floor, f_rint = floor, f_pow = (\<lambda>x y. 1), f_log10 = (\<lambda>x. 0),
     f_cos_turn = (\<lambda>x. 1)\<rparr>"

text \<open>
  C33: In the states of a generator that is off or inside a section with samples left (\<open>tone_ok\<close>; all
  descriptors with a positive first time, no negative time, start there, and playing stays there) the tone
  generator always returns, and its loop over sections is the machine that makes one sample at a time: same
  samples, same state left.  A first time of 0, which \<open>openr2_dtmf_tx_set_timing\<close> accepts, is outside: there
  the loop skips the section, and of a repeated tone without any samples it does not return.
\<close>

theorem tone_gen_reference:
  assumes "tone_ok s"
  shows "tone_gen fo s n = Some (tone_ref fo n s)"
  using assms by (rule tone_gen_is_ref)

definition short_tone :: "rat tone_gen_state" where
  "short_tone = (tone_gen_init (make_tone_gen_descriptor rat_flops 0 0 0 0 1 1 0 0 False))"

lemma short_tone_ok: "tone_ok short_tone"
  by (simp add: short_tone_def make_tone_gen_descriptor_def Let_def tone_ok_def tone_gen_init_def)

lemma tone_gen_reference_witness: "tone_gen rat_flops short_tone 20 = Some (tone_ref rat_flops 20 short_tone)"
  by (rule tone_gen_reference [OF short_tone_ok])

text \<open>
  How the caller cuts the stream into buffers does not matter: a buffer of \<open>m + n\<close> samples is filled with
  what two buffers of \<open>m\<close> and \<open>n\<close> samples are filled with, and the generator is left in the same state.
\<close>

theorem tone_gen_chunks:
  assumes "tone_ok s"
  shows "tone_gen fo s (m + n) =
    Option.bind (tone_gen fo s m) (\<lambda>(xs, s1). map_option (\<lambda>(ys, s2). (xs @ ys, s2)) (tone_gen fo s1 n))"
  using assms tone_ok_ref [OF assms, of fo m]
  by (simp add: tone_gen_is_ref tone_ref_add case_prod_beta Let_def)

lemma tone_gen_chunks_witness:
  "tone_gen rat_flops short_tone (5 + 7) =
    Option.bind (tone_gen rat_flops short_tone 5) (\<lambda>(xs, s1). map_option (\<lambda>(ys, s2). (xs @ ys, s2)) (tone_gen rat_flops s1 7))"
  by (rule tone_gen_chunks [OF short_tone_ok])

end
