(* ===== verification/R2MfEngine.thy ===== *)
theory R2MfEngine
  imports R2Tone
begin

text \<open>
  The MF engine of \<open>r2engine.c\<close>: the generator of R2 tones, and the detector with its Goertzel filters,
  its blocks of 133 samples and the decision at the end of a block.  The detector is shown to be the
  machine that takes one sample at a time, the decision to be the right pair of frequencies, and the
  tables of the generator and of the detector to agree on every tone in both directions.
\<close>

section \<open>The tables\<close>

text \<open>The frequencies are whole numbers of Hz, which is what the casts of their users make of them.\<close>

record mf_digit_tones_t =
  dt_f1 :: int
  dt_f2 :: int
  dt_level1 :: int
  dt_level2 :: int
  dt_on_time :: int
  dt_off_time :: int

definition mf_digit :: "int \<Rightarrow> int \<Rightarrow> mf_digit_tones_t" where
  "mf_digit a b = \<lparr>dt_f1 = a, dt_f2 = b, dt_level1 = -11, dt_level2 = -11, dt_on_time = 1, dt_off_time = 0\<rparr>"

definition mf_digit_end :: mf_digit_tones_t where
  "mf_digit_end = \<lparr>dt_f1 = 0, dt_f2 = 0, dt_level1 = 0, dt_level2 = 0, dt_on_time = 0, dt_off_time = 0\<rparr>"

definition r2_mf_fwd_tones :: "mf_digit_tones_t list" where
  "r2_mf_fwd_tones =
     [mf_digit 1380 1500, mf_digit 1380 1620, mf_digit 1500 1620, mf_digit 1380 1740, mf_digit 1500 1740,
      mf_digit 1620 1740, mf_digit 1380 1860, mf_digit 1500 1860, mf_digit 1620 1860, mf_digit 1740 1860,
      mf_digit 1380 1980, mf_digit 1500 1980, mf_digit 1620 1980, mf_digit 1740 1980, mf_digit 1860 1980,
      mf_digit_end]"

definition r2_mf_back_tones :: "mf_digit_tones_t list" where
  "r2_mf_back_tones =
     [mf_digit 1140 1020, mf_digit 1140 900, mf_digit 1020 900, mf_digit 1140 780, mf_digit 1020 780,
      mf_digit 900 780, mf_digit 1140 660, mf_digit 1020 660, mf_digit 900 660, mf_digit 780 660,
      mf_digit 1140 540, mf_digit 1020 540, mf_digit 900 540, mf_digit 780 540, mf_digit 660 540,
      mf_digit_end]"

definition r2_mf_tone_codes :: "int list" where
  "r2_mf_tone_codes = cstr ''1234567890BCDEF''"

definition r2_mf_fwd_frequencies :: "int list" where
  "r2_mf_fwd_frequencies = [1380, 1500, 1620, 1740, 1860, 1980]"

definition r2_mf_back_frequencies :: "int list" where
  "r2_mf_back_frequencies = [1140, 1020, 900, 780, 660, 540]"

definition r2_mf_positions :: "int list" where
  "r2_mf_positions = cstr ''1247B-358C--69D---0E----F''"

section \<open>The generator\<close>

record 'f mf_tx_state =
  mt_tone :: "'f tone_gen_state"
  mt_fwd :: bool
  mt_digit :: int

text \<open>The loop over a table up to the entry with no on time.\<close>

definition digit_descriptors :: "'f flops \<Rightarrow> mf_digit_tones_t list \<Rightarrow> 'f tone_gen_descriptor list" where
  "digit_descriptors fo tones =
     map (\<lambda>t. make_tone_gen_descriptor fo (dt_f1 t) (dt_level1 t) (dt_f2 t) (dt_level2 t)
            (dt_on_time t) (dt_off_time t) 0 0 (dt_off_time t = 0))
       (takeWhile (\<lambda>t. dt_on_time t \<noteq> 0) tones)"

definition zero_tone_state :: "'f flops \<Rightarrow> 'f tone_gen_state" where
  "zero_tone_state fo = \<lparr>tg_tone = replicate 4 (no_tone_descriptor fo), tg_phase = [0, 0, 0, 0], tg_duration = [0, 0, 0, 0],
     tg_repeat = False, current_section = 0, current_position = 0\<rparr>"

text \<open>The tables of descriptors are filled once, by the first initialisation; here they are constants.\<close>

definition openr2_mf_tx_init :: "'f flops \<Rightarrow> bool \<Rightarrow> 'f mf_tx_state" where
  "openr2_mf_tx_init fo fwd = \<lparr>mt_tone = zero_tone_state fo, mt_fwd = fwd, mt_digit = 0\<rparr>"

text \<open>\<open>strchr\<close> as an index, the terminating 0 apart.\<close>

fun strchr :: "int list \<Rightarrow> int \<Rightarrow> nat option" where
  "strchr [] c = None"
| "strchr (x # xs) c = (if x = c then Some 0 else map_option Suc (strchr xs c))"

definition openr2_mf_tx_put :: "'f flops \<Rightarrow> 'f mf_tx_state \<Rightarrow> int \<Rightarrow> 'f mf_tx_state" where
  "openr2_mf_tx_put fo s digit =
     (case (if digit \<noteq> 0 then strchr r2_mf_tone_codes digit else None) of
        None \<Rightarrow> s\<lparr>mt_digit := 0\<rparr>
      | Some i \<Rightarrow> s\<lparr>mt_tone := tone_gen_init (digit_descriptors fo (if mt_fwd s then r2_mf_fwd_tones else r2_mf_back_tones) ! i),
                   mt_digit := digit\<rparr>)"

definition openr2_mf_tx :: "'f flops \<Rightarrow> 'f mf_tx_state \<Rightarrow> nat \<Rightarrow> (int list \<times> 'f mf_tx_state) option" where
  "openr2_mf_tx fo s samples =
     (if mt_digit s = 0 then Some (replicate samples 0, s)
      else map_option (\<lambda>(amp, t). (amp, s\<lparr>mt_tone := t\<rparr>)) (tone_gen fo (mt_tone s) samples))"

section \<open>Goertzel filters\<close>

record 'f goertzel_state =
  g_v2 :: 'f
  g_v3 :: 'f
  g_fac :: 'f
  g_samples :: int
  g_current_sample :: int

definition make_goertzel_fac :: "'f flops \<Rightarrow> int \<Rightarrow> 'f" where
  "make_goertzel_fac fo freq =
     f_mul fo (f_lit fo 2 0) (f_cos_turn fo (f_div fo (f_lit fo freq 0) (f_of_int fo SAMPLE_RATE)))"

definition goertzel_init :: "'f flops \<Rightarrow> int \<Rightarrow> int \<Rightarrow> 'f goertzel_state" where
  "goertzel_init fo freq samples =
     \<lparr>g_v2 = f_lit fo 0 1, g_v3 = f_lit fo 0 1, g_fac = make_goertzel_fac fo freq, g_samples = samples, g_current_sample = 0\<rparr>"

definition goertzel_reset :: "'f flops \<Rightarrow> 'f goertzel_state \<Rightarrow> 'f goertzel_state" where
  "goertzel_reset fo g = g\<lparr>g_v2 := f_lit fo 0 1, g_v3 := f_lit fo 0 1, g_current_sample := 0\<rparr>"

text \<open>One sample through the filter, the unrolled code of the detectors.\<close>

definition goertzel_step :: "'f flops \<Rightarrow> 'f \<Rightarrow> 'f goertzel_state \<Rightarrow> 'f goertzel_state" where
  "goertzel_step fo famp g =
     (let v1 = g_v2 g; v2 = g_v3 g in
      g\<lparr>g_v2 := v2, g_v3 := f_add fo (f_sub fo (f_mul fo (g_fac g) v2) v1) famp\<rparr>)"

definition goertzel_result :: "'f flops \<Rightarrow> 'f goertzel_state \<Rightarrow> 'f" where
  "goertzel_result fo g =
     (let v1 = g_v2 g; v2 = g_v3 g; v3 = f_sub fo (f_mul fo (g_fac g) v2) v1 in
      f_sub fo (f_add fo (f_mul fo v3 v3) (f_mul fo v2 v2)) (f_mul fo (f_mul fo v2 v3) (g_fac g)))"

section \<open>The decision\<close>

text \<open>The two highest energies: the loop from index 2 on.\<close>

fun two_best_loop :: "'f flops \<Rightarrow> 'f list \<Rightarrow> nat list \<Rightarrow> nat \<times> nat \<Rightarrow> nat \<times> nat" where
  "two_best_loop fo energy [] (best, second) = (best, second)"
| "two_best_loop fo energy (i # is) (best, second) =
     two_best_loop fo energy is
       (if f_le fo (energy ! best) (energy ! i) then (i, best)
        else if f_le fo (energy ! second) (energy ! i) then (best, i)
        else (best, second))"

definition two_best :: "'f flops \<Rightarrow> 'f list \<Rightarrow> nat \<times> nat" where
  "two_best fo energy =
     two_best_loop fo energy [2, 3, 4, 5] (if f_lt fo (energy ! 1) (energy ! 0) then (0, 1) else (1, 0))"

abbreviation (input) "R2_MF_THRESHOLD fo \<equiv> f_lit fo 500000000 0"
abbreviation (input) "R2_MF_TWIST fo \<equiv> f_lit fo 5 0"
abbreviation (input) "R2_MF_RELATIVE_PEAK fo \<equiv> f_lit fo 126 1"
abbreviation (input) "R2_MF_SAMPLES_PER_BLOCK \<equiv> 133 :: int"

text \<open>The level, twist and relative peak tests.\<close>

definition mf_hit :: "'f flops \<Rightarrow> 'f list \<Rightarrow> nat \<Rightarrow> nat \<Rightarrow> bool" where
  "mf_hit fo energy best second \<longleftrightarrow>
     f_le fo (R2_MF_THRESHOLD fo) (energy ! best) \<and> f_le fo (R2_MF_THRESHOLD fo) (energy ! second) \<and>
     f_lt fo (energy ! best) (f_mul fo (energy ! second) (R2_MF_TWIST fo)) \<and>
     f_lt fo (energy ! second) (f_mul fo (energy ! best) (R2_MF_TWIST fo)) \<and>
     list_all (\<lambda>i. i \<noteq> best \<and> i \<noteq> second \<longrightarrow>
       \<not> f_le fo (energy ! second) (f_mul fo (energy ! i) (R2_MF_RELATIVE_PEAK fo))) [0, 1, 2, 3, 4, 5]"

definition mf_position :: "nat \<Rightarrow> nat \<Rightarrow> int" where
  "mf_position best second =
     (let (a, b) = (if second < best then (second, best) else (best, second)) in r2_mf_positions ! (a * 5 + b - 1))"

definition mf_decide :: "'f flops \<Rightarrow> 'f list \<Rightarrow> int" where
  "mf_decide fo energy =
     (let (best, second) = two_best fo energy in if mf_hit fo energy best second then mf_position best second else 0)"

section \<open>The detector\<close>

record 'f mf_rx_state =
  mr_fwd :: bool
  mr_out :: "'f goertzel_state list"
  mr_current_sample :: int
  mr_current_digit :: int

definition openr2_mf_rx_init :: "'f flops \<Rightarrow> bool \<Rightarrow> 'f mf_rx_state" where
  "openr2_mf_rx_init fo fwd =
     \<lparr>mr_fwd = fwd,
      mr_out = map (\<lambda>f. goertzel_init fo f R2_MF_SAMPLES_PER_BLOCK)
        (if fwd then r2_mf_fwd_frequencies else r2_mf_back_frequencies),
      mr_current_sample = 0, mr_current_digit = 0\<rparr>"

text \<open>The samples of a block through the filters; its end, where the filters start again.\<close>

definition filter_samples :: "'f flops \<Rightarrow> int list \<Rightarrow> 'f goertzel_state list \<Rightarrow> 'f goertzel_state list" where
  "filter_samples fo amp gs = foldl (\<lambda>gs x. map (goertzel_step fo (f_of_int fo x)) gs) gs amp"

definition mf_block_end :: "'f flops \<Rightarrow> 'f mf_rx_state \<Rightarrow> 'f mf_rx_state" where
  "mf_block_end fo s =
     s\<lparr>mr_current_digit := mf_decide fo (map (goertzel_result fo) (mr_out s)),
       mr_out := map (goertzel_reset fo) (mr_out s), mr_current_sample := 0\<rparr>"

text \<open>
  A round of the loop on the samples left.  \<open>limit - sample\<close> is at most 0 for a sample count past the
  block, which never happens; the loop then takes no sample.
\<close>

definition mf_rx_round :: "'f flops \<Rightarrow> 'f mf_rx_state \<Rightarrow> int list \<Rightarrow> int \<Rightarrow> 'f mf_rx_state \<times> int list \<times> int" where
  "mf_rx_round fo s amp hit_digit =
     (let block = R2_MF_SAMPLES_PER_BLOCK - mr_current_sample s;
          n = (if int (length amp) \<ge> block then block else int (length amp));
          s1 = s\<lparr>mr_out := filter_samples fo (take (nat n) amp) (mr_out s), mr_current_sample := mr_current_sample s + n\<rparr>;
          rest = drop (nat n) amp
      in if mr_current_sample s1 < R2_MF_SAMPLES_PER_BLOCK then (s1, rest, hit_digit)
         else let s2 = mf_block_end fo s1 in (s2, rest, mr_current_digit s2))"

partial_function (option) mf_rx_loop ::
  "'f flops \<Rightarrow> 'f mf_rx_state \<Rightarrow> int list \<Rightarrow> int \<Rightarrow> (int \<times> 'f mf_rx_state) option" where
  "mf_rx_loop fo s amp hit_digit =
     (if amp = [] then Some (hit_digit, s)
      else case mf_rx_round fo s amp hit_digit of (s', amp', hit_digit') \<Rightarrow> mf_rx_loop fo s' amp' hit_digit')"

definition openr2_mf_rx :: "'f flops \<Rightarrow> 'f mf_rx_state \<Rightarrow> int list \<Rightarrow> (int \<times> 'f mf_rx_state) option" where
  "openr2_mf_rx fo s amp = mf_rx_loop fo s amp 0"

section \<open>The detector sample by sample\<close>

definition mf_rx_next :: "'f flops \<Rightarrow> int \<Rightarrow> 'f mf_rx_state \<Rightarrow> 'f mf_rx_state \<times> bool" where
  "mf_rx_next fo x s =
     (let s1 = s\<lparr>mr_out := map (goertzel_step fo (f_of_int fo x)) (mr_out s), mr_current_sample := mr_current_sample s + 1\<rparr>
      in if mr_current_sample s1 < R2_MF_SAMPLES_PER_BLOCK then (s1, False) else (mf_block_end fo s1, True))"

fun mf_rx_ref :: "'f flops \<Rightarrow> 'f mf_rx_state \<Rightarrow> int list \<Rightarrow> int \<Rightarrow> int \<times> 'f mf_rx_state" where
  "mf_rx_ref fo s [] hit_digit = (hit_digit, s)"
| "mf_rx_ref fo s (x # xs) hit_digit =
     (let (s', ended) = mf_rx_next fo x s in mf_rx_ref fo s' xs (if ended then mr_current_digit s' else hit_digit))"

definition mf_rx_ok :: "'f mf_rx_state \<Rightarrow> bool" where
  "mf_rx_ok s \<longleftrightarrow> 0 \<le> mr_current_sample s \<and> mr_current_sample s < R2_MF_SAMPLES_PER_BLOCK"

lemma mf_block_end_fields [simp]:
  "mr_current_sample (mf_block_end fo s) = 0" "mf_rx_ok (mf_block_end fo s)"
  by (simp_all add: mf_block_end_def mf_rx_ok_def)

lemma filter_samples_simps [simp]:
  "filter_samples fo [] gs = gs"
  "filter_samples fo (x # xs) gs = filter_samples fo xs (map (goertzel_step fo (f_of_int fo x)) gs)"
  by (simp_all add: filter_samples_def)

text \<open>The samples up to the end of a block.\<close>

lemma block_run:
  assumes "xs \<noteq> []" "mr_current_sample s + int (length xs) \<le> R2_MF_SAMPLES_PER_BLOCK"
  shows "mf_rx_ref fo s xs h =
    (let s1 = s\<lparr>mr_out := filter_samples fo xs (mr_out s), mr_current_sample := mr_current_sample s + int (length xs)\<rparr> in
     if mr_current_sample s1 < R2_MF_SAMPLES_PER_BLOCK then (h, s1)
     else (mr_current_digit (mf_block_end fo s1), mf_block_end fo s1))"
  using assms
proof (induction xs arbitrary: s)
  case (Cons x xs)
  show ?case
  proof (cases "xs = []")
    case True
    then show ?thesis by (simp add: mf_rx_next_def Let_def)
  next
    case False
    then have "0 < length xs" by simp
    then have "mr_current_sample s + 1 < 133" using Cons.prems(2) by (simp del: length_greater_0_conv)
    then have n: "mf_rx_next fo x s =
        (s\<lparr>mr_out := map (goertzel_step fo (f_of_int fo x)) (mr_out s), mr_current_sample := mr_current_sample s + 1\<rparr>, False)"
      by (simp add: mf_rx_next_def Let_def)
    show ?thesis using Cons.prems False
      by (simp add: n Cons.IH [OF False] Let_def algebra_simps)
  qed
qed simp

lemma mf_rx_ref_append:
  "mf_rx_ref fo s (xs @ ys) h = (let (h', s') = mf_rx_ref fo s xs h in mf_rx_ref fo s' ys h')"
  by (induction xs arbitrary: s h) (simp_all add: case_prod_beta Let_def)

lemma mf_rx_ok_ref: "mf_rx_ok s \<Longrightarrow> mf_rx_ok (snd (mf_rx_ref fo s xs h))"
proof (induction xs arbitrary: s h)
  case (Cons x xs)
  then have "mf_rx_ok (fst (mf_rx_next fo x s))"
    by (simp add: mf_rx_next_def Let_def) (simp add: mf_rx_ok_def)
  then show ?case using Cons.IH by (simp add: case_prod_beta Let_def)
qed simp

lemma mf_rx_loop_ref: "mf_rx_ok s \<Longrightarrow> mf_rx_loop fo s amp h = Some (mf_rx_ref fo s amp h)"
proof (induction "length amp" arbitrary: s amp h rule: less_induct)
  case less
  show ?case
  proof (cases "amp = []")
    case True
    then show ?thesis by (subst mf_rx_loop.simps) simp
  next
    case False
    have "0 < 133 - mr_current_sample s" "0 < int (length amp)" using less.prems False by (simp_all add: mf_rx_ok_def)
    then obtain n where n: "0 < n" "n \<le> length amp" "int n = min (133 - mr_current_sample s) (int (length amp))"
      by (intro that [of "nat (min (133 - mr_current_sample s) (int (length amp)))"]) linarith+
    let ?xs = "take n amp"
    have xs: "?xs \<noteq> []" "length ?xs = n" "mr_current_sample s + int (length ?xs) \<le> R2_MF_SAMPLES_PER_BLOCK"
      using n by auto
    have m: "(if int (length amp) \<ge> R2_MF_SAMPLES_PER_BLOCK - mr_current_sample s then R2_MF_SAMPLES_PER_BLOCK - mr_current_sample s
        else int (length amp)) = int n"
      using n(3) by (simp add: min_def)
    have r: "mf_rx_round fo s amp h = (snd (mf_rx_ref fo s ?xs h), drop n amp, fst (mf_rx_ref fo s ?xs h))"
      unfolding mf_rx_round_def Let_def m nat_int block_run [OF xs(1,3), of fo h, unfolded xs(2) Let_def] by simp
    have "mf_rx_loop fo s amp h = mf_rx_loop fo (snd (mf_rx_ref fo s ?xs h)) (drop n amp) (fst (mf_rx_ref fo s ?xs h))"
      using False r by (subst mf_rx_loop.simps) simp
    also have "\<dots> = Some (mf_rx_ref fo (snd (mf_rx_ref fo s ?xs h)) (drop n amp) (fst (mf_rx_ref fo s ?xs h)))"
      by (rule less.hyps) (use n False less.prems mf_rx_ok_ref in auto)
    also have "mf_rx_ref fo (snd (mf_rx_ref fo s ?xs h)) (drop n amp) (fst (mf_rx_ref fo s ?xs h)) = mf_rx_ref fo s amp h"
      using mf_rx_ref_append [of fo s ?xs "drop n amp" h] by (simp add: case_prod_beta Let_def)
    finally show ?thesis .
  qed
qed

text \<open>A whole block in one buffer: the digit returned is the one the detector holds.\<close>

lemma mf_rx_ref_digit:
  "mf_rx_ok s \<Longrightarrow> h = mr_current_digit s \<or> 133 \<le> mr_current_sample s + int (length xs) \<Longrightarrow>
     fst (mf_rx_ref fo s xs h) = mr_current_digit (snd (mf_rx_ref fo s xs h))"
proof (induction xs arbitrary: s h)
  case (Cons x xs)
  show ?case
  proof (cases "mr_current_sample s + 1 < 133")
    case True
    let ?t = "s\<lparr>mr_out := map (goertzel_step fo (f_of_int fo x)) (mr_out s), mr_current_sample := mr_current_sample s + 1\<rparr>"
    have "mf_rx_next fo x s = (?t, False)" using True by (simp add: mf_rx_next_def Let_def)
    moreover have "mf_rx_ok ?t" using True Cons.prems(1) by (simp add: mf_rx_ok_def)
    ultimately show ?thesis using Cons.IH [of ?t h] Cons.prems(2) by (auto simp: algebra_simps)
  next
    case False
    then show ?thesis using Cons.IH [of "fst (mf_rx_next fo x s)" "mr_current_digit (fst (mf_rx_next fo x s))"]
      by (simp add: mf_rx_next_def Let_def)
  qed
qed (auto simp: mf_rx_ok_def)

section \<open>The decision is right\<close>

lemma two_best_loop_distinct:
  "a \<noteq> b \<Longrightarrow> a < 6 \<Longrightarrow> b < 6 \<Longrightarrow> \<forall>i \<in> set is. i < 6 \<and> i \<noteq> a \<and> i \<noteq> b \<Longrightarrow> distinct is \<Longrightarrow>
   two_best_loop fo e is (a, b) = (x, y) \<Longrightarrow> x \<noteq> y \<and> x < 6 \<and> y < 6"
proof (induction "is" arbitrary: a b)
  case (Cons i "is")
  have d: "\<forall>j \<in> set is. j < 6 \<and> j \<noteq> i \<and> j \<noteq> a \<and> j \<noteq> b" using Cons.prems by auto
  show ?case
  proof (cases "f_le fo (e ! a) (e ! i)")
    case True
    show ?thesis by (rule Cons.IH [of i a]) (use True Cons.prems d in auto)
  next
    case False
    show ?thesis
    proof (cases "f_le fo (e ! b) (e ! i)")
      case True
      show ?thesis by (rule Cons.IH [of a i]) (use True False Cons.prems d in auto)
    next
      case nb: False
      show ?thesis by (rule Cons.IH [of a b]) (use nb False Cons.prems d in auto)
    qed
  qed
qed simp

lemma two_best_distinct: "two_best fo e = (x, y) \<Longrightarrow> x \<noteq> y \<and> x < 6 \<and> y < 6"
  unfolding two_best_def
  by (cases "f_lt fo (e ! 1) (e ! 0)"; simp only: if_True if_False; erule two_best_loop_distinct [rotated 5]; simp)

lemma pairs_have_codes:
  "list_all (\<lambda>x. list_all (\<lambda>y. x \<noteq> y \<longrightarrow> mf_position x y \<in> set r2_mf_tone_codes) [0, 1, 2, 3, 4, 5]) [0, 1, 2, 3, 4, 5]"
  by (simp add: mf_position_def r2_mf_positions_def r2_mf_tone_codes_def cstr_def)

lemma mf_position_code:
  assumes "x \<noteq> y" "x < 6" "y < 6"
  shows "mf_position x y \<in> set r2_mf_tone_codes"
proof -
  have s: "k \<in> set [0, 1, 2, 3, 4, 5 :: nat]" if "k < 6" for k :: nat using that by auto
  show ?thesis
    using bspec [OF bspec [OF pairs_have_codes [unfolded list.pred_set] s [OF assms(2)]] s [OF assms(3)]] assms(1) by blast
qed

text \<open>Comparisons as on numbers.\<close>

definition ordered_floats :: "'f flops \<Rightarrow> bool" where
  "ordered_floats fo \<longleftrightarrow>
     (\<forall>x y. f_le fo x y \<or> f_le fo y x) \<and> (\<forall>x y z. f_le fo x y \<longrightarrow> f_le fo y z \<longrightarrow> f_le fo x z) \<and>
     (\<forall>x y. f_lt fo x y \<longleftrightarrow> \<not> f_le fo y x)"

lemma two_best_loop_max:
  assumes "ordered_floats fo"
  shows "f_le fo (e ! b) (e ! a) \<Longrightarrow> two_best_loop fo e is (a, b) = (x, y) \<Longrightarrow>
    (\<forall>i \<in> insert a (insert b (set is)). f_le fo (e ! i) (e ! x)) \<and>
    (\<forall>i \<in> insert a (insert b (set is)). i \<noteq> x \<longrightarrow> f_le fo (e ! i) (e ! y)) \<and> f_le fo (e ! b) (e ! y)"
proof (induction "is" arbitrary: a b)
  case Nil
  then show ?case using assms by (auto simp: ordered_floats_def)
next
  case (Cons i "is")
  have tot: "f_le fo p q \<or> f_le fo q p" for p q using assms by (auto simp: ordered_floats_def)
  have tr: "f_le fo p q \<Longrightarrow> f_le fo q r \<Longrightarrow> f_le fo p r" for p q r using assms unfolding ordered_floats_def by blast
  show ?case
  proof (cases "f_le fo (e ! a) (e ! i)")
    case True
    then have "two_best_loop fo e is (i, a) = (x, y)" using Cons.prems by simp
    note ih = Cons.IH [OF True this]
    have "f_le fo (e ! b) (e ! x)" "f_le fo (e ! b) (e ! y)" using ih Cons.prems(1) tr by blast+
    then show ?thesis using ih by simp
  next
    case False
    then have ia: "f_le fo (e ! i) (e ! a)" using tot by blast
    show ?thesis
    proof (cases "f_le fo (e ! b) (e ! i)")
      case True
      then have "two_best_loop fo e is (a, i) = (x, y)" using Cons.prems False by simp
      note ih = Cons.IH [OF ia this]
      have "f_le fo (e ! b) (e ! x)" "f_le fo (e ! b) (e ! y)" using ih True Cons.prems(1) tr by blast+
      then show ?thesis using ih by simp
    next
      case nb: False
      then have ib: "f_le fo (e ! i) (e ! b)" using tot by blast
      have "two_best_loop fo e is (a, b) = (x, y)" using Cons.prems False nb by simp
      note ih = Cons.IH [OF Cons.prems(1) this]
      have "f_le fo (e ! i) (e ! x)" "f_le fo (e ! i) (e ! y)" using ih ib ia tr by blast+
      then show ?thesis using ih by simp
    qed
  qed
qed

lemma two_best_max:
  assumes "ordered_floats fo" "two_best fo e = (x, y)" "i < 6"
  shows "f_le fo (e ! i) (e ! x)" "i \<noteq> x \<Longrightarrow> f_le fo (e ! i) (e ! y)"
proof -
  have "i \<in> insert 0 (insert 1 (set [2, 3, 4, 5]))" using assms(3) by auto
  moreover have "f_lt fo p q \<Longrightarrow> f_le fo p q" "\<not> f_lt fo p q \<Longrightarrow> f_le fo q p" for p q
    using assms(1) by (auto simp: ordered_floats_def)
  ultimately have "f_le fo (e ! i) (e ! x) \<and> (i \<noteq> x \<longrightarrow> f_le fo (e ! i) (e ! y))"
    using two_best_loop_max [OF assms(1), of e 1 0 "[2, 3, 4, 5]" x y] two_best_loop_max [OF assms(1), of e 0 1 "[2, 3, 4, 5]" x y] assms(2)
    by (cases "f_lt fo (e ! 1) (e ! 0)") (auto simp: two_best_def simp del: two_best_loop.simps)
  then show "f_le fo (e ! i) (e ! x)" "i \<noteq> x \<Longrightarrow> f_le fo (e ! i) (e ! y)" by auto
qed

lemma mf_tables_ok:
  "list_all (\<lambda>t. 0 \<le> dt_on_time t * 8000 sdiv 1000) (r2_mf_fwd_tones @ r2_mf_back_tones)"
  by code_simp

lemma strchr_bound: "strchr xs c = Some i \<Longrightarrow> i < length xs \<and> xs ! i = c"
  by (induction xs arbitrary: i) (auto split: if_splits)

text \<open>Every digit's tone is repeated and starts with a section of 8 samples.\<close>

lemma digit_descriptor:
  assumes "i < 15"
  shows "\<exists>ts. digit_descriptors fo (if fwd then r2_mf_fwd_tones else r2_mf_back_tones) ! i =
    \<lparr>td_tone = ts, td_duration = [8, 0, 0, 0], td_repeat = True\<rparr>"
proof -
  have one: "\<exists>ts. make_tone_gen_descriptor fo (dt_f1 t) (dt_level1 t) (dt_f2 t) (dt_level2 t) (dt_on_time t) (dt_off_time t) 0 0
      (dt_off_time t = 0) = \<lparr>td_tone = ts, td_duration = [8, 0, 0, 0], td_repeat = True\<rparr>"
    if "dt_on_time t = 1" "dt_off_time t = 0" for t
    using that by (simp add: make_tone_gen_descriptor_def Let_def)
  let ?tab = "takeWhile (\<lambda>t. dt_on_time t \<noteq> 0) (if fwd then r2_mf_fwd_tones else r2_mf_back_tones)"
  have len: "length ?tab = 15" "list_all (\<lambda>t. dt_on_time t = 1 \<and> dt_off_time t = 0) ?tab"
    by (simp_all add: r2_mf_fwd_tones_def r2_mf_back_tones_def mf_digit_def mf_digit_end_def)
  then have "dt_on_time (?tab ! i) = 1" "dt_off_time (?tab ! i) = 0" using assms by (simp_all add: list_all_length)
  then show ?thesis using one [of "?tab ! i"] assms len(1) by (simp add: digit_descriptors_def)
qed

lemma tone_ok_steady: "tone_ok (tone_gen_init \<lparr>td_tone = ts, td_duration = [8, 0, 0, 0], td_repeat = True\<rparr>)"
  by (simp add: tone_ok_def tone_gen_init_def)

text \<open>A repeated tone never runs out.\<close>

lemma tone_ref_repeat:
  "tone_ok s \<Longrightarrow> tg_repeat s \<Longrightarrow> 0 \<le> current_section s \<Longrightarrow>
   length (fst (tone_ref fo n s)) = n \<and> 0 \<le> current_section (snd (tone_ref fo n s)) \<and> tg_repeat (snd (tone_ref fo n s))"
proof (induction n arbitrary: s)
  case (Suc n)
  have "0 \<le> current_section (snd (tone_next fo s))"
    using Suc.prems by (simp add: tone_next_def case_prod_beta Let_def next_section_def)
  then show ?case using Suc.prems Suc.IH [of "snd (tone_next fo s)"] tone_ok_next [of s fo]
    by (simp add: case_prod_beta Let_def)
qed simp

section \<open>Properties\<close>

text \<open>
  The tables of the generator and of the detector agree: for every R2 tone, forward and backward, the two
  frequencies the generator sends for a code are two of the detector's, and the detector's table gives
  that pair the same code.
\<close>

theorem mf_tables_agree:
  "list_all (\<lambda>(tones, freqs).
     list_all (\<lambda>(t, code).
       case (strchr freqs (dt_f1 t), strchr freqs (dt_f2 t)) of
         (Some a, Some b) \<Rightarrow> a \<noteq> b \<and> mf_position a b = code
       | _ \<Rightarrow> False)
     (zip (takeWhile (\<lambda>t. dt_on_time t \<noteq> 0) tones) r2_mf_tone_codes))
   [(r2_mf_fwd_tones, r2_mf_fwd_frequencies), (r2_mf_back_tones, r2_mf_back_frequencies)]"
  by code_simp

text \<open>
  Whatever the arithmetic does, also on overflow and invalid operations, the detector answers with silence
  or one of the fifteen tone codes: it never reads outside its table nor one of the unused places in it.
\<close>

theorem mf_decide_code:
  "mf_decide fo energy = 0 \<or> mf_decide fo energy \<in> set r2_mf_tone_codes"
  using two_best_distinct [of fo energy] mf_position_code
  by (auto simp: mf_decide_def case_prod_beta Let_def prod_eq_iff)


lemma rat_ordered: "ordered_floats rat_flops"
  by (auto simp: ordered_floats_def rat_flops_def)

definition loud_pair :: "rat list" where
  "loud_pair = [1000000000, 0, 900000000, 0, 0, 0]"


text \<open>
  The detector always returns, and its loop over blocks is the machine that takes one sample at a time.
\<close>

theorem mf_rx_reference:
  assumes "mf_rx_ok s"
  shows "openr2_mf_rx fo s amp = Some (mf_rx_ref fo s amp 0)"
  using assms by (simp add: openr2_mf_rx_def mf_rx_loop_ref)

lemma mf_rx_reference_witness:
  "openr2_mf_rx rat_flops (openr2_mf_rx_init rat_flops True) [1, 2, 3] =
     Some (mf_rx_ref rat_flops (openr2_mf_rx_init rat_flops True) [1, 2, 3] 0)"
  by (rule mf_rx_reference) (simp add: mf_rx_ok_def openr2_mf_rx_init_def)

text \<open>
  A buffer that completes a block, as the 160 samples the library reads always do, returns the digit the
  detector is in, so that the library sees each change of the tone.
\<close>

theorem mf_rx_returns_digit:
  assumes "mf_rx_ok s" "133 \<le> mr_current_sample s + int (length amp)"
  shows "\<exists>s'. openr2_mf_rx fo s amp = Some (mr_current_digit s', s')"
  using assms mf_rx_ref_digit [of s 0 amp fo]
  by (simp add: openr2_mf_rx_def mf_rx_loop_ref) (metis prod.collapse)

lemma mf_rx_returns_digit_witness:
  "\<exists>s'. openr2_mf_rx rat_flops (openr2_mf_rx_init rat_flops False) (replicate 160 5) = Some (mr_current_digit s', s')"
  by (rule mf_rx_returns_digit) (simp_all add: mf_rx_ok_def openr2_mf_rx_init_def)

text \<open>
  Once a tone code is put, the MF generator fills every buffer completely, for as long as it is asked:
  an R2 tone is compelled, it lasts until it is taken back.
\<close>

theorem mf_tx_endless:
  assumes "code \<in> set r2_mf_tone_codes"
  shows "\<exists>xs s1 ys s2. openr2_mf_tx fo (openr2_mf_tx_put fo (openr2_mf_tx_init fo fwd) code) m = Some (xs, s1) \<and> length xs = m \<and>
    openr2_mf_tx fo s1 n = Some (ys, s2) \<and> length ys = n"
proof -
  have c: "code \<noteq> 0" "length r2_mf_tone_codes = 15" using assms by (auto simp: r2_mf_tone_codes_def cstr_def)
  obtain i where i: "strchr r2_mf_tone_codes code = Some i"
    using assms by (auto simp: r2_mf_tone_codes_def cstr_def)
  obtain ts where t: "digit_descriptors fo (if fwd then r2_mf_fwd_tones else r2_mf_back_tones) ! i =
      \<lparr>td_tone = ts, td_duration = [8, 0, 0, 0], td_repeat = True\<rparr>"
    using digit_descriptor [of i fo fwd] strchr_bound [OF i] c by auto
  define g where "g = tone_gen_init \<lparr>td_tone = ts, td_duration = [8, 0, 0, 0], td_repeat = True\<rparr>"
  have g: "tone_ok g" "tg_repeat g" "0 \<le> current_section g" by (simp_all add: g_def tone_ok_steady) (simp_all add: tone_gen_init_def)
  have put: "openr2_mf_tx_put fo (openr2_mf_tx_init fo fwd) code = \<lparr>mt_tone = g, mt_fwd = fwd, mt_digit = code\<rparr>"
    using i t c by (simp add: openr2_mf_tx_put_def openr2_mf_tx_init_def g_def)
  note r1 = tone_ref_repeat [OF g, of fo m] and ok1 = tone_ok_ref [OF g(1), of fo m]
  note r2 = tone_ref_repeat [OF ok1, of fo n]
  show ?thesis unfolding put openr2_mf_tx_def using r1 ok1 r2 c g
    by (simp add: tone_gen_is_ref case_prod_beta)
qed

lemma mf_tx_endless_witness:
  "\<exists>xs s1 ys s2. openr2_mf_tx rat_flops (openr2_mf_tx_put rat_flops (openr2_mf_tx_init rat_flops True) 53) 160 = Some (xs, s1) \<and>
    length xs = 160 \<and> openr2_mf_tx rat_flops s1 160 = Some (ys, s2) \<and> length ys = 160"
  by (rule mf_tx_endless) (simp add: r2_mf_tone_codes_def cstr_def)

end
