(* ===== verification/R2Country.thy ===== *)
theory R2Country
  imports R2MfSpec R2MfEngine
begin

text \<open>
  The protocol variants at work: what every configuration guarantees to the rest of the library, and the
  variants whose settings clash with the code that uses them.
\<close>

section \<open>What a configuration guarantees\<close>

text \<open>
  C24: Configuring a context fails exactly for the unknown variant and then changes nothing.  Otherwise the limit
  of the number dialled is the one asked for or 79, that of the caller's number too, except in China,
  where it is always 80, the size of the array without room for the end mark; there is no lower bound: a
  negative limit is kept.  The table of line signals is the standard one, the R2 bits are A and B, and
  the other bits of the line do not overlap them.
\<close>

theorem variant_config:
  "case openr2_proto_configure_context c v a d of
     (rc, c') \<Rightarrow> rc = (if v = OR2_VAR_UNKNOWN then -1 else 0) \<and>
       (if v = OR2_VAR_UNKNOWN then c' = c
        else max_dnis c' = (if 80 \<le> d then 79 else d) \<and>
          max_ani c' = (if v = OR2_VAR_CHINA then 80 else if 80 \<le> a then 79 else a) \<and>
          cas_signals c' = [8, 12, 0, 12, 12, 0, 8, 4] \<and> cas_r2_bits c' = 12 \<and>
          cas_nonr2_bits c' = (if v = OR2_VAR_CHINA then 3 else 1) \<and> cas_r2_bits c' AND cas_nonr2_bits c' = 0)"
  by (cases v)
    (simp_all add: openr2_proto_configure_context_def r2variants_def r2config_argentina_def r2config_brazil_def r2config_china_def
      r2config_itu_def r2config_mexico_def r2config_venezuela_def r2config_colombia_def configure_defaults_def clamp_def
      standard_cas_signals_def)

text \<open>The tones of a configuration that the library may send.\<close>

definition ga_list :: "ga_tones \<Rightarrow> int list" where
  "ga_list ga = [ga_request_next_dnis_digit ga, ga_request_dnis_minus_1 ga, ga_request_dnis_minus_2 ga, ga_request_dnis_minus_3 ga,
     ga_request_all_dnis_again ga, ga_request_next_ani_digit ga, ga_request_category ga, ga_request_category_and_change_to_gc ga,
     ga_request_change_to_g2 ga, ga_address_complete_charge_setup ga, ga_network_congestion ga]"

definition gb_list :: "gb_tones \<Rightarrow> int list" where
  "gb_list gb = [gb_accept_call_with_charge gb, gb_accept_call_no_charge gb, gb_busy_number gb, gb_network_congestion gb,
     gb_unallocated_number gb, gb_line_out_of_order gb, gb_special_info_tone gb, gb_number_changed gb]"

definition gc_list :: "gc_tones \<Rightarrow> int list" where
  "gc_list gc = [gc_request_next_ani_digit gc, gc_request_change_to_g2 gc, gc_request_next_dnis_digit_and_change_to_ga gc,
     gc_network_congestion gc]"

definition g1_list :: "g1_tones \<Rightarrow> int list" where
  "g1_list g1 = [g1_no_more_dnis_available g1, g1_no_more_ani_available g1, g1_caller_ani_is_restricted g1]"

definition g2_list :: "g2_tones \<Rightarrow> int list" where
  "g2_list g2 = [g2_national_subscriber g2, g2_national_priority_subscriber g2, g2_international_subscriber g2,
     g2_international_priority_subscriber g2, g2_collect_call g2, g2_test_equipment g2, g2_pay_phone g2]"

definition configured_tones :: "r2ctx \<Rightarrow> int list" where
  "configured_tones c = ga_list (mf_ga_tones c) @ gb_list (mf_gb_tones c) @ gc_list (mf_gc_tones c) @ g1_list (mf_g1_tones c) @
     g2_list (mf_g2_tones c)"

definition tones_generated :: "r2ctx \<Rightarrow> bool" where
  "tones_generated c \<longleftrightarrow> list_all (\<lambda>t. t \<in> set (0 # r2_mf_tone_codes)) (configured_tones c)"

lemmas tone_lists = ga_list_def gb_list_def gc_list_def g1_list_def g2_list_def

lemma tones_generated_parts:
  "tones_generated c \<longleftrightarrow> set (ga_list (mf_ga_tones c)) \<subseteq> set (0 # r2_mf_tone_codes) \<and> set (gb_list (mf_gb_tones c)) \<subseteq> set (0 # r2_mf_tone_codes) \<and>
     set (gc_list (mf_gc_tones c)) \<subseteq> set (0 # r2_mf_tone_codes) \<and> set (g1_list (mf_g1_tones c)) \<subseteq> set (0 # r2_mf_tone_codes) \<and>
     set (g2_list (mf_g2_tones c)) \<subseteq> set (0 # r2_mf_tone_codes)"
  unfolding tones_generated_def configured_tones_def list_all_iff set_append by blast

lemma tone_codes: "r2_mf_tone_codes = [49, 50, 51, 52, 53, 54, 55, 56, 57, 48, 66, 67, 68, 69, 70]"
  by code_simp

lemma default_tones:
  "mf_ga_tones (configure_defaults c a d) = itu_ga_tones" "mf_gb_tones (configure_defaults c a d) = itu_gb_tones"
  "mf_gc_tones (configure_defaults c a d) = itu_gc_tones" "mf_g1_tones (configure_defaults c a d) = itu_g1_tones"
  "mf_g2_tones (configure_defaults c a d) = itu_g2_tones"
  by (simp_all add: configure_defaults_def)

lemmas itu_tones = itu_ga_tones_def itu_gb_tones_def itu_gc_tones_def itu_g1_tones_def itu_g2_tones_def

lemma country_tones_generated:
  "tones_generated (r2config_argentina (configure_defaults c a d))" "tones_generated (r2config_brazil (configure_defaults c a d))"
  "tones_generated (r2config_china (configure_defaults c a d))" "tones_generated (r2config_itu (configure_defaults c a d))"
  "tones_generated (r2config_mexico (configure_defaults c a d))" "tones_generated (r2config_venezuela (configure_defaults c a d))"
  "tones_generated (r2config_colombia (configure_defaults c a d))"
  by (simp_all add: tones_generated_parts tone_codes r2config_argentina_def r2config_brazil_def r2config_china_def r2config_itu_def
      r2config_mexico_def r2config_venezuela_def r2config_colombia_def default_tones itu_tones tone_lists)

text \<open>
  Every tone a variant configures is one the MF generator has, or the mark of a tone the variant does not
  use: no variant makes the generator fall silent in the place of a signal.
\<close>

theorem variant_tones_generated:
  "list_all (\<lambda>e. tones_generated (snd (openr2_proto_configure_context c (var_id e) a d))) r2variants"
  by (simp add: openr2_proto_configure_context_def r2variants_def country_tones_generated)

section \<open>Colombia: busy is accept\<close>

lemma colombia_tones:
  "gb_busy_number (mf_gb_tones (snd (openr2_proto_configure_context c OR2_VAR_COLOMBIA a d))) = 50"
  "gb_special_info_tone (mf_gb_tones (snd (openr2_proto_configure_context c OR2_VAR_COLOMBIA a d))) = 50"
  "gb_accept_call_with_charge (mf_gb_tones (snd (openr2_proto_configure_context c OR2_VAR_COLOMBIA a d))) = 49"
  "gb_accept_call_no_charge (mf_gb_tones (snd (openr2_proto_configure_context c OR2_VAR_COLOMBIA a d))) = 53"
  by (simp_all add: openr2_proto_configure_context_def r2variants_def r2config_colombia_def configure_defaults_def itu_gb_tones_def)

text \<open>
  C23: In Colombia the busy tone is the default tone of "special information", which the caller tests first: a
  caller that is told the number is busy reports the call as accepted, without charge, and waits for the
  answer.
\<close>

theorem colombia_busy_accepted:
  assumes "working_interfaces ifc" "mf_gb_tones (r2context s) = mf_gb_tones (snd (openr2_proto_configure_context c OR2_VAR_COLOMBIA a d))"
    "r2_state s = OR2_SEIZE_ACK_RXD"
  shows "trace (exec (handle_group_b_request ifc (gb_busy_number (GB_TONE s))) s) = trace s @ [Ev (OnCallAccepted OR2_CALL_NO_CHARGE)] \<and>
    r2_state (exec (handle_group_b_request ifc (gb_busy_number (GB_TONE s))) s) = OR2_ACCEPT_RXD \<and>
    call_state (exec (handle_group_b_request ifc (gb_busy_number (GB_TONE s))) s) = call_state s"
proof -
  have t: "gb_busy_number (GB_TONE s) = 50" "gb_special_info_tone (GB_TONE s) = 50" "gb_accept_call_with_charge (GB_TONE s) = 49"
      "gb_accept_call_no_charge (GB_TONE s) = 53" using assms(2) colombia_tones by simp_all
  have "wp (handle_group_b_request ifc 50) (\<lambda>_ s'. trace s' = trace s @ [Ev (OnCallAccepted OR2_CALL_NO_CHARGE)] \<and>
      r2_state s' = OR2_ACCEPT_RXD \<and> call_state s' = call_state s) s"
    unfolding handle_group_b_request_def handle_accept_tone_def using assms(3) t
    by (auto simp: get_mode_from_tone_def intro!: working_interfaces.wp_schedule [OF assms(1)]
        silent_interfaces.wp_emit working_interfaces.axioms(1) [OF assms(1)])
  then show ?thesis using t by (simp add: wp_def)
qed

lemma colombia_busy_accepted_witness:
  "r2_state (exec (handle_group_b_request sim_iface 50) ((sim_chan OR2_VAR_COLOMBIA 8)\<lparr>r2_state := OR2_SEIZE_ACK_RXD\<rparr>)) = OR2_ACCEPT_RXD"
  using colombia_busy_accepted [OF sim.working_interfaces_axioms,
      of "(sim_chan OR2_VAR_COLOMBIA 8)\<lparr>r2_state := OR2_SEIZE_ACK_RXD\<rparr>" zero_ctx 10 4]
  by (simp add: sim_chan_def fresh_chan_def sim_ctx_def colombia_tones)

section \<open>Mexico: every caller is restricted\<close>

text \<open>The tones of a channel of the variant, and a called side that has asked for the next digit of the caller.\<close>

definition mexican :: "'w chan \<Rightarrow> bool" where
  "mexican s \<longleftrightarrow> mf_g1_tones (r2context s) = mf_g1_tones (r2config_mexico (configure_defaults (r2context s) 0 0)) \<and>
     mf_gc_tones (r2context s) = mf_gc_tones (r2config_mexico (configure_defaults (r2context s) 0 0)) \<and>
     mf_ga_tones (r2context s) = mf_ga_tones (r2config_mexico (configure_defaults (r2context s) 0 0))"

definition awaits_ani :: "'w chan \<Rightarrow> bool" where
  "awaits_ani s \<longleftrightarrow> direction s = OR2_DIR_BACKWARD \<and> mf_group s = OR2_MF_GC \<and> mf_state s = OR2_MF_ANI_RQ_TXD \<and> mf_read_tone s = 0 \<and>
     mf_write_tone s = 0 \<and> call_state s = OR2_CALL_COLLECTING \<and> io_present (r2context s) \<and> mf_threshold (r2context s) = 0 \<and>
     get_ani_first (r2context s) = 0 \<and> immediate_accept (r2context s) = 0"

lemma mexican_tones:
  assumes "mexican s"
  shows "g1_no_more_ani_available (GI_TONE s) = 70" "g1_caller_ani_is_restricted (GI_TONE s) = 70"
    "gc_request_change_to_g2 (GC_TONE s) = 51" "ga_request_next_dnis_digit (GA_TONE s) = 49" "gc_request_next_ani_digit (GC_TONE s) = 49"
  using assms by (simp_all add: mexican_def r2config_mexico_def configure_defaults_def itu_g1_tones_def itu_ga_tones_def)

text \<open>After the end of the number of \<open>b\<close>: the switch to group II is asked for, \<open>tone\<close> is heard.\<close>

definition ani_ended :: "'w chan \<Rightarrow> int \<Rightarrow> unit \<Rightarrow> 'w chan \<Rightarrow> bool" where
  "ani_ended b tone u s \<longleftrightarrow> direction s = OR2_DIR_BACKWARD \<and> mf_group s = OR2_MF_GB \<and> mf_state s = OR2_MF_CHG_GII_TXD \<and>
     mf_read_tone s = tone \<and> call_state s = OR2_CALL_COLLECTING \<and> io_present (r2context s) \<and> mf_threshold (r2context s) = 0 \<and>
     caller_ani_is_restricted s = 1 \<and> ani s = ani b \<and> dnis s = dnis b \<and> r2context s = r2context b \<and> caller_category s = caller_category b"

context working_interfaces
begin

lemma mexico_ani_ends:
  assumes "mexican s" "io_present (r2context s)" "caller_ani_is_restricted s = 0" "ani_at_ptr s = Some 0" "mf_state s \<noteq> OR2_MF_ANI_END_TXD"
  shows "wp (mf_send_ani ifc) (\<lambda>_ s'. mf_write_tone s' = 70 \<and> mf_state s' = OR2_MF_ANI_END_TXD) s"
  unfolding mf_send_ani_def send_ani_end_def using assms mexican_tones [OF assms(1)]
  by (auto simp: ani_at_ptr_def intro!: wp_prepare_mf_tone)

lemma mexico_ani_ended:
  assumes "mexican s" "awaits_ani s"
  shows "wp (openr2_proto_handle_mf_tone ifc 70) (ani_ended s 70) s"
  unfolding openr2_proto_handle_mf_tone_def check_threshold_def handle_forward_mf_tone_def
    mf_receive_expected_ani_def ani_done_def request_change_to_g2_def
  using assms(2) mexican_tones(1,2) [OF assms(1)]
  by (auto simp: awaits_ani_def ani_ended_def intro!: wp_prepare_mf_tone)

lemma mexico_falls_silent:
  assumes "ani_ended b 70 () s"
  shows "wp (openr2_proto_handle_mf_tone ifc 0) (ani_ended b 0) s"
  unfolding openr2_proto_handle_mf_tone_def check_threshold_def handle_forward_mf_silence_def set_silence_def
  using assms by (auto simp: ani_ended_def intro!: wp_prepare_mf_tone)

lemma mexico_offers:
  assumes "ani_ended b 0 () s" "k \<noteq> 0"
  shows "wp (openr2_proto_handle_mf_tone ifc k) (\<lambda>_ s'. call_state s' = OR2_CALL_OFFERED \<and>
    (\<exists>tr. trace s' = tr @ [Ev (OnCallOffered (c_string (ani b)) (c_string (dnis b)) (tone2category b) 1)])) s"
proof -
  define cat where "cat = tone2category b"
  have c: "r2context t = r2context b \<Longrightarrow> caller_category t = caller_category b \<Longrightarrow> tone2category t = cat" for t :: "'a chan"
    by (simp add: tone2category_def cat_def)
  show ?thesis
    unfolding openr2_proto_handle_mf_tone_def check_threshold_def handle_forward_mf_tone_def offer_call_def cat_def [symmetric]
    using assms by (auto simp: ani_ended_def c intro!: wp_emit)
qed

end


definition mexican_caller :: "sim chan" where
  "mexican_caller = (sim_chan OR2_VAR_MEXICO 8)\<lparr>direction := OR2_DIR_FORWARD, ani := [49, 0], ani_ptr := Some 1, mf_state := OR2_MF_ANI_TXD\<rparr>"

definition mexican_called :: "sim chan" where
  "mexican_called = (sim_chan OR2_VAR_MEXICO 8)\<lparr>direction := OR2_DIR_BACKWARD, mf_group := OR2_MF_GC, mf_state := OR2_MF_ANI_RQ_TXD,
     call_state := OR2_CALL_COLLECTING, ani := [49, 0], dnis := [53, 0]\<rparr>"

lemma mexico_sim:
  "mexican (sim_chan OR2_VAR_MEXICO rx)" "io_present (sim_ctx OR2_VAR_MEXICO)" "mf_threshold (sim_ctx OR2_VAR_MEXICO) = 0"
  "get_ani_first (sim_ctx OR2_VAR_MEXICO) = 0" "immediate_accept (sim_ctx OR2_VAR_MEXICO) = 0"
  "r2context (sim_chan OR2_VAR_MEXICO rx) = sim_ctx OR2_VAR_MEXICO"
  by (simp_all add: mexican_def sim_chan_def fresh_chan_def sim_ctx_def openr2_proto_configure_context_def r2variants_def r2config_mexico_def
      configure_defaults_def zero_ctx_def)

lemma mexico_chan: "caller_ani_is_restricted (sim_chan v rx) = 0"
  by (simp add: sim_chan_def fresh_chan_def)

lemma mexican_ends: "mexican mexican_caller" "mexican mexican_called"
  using mexico_sim(1) [of 8] by (simp_all add: mexican_def mexican_caller_def mexican_called_def)


section \<open>Categories and numbers\<close>

text \<open>A called side of a variant that does not ask for the category and wants one digit.\<close>

definition skipping_chan :: "variant_t \<Rightarrow> sim chan" where
  "skipping_chan v = (sim_chan v 8)\<lparr>direction := OR2_DIR_BACKWARD, r2_state := OR2_SEIZE_ACK_TXD, call_state := OR2_CALL_COLLECTING,
     mf_group := OR2_MF_BACK_INIT, mf_state := OR2_MF_SEIZE_ACK_TXD,
     r2context := (sim_ctx v)\<lparr>get_ani_first := 0, max_dnis := 1, skip_category := 1\<rparr>\<rparr>"

text \<open>
  A category that was not received is reported as "collect call": with \<open>skip_category\<close> set, in every
  variant without a collect call tone, a call is offered as a collect call although the caller has sent
  the category "national subscriber" in group II.
\<close>

theorem skipped_category_is_collect:
  "list_all (\<lambda>v. trace (exec (mf_cycles sim_iface [53, 49]) (skipping_chan v)) =
     [Ev (OnDnisDigitReceived 53), TxTone 51, TxTone 0, Ev (OnCallOffered [] [53] OR2_CALLING_PARTY_CATEGORY_COLLECT_CALL 0)])
     [OR2_VAR_ARGENTINA, OR2_VAR_CHINA, OR2_VAR_CZECH, OR2_VAR_COLOMBIA, OR2_VAR_ECUADOR, OR2_VAR_ITU, OR2_VAR_MEXICO,
      OR2_VAR_PHILIPPINES, OR2_VAR_VENEZUELA]"
  by code_simp

definition chinese_chan :: "sim chan" where
  "chinese_chan = (sim_chan OR2_VAR_CHINA 8)\<lparr>direction := OR2_DIR_BACKWARD, r2_state := OR2_SEIZE_ACK_TXD,
     call_state := OR2_CALL_COLLECTING, mf_group := OR2_MF_BACK_INIT, mf_state := OR2_MF_SEIZE_ACK_TXD\<rparr>"

text \<open>
  The variant China is meant to collect a fixed number of ANI digits before the number dialled; the flag that
  says so is tested the wrong way round, and the second digit of the caller is already stored as dialled.
\<close>

theorem china_single_ani_digit:
  "trace (exec (mf_cycles sim_iface [53, 54]) chinese_chan) =
     [Ev (OnAniDigitReceived 53), TxTone 49, TxTone 0, Ev (OnDnisDigitReceived 54), TxTone 54, TxTone 0]"
  by code_simp

end
