(* ===== verification/R2Safety.thy ===== *)
theory R2Safety
  imports R2CasSpec R2MfEngine
begin

text \<open>
  What no user can break, how errors and glitches of the line end, and where the behaviour of the library
  differs from what its comments and its neighbours suggest: timers dispatched although they were
  cancelled, tones two meanings share, digits never asked for.
\<close>

section \<open>Bits seen by the handler\<close>

text \<open>The interfaces while the device shows the bits \<open>b\<close>.\<close>

definition seeing :: "int \<Rightarrow> 'w iface \<Rightarrow> 'w iface" where
  "seeing b ifc = ifc\<lparr>io_get_cas := return (0, b)\<rparr>"

lemma seeing_working:
  assumes "working_interfaces ifc"
  shows "working_interfaces (seeing b ifc)"
  using assms
  by (auto simp: seeing_def working_interfaces_def working_interfaces_axioms_def silent_interfaces_def silent_return)

lemma seeing_simps [simp]:
  "io_get_cas (seeing b ifc) = return (0, b)"
  by (simp add: seeing_def)

lemma wp_seen [simp]:
  "io_present (r2context s) \<Longrightarrow> wp (openr2_io_get_cas (seeing b ifc)) P s = P (0, b) (s\<lparr>cas_raw_read := b\<rparr>)"
  by (simp add: openr2_io_get_cas_def)

text \<open>A timer added with a fresh id and cancelled again leaves the list as it was.\<close>

lemma remove_inserted: "tm_id n \<notin> tm_id ` set ts \<Longrightarrow> remove_timer (tm_id n) (insert_timer n ts) = ts"
  by (induction ts) auto

lemma chan_ok_fresh:
  assumes "chan_ok s" "timer_id s < i"
  shows "i \<notin> tm_id ` set (sched_timers s)" "1 \<le> i"
  using assms by (force simp: chan_ok_def timers_ok_def)+

section \<open>The persistence check\<close>

lemma idle_cancel:
  "id_cas_persistence_check (timer_ids s) = 0 \<Longrightarrow> cancelled slot_cas_persistence_check s = sched_timers s"
  "id_cas_persistence_check (timer_ids s) = 0 \<Longrightarrow> cancelled_ids slot_cas_persistence_check s = timer_ids s"
  by (simp_all add: cancelled_def cancelled_ids_def Let_def)

text \<open>A change of the bits starts the check and nothing else.\<close>

definition check_started :: "int \<Rightarrow> timeval \<Rightarrow> 'w chan \<Rightarrow> 'w chan" where
  "check_started b t s = s\<lparr>cas_raw_read := b, cas_persistence_check_signal := b AND cas_r2_bits (r2context s),
     timer_id := timer_id s + 1,
     sched_timers := insert_timer \<lparr>tm_time = timer_deadline t (t_cas_persistence_check (TIMER s)),
       tm_callback = CB_persistence_check_expired, tm_name = ''cas_persistence_check'', tm_id = timer_id s + 1\<rparr> (sched_timers s),
     timer_ids := (timer_ids s)\<lparr>id_cas_persistence_check := timer_id s + 1\<rparr>\<rparr>"

lemma change_seen:
  assumes "working_interfaces ifc" "io_present (r2context s)" "t_cas_persistence_check (TIMER s) \<noteq> 0"
    "id_cas_persistence_check (timer_ids s) = 0" "cas_persistence_check_signal s = -1" "length (sched_timers s) < 10"
    "b AND cas_r2_bits (r2context s) \<noteq> cas_read s"
  shows "\<exists>t w. exec (openr2_proto_handle_cas (seeing b ifc)) s = (check_started b t s)\<lparr>world := w\<rparr>"
proof -
  have "wp (openr2_proto_handle_cas (seeing b ifc)) (\<lambda>_ s'. \<exists>t w. s' = (check_started b t s)\<lparr>world := w\<rparr>) s"
    unfolding openr2_proto_handle_cas_def start_persistence_check_def using assms(2-)
    by (auto simp: Let_def idle_cancel added_def ex_world check_started_def
        intro!: working_interfaces.wp_schedule [OF seeing_working [OF assms(1)]] exI)
  then show ?thesis by (simp add: wp_def)
qed

lemma exec_bounced:
  assumes "io_present (r2context s)" "chan_ok s" "id_cas_persistence_check (timer_ids s) = 0"
    "cas_persistence_check_signal s = -1" "b' AND cas_r2_bits (r2context s) = cas_read s"
  shows "\<exists>w. exec (openr2_proto_handle_cas (seeing b' ifc)) ((check_started b t s)\<lparr>world := w'\<rparr>) =
    s\<lparr>world := w, timer_id := timer_id s + 1, cas_raw_read := b'\<rparr>"
proof -
  have fresh: "timer_id s + 1 \<notin> tm_id ` set (sched_timers s)" "1 \<le> timer_id s + 1"
    using chan_ok_fresh [OF assms(2), of "timer_id s + 1"] by simp_all
  have del: "remove_timer (timer_id s + 1) (insert_timer n (sched_timers s)) = sched_timers s" if "tm_id n = timer_id s + 1" for n
    using remove_inserted [of n "sched_timers s"] fresh that by simp
  have "wp (openr2_proto_handle_cas (seeing b' ifc)) (\<lambda>_ s'. \<exists>w. s' = s\<lparr>world := w, timer_id := timer_id s + 1, cas_raw_read := b'\<rparr>)
    ((check_started b t s)\<lparr>world := w'\<rparr>)"
    unfolding openr2_proto_handle_cas_def using assms fresh del
    by (cases s; cases "timer_ids s") (simp add: Let_def check_started_def cancelled_def cancelled_ids_def ex_world)
  then show ?thesis by (simp add: wp_def)
qed

text \<open>
  C19: With a persistence check configured a bounce of the line is filtered: bits that change and are back
  before the check expires leave the channel as it was, but for the timer counter, and reach no handler.
\<close>

theorem bounce_filtered:
  assumes "working_interfaces ifc" "io_present (r2context s)" "chan_ok s" "length (sched_timers s) < 10"
    "t_cas_persistence_check (TIMER s) \<noteq> 0" "id_cas_persistence_check (timer_ids s) = 0" "cas_persistence_check_signal s = -1"
    "b AND cas_r2_bits (r2context s) \<noteq> cas_read s" "b' AND cas_r2_bits (r2context s) = cas_read s"
  shows "\<exists>w. exec (do { openr2_proto_handle_cas (seeing b ifc); openr2_proto_handle_cas (seeing b' ifc) }) s =
    s\<lparr>world := w, timer_id := timer_id s + 1, cas_raw_read := b'\<rparr>"
proof -
  obtain t w where "exec (openr2_proto_handle_cas (seeing b ifc)) s = (check_started b t s)\<lparr>world := w\<rparr>"
    using change_seen [OF assms(1,2,5-7,4,8)] by blast
  then show ?thesis using exec_bounced [OF assms(2,3,6,7,9)] by simp
qed

definition watched_chan :: "sim chan" where
  "watched_chan = (sim_chan OR2_VAR_ITU 8)\<lparr>cas_read := 8,
     r2context := (sim_ctx OR2_VAR_ITU)\<lparr>timers := (timers (sim_ctx OR2_VAR_ITU))\<lparr>t_cas_persistence_check := 50\<rparr>\<rparr>\<rparr>"

lemma bounce_filtered_witness:
  "sched_timers (exec (do { openr2_proto_handle_cas (seeing 0 sim_iface); openr2_proto_handle_cas (seeing 9 sim_iface) }) watched_chan) = []"
proof -
  have ctx: "io_present (r2context watched_chan)" "cas_r2_bits (r2context watched_chan) = 12" "length (cas_signals (r2context watched_chan)) = 8"
    by (simp_all add: watched_chan_def sim_ctx_def openr2_proto_configure_context_def r2variants_def r2config_itu_def
        configure_defaults_def zero_ctx_def standard_cas_signals_def)
  have "chan_ok watched_chan"
    using ctx(3) by (simp add: watched_chan_def sim_chan_def fresh_chan_def chan_ok_def timers_ok_def slots_ok_def slot_table_def no_timer_ids_def)
  then show ?thesis
    using bounce_filtered [OF sim.working_interfaces_axioms ctx(1), of 0 9] ctx(2)
    by (auto simp: watched_chan_def sim_chan_def fresh_chan_def no_timer_ids_def)
qed

section \<open>Users\<close>

text \<open>
  C8: No program of calls, under any driver and any detector, with callbacks that call back into the library
  to any depth, breaks a channel: its timers stay sorted, with distinct ids, within the ten slots, and a
  stored id names no timer of another kind.
\<close>

theorem user_keeps_timers:
  assumes "length (cas_signals ctx) = 8"
  shows "chan_ok (exec (run_prog (library depth dr det base user) p) (fresh_chan ctx w))"
proof -
  have "chan_ok (fresh_chan ctx w)"
    using assms by (simp add: fresh_chan_def chan_ok_def timers_ok_def slots_ok_def slot_table_def no_timer_ids_def)
  then show ?thesis using lib.chan_ok_run_prog [of depth dr det base user p] unfolding keeps_def by blast
qed

lemma user_keeps_timers_witness:
  "chan_ok (exec (run_prog (library 3 Dummy (\<lambda>h b n w. ((0, [(Some [53], 1)]), w)) sim_iface (\<lambda>e s. calls [Accept OR2_CALL_WITH_CHARGE, Answer] 1))
      (Call SetIdle (\<lambda>r. Call (Process 5 3) Finish))) (fresh_chan (sim_ctx OR2_VAR_ITU) \<lparr>sim_clock = Timeval 0 0, sim_rx = 8\<rparr>))"
  by (rule user_keeps_timers)
    (simp add: sim_ctx_def openr2_proto_configure_context_def r2variants_def r2config_itu_def configure_defaults_def
      zero_ctx_def standard_cas_signals_def)

text \<open>
  C9: Every lock taken is released, the early returns and the error paths with an unlock of their own
  included: after any program of calls of any user, with callbacks that call back to any depth, the mutex of
  the channel and the mutex of the timers are held as often as before.
\<close>

theorem user_balances_locks:
  "lock_depth (exec (run_prog (library depth dr det base user) p) s) = lock_depth s \<and>
   timers_lock_depth (exec (run_prog (library depth dr det base user) p) s) = timers_lock_depth s"
  using balanced_locks [OF lib.balanced_run_prog] by blast

section \<open>Errors\<close>

text \<open>
  C11: A protocol error ends everything at once, whatever the state of the call: silence, the IDLE signal and
  the report of the error, in this order, and an idle channel without timers.
\<close>

theorem protocol_error_resets:
  assumes "working_interfaces ifc" "io_present (r2context s)"
  shows "r2_state (exec (handle_protocol_error ifc r) s) = OR2_IDLE \<and> call_state (exec (handle_protocol_error ifc r) s) = OR2_CALL_IDLE \<and>
    mf_state (exec (handle_protocol_error ifc r) s) = OR2_MF_OFF_STATE \<and> direction (exec (handle_protocol_error ifc r) s) = OR2_DIR_STOPPED \<and>
    sched_timers (exec (handle_protocol_error ifc r) s) = [] \<and> answered (exec (handle_protocol_error ifc r) s) = 0 \<and>
    trace (exec (handle_protocol_error ifc r) s) =
      trace s @ [TxTone 0, TxCas (R2 s OR2_CAS_IDLE OR cas_nonr2_bits (r2context s)), Ev (OnProtocolError r)]"
proof -
  have "wp (handle_protocol_error ifc r) (\<lambda>_ s'. \<exists>w. s' = (failed ifc r s)\<lparr>world := w\<rparr>) s"
    using assms by (auto intro!: working_interfaces.wp_protocol_error)
  then obtain w where "exec (handle_protocol_error ifc r) s = (failed ifc r s)\<lparr>world := w\<rparr>" by (auto simp: wp_def)
  then show ?thesis using assms(2) by simp
qed

lemma protocol_error_resets_witness:
  "call_state (exec (handle_protocol_error sim_iface OR2_BACK_MF_TIMEOUT)
     ((sim_chan OR2_VAR_ITU 8)\<lparr>call_state := OR2_CALL_OFFERED, r2_state := OR2_SEIZE_ACK_TXD\<rparr>)) = OR2_CALL_IDLE"
  using protocol_error_resets [OF sim.working_interfaces_axioms,
      of "(sim_chan OR2_VAR_ITU 8)\<lparr>call_state := OR2_CALL_OFFERED, r2_state := OR2_SEIZE_ACK_TXD\<rparr>"]
  by (simp add: sim_chan_def fresh_chan_def sim_ctx_def)

lemma wp_cancel_id: "(\<And>v ts. P v (s\<lparr>sched_timers := ts\<rparr>)) \<Longrightarrow> wp (cancel_timer_id i) P s"
proof -
  assume p: "\<And>v ts. P v (s\<lparr>sched_timers := ts\<rparr>)"
  have same: "P v (s\<lparr>timers_lock_depth := timers_lock_depth s\<rparr>)" "P v s" for v using p [where ts = "sched_timers s"] by simp_all
  show ?thesis using p same by (auto simp: cancel_timer_id_as_locked)
qed

text \<open>
  C20: A timer that an earlier one of the same batch cancelled is run all the same: when the call down timer and
  the answer timer of a call are due together, the channel has ended the call and is idle, and then the
  answer timer reports a disconnection and leaves the idle line with a disconnected call.
\<close>

theorem timer_cancelled_still_runs:
  assumes "working_interfaces ifc" "io_present (r2context s)" "fst (gettimeofday ifc (world s)) = Some now"
    "map tm_callback (due_timers now s) = [CB_r2_set_call_down, CB_r2_answer_timeout_expired]"
  shows "r2_state (exec (openr2_chan_handle_timers ifc) s) = OR2_IDLE \<and>
    call_state (exec (openr2_chan_handle_timers ifc) s) = OR2_CALL_DISCONNECTED \<and>
    trace (exec (openr2_chan_handle_timers ifc) s) = trace s @ [TxCas (R2 s OR2_CAS_IDLE OR cas_nonr2_bits (r2context s)),
      Ev OnCallEnd, Ev (OnCallDisconnect OR2_CAUSE_NO_ANSWER)]"
proof -
  obtain a b where due: "due_timers now s = [a, b]" "tm_callback a = CB_r2_set_call_down" "tm_callback b = CB_r2_answer_timeout_expired"
    using assms(4) by auto
  have due_world: "due_timers now (s\<lparr>world := w\<rparr>) = due_timers now s" for w by (simp add: due_timers_def)
  have "wp (openr2_chan_handle_timers ifc) (\<lambda>_ s'. r2_state s' = OR2_IDLE \<and> call_state s' = OR2_CALL_DISCONNECTED \<and>
      trace s' = trace s @ [TxCas (R2 s OR2_CAS_IDLE OR cas_nonr2_bits (r2context s)), Ev OnCallEnd, Ev (OnCallDisconnect OR2_CAUSE_NO_ANSWER)]) s"
    unfolding openr2_chan_handle_timers_def using assms(2,3)
    by (auto simp: due due_world r2_set_call_down_def report_call_end_def r2_answer_timeout_expired_def report_call_disconnection_def R2_def
        intro!: wp_cancel_id working_interfaces.wp_set_idle [OF assms(1)] silent_interfaces.wp_emit working_interfaces.axioms(1) [OF assms(1)])
  then show ?thesis by (simp add: wp_def)
qed

definition late_chan :: "sim chan" where
  "late_chan = (sim_chan OR2_VAR_ITU 8)\<lparr>direction := OR2_DIR_FORWARD, r2_state := OR2_CLEAR_FWD_TXD, call_state := OR2_CALL_DIALING,
     timer_id := 3, sched_timers := [
       \<lparr>tm_time = Timeval 60 0, tm_callback = CB_r2_set_call_down, tm_name = ''r2_set_call_down'', tm_id = 3\<rparr>,
       \<lparr>tm_time = Timeval 61 0, tm_callback = CB_r2_answer_timeout_expired, tm_name = ''r2_answer'', tm_id = 2\<rparr>],
     world := \<lparr>sim_clock = Timeval 62 0, sim_rx = 8\<rparr>\<rparr>"

lemma timer_cancelled_still_runs_witness:
  "r2_state (exec (openr2_chan_handle_timers sim_iface) late_chan) = OR2_IDLE \<and>
   call_state (exec (openr2_chan_handle_timers sim_iface) late_chan) = OR2_CALL_DISCONNECTED"
  using timer_cancelled_still_runs [OF sim.working_interfaces_axioms, of late_chan "Timeval 62 0"]
  by (simp add: late_chan_def sim_chan_def fresh_chan_def sim_ctx_def sim_iface_def due_timers_def ms_between_def)

end
