(* ===== verification/R2Test.thy ===== *)
theory R2Test
  imports R2Client R2Context R2MfEngine
begin

text \<open>
  The test program \<open>r2test.c\<close>: the reader of its configuration file, the contexts it makes of the
  groups of channels it read, and its MF engine over the tone generation of a DAHDI device.
\<close>

section \<open>Conversions\<close>

text \<open>
  \<open>%d\<close> and \<open>%s\<close> of \<open>sscanf\<close>, with the rest of the input, and \<open>atoi\<close>.  Numbers are those
  that fit an \<open>int\<close>; for the others the conversions are undefined in C.
\<close>

definition scan_number :: "int list \<Rightarrow> (int \<times> int list) option" where
  "scan_number rest =
     (let s = dropWhile is_space rest;
          (neg, s) = (case s of [] \<Rightarrow> (False, s)
                      | c # cs \<Rightarrow> if c = 45 then (True, cs) else if c = 43 then (False, cs) else (False, s));
          ds = takeWhile is_digit_char s
      in if ds = [] then None
         else Some (if neg then - digits_value ds else digits_value ds, drop (length ds) s))"

definition scan_word :: "int list \<Rightarrow> int list option" where
  "scan_word rest =
     (let w = takeWhile (\<lambda>c. \<not> is_space c) (dropWhile is_space rest) in if w = [] then None else Some w)"

definition atoi :: "int list \<Rightarrow> int" where
  "atoi s = (case scan_number s of None \<Rightarrow> 0 | Some (n, _) \<Rightarrow> n)"

text \<open>\<open>STR_IS_EQUAL\<close> compares the terminating 0 of the literal too.\<close>

definition STR_IS_EQUAL :: "int list \<Rightarrow> string \<Rightarrow> bool" where
  "STR_IS_EQUAL x y \<longleftrightarrow> openr2_strncasecmp x (cstr y) (length y + 1) = 0"

text \<open>The tokens of \<open>strtok(s, ",")\<close>.\<close>

fun tokens :: "int list \<Rightarrow> int list \<Rightarrow> int list list" where
  "tokens cur [] = (if cur = [] then [] else [cur])"
| "tokens cur (c # cs) = (if c = 44 then (if cur = [] then tokens [] cs else cur # tokens [] cs) else tokens (cur @ [c]) cs)"

section \<open>Groups of channels\<close>

text \<open>
  A group, and the variables of \<open>parse_config\<close>, which have the names of the fields they are copied to.
  Strings are those the character arrays hold.
\<close>

record chan_group_data_t =
  cg_category :: category
  cg_variant :: variant_t
  cg_loglevel :: int
  cg_lowchan :: int
  cg_highchan :: int
  cg_caller :: int
  cg_max_ani :: int
  cg_max_dnis :: int
  cg_getanifirst :: int
  cg_usedahdimf :: int
  cg_mf_threshold :: int
  cg_mf_backtimeout :: int
  cg_callfiles :: int
  cg_meteringpulse_timeout :: int
  cg_collect_calls :: int
  cg_charge_calls :: int
  cg_double_answer :: int
  cg_immediateaccept :: int
  cg_skipcategory :: int
  cg_playaudio :: int
  cg_dnid :: "int list"
  cg_cid :: "int list"
  cg_r2file :: "int list"
  cg_audiofile :: "int list"

abbreviation (input) "MAX_GROUPS \<equiv> 50 :: nat"
abbreviation (input) "MAX_CHANS \<equiv> 30 :: int"

text \<open>
  The variables at the start.  \<open>audiofile\<close> is not initialised: \<open>junk\<close> is the string its bytes happen
  to hold.
\<close>

definition initial_conf :: "int list \<Rightarrow> chan_group_data_t" where
  "initial_conf junk = \<lparr>
     cg_category = OR2_CALLING_PARTY_CATEGORY_NATIONAL_SUBSCRIBER, cg_variant = OR2_VAR_UNKNOWN, cg_loglevel = OR2_LOG_NOTHING,
     cg_lowchan = -1, cg_highchan = -1, cg_caller = 0, cg_max_ani = 0, cg_max_dnis = 0, cg_getanifirst = 0, cg_usedahdimf = 0,
     cg_mf_threshold = 0, cg_mf_backtimeout = 0, cg_callfiles = 0, cg_meteringpulse_timeout = -1, cg_collect_calls = 0,
     cg_charge_calls = 1, cg_double_answer = 0, cg_immediateaccept = 0, cg_skipcategory = 0, cg_playaudio = 0,
     cg_dnid = [], cg_cid = [], cg_r2file = [], cg_audiofile = junk \<rparr>"

section \<open>The lines of the file\<close>

text \<open>
  The options in the order of the \<open>else if\<close> chain after \<open>channel\<close>: "yes" or "no", a number read with
  \<open>atoi\<close>, a number read with \<open>%d\<close>, a string stored in an array of the given size, and the three
  options with a vocabulary of their own.
\<close>

type_synonym conf = chan_group_data_t

datatype option_kind =
    YesNo "int \<Rightarrow> conf \<Rightarrow> conf" | Atoi "int \<Rightarrow> conf \<Rightarrow> conf" | Decimal "int \<Rightarrow> conf \<Rightarrow> conf"
  | Text nat "int list \<Rightarrow> conf \<Rightarrow> conf" | LogLevels | Category | Variant

definition options :: "bool \<Rightarrow> (string \<times> option_kind) list" where
  "options have_dahdi =
     [(''advancedprotocolfile='', Text 512 (\<lambda>v c. c\<lparr>cg_r2file := v\<rparr>)),
      (''chargecalls='', YesNo (\<lambda>v c. c\<lparr>cg_charge_calls := v\<rparr>)),
      (''collectcalls='', YesNo (\<lambda>v c. c\<lparr>cg_collect_calls := v\<rparr>)),
      (''callfiles='', YesNo (\<lambda>v c. c\<lparr>cg_callfiles := v\<rparr>)),
      (''doubleanswer='', YesNo (\<lambda>v c. c\<lparr>cg_double_answer := v\<rparr>)),
      (''immediateaccept='', YesNo (\<lambda>v c. c\<lparr>cg_immediateaccept := v\<rparr>)),
      (''skipcategory='', YesNo (\<lambda>v c. c\<lparr>cg_skipcategory := v\<rparr>)),
      (''meteringpulsetimeout='', Atoi (\<lambda>v c. c\<lparr>cg_meteringpulse_timeout := v\<rparr>)),
      (''loglevel='', LogLevels),
      (''mfthreshold='', Atoi (\<lambda>v c. c\<lparr>cg_mf_threshold := v\<rparr>)),
      (''mfbacktimeout='', Atoi (\<lambda>v c. c\<lparr>cg_mf_backtimeout := v\<rparr>)),
      (''getanifirst='', YesNo (\<lambda>v c. c\<lparr>cg_getanifirst := v\<rparr>)),
      (''usedahdimf='', YesNo (\<lambda>v c. if have_dahdi then c\<lparr>cg_usedahdimf := v\<rparr> else c)),
      (''maxani='', Decimal (\<lambda>v c. c\<lparr>cg_max_ani := v\<rparr>)),
      (''maxdnis='', Decimal (\<lambda>v c. c\<lparr>cg_max_dnis := v\<rparr>)),
      (''cid='', Text 80 (\<lambda>v c. c\<lparr>cg_cid := v\<rparr>)),
      (''dnid='', Text 80 (\<lambda>v c. c\<lparr>cg_dnid := v\<rparr>)),
      (''category='', Category),
      (''variant='', Variant),
      (''caller='', YesNo (\<lambda>v c. c\<lparr>cg_caller := v\<rparr>)),
      (''playaudio='', YesNo (\<lambda>v c. c\<lparr>cg_playaudio := v\<rparr>)),
      (''audiofile='', Text 512 (\<lambda>v c. c\<lparr>cg_audiofile := v\<rparr>))]"

text \<open>
  The levels of a line: the first may be \<open>nothing\<close>, which clears them and ends the line; an unknown first
  one ends the line too.  \<open>None\<close> when there is no token at all, for then \<open>NULL\<close> is looked up.
\<close>

definition log_levels :: "int list \<Rightarrow> int \<Rightarrow> int option" where
  "log_levels value level =
     (case tokens [] value of
        [] \<Rightarrow> None
      | t # ts \<Rightarrow>
          let first = openr2_log_get_level t in
          Some (if first = -1 then level
                else if first = OR2_LOG_NOTHING then OR2_LOG_NOTHING
                else foldl (\<lambda>l t. if openr2_log_get_level t = -1 then l else l OR openr2_log_get_level t) (level OR first) ts))"

text \<open>
  An option line on what follows its name.  The outer \<open>None\<close>: the conversion failed and the chain goes on;
  the inner \<open>None\<close>: memory outside of an array is written or \<open>NULL\<close> is read.
\<close>

fun read_option :: "option_kind \<Rightarrow> int list \<Rightarrow> conf \<Rightarrow> conf option option" where
  "read_option (YesNo upd) rest c = map_option (\<lambda>v. Some (if STR_IS_EQUAL v ''yes'' then upd 1 c
     else if STR_IS_EQUAL v ''no'' then upd 0 c else c)) (scan_word rest)"
| "read_option (Atoi upd) rest c = map_option (\<lambda>v. Some (if atoi v = 0 \<and> hd v \<noteq> 48 then c else upd (atoi v) c)) (scan_word rest)"
| "read_option (Decimal upd) rest c = map_option (\<lambda>(n, _). Some (upd n c)) (scan_number rest)"
| "read_option (Text n upd) rest c = map_option (\<lambda>v. if length v < n then Some (upd v c) else None) (scan_word rest)"
| "read_option LogLevels rest c = map_option (\<lambda>v. map_option (\<lambda>l. c\<lparr>cg_loglevel := l\<rparr>) (log_levels v (cg_loglevel c))) (scan_word rest)"
| "read_option Category rest c = map_option (\<lambda>v. Some (c\<lparr>cg_category :=
     (if openr2_proto_get_category v = OR2_CALLING_PARTY_CATEGORY_UNKNOWN then OR2_CALLING_PARTY_CATEGORY_NATIONAL_SUBSCRIBER
      else openr2_proto_get_category v)\<rparr>)) (scan_word rest)"
| "read_option Variant rest c = map_option (\<lambda>v. Some (c\<lparr>cg_variant := openr2_proto_get_variant v\<rparr>)) (scan_word rest)"

fun read_line :: "(string \<times> option_kind) list \<Rightarrow> int list \<Rightarrow> conf \<Rightarrow> conf option option" where
  "read_line [] line c = None"
| "read_line ((name, k) # others) line c =
     (case Option.bind (strip_literal (cstr name) line) (\<lambda>rest. read_option k rest c) of
        None \<Rightarrow> read_line others line c
      | Some r \<Rightarrow> Some r)"

text \<open>\<open>sscanf(line, "channel=%d-%d", ...)\<close>\<close>

definition scan_range :: "int list \<Rightarrow> (int \<times> int) option" where
  "scan_range line =
     (case Option.bind (strip_literal (cstr ''channel='') line) scan_number of
        None \<Rightarrow> None
      | Some (low, rest) \<Rightarrow>
          (case Option.bind (strip_literal [45] rest) scan_number of None \<Rightarrow> None | Some (high, _) \<Rightarrow> Some (low, high)))"

text \<open>
  The lines, with the variables and the groups found so far: the value returned and the groups, or
  \<open>None\<close> for a fault.
\<close>

fun parse_lines :: "bool \<Rightarrow> int list list \<Rightarrow> conf \<Rightarrow> conf list \<Rightarrow> (int \<times> conf list) option" where
  "parse_lines have_dahdi [] c groups = Some (int (length groups), groups)"
| "parse_lines have_dahdi (line # lines) c groups =
     (if skipped_line line then parse_lines have_dahdi lines c groups
      else case scan_range line of
        Some (low, high) \<Rightarrow>
          let c = c\<lparr>cg_lowchan := low, cg_highchan := high\<rparr> in
          if low > high then Some (-1, groups)
          else if cg_caller c \<noteq> 0 \<and> (cg_dnid c = [] \<or> cg_cid c = []) then Some (-1, groups)
          else if length (groups @ [c]) = MAX_GROUPS - 1 then Some (int (length (groups @ [c])), groups @ [c])
          else parse_lines have_dahdi lines c (groups @ [c])
      | None \<Rightarrow>
          (case read_line (options have_dahdi) line c of
             None \<Rightarrow> Some (-1, groups)
           | Some None \<Rightarrow> None
           | Some (Some c) \<Rightarrow> parse_lines have_dahdi lines c groups))"

definition parse_config :: "bool \<Rightarrow> int list \<Rightarrow> int list \<Rightarrow> (int \<times> conf list) option" where
  "parse_config have_dahdi junk file = parse_lines have_dahdi (file_lines 512 file) (initial_conf junk) []"

section \<open>MF tones of a DAHDI device\<close>

text \<open>
  The engine that asks the device for its tones.  The two calls of \<open>ioctl\<close> are functions of the world;
  the bases of the forward and the backward signals are those of \<open>dahdi/user.h\<close>.
\<close>

record dahdi_mf_tx_state_t =
  dm_forward :: bool
  dm_signal :: int
  dm_generate :: int

definition dahdi_mf_names :: "int list" where
  "dahdi_mf_names = cstr ''123456789ABCDEF''"

definition dahdi_mf_tx_init :: "(int list \<Rightarrow> 'w \<Rightarrow> int \<times> 'w) \<Rightarrow> bool \<Rightarrow> dahdi_mf_tx_state_t \<Rightarrow> 'w \<Rightarrow> dahdi_mf_tx_state_t option \<times> 'w" where
  "dahdi_mf_tx_init ioctl_dial forward_signals h w =
     (case ioctl_dial (if forward_signals then cstr ''O'' else cstr ''R'') w of
        (res, w) \<Rightarrow> (if res = -1 then None else Some (h\<lparr>dm_forward := forward_signals, dm_generate := 0\<rparr>), w))"

definition dahdi_mf_tx_put :: "int \<Rightarrow> int \<Rightarrow> dahdi_mf_tx_state_t \<Rightarrow> int \<Rightarrow> int \<times> dahdi_mf_tx_state_t" where
  "dahdi_mf_tx_put fwd_base rev_base h signal =
     (let signal = (if signal = 48 then 65 else signal) in
      if signal \<noteq> 0 \<and> strchr dahdi_mf_names signal \<noteq> None then
        let n = (if dm_forward h then fwd_base else rev_base) + (signal - hd dahdi_mf_names) in
        (0, h\<lparr>dm_signal := (if signal \<ge> 65 then n - 7 else n), dm_generate := 1\<rparr>)
      else if signal = 0 then (0, h\<lparr>dm_signal := -1, dm_generate := 1\<rparr>)
      else (-1, h))"

definition dahdi_mf_tx :: "(int \<Rightarrow> 'w \<Rightarrow> int \<times> 'w) \<Rightarrow> dahdi_mf_tx_state_t \<Rightarrow> 'w \<Rightarrow> (int \<times> dahdi_mf_tx_state_t) \<times> 'w" where
  "dahdi_mf_tx ioctl_sendtone h w =
     (case ioctl_sendtone (dm_signal h) w of (res, w) \<Rightarrow> (if res = -1 then (-1, h) else (0, h\<lparr>dm_generate := 0\<rparr>), w))"

definition dahdi_mf_want_generate :: "dahdi_mf_tx_state_t \<Rightarrow> int \<Rightarrow> int" where
  "dahdi_mf_want_generate h signal = dm_generate h"

text \<open>The interface, with the addresses of its functions.\<close>

definition g_mf_dahdi_iface :: "'f \<Rightarrow> 'f \<Rightarrow> 'f \<Rightarrow> 'f \<Rightarrow> 'f mflib_interface" where
  "g_mf_dahdi_iface tx_init tx tx_put want = \<lparr> m_read_init = None, m_write_init = Some tx_init, m_detect_tone = None,
     m_generate_tone = Some tx, m_select_tone = Some tx_put, m_want_generate = Some want,
     m_read_dispose = None, m_write_dispose = None \<rparr>"

section \<open>Contexts of the groups\<close>

text \<open>
  The settings of a group's context after \<open>openr2_context_new\<close>; \<open>files\<close> are the contents of the advanced
  protocol files by name.
\<close>

definition group_settings :: "(int list \<Rightarrow> int list option) \<Rightarrow> conf \<Rightarrow> r2ctx \<Rightarrow> r2ctx" where
  "group_settings files g c =
     (let c = openr2_context_set_log_level (cg_loglevel g) c;
          c = openr2_context_set_ani_first (cg_getanifirst g) c;
          c = openr2_context_set_mf_threshold (cg_mf_threshold g) c;
          c = openr2_context_set_mf_back_timeout (cg_mf_backtimeout g) c;
          c = openr2_context_set_metering_pulse_timeout (cg_meteringpulse_timeout g) c;
          c = openr2_context_set_double_answer (cg_double_answer g) c;
          c = openr2_context_set_immediate_accept (cg_immediateaccept g) c;
          c = openr2_context_set_skip_category_request (cg_skipcategory g) c
      in if cg_r2file g \<noteq> [] then snd (openr2_context_configure_from_advanced_file (files (cg_r2file g)) c) else c)"

text \<open>
  The contexts of all groups: \<open>new\<close> is \<open>openr2_context_new\<close> with the interfaces of the build, \<open>mf_iface\<close> the
  variable of that name, which a group with DAHDI tones sets and no later group resets.  The result is the
  contexts made before the first group that got none; a fault is the write of \<open>last_error\<close> through the
  NULL context.
\<close>

fun group_contexts :: "(variant_t \<Rightarrow> int \<Rightarrow> int \<Rightarrow> 'f context_t option) \<Rightarrow> 'f mflib_interface \<Rightarrow> (int list \<Rightarrow> int list option) \<Rightarrow>
    'f mflib_interface option \<Rightarrow> conf list \<Rightarrow> 'f context_t list option" where
  "group_contexts new dahdi_iface files mf_iface [] = Some []"
| "group_contexts new dahdi_iface files mf_iface (g # gs) =
     (let mf_iface = (if cg_usedahdimf g \<noteq> 0 then Some dahdi_iface else mf_iface) in
      case new (cg_variant g) (cg_max_ani g) (cg_max_dnis g) of
        None \<Rightarrow> (if mf_iface = None then Some [] else None)
      | Some c \<Rightarrow>
          let c = snd (openr2_context_set_mflib_interface mf_iface c);
              c = c\<lparr>settings := group_settings files g (settings c)\<rparr>
          in map_option (\<lambda>cs. c # cs) (group_contexts new dahdi_iface files mf_iface gs))"

section \<open>What the reader guarantees\<close>

text \<open>A group the program can work with.\<close>

definition group_ok :: "conf \<Rightarrow> bool" where
  "group_ok g \<longleftrightarrow> cg_lowchan g \<le> cg_highchan g \<and> (cg_caller g \<noteq> 0 \<longrightarrow> cg_dnid g \<noteq> [] \<and> cg_cid g \<noteq> []) \<and>
     length (cg_dnid g) < 80 \<and> length (cg_cid g) < 80"

definition texts_fit :: "conf \<Rightarrow> bool" where
  "texts_fit c \<longleftrightarrow> length (cg_dnid c) < 80 \<and> length (cg_cid c) < 80"

fun kind_keeps :: "option_kind \<Rightarrow> bool" where
  "kind_keeps (YesNo f) \<longleftrightarrow> (\<forall>v c. texts_fit c \<longrightarrow> texts_fit (f v c))"
| "kind_keeps (Atoi f) \<longleftrightarrow> (\<forall>v c. texts_fit c \<longrightarrow> texts_fit (f v c))"
| "kind_keeps (Decimal f) \<longleftrightarrow> (\<forall>v c. texts_fit c \<longrightarrow> texts_fit (f v c))"
| "kind_keeps (Text n f) \<longleftrightarrow> (\<forall>v c. length v < n \<longrightarrow> texts_fit c \<longrightarrow> texts_fit (f v c))"
| "kind_keeps _ \<longleftrightarrow> True"

lemma read_option_fits: "kind_keeps k \<Longrightarrow> texts_fit c \<Longrightarrow> read_option k rest c = Some (Some c') \<Longrightarrow> texts_fit c'"
  by (cases k) (auto simp: texts_fit_def split: if_splits option.splits)

lemma read_line_fits:
  assumes "list_all (\<lambda>(n, k). kind_keeps k) table" "texts_fit c" "read_line table line c = Some (Some c')"
  shows "texts_fit c'"
  using assms
  by (induction table line c rule: read_line.induct)
    (auto split: option.splits Option.bind_splits intro: read_option_fits)

lemma options_keep: "list_all (\<lambda>(n, k). kind_keeps k) (options have_dahdi)"
  by (simp add: options_def texts_fit_def)

lemma parse_lines_groups:
  assumes "parse_lines have_dahdi lines c groups = Some (rc, gs)" "texts_fit c" "list_all group_ok groups" "length groups < 49"
  shows "(rc = -1 \<or> rc = int (length gs)) \<and> list_all group_ok gs \<and> length gs \<le> 49"
  using assms
proof (induction lines arbitrary: c groups)
  case (Cons line lines)
  have g: "group_ok (c\<lparr>cg_lowchan := low, cg_highchan := high\<rparr>)" "texts_fit (c\<lparr>cg_lowchan := low, cg_highchan := high\<rparr>)"
    if "low \<le> high" "cg_caller c \<noteq> 0 \<longrightarrow> cg_dnid c \<noteq> [] \<and> cg_cid c \<noteq> []" for low high
    using Cons.prems(2) that by (simp_all add: group_ok_def texts_fit_def)
  have ok: "list_all group_ok (groups @ [c\<lparr>cg_lowchan := low, cg_highchan := high\<rparr>])"
    if "low \<le> high" "cg_caller c \<noteq> 0 \<longrightarrow> cg_dnid c \<noteq> [] \<and> cg_cid c \<noteq> []" for low high
    using Cons.prems(3) g(1) [OF that] by simp
  have fits: "texts_fit c'" if "read_line (options have_dahdi) line c = Some (Some c')" for c'
    using read_line_fits [OF options_keep Cons.prems(2) that] .
  show ?case
  proof (cases "skipped_line line \<or> scan_range line = None")
    case True
    then show ?thesis using Cons.prems Cons.IH fits by (auto split: option.splits if_splits)
  next
    case False
    then obtain low high where r: "scan_range line = Some (low, high)" "\<not> skipped_line line" by auto
    show ?thesis
    proof (cases "low \<le> high \<and> (cg_caller c \<noteq> 0 \<longrightarrow> cg_dnid c \<noteq> [] \<and> cg_cid c \<noteq> [])")
      case True
      then show ?thesis using Cons.prems Cons.IH [OF _ g(2) ok] r ok by (auto simp: Let_def split: if_splits)
    next
      case False
      then show ?thesis using Cons.prems r by (auto simp: Let_def split: if_splits)
    qed
  qed
qed auto

text \<open>
  Whatever the configuration file contains, a reader that does not fault answers -1 or the number of groups,
  at most 49 of them, each with a channel range in order, with both numbers if it is to call, and with numbers
  that fit their arrays.
\<close>

theorem parse_config_groups:
  assumes "parse_config have_dahdi junk file = Some (rc, gs)"
  shows "(rc = -1 \<or> rc = int (length gs)) \<and> list_all group_ok gs \<and> length gs \<le> 49"
  using parse_lines_groups [OF assms [unfolded parse_config_def]] by (simp add: initial_conf_def texts_fit_def)

definition small_conf :: "int list" where
  "small_conf = cstr ''variant=mx'' @ [10] @ cstr ''channel=1-31'' @ [10]"

lemma parse_config_groups_witness:
  "list_all group_ok (snd (the (parse_config True [] small_conf)))"
proof -
  have "parse_config True [] small_conf \<noteq> None" by code_simp
  then obtain rc gs where p: "parse_config True [] small_conf = Some (rc, gs)" by auto
  then show ?thesis using parse_config_groups [OF p] by simp
qed

text \<open>
  A configuration file without a line \<open>mfbacktimeout\<close> does not leave the timeout of the backward cycle at
  the default of the library, as the documentation of the file says, but sets it to 0 milliseconds; and a
  range of more channels than a group has room for is accepted.
\<close>

theorem conf_defaults:
  "case parse_config True [] small_conf of
     Some (n, [g]) \<Rightarrow> n = 1 \<and> cg_highchan g - cg_lowchan g + 1 > MAX_CHANS \<and>
       t_mf_back_cycle (timers (snd (openr2_proto_configure_context zero_ctx (cg_variant g) (cg_max_ani g) (cg_max_dnis g)))) = 2000 \<and>
       t_mf_back_cycle (timers (group_settings (\<lambda>f. None) g (snd (openr2_proto_configure_context zero_ctx (cg_variant g)
         (cg_max_ani g) (cg_max_dnis g))))) = 0
   | _ \<Rightarrow> False"
  by code_simp

text \<open>
  The MF engine over DAHDI is never used: the library refuses its interface, which has no reader, and keeps
  the engine the context had.
\<close>

theorem dahdi_mf_refused:
  "fst (openr2_context_set_mflib_interface (Some (g_mf_dahdi_iface tx_init tx tx_put want)) c) = -1 \<and>
   mflib (snd (openr2_context_set_mflib_interface (Some (g_mf_dahdi_iface tx_init tx tx_put want)) c)) = mflib c"
  by (simp add: openr2_context_set_mflib_interface_def g_mf_dahdi_iface_def invalid_interface_def)

text \<open>
  The numbers of the signals asked of the device are the positions of the tones in the table of the library's own
  generator, in both directions: the two engines agree on every R2 tone.
\<close>

theorem dahdi_mf_signals:
  "list_all (\<lambda>i. dm_signal (snd (dahdi_mf_tx_put fwd_base rev_base h (r2_mf_tone_codes ! i))) =
     (if dm_forward h then fwd_base else rev_base) + int i \<and>
     fst (dahdi_mf_tx_put fwd_base rev_base h (r2_mf_tone_codes ! i)) = 0) [0..<length r2_mf_tone_codes]"
proof -
  have names: "dahdi_mf_names = [49, 50, 51, 52, 53, 54, 55, 56, 57, 65, 66, 67, 68, 69, 70]"
    "r2_mf_tone_codes = [49, 50, 51, 52, 53, 54, 55, 56, 57, 48, 66, 67, 68, 69, 70]"
    by code_simp+
  show ?thesis by (simp add: names upt_conv_Cons dahdi_mf_tx_put_def Let_def)
qed

end
