(* ===== verification/R2TestUser.thy ===== *)
theory R2TestUser
  imports R2Test
begin

text \<open>
  The test program \<open>r2test.c\<close> as a user of the library: its event callbacks, the audio it plays, the
  threads that wait for events of a channel, the channels of a group.
\<close>

section \<open>Callbacks\<close>

text \<open>
  What a callback calls.  Of the data behind the client pointer of a channel the flag \<open>called\<close> is kept in
  the place of the pointer; the data of the audio is an argument of its own.  \<open>pthread_exit\<close> at the end
  of the two error callbacks is a return.
\<close>

definition on_call_offered :: "conf \<Rightarrow> category \<Rightarrow> api list" where
  "on_call_offered g category =
     (if cg_collect_calls g = 0 \<and> category = OR2_CALLING_PARTY_CATEGORY_COLLECT_CALL
      then [Disconnect OR2_CAUSE_UNALLOCATED_NUMBER]
      else if cg_charge_calls g \<noteq> 0 then [Accept OR2_CALL_WITH_CHARGE] else [Accept OR2_CALL_NO_CHARGE])"

definition on_call_accepted :: "'w chan \<Rightarrow> api list" where
  "on_call_accepted s = (if direction s = OR2_DIR_BACKWARD then [Answer] else [])"

definition on_call_disconnected :: "api list" where
  "on_call_disconnected = [Disconnect OR2_CAUSE_NORMAL_CLEARING]"

definition on_line_idle :: "conf \<Rightarrow> 'w chan \<Rightarrow> prog" where
  "on_line_idle g s =
     (if client_data s \<noteq> 0 \<or> cg_caller g = 0 then Finish 0
      else Call (MakeCall (Some (cg_cid g)) (cg_dnid g) (cg_category g) 0)
        (\<lambda>res. if res = -1 then Finish 0 else Call (SetClientData 1) (\<lambda>_. Finish 0)))"

definition on_dnis_digit_received :: int where
  "on_dnis_digit_received = 1"

section \<open>Audio\<close>

text \<open>
  The file a channel plays, as the bytes still unread when it is open.  \<open>disk\<close> is what opening it finds;
  \<open>fault\<close> a read that fails after that many bytes.
\<close>

record r2chan_data_t =
  audiofp :: "int list option"
  audio_stop :: int
  frame_counter :: int

definition close_audiofp :: "r2chan_data_t \<Rightarrow> r2chan_data_t" where
  "close_audiofp d = (case audiofp d of None \<Rightarrow> d | Some _ \<Rightarrow> d\<lparr>audiofp := None, audio_stop := 1\<rparr>)"

definition get_audio :: "int list option \<Rightarrow> nat option \<Rightarrow> nat \<Rightarrow> r2chan_data_t \<Rightarrow> int \<times> int list \<times> r2chan_data_t" where
  "get_audio disk fault n d =
     (case (case audiofp d of None \<Rightarrow> disk | Some bytes \<Rightarrow> Some bytes) of
        None \<Rightarrow> (-1, [], d\<lparr>audio_stop := 1\<rparr>)
      | Some bytes \<Rightarrow>
        (case fault of
           Some r \<Rightarrow> (int (min r n), take (min r n) bytes, d\<lparr>audiofp := Some (drop (min r n) bytes)\<rparr>)
         | None \<Rightarrow>
           (if length bytes < n then (0, bytes, close_audiofp (d\<lparr>audiofp := Some []\<rparr>))
            else (int n, take n bytes, d\<lparr>audiofp := Some (drop n bytes)\<rparr>))))"

definition on_call_read :: "nat \<Rightarrow> conf \<Rightarrow> int list option \<Rightarrow> nat option \<Rightarrow> int list \<Rightarrow> int \<Rightarrow> r2chan_data_t \<Rightarrow> api list \<times> r2chan_data_t" where
  "on_call_read fuel g disk fault buf buflen d =
     (let d = d\<lparr>frame_counter := frame_counter d + 1\<rparr>;
          (acts, d) =
            (if cg_playaudio g = 0 then ([WriteSpeech fuel buf buflen], d)
             else if audio_stop d = 0 then
               (case get_audio disk fault 160 d of (r, write_buf, d) \<Rightarrow>
                  (if r = -1 \<or> r = 0 then [] else [WriteSpeech fuel write_buf r], d))
             else ([], d))
      in (acts, if frame_counter d = 400 then d\<lparr>frame_counter := 0\<rparr> else d))"

definition on_call_end :: "r2chan_data_t \<Rightarrow> r2chan_data_t" where
  "on_call_end d = close_audiofp d"

text \<open>The callbacks of a channel in a group that echoes what it hears.\<close>

fun r2test_user :: "nat \<Rightarrow> conf \<Rightarrow> 'w user" where
  "r2test_user fuel g (OnCallOffered a d cat r) s = calls (on_call_offered g cat) 0"
| "r2test_user fuel g (OnCallAccepted m) s = calls (on_call_accepted s) 0"
| "r2test_user fuel g (OnCallRead buf buflen) s =
     calls (fst (on_call_read fuel g None None buf buflen \<lparr>audiofp = None, audio_stop = 1, frame_counter = 0\<rparr>)) 0"
| "r2test_user fuel g (OnCallDisconnect c) s = calls on_call_disconnected 0"
| "r2test_user fuel g OnLineIdle s = on_line_idle g s"
| "r2test_user fuel g (OnDnisDigitReceived d) s = Finish on_dnis_digit_received"
| "r2test_user fuel g e s = Finish 0"

section \<open>The threads\<close>

text \<open>What \<open>select\<close> answers, in the order of the rounds of the loop; \<open>Ready\<close> carries the fuel of the processing loop.\<close>

datatype select_result = SelectFailed | SelectTimeout | Ready nat

definition select_timeout :: "int \<Rightarrow> timeval option" where
  "select_timeout ms = (if ms < 0 then None else Some (Timeval (ms div 1000) ((ms mod 1000) * 1000)))"

text \<open>
  The first round of a listener tells the main thread that it is ready: the count, and whether the condition
  is signalled.
\<close>

definition listener_ready :: "int \<Rightarrow> int \<times> bool" where
  "listener_ready listener_count = (listener_count - 1, listener_count - 1 = 0)"

fun event_loop :: "select_result list \<Rightarrow> prog" where
  "event_loop [] = Finish 0"
| "event_loop (SelectFailed # rs) = Call TimeToNextEvent (\<lambda>ms. Finish 0)"
| "event_loop (SelectTimeout # rs) = Call TimeToNextEvent (\<lambda>ms. event_loop rs)"
| "event_loop (Ready fuel # rs) = Call TimeToNextEvent (\<lambda>ms. Call (Process fuel (OR2_CHAN_PROCESS_MF OR OR2_CHAN_PROCESS_OOB)) (\<lambda>_. event_loop rs))"

definition wait_call :: "select_result list \<Rightarrow> prog" where
  "wait_call rs = Call SetIdle (\<lambda>_. Call ProcessCas (\<lambda>_. event_loop rs))"

definition make_call :: "select_result list \<Rightarrow> prog" where
  "make_call rs = Call SetIdle (\<lambda>_. Call ProcessCas (\<lambda>_. event_loop rs))"

section \<open>The channels of a group\<close>

text \<open>
  Channel \<open>i\<close> of a group, with the addresses of its transmitter state and of its data.  A channel that
  could not be made faults at once: its handles are set through the NULL pointer.
\<close>

definition group_channel :: "'w iface \<Rightarrow> r2ctx \<Rightarrow> conf \<Rightarrow> int \<Rightarrow> int \<Rightarrow> int \<Rightarrow> 'w \<Rightarrow> 'w chan option" where
  "group_channel ifc ctx g tx_mf_state data i w =
     (let s = fresh_chan ctx w in
      if \<not> val (openr2_chan_new ifc i) s then None
      else Some (exec (do {
        openr2_chan_set_mflib_handles tx_mf_state 0;
        openr2_chan_set_client_data data;
        (if cg_callfiles g \<noteq> 0 then openr2_chan_enable_call_files else skip) }) (exec (openr2_chan_new ifc i) s)))"

text \<open>
  The loop over the range: \<open>addr cnt\<close> is the address of the data of channel \<open>cnt\<close>, whose first field is the
  transmitter state.  The code does not compare \<open>cnt\<close> with the \<open>MAX_CHANS\<close> entries of \<open>channels\<close>: with
  the first channel that is stored behind them, over the other settings of the group, the run is
  \<open>PastArray\<close>, after which nothing is defined; \<open>NoChannel\<close> is the access through the NULL pointer.
\<close>

datatype ('a, 'w) making = NoChannel | PastArray | Made 'a 'w

fun group_channels :: "'w iface \<Rightarrow> r2ctx \<Rightarrow> conf \<Rightarrow> (nat \<Rightarrow> int) \<Rightarrow> int \<Rightarrow> nat \<Rightarrow> int list \<Rightarrow> 'w \<Rightarrow> ('w chan list, 'w) making" where
  "group_channels ifc ctx g addr tx_mf_state cnt [] w = Made [] w"
| "group_channels ifc ctx g addr tx_mf_state cnt (i # is) w =
     (if MAX_CHANS \<le> int cnt then PastArray
      else let tx_mf_state = (if cg_usedahdimf g \<noteq> 0 then addr cnt else tx_mf_state) in
        (case group_channel ifc ctx g tx_mf_state (addr cnt) i w of
           None \<Rightarrow> NoChannel
         | Some s \<Rightarrow>
             (case group_channels ifc ctx g addr tx_mf_state (cnt + 1) is (world s) of
                Made cs w \<Rightarrow> Made (s # cs) w
              | r \<Rightarrow> r)))"

section \<open>Playing a file\<close>

fun play :: "nat \<Rightarrow> nat \<Rightarrow> conf \<Rightarrow> int list option \<Rightarrow> r2chan_data_t \<Rightarrow> api list \<times> r2chan_data_t" where
  "play 0 fuel g disk d = ([], d)"
| "play (Suc k) fuel g disk d =
     (let (acts, d) = on_call_read fuel g disk None (replicate 160 0) 160 d; (rest, d) = play k fuel g disk d in (acts @ rest, d))"

definition new_data :: r2chan_data_t where
  "new_data = \<lparr>audiofp = None, audio_stop = 0, frame_counter = 0\<rparr>"

definition file_blocks :: "nat \<Rightarrow> int list \<Rightarrow> api list" where
  "file_blocks fuel bytes = map (\<lambda>i. WriteSpeech fuel (take 160 (drop (160 * i) bytes)) 160) [0..<length bytes div 160]"

lemma file_blocks_step:
  assumes "160 \<le> length bytes"
  shows "file_blocks fuel bytes = WriteSpeech fuel (take 160 bytes) 160 # file_blocks fuel (drop 160 bytes)"
proof -
  have n: "length bytes div 160 = Suc ((length bytes - 160) div 160)" using assms by (simp add: le_div_geq)
  show ?thesis
    unfolding file_blocks_def n
    by (simp add: upt_conv_Cons map_Suc_upt [symmetric] comp_def add.commute del: upt_Suc)
qed

lemma play_stopped: "cg_playaudio g \<noteq> 0 \<Longrightarrow> audio_stop d \<noteq> 0 \<Longrightarrow> fst (play k fuel g disk d) = []"
  by (induction k arbitrary: d) (auto simp: on_call_read_def case_prod_beta Let_def)

lemma play_open:
  assumes "cg_playaudio g \<noteq> 0" "audio_stop d = 0" "length bytes div 160 < k"
    and "audiofp d = Some bytes \<or> (audiofp d = None \<and> disk = Some bytes)"
  shows "fst (play k fuel g disk d) = file_blocks fuel bytes"
  using assms
proof (induction k arbitrary: d bytes)
  case (Suc k)
  show ?case
  proof (cases "length bytes < 160")
    case True
    then show ?thesis using Suc.prems
      by (auto simp: on_call_read_def get_audio_def close_audiofp_def Let_def case_prod_beta file_blocks_def play_stopped)
  next
    case False
    let ?d = "d\<lparr>frame_counter := (if frame_counter d + 1 = 400 then 0 else frame_counter d + 1), audiofp := Some (drop 160 bytes)\<rparr>"
    have "length (drop 160 bytes) div 160 < k" using False Suc.prems(3) by (simp add: le_div_geq)
    then have "fst (play k fuel g disk ?d) = file_blocks fuel (drop 160 bytes)"
      using Suc.prems by (intro Suc.IH) auto
    moreover have "on_call_read fuel g disk None (replicate 160 0) 160 d =
        ([WriteSpeech fuel (take 160 bytes) 160], ?d)"
      using Suc.prems False by (auto simp: on_call_read_def get_audio_def Let_def)
    ultimately show ?thesis using False by (simp add: file_blocks_step case_prod_beta Let_def)
  qed
qed simp

text \<open>
  C31: A channel that plays a file answers the frames of a call with the blocks of 160 bytes of the file, in order,
  once; the bytes after the last whole block are not played, and after that, or after the end of the call
  in which the file was opened, it plays nothing any more.
\<close>

theorem audio_played:
  assumes "cg_playaudio g \<noteq> 0"
  shows "fst (play (length bytes div 160 + 1 + k) fuel g (Some bytes) new_data) = file_blocks fuel bytes \<and>
    fst (play m fuel g disk (on_call_end (new_data\<lparr>audiofp := Some rest\<rparr>))) = []"
  using play_open [OF assms, of new_data bytes "length bytes div 160 + 1 + k" "Some bytes" fuel] play_stopped [OF assms]
  by (simp add: new_data_def on_call_end_def close_audiofp_def)

theorem audio_played_witness:
  "fst (play 3 5 ((initial_conf [])\<lparr>cg_playaudio := 1\<rparr>) (Some (replicate 330 213)) new_data) = file_blocks 5 (replicate 330 213)"
  using audio_played [of "(initial_conf [])\<lparr>cg_playaudio := 1\<rparr>" "replicate 330 213" 0 5] by (simp add: numeral_3_eq_3)

end
