(* ===== verification/R2Main.thy ===== *)
theory R2Main
  imports R2TestUser R2Sim
begin

text \<open>
  \<open>main\<close> of \<open>r2test.c\<close>: the command line, the contexts and channels of the configured groups, and the
  start of the threads, which main and the listeners agree on over a counter, a mutex and a condition.
\<close>

section \<open>The command line\<close>

text \<open>What \<open>getopt\<close> answers for the option string \<open>:c:lv\<close>; \<open>stat\<close> tells which files are there.\<close>

datatype option_char = OptC "int list" | OptL | OptV | OptUnknown | OptNoArgument

datatype command_line = Quit int | Use "int list"

fun read_command_line :: "(int list \<Rightarrow> bool) \<Rightarrow> int list option \<Rightarrow> option_char list \<Rightarrow> command_line" where
  "read_command_line stat_ok cfgfile [] = (case cfgfile of None \<Rightarrow> Quit (-1) | Some f \<Rightarrow> Use f)"
| "read_command_line stat_ok cfgfile (OptC f # os) = (if stat_ok f then read_command_line stat_ok (Some f) os else Quit (-1))"
| "read_command_line stat_ok cfgfile (OptL # os) = Quit 0"
| "read_command_line stat_ok cfgfile (OptV # os) = Quit 0"
| "read_command_line stat_ok cfgfile (OptUnknown # os) = Quit (-1)"
| "read_command_line stat_ok cfgfile (OptNoArgument # os) = Quit (-1)"

section \<open>Contexts and channels\<close>

text \<open>
  The channels of all groups.  \<open>addr c cnt\<close> is the address of the data of channel \<open>cnt\<close> of group \<open>c\<close>, and
  \<open>tx_mf_state\<close> the variable of that name, which a group with DAHDI tones leaves at its last channel.
\<close>

fun all_channels :: "('f context_t \<Rightarrow> 'w iface) \<Rightarrow> (nat \<Rightarrow> nat \<Rightarrow> int) \<Rightarrow> int \<Rightarrow> nat \<Rightarrow> (chan_group_data_t \<times> 'f context_t) list \<Rightarrow> 'w \<Rightarrow>
    ('w chan list list, 'w) making" where
  "all_channels ifc addr tx_mf_state c [] w = Made [] w"
| "all_channels ifc addr tx_mf_state c ((g, ctx) # gs) w =
     (case group_channels (ifc ctx) (settings ctx) g (addr c) tx_mf_state 0 [cg_lowchan g..cg_highchan g] w of
        NoChannel \<Rightarrow> NoChannel
      | PastArray \<Rightarrow> PastArray
      | Made chans w \<Rightarrow>
          let tx_mf_state = (if cg_usedahdimf g \<noteq> 0 then addr c (length chans - 1) else tx_mf_state)
          in (case all_channels ifc addr tx_mf_state (c + 1) gs w of
                Made rest w \<Rightarrow> Made (chans # rest) w
              | r \<Rightarrow> r))"

text \<open>
  \<open>main\<close> up to the start of the threads: it exits, with the contexts it deletes first in their order, it
  faults, it stores a channel behind the array of a group, or it goes on with groups, contexts and channels.
\<close>

datatype ('f, 'w) main_result =
    Exits int "'f context_t list"
  | Faults
  | Overruns "chan_group_data_t list"
  | Started "chan_group_data_t list" "'f context_t list" "'w chan list list" 'w

definition main_setup ::
  "(variant_t \<Rightarrow> int \<Rightarrow> int \<Rightarrow> 'f context_t option) \<Rightarrow> 'f mflib_interface \<Rightarrow> ('f context_t \<Rightarrow> 'w iface) \<Rightarrow> (nat \<Rightarrow> nat \<Rightarrow> int) \<Rightarrow>
   bool \<Rightarrow> int list \<Rightarrow> (int list \<Rightarrow> bool) \<Rightarrow> (int list \<Rightarrow> int list option) \<Rightarrow> option_char list \<Rightarrow> 'w \<Rightarrow> ('f, 'w) main_result" where
  "main_setup new dahdi_iface ifc addr have_dahdi junk stat_ok files os w =
     (case read_command_line stat_ok None os of
        Quit r \<Rightarrow> Exits r []
      | Use cfgfile \<Rightarrow>
       (case files cfgfile of
          None \<Rightarrow> Exits (-1) []
        | Some config \<Rightarrow>
         (case parse_config have_dahdi junk config of
            None \<Rightarrow> Faults
          | Some (numgroups, gs) \<Rightarrow>
              if numgroups < 1 then Exits (-1) []
              else
               (case group_contexts new dahdi_iface files None gs of
                  None \<Rightarrow> Faults
                | Some ctxs \<Rightarrow>
                    if int (length ctxs) \<noteq> numgroups then Exits (-1) (rev ctxs)
                    else
                     (case all_channels ifc addr 0 0 (zip gs ctxs) w of
                        NoChannel \<Rightarrow> Faults
                      | PastArray \<Rightarrow> Overruns gs
                      | Made chans w \<Rightarrow> Started gs ctxs chans w)))))"

section \<open>What runs\<close>

lemma group_channels_made:
  "group_channels ifc ctx g addr tx cnt is w = Made chans w' \<Longrightarrow>
   length chans = length is \<and> (is \<noteq> [] \<longrightarrow> int (cnt + length is) \<le> MAX_CHANS)"
  by (induction "is" arbitrary: tx cnt w chans w') (force simp: Let_def split: if_splits option.splits making.splits)+

lemma group_channels_past:
  "group_channels ifc ctx g addr tx cnt is w = PastArray \<Longrightarrow> MAX_CHANS < int (cnt + length is)"
  by (induction "is" arbitrary: tx cnt w) (force simp: Let_def split: if_splits option.splits making.splits)+

text \<open>How many channels a group asks for.\<close>

abbreviation (input) "asked g \<equiv> cg_highchan g - cg_lowchan g + 1"

lemma all_channels_made:
  "all_channels ifc addr tx c gs w = Made chans w' \<Longrightarrow>
   list_all2 (\<lambda>(g, ctx) cs. length cs = nat (asked g) \<and> length cs \<le> 30) gs chans"
proof (induction gs arbitrary: tx c w chans w')
  case (Cons x gs)
  obtain g ctx where x: "x = (g, ctx)" by (cases x)
  from Cons.prems obtain cs w1 rest where
    cs: "group_channels (ifc ctx) (settings ctx) g (addr c) tx 0 [cg_lowchan g..cg_highchan g] w = Made cs w1"
    and rest: "all_channels ifc addr (if cg_usedahdimf g \<noteq> 0 then addr c (length cs - 1) else tx) (c + 1) gs w1 = Made rest w'"
    and chans: "chans = cs # rest"
    by (auto simp: x Let_def split: making.splits)
  show ?case using group_channels_made [OF cs] Cons.IH [OF rest] by (auto simp: x chans)
qed simp

lemma all_channels_past:
  "all_channels ifc addr tx c gs w = PastArray \<Longrightarrow> list_ex (\<lambda>(g, ctx). 30 < asked g) gs"
proof (induction gs arbitrary: tx c w)
  case (Cons x gs)
  obtain g ctx where x: "x = (g, ctx)" by (cases x)
  show ?case
  proof (cases "group_channels (ifc ctx) (settings ctx) g (addr c) tx 0 [cg_lowchan g..cg_highchan g] w")
    case PastArray
    then show ?thesis using group_channels_past [OF PastArray] by (simp add: x split: if_splits)
  next
    case (Made cs w1)
    then show ?thesis using Cons.prems Cons.IH by (auto simp: x Let_def split: making.splits)
  qed (use Cons.prems x in simp)
qed simp

lemma setup_groups:
  assumes "parse_config have_dahdi junk config = Some (n, gs)" "\<not> n < 1" "int (length ctxs) = n"
  shows "list_all group_ok gs" "length gs \<le> 49" "gs \<noteq> []" "length ctxs = length gs"
proof -
  note groups = parse_lines_groups [OF assms(1) [unfolded parse_config_def]]
  have "list_all group_ok gs" "length gs \<le> 49" "int (length gs) = n"
    using groups assms(2) by (auto simp: initial_conf_def texts_fit_def)
  then show "list_all group_ok gs" "length gs \<le> 49" "gs \<noteq> []" "length ctxs = length gs" using assms(2,3) by auto
qed

text \<open>
  C30: When the program gets as far as starting threads, it has 1 to 49 groups, each with a channel range in order
  and, if it is to call, both numbers; every group has a context and exactly one channel for each number
  of its range, and asks for at most 30.  A configuration in which a group asks for more than its array has
  room for is not refused: main writes behind the array, and that is the only way it can.
\<close>

theorem main_runs:
  "case main_setup new dahdi_iface ifc addr have_dahdi junk stat_ok files os w of
     Started gs ctxs chans w' \<Rightarrow> gs \<noteq> [] \<and> length gs \<le> 49 \<and> list_all group_ok gs \<and> length ctxs = length gs \<and>
       list_all2 (\<lambda>g cs. int (length cs) = cg_highchan g - cg_lowchan g + 1) gs chans \<and>
       list_all (\<lambda>g. cg_highchan g - cg_lowchan g + 1 \<le> 30) gs
   | Overruns gs \<Rightarrow> length gs \<le> 49 \<and> list_all group_ok gs \<and> list_ex (\<lambda>g. 30 < cg_highchan g - cg_lowchan g + 1) gs
   | Exits r contexts \<Rightarrow> True
   | Faults \<Rightarrow> True"
proof (cases "main_setup new dahdi_iface ifc addr have_dahdi junk stat_ok files os w")
  case (Started gs ctxs chans w')
  then obtain config n w1 where
    conf: "parse_config have_dahdi junk config = Some (n, gs)" and n: "\<not> n < 1" "int (length ctxs) = n"
    and chans: "all_channels ifc addr 0 0 (zip gs ctxs) w = Made chans w1"
    by (auto simp: main_setup_def split: command_line.splits option.splits if_splits making.splits)
  note ok = setup_groups [OF conf n]
  have "list_all2 (\<lambda>g cs. int (length cs) = asked g \<and> asked g \<le> 30) gs chans"
    using all_channels_made [OF chans] ok(1,4) by (auto simp: list_all2_conv_all_nth list_all_length group_ok_def)
  then have "list_all2 (\<lambda>g cs. int (length cs) = asked g) gs chans" "list_all (\<lambda>g. asked g \<le> 30) gs"
    by (auto simp: list_all2_conv_all_nth list_all_length)
  then show ?thesis using ok Started by simp
next
  case (Overruns gs)
  then obtain config n ctxs where
    conf: "parse_config have_dahdi junk config = Some (n, gs)" and n: "\<not> n < 1" "int (length ctxs) = n"
    and past: "all_channels ifc addr 0 0 (zip gs ctxs) w = PastArray"
    by (auto simp: main_setup_def split: command_line.splits option.splits if_splits making.splits)
  have "list_ex (\<lambda>g. 30 < asked g) gs"
    using all_channels_past [OF past] by (auto simp: list_ex_iff dest: set_zip_leftD)
  then show ?thesis using setup_groups [OF conf n] Overruns by simp
qed simp_all

text \<open>A file with two groups, and the interfaces of \<open>bare_context\<close> and of the simulator.\<close>

definition itu_conf :: "int list" where
  "itu_conf = cstr ''variant=itu'' @ [10] @ cstr ''channel=1-2'' @ [10] @ cstr ''channel=5-5'' @ [10]"

definition itu_setup :: "(nat, sim) main_result" where
  "itu_setup = main_setup (openr2_context_new None full_io (mflib bare_context) (transcoder bare_context) (dtmfeng bare_context))
     (mflib bare_context) (\<lambda>ctx. sim_iface) (\<lambda>c cnt. int (100 * c + cnt)) True [] (\<lambda>f. True) (\<lambda>f. Some itu_conf)
     [OptC (cstr ''r2test.conf'')] \<lparr>sim_clock = Timeval 0 0, sim_rx = 0\<rparr>"

text \<open>The same with a group of 31 channels.\<close>

definition long_setup :: "(nat, sim) main_result" where
  "long_setup = main_setup (openr2_context_new None full_io (mflib bare_context) (transcoder bare_context) (dtmfeng bare_context))
     (mflib bare_context) (\<lambda>ctx. sim_iface) (\<lambda>c cnt. int (100 * c + cnt)) True [] (\<lambda>f. True)
     (\<lambda>f. Some (cstr ''variant=itu'' @ [10] @ cstr ''channel=1-31'' @ [10]))
     [OptC (cstr ''r2test.conf'')] \<lparr>sim_clock = Timeval 0 0, sim_rx = 0\<rparr>"

lemma itu_started: "case itu_setup of Started gs ctxs chans w \<Rightarrow> map length chans = [2, 1] | _ \<Rightarrow> False"
  by code_simp

lemma long_overruns: "case long_setup of Overruns gs \<Rightarrow> length gs = 1 | _ \<Rightarrow> False"
  by code_simp

lemma main_runs_witness:
  "(case itu_setup of Started gs ctxs chans w \<Rightarrow> map length chans = [2, 1] \<and> length ctxs = length gs \<and> list_all group_ok gs | _ \<Rightarrow> False) \<and>
   (case long_setup of Overruns gs \<Rightarrow> length gs = 1 \<and> list_ex (\<lambda>g. 30 < cg_highchan g - cg_lowchan g + 1) gs | _ \<Rightarrow> False)"
proof
  obtain gs ctxs chans w where s: "itu_setup = Started gs ctxs chans w" "map length chans = [2, 1]"
    using itu_started by (auto split: main_result.splits)
  show "case itu_setup of Started gs ctxs chans w \<Rightarrow> map length chans = [2, 1] \<and> length ctxs = length gs \<and> list_all group_ok gs | _ \<Rightarrow> False"
    using s main_runs [of "openr2_context_new None full_io (mflib bare_context) (transcoder bare_context) (dtmfeng bare_context)"
        "mflib bare_context" "\<lambda>ctx. sim_iface" "\<lambda>c cnt. int (100 * c + cnt)" True "[]" "\<lambda>f. True" "\<lambda>f. Some itu_conf"
        "[OptC (cstr ''r2test.conf'')]" "\<lparr>sim_clock = Timeval 0 0, sim_rx = 0\<rparr>", folded itu_setup_def]
    unfolding s(1) main_result.case by (simp only: simp_thms)
  obtain gs where l: "long_setup = Overruns gs" "length gs = 1"
    using long_overruns by (auto split: main_result.splits)
  show "case long_setup of Overruns gs \<Rightarrow> length gs = 1 \<and> list_ex (\<lambda>g. 30 < cg_highchan g - cg_lowchan g + 1) gs | _ \<Rightarrow> False"
    using l main_runs [of "openr2_context_new None full_io (mflib bare_context) (transcoder bare_context) (dtmfeng bare_context)"
        "mflib bare_context" "\<lambda>ctx. sim_iface" "\<lambda>c cnt. int (100 * c + cnt)" True "[]" "\<lambda>f. True"
        "\<lambda>f. Some (cstr ''variant=itu'' @ [10] @ cstr ''channel=1-31'' @ [10])"
        "[OptC (cstr ''r2test.conf'')]" "\<lparr>sim_clock = Timeval 0 0, sim_rx = 0\<rparr>", folded long_setup_def]
    unfolding l(1) main_result.case by (simp only: simp_thms)
qed

section \<open>Starting the threads\<close>

text \<open>
  A thread is named by the group and the place of its channel.  A listener makes its first round, decrements the
  counter under the mutex, and goes on in its loop; it may end in the loop, and an error callback may end it
  before.  A calling thread only loops.
\<close>

datatype thread_ref = Thread (thread_group: nat) (thread_place: nat)

datatype thread_at = NotCreated | FirstRound | Counting | Looping | EndedLooping | EndedEarly

text \<open>
  Main creates the listeners that are left, waits for the condition, has been woken and takes the mutex again,
  creates the calling threads that are left, or joins.
\<close>

datatype main_at = Listeners "thread_ref list" | CondWait | Woken | Callers "thread_ref list" | Joining

datatype holder = MainThread | Listener thread_ref

record startup =
  main_at :: main_at
  listener_count :: int
  count_lock :: "holder option"
  thread_at :: "thread_ref \<Rightarrow> thread_at"

fun group_threads :: "(chan_group_data_t \<Rightarrow> bool) \<Rightarrow> nat \<Rightarrow> chan_group_data_t list \<Rightarrow> thread_ref list" where
  "group_threads P c [] = []"
| "group_threads P c (g # gs) =
     (if P g then map (Thread c) [0..<nat (cg_highchan g - cg_lowchan g + 1)] else []) @ group_threads P (c + 1) gs"

definition listener_refs :: "chan_group_data_t list \<Rightarrow> thread_ref list" where
  "listener_refs gs = group_threads (\<lambda>g. cg_caller g = 0) 0 gs"

definition caller_refs :: "chan_group_data_t list \<Rightarrow> thread_ref list" where
  "caller_refs gs = group_threads (\<lambda>g. cg_caller g \<noteq> 0) 0 gs"

definition main_start :: "chan_group_data_t list \<Rightarrow> startup" where
  "main_start gs = \<lparr>main_at = Listeners (listener_refs gs), listener_count = 0, count_lock = Some MainThread,
     thread_at = (\<lambda>i. NotCreated)\<rparr>"

text \<open>
  Creating a thread fails when \<open>res\<close> is not 0.  After the last listener main waits, which releases the mutex, or
  releases it when there is nobody to wait for.
\<close>

definition create_listener :: "int \<Rightarrow> thread_ref \<Rightarrow> thread_ref list \<Rightarrow> startup \<Rightarrow> startup" where
  "create_listener res i is s =
     (let s = s\<lparr>main_at := Listeners is\<rparr> in
      if res \<noteq> 0 then s
      else s\<lparr>thread_at := (thread_at s)(i := FirstRound), listener_count := listener_count s + 1\<rparr>)"

definition listeners_created :: "thread_ref list \<Rightarrow> startup \<Rightarrow> startup" where
  "listeners_created callers s =
     (if listener_count s > 0 then s\<lparr>main_at := CondWait, count_lock := None\<rparr>
      else s\<lparr>main_at := Callers callers, count_lock := None\<rparr>)"

definition main_woken :: "thread_ref list \<Rightarrow> startup \<Rightarrow> startup" where
  "main_woken callers s = s\<lparr>main_at := Callers callers, count_lock := Some MainThread\<rparr>"

definition create_caller :: "int \<Rightarrow> thread_ref \<Rightarrow> thread_ref list \<Rightarrow> startup \<Rightarrow> startup" where
  "create_caller res i is s =
     (let s = s\<lparr>main_at := Callers is\<rparr> in if res \<noteq> 0 then s else s\<lparr>thread_at := (thread_at s)(i := Looping)\<rparr>)"

text \<open>What a listener does under the mutex, which it then releases: the signal wakes main if it waits.\<close>

definition count_listener :: "thread_ref \<Rightarrow> startup \<Rightarrow> startup" where
  "count_listener i s =
     (case listener_ready (listener_count s) of
        (n, signals) \<Rightarrow> s\<lparr>listener_count := n, main_at := (if signals \<and> main_at s = CondWait then Woken else main_at s),
          count_lock := None, thread_at := (thread_at s)(i := Looping)\<rparr>)"

text \<open>
  The steps of main and the threads.  \<open>spurious\<close> allows the wakeups without a signal that POSIX allows a wait for a
  condition, \<open>quits\<close> the errors that end a listener in its first round.
\<close>

inductive start_step :: "bool \<Rightarrow> bool \<Rightarrow> thread_ref list \<Rightarrow> startup \<Rightarrow> startup \<Rightarrow> bool"
  for spurious quits callers where
  create: "main_at s = Listeners (i # is) \<Longrightarrow> start_step spurious quits callers s (create_listener res i is s)"
| created: "main_at s = Listeners [] \<Longrightarrow> start_step spurious quits callers s (listeners_created callers s)"
| wakeup: "spurious \<Longrightarrow> main_at s = CondWait \<Longrightarrow> start_step spurious quits callers s (s\<lparr>main_at := Woken\<rparr>)"
| relock: "main_at s = Woken \<Longrightarrow> count_lock s = None \<Longrightarrow> start_step spurious quits callers s (main_woken callers s)"
| call: "main_at s = Callers (i # is) \<Longrightarrow> start_step spurious quits callers s (create_caller res i is s)"
| called: "main_at s = Callers [] \<Longrightarrow> start_step spurious quits callers s (s\<lparr>main_at := Joining\<rparr>)"
| lock: "thread_at s i = FirstRound \<Longrightarrow> count_lock s = None \<Longrightarrow>
    start_step spurious quits callers s (s\<lparr>thread_at := (thread_at s)(i := Counting), count_lock := Some (Listener i)\<rparr>)"
| count: "thread_at s i = Counting \<Longrightarrow> start_step spurious quits callers s (count_listener i s)"
| ended: "thread_at s i = Looping \<Longrightarrow> start_step spurious quits callers s (s\<lparr>thread_at := (thread_at s)(i := EndedLooping)\<rparr>)"
| quit: "quits \<Longrightarrow> thread_at s i = FirstRound \<Longrightarrow>
    start_step spurious quits callers s (s\<lparr>thread_at := (thread_at s)(i := EndedEarly)\<rparr>)"

abbreviation start_steps :: "bool \<Rightarrow> bool \<Rightarrow> thread_ref list \<Rightarrow> startup \<Rightarrow> startup \<Rightarrow> bool" where
  "start_steps spurious quits callers \<equiv> (start_step spurious quits callers)\<^sup>*\<^sup>*"

section \<open>What holds while the threads start\<close>

text \<open>The listeners the counter still counts: those that have not reported, and those that never will.\<close>

definition unready :: "(thread_ref \<Rightarrow> thread_at) \<Rightarrow> thread_ref set" where
  "unready f = {i. f i \<in> {FirstRound, Counting, EndedEarly}}"

lemma unready_update [simp]:
  "unready (f(i := p)) = (if p \<in> {FirstRound, Counting, EndedEarly} then insert i (unready f) else unready f - {i})"
  by (auto simp: unready_def)

lemma in_unready: "i \<in> unready f \<longleftrightarrow> f i \<in> {FirstRound, Counting, EndedEarly}"
  by (simp add: unready_def)

fun main_consistent :: "main_at \<Rightarrow> startup \<Rightarrow> bool" where
  "main_consistent (Listeners is) s \<longleftrightarrow>
     count_lock s = Some MainThread \<and> distinct is \<and> (\<forall>i \<in> set is. thread_at s i = NotCreated)"
| "main_consistent CondWait s \<longleftrightarrow> listener_count s > 0 \<and> count_lock s \<noteq> Some MainThread"
| "main_consistent Woken s \<longleftrightarrow> listener_count s = 0 \<and> count_lock s \<noteq> Some MainThread"
| "main_consistent (Callers is) s \<longleftrightarrow> listener_count s = 0"
| "main_consistent Joining s \<longleftrightarrow> listener_count s = 0"

definition start_ok :: "startup \<Rightarrow> bool" where
  "start_ok s \<longleftrightarrow> finite (unready (thread_at s)) \<and> listener_count s = int (card (unready (thread_at s))) \<and>
     (\<forall>i. count_lock s = Some (Listener i) \<longleftrightarrow> thread_at s i = Counting) \<and> main_consistent (main_at s) s"

lemma group_threads_from: "i \<in> set (group_threads P c gs) \<Longrightarrow> c \<le> thread_group i"
  by (induction gs arbitrary: c) (auto split: if_splits dest: Suc_leD)

lemma distinct_group_threads: "distinct (group_threads P c gs)"
  by (induction gs arbitrary: c) (auto simp: distinct_map inj_on_def dest: group_threads_from)

lemma main_start_ok: "start_ok (main_start gs)"
  by (simp add: start_ok_def main_start_def unready_def listener_refs_def distinct_group_threads)

lemma nobody_unready: "start_ok s \<Longrightarrow> listener_count s = 0 \<Longrightarrow> unready (thread_at s) = {}"
  unfolding start_ok_def by (metis card_0_eq of_nat_eq_0_iff)

lemma start_step_ok:
  assumes "start_step False quits callers s s'" "start_ok s"
  shows "start_ok s'"
  using assms
proof (cases rule: start_step.cases)
  case (create i "is" res)
  then have "i \<notin> unready (thread_at s)" using assms(2) by (auto simp: start_ok_def in_unready)
  then show ?thesis using create assms(2)
    by (auto simp: start_ok_def create_listener_def Let_def)
next
  case created
  then show ?thesis using assms(2) by (auto simp: start_ok_def listeners_created_def)
next
  case relock
  then show ?thesis using assms(2) by (auto simp: start_ok_def main_woken_def)
next
  case (call i "is" res)
  then have "listener_count s = 0" using assms(2) by (force simp: start_ok_def simp del: card_0_eq)
  then have none: "unready (thread_at s) = {}" by (rule nobody_unready [OF assms(2)])
  then have "thread_at s i \<noteq> Counting" by (auto simp: unready_def)
  then show ?thesis using none call assms(2) by (auto simp: start_ok_def create_caller_def Let_def)
next
  case called
  then show ?thesis using assms(2) by (auto simp: start_ok_def)
next
  case (lock i)
  then have "i \<in> unready (thread_at s)" by (simp add: in_unready)
  then show ?thesis using lock assms(2) by (cases "main_at s") (auto simp: start_ok_def insert_absorb)
next
  case (count i)
  then have i: "i \<in> unready (thread_at s)" by (simp add: in_unready)
  moreover have "card (unready (thread_at s)) > 0" using i assms(2) by (auto simp: start_ok_def card_gt_0_iff)
  ultimately have n: "int (card (unready (thread_at s) - {i})) = listener_count s - 1" "listener_count s > 0"
    using assms(2) by (auto simp: start_ok_def of_nat_diff)
  have only: "j = i" if "thread_at s j = Counting" for j
    using that count assms(2) unfolding start_ok_def by (metis holder.inject option.inject)
  have waits: "main_at s = CondWait"
    using assms(2) n(2) count by (cases "main_at s") (auto simp: start_ok_def)
  have fields: "listener_count s' = listener_count s - 1" "count_lock s' = None" "thread_at s' = (thread_at s)(i := Looping)"
    "main_at s' = (if listener_count s = 1 then Woken else CondWait)"
    using count waits by (simp_all add: count_listener_def listener_ready_def)
  have "main_consistent (main_at s') s'" using n(2) fields by simp
  then show ?thesis using assms(2) n only fields by (auto simp: start_ok_def)
next
  case (ended i)
  then have "i \<notin> unready (thread_at s)" by (simp add: in_unready)
  then show ?thesis using ended assms(2) by (cases "main_at s") (auto simp: start_ok_def)
next
  case (quit i)
  then have "i \<in> unready (thread_at s)" by (simp add: in_unready)
  then show ?thesis using quit assms(2) by (cases "main_at s") (auto simp: start_ok_def insert_absorb)
qed simp

lemma start_steps_ok:
  "start_steps False quits callers s s' \<Longrightarrow> start_ok s \<Longrightarrow> start_ok s'"
  by (induction rule: rtranclp_induct) (auto intro: start_step_ok)

lemma no_early:
  "start_steps spurious False callers s s' \<Longrightarrow> EndedEarly \<notin> range (thread_at s) \<Longrightarrow> EndedEarly \<notin> range (thread_at s')"
proof (induction rule: rtranclp_induct)
  case (step s1 s2)
  have early: "EndedEarly \<notin> range (thread_at s1)" by (rule step.IH [OF step.prems])
  show ?case using step.hyps(2) early
    by (cases rule: start_step.cases)
      (auto simp: create_listener_def listeners_created_def main_woken_def create_caller_def count_listener_def
        listener_ready_def Let_def image_iff split: if_splits)
qed

lemma start_goes_on:
  assumes ok: "start_ok s" and early: "EndedEarly \<notin> range (thread_at s)" and at: "main_at s \<noteq> Joining"
  shows "\<exists>s'. start_step spurious quits callers s s'"
proof -
  have early: "thread_at s i \<noteq> EndedEarly" for i using early by (metis rangeI)
  have held: ?thesis if "count_lock s = Some (Listener i)" for i
    using that ok by (auto simp: start_ok_def intro: start_step.count)
  have free: ?thesis if "count_lock s \<noteq> Some MainThread" "count_lock s \<noteq> None"
    using that held by (cases "count_lock s"; cases "the (count_lock s)") auto
  show ?thesis
  proof (cases "main_at s")
    case (Listeners "is")
    then show ?thesis by (cases "is") (auto intro: start_step.created start_step.create)
  next
    case CondWait
    then have "unready (thread_at s) \<noteq> {}" "count_lock s \<noteq> Some MainThread" using ok by (auto simp: start_ok_def)
    then obtain i where i: "thread_at s i \<in> {FirstRound, Counting}"
      using early by (auto simp: unready_def)
    then show ?thesis using free \<open>count_lock s \<noteq> Some MainThread\<close>
      by (cases "count_lock s = None") (auto intro: start_step.lock start_step.count)
  next
    case Woken
    then have "count_lock s \<noteq> Some MainThread" using ok by (auto simp: start_ok_def)
    then show ?thesis using Woken free by (cases "count_lock s = None") (auto intro: start_step.relock)
  next
    case (Callers "is")
    then show ?thesis by (cases "is") (auto intro: start_step.call start_step.called)
  qed (use at in simp)
qed

section \<open>Callers come after listeners, and nobody is stuck\<close>

text \<open>
  C17: However main and the threads are interleaved, as long as a wait for a condition only ends by a signal: no
  calling thread is created before every listener that was created has reported, and, when no error ends
  a listener in its first round, the program always goes on until main joins.
\<close>

theorem callers_after_listeners:
  assumes "start_steps False quits (caller_refs gs) (main_start gs) s"
  shows "(main_at s = Joining \<or> (\<exists>is. main_at s = Callers is) \<longrightarrow>
      listener_count s = 0 \<and> (\<forall>i. thread_at s i \<notin> {FirstRound, Counting})) \<and>
    (\<not> quits \<and> main_at s \<noteq> Joining \<longrightarrow> (\<exists>s'. start_step False quits (caller_refs gs) s s'))"
proof -
  have ok: "start_ok s" by (rule start_steps_ok [OF assms main_start_ok])
  have "\<forall>i. thread_at s i \<notin> {FirstRound, Counting}" if "listener_count s = 0"
    using nobody_unready [OF ok that] by (auto simp: unready_def)
  moreover have "listener_count s = 0" if "main_at s = Joining \<or> (\<exists>is. main_at s = Callers is)"
    using ok that by (auto simp: start_ok_def)
  moreover have "EndedEarly \<notin> range (thread_at s)" if "\<not> quits"
    using no_early [of False "caller_refs gs" "main_start gs" s] assms that by (auto simp: main_start_def)
  ultimately show ?thesis using start_goes_on [OF ok] by blast
qed

text \<open>Two groups of one channel each, the first one waiting for calls.\<close>

definition two_groups :: "chan_group_data_t list" where
  "two_groups = [(initial_conf [])\<lparr>cg_lowchan := 1, cg_highchan := 1\<rparr>, (initial_conf [])\<lparr>cg_lowchan := 2, cg_highchan := 2, cg_caller := 1\<rparr>]"

lemma two_groups_refs: "listener_refs two_groups = [Thread 0 0]" "caller_refs two_groups = [Thread 1 0]"
  by (simp_all add: listener_refs_def caller_refs_def two_groups_def initial_conf_def)

definition waiting_state :: startup where
  "waiting_state = \<lparr>main_at = CondWait, listener_count = 1, count_lock = None, thread_at = (\<lambda>i. NotCreated)(Thread 0 0 := FirstRound)\<rparr>"

lemma main_waits: "start_steps spurious quits (caller_refs two_groups) (main_start two_groups) waiting_state"
proof -
  let ?s = "create_listener 0 (Thread 0 0) [] (main_start two_groups)"
  have "start_step spurious quits (caller_refs two_groups) (main_start two_groups) ?s"
    by (rule start_step.create) (simp add: main_start_def two_groups_refs)
  moreover have "start_step spurious quits (caller_refs two_groups) ?s (listeners_created (caller_refs two_groups) ?s)"
    by (rule start_step.created) (simp add: create_listener_def)
  moreover have "listeners_created (caller_refs two_groups) ?s = waiting_state"
    by (simp add: listeners_created_def create_listener_def main_start_def waiting_state_def Let_def)
  ultimately show ?thesis by (metis converse_rtranclp_into_rtranclp r_into_rtranclp)
qed

text \<open>The listener reports, main is woken and takes the mutex.\<close>

definition calling_state :: startup where
  "calling_state = \<lparr>main_at = Callers [Thread 1 0], listener_count = 0, count_lock = Some MainThread,
     thread_at = (\<lambda>i. NotCreated)(Thread 0 0 := Looping)\<rparr>"

lemma main_calls: "start_steps spurious quits (caller_refs two_groups) waiting_state calling_state"
proof -
  let ?s = "waiting_state\<lparr>thread_at := (thread_at waiting_state)(Thread 0 0 := Counting), count_lock := Some (Listener (Thread 0 0))\<rparr>"
  have "start_step spurious quits (caller_refs two_groups) waiting_state ?s"
    by (rule start_step.lock) (simp_all add: waiting_state_def)
  moreover have "start_step spurious quits (caller_refs two_groups) ?s (count_listener (Thread 0 0) ?s)"
    by (rule start_step.count) simp
  moreover have "start_step spurious quits (caller_refs two_groups) (count_listener (Thread 0 0) ?s)
      (main_woken (caller_refs two_groups) (count_listener (Thread 0 0) ?s))"
    by (rule start_step.relock) (simp_all add: count_listener_def listener_ready_def waiting_state_def)
  moreover have "main_woken (caller_refs two_groups) (count_listener (Thread 0 0) ?s) = calling_state"
    by (simp add: main_woken_def count_listener_def listener_ready_def waiting_state_def calling_state_def two_groups_refs)
  ultimately show ?thesis by (metis converse_rtranclp_into_rtranclp r_into_rtranclp)
qed

lemma callers_after_listeners_witness:
  "start_steps False False (caller_refs two_groups) (main_start two_groups) calling_state \<and> listener_count calling_state = 0 \<and>
   (\<exists>s'. start_step False False (caller_refs two_groups) calling_state s')"
proof -
  have r: "start_steps False False (caller_refs two_groups) (main_start two_groups) calling_state"
    using main_waits main_calls by (rule rtranclp_trans)
  show ?thesis using r callers_after_listeners [OF r] by (simp add: calling_state_def)
qed

section \<open>Main keeps the mutex\<close>

text \<open>
  Main never releases the mutex after its wait.  A wakeup without a signal, which POSIX allows and the code does not
  check for, therefore leaves every listener that has not reported where it is for ever, and its calls with it.
\<close>

definition left_behind :: "thread_ref \<Rightarrow> startup \<Rightarrow> bool" where
  "left_behind i s \<longleftrightarrow> count_lock s = Some MainThread \<and> thread_at s i = FirstRound \<and> (\<forall>j. thread_at s j \<noteq> Counting) \<and>
     (main_at s = Joining \<or> (\<exists>is. main_at s = Callers is \<and> i \<notin> set is))"

lemma left_behind_step:
  assumes "start_step spurious False callers s s'" "left_behind i s"
  shows "left_behind i s'"
  using assms
  by (cases rule: start_step.cases) (auto simp: left_behind_def create_caller_def Let_def)

lemma left_behind_steps: "start_steps spurious False callers s s' \<Longrightarrow> left_behind i s \<Longrightarrow> left_behind i s'"
  by (induction rule: rtranclp_induct) (auto intro: left_behind_step)

text \<open>One wakeup without a signal is enough for it.\<close>

theorem spurious_wakeup_blocks:
  "\<exists>s. start_steps True False (caller_refs two_groups) (main_start two_groups) s \<and>
     {s'. start_steps True False (caller_refs two_groups) s s'} \<subseteq> {s'. thread_at s' (Thread 0 0) = FirstRound}"
proof -
  let ?s = "main_woken (caller_refs two_groups) (waiting_state\<lparr>main_at := Woken\<rparr>)"
  have "start_step True False (caller_refs two_groups) waiting_state (waiting_state\<lparr>main_at := Woken\<rparr>)"
    by (rule start_step.wakeup) (simp_all add: waiting_state_def)
  moreover have "start_step True False (caller_refs two_groups) (waiting_state\<lparr>main_at := Woken\<rparr>) ?s"
    by (rule start_step.relock) (simp_all add: waiting_state_def)
  ultimately have "start_steps True False (caller_refs two_groups) (main_start two_groups) ?s"
    using main_waits by (meson rtranclp.rtrancl_into_rtrancl)
  moreover have "left_behind (Thread 0 0) ?s"
    by (simp add: left_behind_def main_woken_def waiting_state_def two_groups_refs)
  then have "thread_at s' (Thread 0 0) = FirstRound" if "start_steps True False (caller_refs two_groups) ?s s'" for s'
    using left_behind_steps [OF that] by (simp add: left_behind_def)
  ultimately show ?thesis by blast
qed

text \<open>
  An error that ends a listener in its first round, from a callback of the library, leaves the counter
  positive: main waits for ever and no call is ever made.
\<close>

definition given_up :: "thread_ref \<Rightarrow> startup \<Rightarrow> bool" where
  "given_up i s \<longleftrightarrow> start_ok s \<and> thread_at s i = EndedEarly \<and> i \<notin> (case main_at s of Listeners is \<Rightarrow> set is | _ \<Rightarrow> {})"

lemma given_up_waits:
  assumes "given_up i s"
  shows "main_at s = CondWait \<or> (\<exists>is. main_at s = Listeners is)"
proof -
  have "i \<in> unready (thread_at s)" using assms by (simp add: given_up_def in_unready)
  then have "listener_count s \<noteq> 0" using assms nobody_unready [of s] by (auto simp: given_up_def)
  then show ?thesis using assms by (cases "main_at s") (auto simp: given_up_def start_ok_def)
qed

lemma given_up_step:
  assumes s: "start_step False quits callers s s'" and i: "given_up i s"
  shows "given_up i s'"
proof -
  have "start_ok s'" using start_step_ok [OF s] i by (simp add: given_up_def)
  with s show ?thesis using i given_up_waits [OF i]
    by (cases rule: start_step.cases)
      (auto simp: given_up_def create_listener_def listeners_created_def count_listener_def listener_ready_def Let_def
        split: main_at.splits if_splits)
qed

theorem early_end_blocks:
  assumes "start_steps False quits callers s s'" "given_up i s"
  shows "main_at s' = CondWait \<or> (\<exists>is. main_at s' = Listeners is)"
proof -
  from assms have "given_up i s'" by (induction rule: rtranclp_induct) (auto intro: given_up_step)
  then show ?thesis by (rule given_up_waits)
qed

lemma early_end_reachable:
  "start_steps False True (caller_refs two_groups) (main_start two_groups)
     (waiting_state\<lparr>thread_at := (thread_at waiting_state)(Thread 0 0 := EndedEarly)\<rparr>) \<and>
   given_up (Thread 0 0) (waiting_state\<lparr>thread_at := (thread_at waiting_state)(Thread 0 0 := EndedEarly)\<rparr>)"
proof -
  let ?s = "waiting_state\<lparr>thread_at := (thread_at waiting_state)(Thread 0 0 := EndedEarly)\<rparr>"
  have "start_step False True (caller_refs two_groups) waiting_state ?s"
    by (rule start_step.quit) (simp_all add: waiting_state_def)
  then have r: "start_steps False True (caller_refs two_groups) (main_start two_groups) ?s"
    using main_waits by (meson rtranclp.rtrancl_into_rtrancl)
  then show ?thesis
    using start_steps_ok [OF r main_start_ok] by (simp add: given_up_def waiting_state_def)
qed

end
