(* ===== verification/R2DtmfEngine.thy ===== *)
theory R2DtmfEngine
  imports R2MfEngine R2Queue
begin

text \<open>
  The DTMF engine of \<open>r2engine.c\<close>: the generator, which plays the digits of its byte queue one after
  the other, and the detector with its decision at the end of a block of 102 samples and the
  debouncing of successive decisions.  The generator is shown to play the concatenation of the tones of
  the queued digits however it is cut into buffers; the debouncing is compared with the patterns the
  source promises for it.
\<close>

section \<open>The tables\<close>

definition dtmf_row :: "int list" where
  "dtmf_row = [697, 770, 852, 941]"

definition dtmf_col :: "int list" where
  "dtmf_col = [1209, 1336, 1477, 1633]"

definition dtmf_positions :: "int list" where
  "dtmf_positions = cstr ''123A456B789C*0#D''"

abbreviation (input) "DEFAULT_DTMF_TX_LEVEL \<equiv> -10 :: int"
abbreviation (input) "DEFAULT_DTMF_TX_ON_TIME \<equiv> 50 :: int"
abbreviation (input) "DEFAULT_DTMF_TX_OFF_TIME \<equiv> 55 :: int"

text \<open>The sixteen tones, row by row.\<close>

definition dtmf_digit_tones :: "'f flops \<Rightarrow> 'f tone_gen_descriptor list" where
  "dtmf_digit_tones fo =
     concat (map (\<lambda>row. map (\<lambda>col.
       make_tone_gen_descriptor fo row DEFAULT_DTMF_TX_LEVEL col DEFAULT_DTMF_TX_LEVEL
         DEFAULT_DTMF_TX_ON_TIME DEFAULT_DTMF_TX_OFF_TIME 0 0 False) dtmf_col) dtmf_row)"

section \<open>The generator\<close>

record 'f dtmf_tx_state =
  dx_tones :: "'f tone_gen_state"
  dx_low_level :: 'f
  dx_high_level :: 'f
  dx_on_time :: int
  dx_off_time :: int
  dx_queue :: queue_state

definition openr2_dtmf_tx_set_level :: "'f flops \<Rightarrow> 'f dtmf_tx_state \<Rightarrow> int \<Rightarrow> int \<Rightarrow> 'f dtmf_tx_state" where
  "openr2_dtmf_tx_set_level fo s level twist =
     s\<lparr>dx_low_level := dds_scaling_dbm0f fo (f_of_int fo level),
       dx_high_level := dds_scaling_dbm0f fo (f_of_int fo (level + twist))\<rparr>"

definition openr2_dtmf_tx_set_timing :: "'f dtmf_tx_state \<Rightarrow> int \<Rightarrow> int \<Rightarrow> 'f dtmf_tx_state" where
  "openr2_dtmf_tx_set_timing s on_time off_time =
     s\<lparr>dx_on_time := (if on_time \<ge> 0 then on_time else DEFAULT_DTMF_TX_ON_TIME) * SAMPLE_RATE sdiv 1000,
       dx_off_time := (if off_time \<ge> 0 then off_time else DEFAULT_DTMF_TX_OFF_TIME) * SAMPLE_RATE sdiv 1000\<rparr>"

text \<open>\<open>memory\<close> is what the buffer of the queue holds before.\<close>

definition openr2_dtmf_tx_init :: "'f flops \<Rightarrow> 8 word list \<Rightarrow> 'f dtmf_tx_state" where
  "openr2_dtmf_tx_init fo memory =
     (let s = \<lparr>dx_tones = tone_gen_init (dtmf_digit_tones fo ! 0), dx_low_level = f_lit fo 0 1, dx_high_level = f_lit fo 0 1,
               dx_on_time = 0, dx_off_time = 0,
               dx_queue = queue_init memory 128 (QUEUE_READ_ATOMIC OR QUEUE_WRITE_ATOMIC)\<rparr>;
          s1 = openr2_dtmf_tx_set_level fo s DEFAULT_DTMF_TX_LEVEL 0;
          s2 = openr2_dtmf_tx_set_timing s1 (-1) (-1)
      in s2\<lparr>dx_tones := (dx_tones s2)\<lparr>current_section := -1\<rparr>\<rparr>)"

text \<open>
  \<open>digits\<close> are the cells the pointer gives, \<open>None\<close> an access outside of them.  The result of the C
  function is unsigned: its -1 is the largest number.
\<close>

definition openr2_dtmf_tx_put :: "'f dtmf_tx_state \<Rightarrow> int list \<Rightarrow> int \<Rightarrow> (int \<times> 'f dtmf_tx_state) option" where
  "openr2_dtmf_tx_put s digits len0 =
     (let len = (if len0 < 0 then int (length (c_string digits)) else len0) in
      if len0 < 0 \<and> len = 0 then Some (0, s)
      else if int (queue_free_space (dx_queue s)) < len then Some (len - int (queue_free_space (dx_queue s)), s)
      else if int (length digits) < len then None
      else case queue_write (dx_queue s) (map word_of_int (take (nat len) digits)) of
             None \<Rightarrow> None
           | Some (r, q) \<Rightarrow> Some (if r \<ge> 0 then 0 else -1, s\<lparr>dx_queue := q\<rparr>))"

text \<open>The state a digit starts with.\<close>

definition dtmf_digit_state :: "'f flops \<Rightarrow> 'f dtmf_tx_state \<Rightarrow> nat \<Rightarrow> 'f tone_gen_state" where
  "dtmf_digit_state fo s i =
     (let t = tone_gen_init (dtmf_digit_tones fo ! i) in
      t\<lparr>tg_tone := (tg_tone t)[0 := (tg_tone t ! 0)\<lparr>gain := dx_low_level s\<rparr>, 1 := (tg_tone t ! 1)\<lparr>gain := dx_high_level s\<rparr>],
        tg_duration := (tg_duration t)[0 := dx_on_time s, 1 := dx_off_time s]\<rparr>)"

partial_function (option) dtmf_tx_loop ::
  "'f flops \<Rightarrow> nat \<Rightarrow> 'f dtmf_tx_state \<Rightarrow> int list \<Rightarrow> (int list \<times> 'f dtmf_tx_state) option" where
  "dtmf_tx_loop fo max_samples s amp =
     (if length amp < max_samples then
        (case queue_read_byte (dx_queue s) of
           None \<Rightarrow> None
         | Some (digit, q) \<Rightarrow>
             if digit < 0 then Some (amp, s\<lparr>dx_queue := q\<rparr>)
             else case (if digit = 0 then None else strchr dtmf_positions digit) of
               None \<Rightarrow> dtmf_tx_loop fo max_samples (s\<lparr>dx_queue := q\<rparr>) amp
             | Some i \<Rightarrow>
                 Option.bind (tone_gen fo (dtmf_digit_state fo s i) (max_samples - length amp))
                   (\<lambda>(out, t). dtmf_tx_loop fo max_samples (s\<lparr>dx_queue := q, dx_tones := t\<rparr>) (amp @ out)))
      else Some (amp, s))"

definition openr2_dtmf_tx :: "'f flops \<Rightarrow> 'f dtmf_tx_state \<Rightarrow> nat \<Rightarrow> (int list \<times> 'f dtmf_tx_state) option" where
  "openr2_dtmf_tx fo s max_samples =
     (if current_section (dx_tones s) \<ge> 0
      then Option.bind (tone_gen fo (dx_tones s) max_samples)
             (\<lambda>(out, t). dtmf_tx_loop fo max_samples (s\<lparr>dx_tones := t\<rparr>) out)
      else dtmf_tx_loop fo max_samples s [])"

section \<open>The generator plays the queue\<close>

definition tone_all :: "'f flops \<Rightarrow> 'f tone_gen_state \<Rightarrow> int list" where
  "tone_all fo t = fst (tone_ref fo (tone_left t) t)"

lemma tone_off: "tone_ok t \<Longrightarrow> tone_left t = 0 \<Longrightarrow> tone_ref fo n t = ([], t)"
  by (simp add: tone_left_0)

lemma tone_ref_repeat_field: "tg_repeat (snd (tone_ref fo n t)) = tg_repeat t"
  by (induction n arbitrary: t) (simp_all add: case_prod_beta Let_def)

lemma tone_ref_all:
  assumes "tone_ok t" "\<not> tg_repeat t"
  shows "fst (tone_ref fo n t) = take n (tone_all fo t)" "tone_all fo (snd (tone_ref fo n t)) = drop n (tone_all fo t)"
proof -
  let ?t = "snd (tone_ref fo n t)"
  have ok: "tone_ok ?t" "\<not> tg_repeat ?t" using assms by (simp_all add: tone_ok_ref tone_ref_repeat_field)
  have l: "length (fst (tone_ref fo n t)) = min n (tone_left t)" "tone_left ?t = tone_left t - n"
    using tone_ref_length [OF assms, of fo n] by simp_all
  have la: "length (tone_all fo t) = tone_left t" using tone_ref_length [OF assms, of fo "tone_left t"] by (simp add: tone_all_def)
  have "fst (tone_ref fo n t) = take n (tone_all fo t) \<and> tone_all fo ?t = drop n (tone_all fo t)"
  proof (cases "n \<le> tone_left t")
    case True
    then have "tone_all fo t = fst (tone_ref fo n t) @ tone_all fo ?t"
      using tone_ref_add [of fo n "tone_left t - n" t] by (simp add: tone_all_def l case_prod_beta Let_def)
    then show ?thesis using l(1) True by simp
  next
    case False
    let ?u = "snd (tone_ref fo (tone_left t) t)"
    have "tone_ref fo (n - tone_left t) ?u = ([], ?u)"
      by (rule tone_off) (use assms tone_ok_ref tone_ref_length [OF assms, of fo "tone_left t"] in auto)
    then have "tone_ref fo n t = tone_ref fo (tone_left t) t"
      using tone_ref_add [of fo "tone_left t" "n - tone_left t" t] False by (simp add: case_prod_beta Let_def)
    then show ?thesis using la False l(2) ok tone_off [of ?t fo] by (simp add: tone_all_def)
  qed
  then show "fst (tone_ref fo n t) = take n (tone_all fo t)" "tone_all fo ?t = drop n (tone_all fo t)" by auto
qed

text \<open>The tone of a queued byte; bytes that are no digit are skipped.\<close>

definition digit_index :: "8 word \<Rightarrow> nat option" where
  "digit_index b = (if b = 0 then None else strchr dtmf_positions (uint b))"

definition digit_tone :: "'f flops \<Rightarrow> 'f dtmf_tx_state \<Rightarrow> 8 word \<Rightarrow> int list" where
  "digit_tone fo s b = (case digit_index b of None \<Rightarrow> [] | Some i \<Rightarrow> tone_all fo (dtmf_digit_state fo s i))"

text \<open>All that is still to be played.\<close>

definition dtmf_stream :: "'f flops \<Rightarrow> 'f dtmf_tx_state \<Rightarrow> int list" where
  "dtmf_stream fo s = tone_all fo (dx_tones s) @ concat (map (digit_tone fo s) (queue_abs (dx_queue s)))"

text \<open>A queue that has not reached the end of its buffer, and the states of a generator in use.\<close>

definition queue_flat :: "queue_state \<Rightarrow> bool" where
  "queue_flat q \<longleftrightarrow> length (q_data q) = q_len q \<and> q_optr q \<le> q_iptr q \<and> q_iptr q < q_len q"

definition dtmf_ok :: "'f dtmf_tx_state \<Rightarrow> bool" where
  "dtmf_ok s \<longleftrightarrow> queue_flat (dx_queue s) \<and> 0 < dx_on_time s \<and> 0 \<le> dx_off_time s \<and>
     tone_ok (dx_tones s) \<and> \<not> tg_repeat (dx_tones s)"

lemma read_byte_flat:
  assumes "queue_flat q"
  shows "(case queue_abs q of
      [] \<Rightarrow> queue_read_byte q = Some (-1, q)
    | b # bs \<Rightarrow> \<exists>q'. queue_read_byte q = Some (uint b, q') \<and> queue_flat q' \<and> queue_abs q' = bs)"
proof (cases "q_optr q = q_iptr q")
  case True
  then show ?thesis by (simp add: queue_abs_def queue_read_byte_def queue_contents_eq)
next
  case False
  let ?k = "q_optr q" and ?n = "q_iptr q - q_optr q"
  have f: "?k < q_iptr q" "q_iptr q < q_len q" "length (q_data q) = q_len q" using assms False by (auto simp: queue_flat_def)
  have "drop ?k (q_data q) = q_data q ! ?k # drop (Suc ?k) (q_data q)" using f by (simp add: Cons_nth_drop_Suc)
  moreover have "?n = Suc (q_iptr q - Suc ?k)" using f by simp
  ultimately have "queue_abs q = q_data q ! ?k # take (q_iptr q - Suc ?k) (drop (Suc ?k) (q_data q))"
    using f by (simp add: queue_abs_def)
  moreover have "queue_read_byte q = Some (uint (q_data q ! ?k), q\<lparr>q_optr := Suc ?k\<rparr>)"
    using f by (simp add: queue_read_byte_def queue_contents_eq arr_get_def Let_def)
  ultimately show ?thesis using f by (simp add: queue_flat_def queue_abs_def)
qed

lemma digit_tones_length: "length (dtmf_digit_tones fo) = 16"
  by (simp add: dtmf_digit_tones_def dtmf_row_def dtmf_col_def)

lemma digit_tones_shape:
  "i < 16 \<Longrightarrow> length (td_duration (dtmf_digit_tones fo ! i)) = 4 \<and> \<not> td_repeat (dtmf_digit_tones fo ! i) \<and>
     drop 2 (td_duration (dtmf_digit_tones fo ! i)) = [0, 0] \<and> length (td_tone (dtmf_digit_tones fo ! i)) = 4"
proof -
  have "list_all (\<lambda>d. length (td_duration d) = 4 \<and> \<not> td_repeat d \<and> drop 2 (td_duration d) = [0, 0] \<and> length (td_tone d) = 4)
      (dtmf_digit_tones fo)"
    by (simp add: dtmf_digit_tones_def dtmf_row_def dtmf_col_def make_tone_gen_descriptor_def Let_def)
  then show "i < 16 \<Longrightarrow> ?thesis" by (simp add: list_all_length digit_tones_length)
qed

lemma digit_index_bound: "digit_index b = Some i \<Longrightarrow> i < 16"
  using strchr_bound [of dtmf_positions "uint b" i] by (auto simp: digit_index_def dtmf_positions_def cstr_def split: if_splits)

lemma digit_state_ok:
  assumes "0 < dx_on_time s" "0 \<le> dx_off_time s" "i < 16"
  shows "tone_ok (dtmf_digit_state fo s i)" "\<not> tg_repeat (dtmf_digit_state fo s i)"
proof -
  let ?d = "td_duration (dtmf_digit_tones fo ! i)"
  have "length ?d = 4" "drop 2 ?d = [0, 0]" using digit_tones_shape [OF assms(3)] by auto
  then obtain a b where "?d = [a, b, 0, 0]"
    by (cases ?d rule: list.exhaust; cases "tl ?d") (auto simp: numeral_2_eq_2 Suc_length_conv)
  then show "tone_ok (dtmf_digit_state fo s i)" "\<not> tg_repeat (dtmf_digit_state fo s i)"
    using assms digit_tones_shape [OF assms(3), of fo]
    by (simp_all add: dtmf_digit_state_def tone_gen_init_def tone_ok_def Let_def)
qed

lemma digit_tone_cong:
  "dx_low_level t = dx_low_level s \<Longrightarrow> dx_high_level t = dx_high_level s \<Longrightarrow> dx_on_time t = dx_on_time s \<Longrightarrow>
   dx_off_time t = dx_off_time s \<Longrightarrow> dtmf_digit_state fo t i = dtmf_digit_state fo s i"
  by (simp add: dtmf_digit_state_def)

lemma digit_tone_updates [simp]:
  "digit_tone fo (s\<lparr>dx_queue := q\<rparr>) = digit_tone fo s" "digit_tone fo (s\<lparr>dx_tones := u\<rparr>) = digit_tone fo s"
  by (auto simp: digit_tone_def fun_eq_iff dtmf_digit_state_def split: option.splits)

text \<open>What is promised of playing \<open>n\<close> samples: they are the next of the stream.\<close>

definition plays :: "'f flops \<Rightarrow> nat \<Rightarrow> 'f dtmf_tx_state \<Rightarrow> int list \<Rightarrow> 'f dtmf_tx_state \<Rightarrow> bool" where
  "plays fo n s out s' \<longleftrightarrow> dtmf_ok s' \<and> out = take n (dtmf_stream fo s) \<and> dtmf_stream fo s' = drop n (dtmf_stream fo s)"

lemma tone_all_off: "tone_ok t \<Longrightarrow> current_section t < 0 \<Longrightarrow> tone_all fo t = []"
  by (simp add: tone_all_def)

lemma stream_split:
  "take n X @ take (n - length (take n X)) (drop n X @ R) = take n (X @ R)"
  "drop (n - length (take n X)) (drop n X @ R) = drop n (X @ R)"
  by (cases "n \<le> length X"; simp)+

lemma plays_after:
  assumes "plays fo (n - length out) u out2 s'" "out = take n X" "dtmf_stream fo u = drop n X @ R" "dtmf_stream fo s = X @ R"
  shows "plays fo n s (out @ out2) s'"
  using assms(1) unfolding plays_def assms(2-4) by (simp only: stream_split)

lemma dtmf_loop_plays:
  "dtmf_ok s \<Longrightarrow> current_section (dx_tones s) < 0 \<or> length amp = max_samples \<Longrightarrow> length amp \<le> max_samples \<Longrightarrow>
   \<exists>out s'. dtmf_tx_loop fo max_samples s amp = Some (amp @ out, s') \<and> plays fo (max_samples - length amp) s out s'"
proof (induction "length (queue_abs (dx_queue s))" arbitrary: s amp rule: less_induct)
  case less
  show ?case
  proof (cases "length amp = max_samples")
    case True
    then show ?thesis using less.prems by (subst dtmf_tx_loop.simps) (simp add: plays_def)
  next
    case False
    then have lt: "length amp < max_samples" and off: "current_section (dx_tones s) < 0" using less.prems by auto
    have ok: "queue_flat (dx_queue s)" "tone_ok (dx_tones s)" using less.prems(1) by (simp_all add: dtmf_ok_def)
    have st: "dtmf_stream fo s = concat (map (digit_tone fo s) (queue_abs (dx_queue s)))"
      by (simp add: dtmf_stream_def tone_all_off ok off)
    show ?thesis
    proof (cases "queue_abs (dx_queue s)")
      case Nil
      then have "queue_read_byte (dx_queue s) = Some (-1, dx_queue s)" using read_byte_flat [OF ok(1)] by simp
      then show ?thesis using lt st Nil less.prems(1) by (subst dtmf_tx_loop.simps) (simp add: plays_def)
    next
      case (Cons b bs)
      then obtain q where q: "queue_read_byte (dx_queue s) = Some (uint b, q)" "queue_flat q" "queue_abs q = bs"
        using read_byte_flat [OF ok(1)] by auto
      have z: "(if uint b = 0 then None else strchr dtmf_positions (uint b)) = digit_index b"
        by (simp add: digit_index_def uint_0_iff)
      have step: "dtmf_tx_loop fo max_samples s amp =
          (case digit_index b of None \<Rightarrow> dtmf_tx_loop fo max_samples (s\<lparr>dx_queue := q\<rparr>) amp
           | Some i \<Rightarrow> Option.bind (tone_gen fo (dtmf_digit_state fo s i) (max_samples - length amp))
               (\<lambda>(out, t). dtmf_tx_loop fo max_samples (s\<lparr>dx_queue := q, dx_tones := t\<rparr>) (amp @ out)))"
        using lt q(1) by (subst dtmf_tx_loop.simps) (simp add: z)
      show ?thesis
      proof (cases "digit_index b")
        case None
        have "dtmf_ok (s\<lparr>dx_queue := q\<rparr>)" using less.prems(1) q by (simp add: dtmf_ok_def)
        then obtain out s' where "dtmf_tx_loop fo max_samples (s\<lparr>dx_queue := q\<rparr>) amp = Some (amp @ out, s')"
            "plays fo (max_samples - length amp) (s\<lparr>dx_queue := q\<rparr>) out s'"
          using less.hyps [of "s\<lparr>dx_queue := q\<rparr>" amp] Cons q(3) less.prems(2,3) by auto
        moreover have "dtmf_stream fo (s\<lparr>dx_queue := q\<rparr>) = dtmf_stream fo s"
          using Cons None q by (simp add: dtmf_stream_def digit_tone_def)
        ultimately show ?thesis unfolding step None by (simp add: plays_def)
      next
        case (Some i)
        let ?n = "max_samples - length amp" and ?d = "dtmf_digit_state fo s i"
        have d: "tone_ok ?d" "\<not> tg_repeat ?d"
          using digit_state_ok [of s i fo] digit_index_bound [OF Some] less.prems(1) by (auto simp: dtmf_ok_def)
        obtain out t where ot: "tone_ref fo ?n ?d = (out, t)" by (cases "tone_ref fo ?n ?d")
        have out: "out = take ?n (tone_all fo ?d)" "tone_all fo t = drop ?n (tone_all fo ?d)" "tone_ok t" "\<not> tg_repeat t"
          using tone_ref_all [OF d, of fo ?n] tone_ok_ref [OF d(1), of fo ?n] tone_ref_repeat_field [of fo ?n ?d] d(2) ot by auto
        let ?u = "s\<lparr>dx_queue := q, dx_tones := t\<rparr>"
        have len: "length out = min ?n (tone_left ?d)" "tone_left t = tone_left ?d - ?n"
          using tone_ref_length [OF d, of fo ?n] ot by auto
        have oku: "dtmf_ok ?u" using less.prems(1) q out by (simp add: dtmf_ok_def)
        have offu: "current_section (dx_tones ?u) < 0 \<or> length (amp @ out) = max_samples"
          using len lt tone_left_0 [OF out(3)] by auto
        have le: "length (amp @ out) \<le> max_samples" using len(1) lt by simp
        obtain out2 s' where o2: "dtmf_tx_loop fo max_samples ?u (amp @ out) = Some ((amp @ out) @ out2, s')"
            "plays fo (max_samples - length (amp @ out)) ?u out2 s'"
          using less.hyps [OF _ oku offu le] Cons q(3) by auto
        have all: "dtmf_stream fo s = tone_all fo ?d @ concat (map (digit_tone fo s) bs)"
          using st Cons Some by (simp add: digit_tone_def)
        have u: "dtmf_stream fo ?u = tone_all fo t @ concat (map (digit_tone fo s) bs)"
          using q by (simp add: dtmf_stream_def)
        have "plays fo (?n - length out) ?u out2 s'" using o2(2) by simp
        then have "plays fo ?n s (out @ out2) s'" by (rule plays_after) (use out u all in simp_all)
        then show ?thesis unfolding step using Some ot d o2(1) by (simp add: tone_gen_is_ref)
      qed
    qed
  qed
qed

lemma dtmf_tx_plays:
  assumes "dtmf_ok s"
  shows "\<exists>out s'. openr2_dtmf_tx fo s n = Some (out, s') \<and> plays fo n s out s'"
proof (cases "current_section (dx_tones s) \<ge> 0")
  case False
  then show ?thesis using dtmf_loop_plays [OF assms, of "[]" n fo] by (simp add: openr2_dtmf_tx_def)
next
  case True
  have d: "tone_ok (dx_tones s)" "\<not> tg_repeat (dx_tones s)" using assms by (auto simp: dtmf_ok_def)
  obtain out t where ot: "tone_ref fo n (dx_tones s) = (out, t)" by (cases "tone_ref fo n (dx_tones s)")
  have out: "out = take n (tone_all fo (dx_tones s))" "tone_all fo t = drop n (tone_all fo (dx_tones s))" "tone_ok t" "\<not> tg_repeat t"
    using tone_ref_all [OF d, of fo n] tone_ok_ref [OF d(1), of fo n] tone_ref_repeat_field [of fo n "dx_tones s"] d(2) ot by auto
  have len: "length out = min n (tone_left (dx_tones s))" "tone_left t = tone_left (dx_tones s) - n"
    using tone_ref_length [OF d, of fo n] ot by auto
  let ?u = "s\<lparr>dx_tones := t\<rparr>"
  have oku: "dtmf_ok ?u" using assms out by (simp add: dtmf_ok_def)
  have offu: "current_section (dx_tones ?u) < 0 \<or> length out = n" using len tone_left_0 [OF out(3)] by auto
  obtain out2 s' where o2: "dtmf_tx_loop fo n ?u out = Some (out @ out2, s')" "plays fo (n - length out) ?u out2 s'"
    using dtmf_loop_plays [OF oku offu, of fo] len by auto
  have "plays fo n s (out @ out2) s'"
    by (rule plays_after [OF o2(2) out(1)]) (use out in \<open>simp_all add: dtmf_stream_def\<close>)
  then show ?thesis using True ot d o2(1) by (simp add: openr2_dtmf_tx_def tone_gen_is_ref)
qed

lemma write_flat:
  assumes "queue_flat q" "0 < length buf" "q_iptr q + length buf < q_len q"
  shows "\<exists>q'. queue_write q buf = Some (int (length buf), q') \<and> queue_flat q' \<and> queue_abs q' = queue_abs q @ buf"
proof -
  have f: "q_optr q \<le> q_iptr q" "length (q_data q) = q_len q" using assms by (auto simp: queue_flat_def)
  then have fs: "queue_free_space q \<ge> length buf" using assms(3) by (simp add: queue_free_space_eq)
  have te: "length buf \<le> q_len q - q_iptr q" using assms(3) by linarith
  let ?d = "take (q_iptr q) (q_data q) @ buf @ drop (q_iptr q + length buf) (q_data q)"
  have w: "queue_write q buf = Some (int (length buf), q\<lparr>q_data := ?d, q_iptr := q_iptr q + length buf\<rparr>)"
    using fs te assms f by (simp add: queue_write_def Let_def copy_to_def min_absorb2)
  then show ?thesis using f assms by (auto simp: queue_flat_def queue_abs_def drop_take)
qed

section \<open>The detector\<close>

abbreviation (input) "DTMF_THRESHOLD fo \<equiv> f_lit fo 80000000 0"
abbreviation (input) "DTMF_SAMPLES_PER_BLOCK \<equiv> 102 :: int"
abbreviation (input) "OR2_MAX_DTMF_DIGITS \<equiv> 128 :: int"

text \<open>The callbacks are present or not; the calls made to them are the reports of the detector.\<close>

datatype rx_report = Digits_callback "int list" int | Realtime_callback int int

record 'f dtmf_rx_state =
  dr_digits_callback :: bool
  dr_realtime_callback :: bool
  dr_filter_dialtone :: bool
  dr_normal_twist :: 'f
  dr_reverse_twist :: 'f
  dr_z350 :: "'f \<times> 'f"
  dr_z440 :: "'f \<times> 'f"
  dr_row_out :: "'f goertzel_state list"
  dr_col_out :: "'f goertzel_state list"
  dr_energy :: 'f
  dr_last_hit :: int
  dr_in_digit :: int
  dr_current_sample :: int
  dr_lost_digits :: int
  dr_current_digits :: int
  dr_digits :: "int list"

text \<open>On the structure \<open>s\<close>: the filters of the dialtone are left as they are.\<close>

definition openr2_dtmf_rx_init :: "'f flops \<Rightarrow> 'f dtmf_rx_state \<Rightarrow> bool \<Rightarrow> 'f dtmf_rx_state" where
  "openr2_dtmf_rx_init fo s callback =
     s\<lparr>dr_digits_callback := callback, dr_realtime_callback := False, dr_filter_dialtone := False,
       dr_normal_twist := f_lit fo 63 1, dr_reverse_twist := f_lit fo 25 1, dr_in_digit := 0, dr_last_hit := 0,
       dr_row_out := map (\<lambda>f. goertzel_init fo f DTMF_SAMPLES_PER_BLOCK) dtmf_row,
       dr_col_out := map (\<lambda>f. goertzel_init fo f DTMF_SAMPLES_PER_BLOCK) dtmf_col,
       dr_energy := f_lit fo 0 1, dr_current_sample := 0, dr_lost_digits := 0, dr_current_digits := 0,
       dr_digits := (dr_digits s)[0 := 0]\<rparr>"

text \<open>One of the two notch filters against the dial tone: the new delay line and the filtered sample.\<close>

definition notch :: "'f flops \<Rightarrow> 'f \<Rightarrow> 'f \<Rightarrow> 'f \<Rightarrow> 'f \<times> 'f \<Rightarrow> 'f \<Rightarrow> ('f \<times> 'f) \<times> 'f" where
  "notch fo a b c z famp =
     (let v1 = f_sub fo (f_add fo (f_mul fo a famp) (f_mul fo b (fst z))) (f_mul fo (f_lit fo 9691396 7) (snd z))
      in ((v1, fst z), f_add fo (f_sub fo v1 (f_mul fo c (fst z))) (snd z)))"

definition dtmf_rx_sample :: "'f flops \<Rightarrow> int \<Rightarrow> 'f dtmf_rx_state \<Rightarrow> 'f dtmf_rx_state" where
  "dtmf_rx_sample fo x s =
     (let famp = f_of_int fo x;
          (z3, y3) = notch fo (f_lit fo 98356 5) (f_lit fo 18954426 7) (f_lit fo 19251480 7) (dr_z350 s) famp;
          (z4, y4) = notch fo (f_lit fo 98456 5) (f_lit fo 18529543 7) (f_lit fo 18819938 7) (dr_z440 s) y3;
          (s, famp) = (if dr_filter_dialtone s then (s\<lparr>dr_z350 := z3, dr_z440 := z4\<rparr>, y4) else (s, famp))
      in s\<lparr>dr_energy := f_add fo (dr_energy s) (f_mul fo famp famp),
           dr_row_out := map (goertzel_step fo famp) (dr_row_out s),
           dr_col_out := map (goertzel_step fo famp) (dr_col_out s)\<rparr>)"

text \<open>The index of the highest energy, the first of equal ones.\<close>

definition peak :: "'f flops \<Rightarrow> 'f list \<Rightarrow> nat" where
  "peak fo energy = foldl (\<lambda>best i. if f_lt fo (energy ! best) (energy ! i) then i else best) 0 [1, 2, 3]"

definition dtmf_hit :: "'f flops \<Rightarrow> 'f dtmf_rx_state \<Rightarrow> 'f list \<Rightarrow> 'f list \<Rightarrow> int" where
  "dtmf_hit fo s row_energy col_energy =
     (let r = peak fo row_energy; c = peak fo col_energy in
      if f_le fo (DTMF_THRESHOLD fo) (row_energy ! r) \<and> f_le fo (DTMF_THRESHOLD fo) (col_energy ! c) \<and>
         f_lt fo (col_energy ! c) (f_mul fo (row_energy ! r) (dr_reverse_twist s)) \<and>
         f_lt fo (row_energy ! r) (f_mul fo (col_energy ! c) (dr_normal_twist s)) \<and>
         list_all (\<lambda>i. \<not> (i \<noteq> c \<and> f_lt fo (col_energy ! c) (f_mul fo (col_energy ! i) (f_lit fo 63 1)) \<or>
                       i \<noteq> r \<and> f_lt fo (row_energy ! r) (f_mul fo (row_energy ! i) (f_lit fo 63 1)))) [0, 1, 2, 3] \<and>
         f_lt fo (f_mul fo (f_lit fo 42 0) (dr_energy s)) (f_add fo (row_energy ! r) (col_energy ! c))
      then dtmf_positions ! (r * 4 + c) else 0)"

section \<open>Debouncing\<close>

text \<open>The level reported with a digit, in dBm0.\<close>

definition report_level :: "'f flops \<Rightarrow> 'f \<Rightarrow> int" where
  "report_level fo energy =
     f_rint fo (f_add fo (f_sub fo (f_sub fo (f_mul fo (f_log10 fo energy) (f_lit fo 10 0)) (f_lit fo 2008 2)) (f_lit fo 9030 2))
       (f_add fo (f_lit fo 314 2) (f_lit fo 302 2)))"

text \<open>A digit confirmed: into the buffer, and to the callback.  A cell outside the buffer would be a fault.\<close>

definition store_digit :: "int \<Rightarrow> 'f dtmf_rx_state \<Rightarrow> rx_report list \<times> 'f dtmf_rx_state" where
  "store_digit hit s =
     (if dr_current_digits s < OR2_MAX_DTMF_DIGITS then
        (let n = dr_current_digits s + 1;
             buf = (dr_digits s)[nat (dr_current_digits s) := hit, nat n := 0];
             s1 = s\<lparr>dr_digits := buf, dr_current_digits := n\<rparr>
         in if dr_digits_callback s then ([Digits_callback (c_string buf) n], s1\<lparr>dr_current_digits := 0\<rparr>) else ([], s1))
      else ([], s\<lparr>dr_lost_digits := dr_lost_digits s + 1\<rparr>))"

text \<open>The decision of a block against the two before.\<close>

definition debounce :: "'f flops \<Rightarrow> int \<Rightarrow> 'f dtmf_rx_state \<Rightarrow> rx_report list \<times> 'f dtmf_rx_state" where
  "debounce fo hit s =
     (if hit \<noteq> dr_in_digit s \<and> dr_last_hit s \<noteq> dr_in_digit s then
        (let hit = (if hit \<noteq> 0 \<and> hit = dr_last_hit s then hit else 0);
             (out, s1) =
               (if dr_realtime_callback s then
                  (if dr_in_digit s \<noteq> 0 \<or> hit \<noteq> 0
                   then ([Realtime_callback hit (if dr_in_digit s \<noteq> 0 \<and> hit = 0 then -99 else report_level fo (dr_energy s))], s)
                   else ([], s))
                else if hit \<noteq> 0 then store_digit hit s else ([], s))
         in (out, s1\<lparr>dr_in_digit := hit, dr_last_hit := hit\<rparr>))
      else ([], s\<lparr>dr_last_hit := hit\<rparr>))"

section \<open>The loop over blocks\<close>

definition dtmf_block_end :: "'f flops \<Rightarrow> 'f dtmf_rx_state \<Rightarrow> rx_report list \<times> 'f dtmf_rx_state" where
  "dtmf_block_end fo s =
     (let hit = dtmf_hit fo s (map (goertzel_result fo) (dr_row_out s)) (map (goertzel_result fo) (dr_col_out s));
          (out, s1) = debounce fo hit s
      in (out, s1\<lparr>dr_row_out := map (goertzel_reset fo) (dr_row_out s1), dr_col_out := map (goertzel_reset fo) (dr_col_out s1),
                  dr_energy := f_lit fo 0 1, dr_current_sample := 0\<rparr>))"

definition dtmf_rx_round :: "'f flops \<Rightarrow> 'f dtmf_rx_state \<Rightarrow> int list \<Rightarrow> rx_report list \<times> 'f dtmf_rx_state \<times> int list" where
  "dtmf_rx_round fo s amp =
     (let block = DTMF_SAMPLES_PER_BLOCK - dr_current_sample s;
          n = (if int (length amp) \<ge> block then block else int (length amp));
          s1 = foldl (\<lambda>s x. dtmf_rx_sample fo x s) s (take (nat n) amp);
          s2 = s1\<lparr>dr_current_sample := dr_current_sample s + n\<rparr>;
          rest = drop (nat n) amp
      in if dr_current_sample s2 < DTMF_SAMPLES_PER_BLOCK then ([], s2, rest)
         else (case dtmf_block_end fo s2 of (out, s3) \<Rightarrow> (out, s3, rest)))"

partial_function (option) dtmf_rx_loop ::
  "'f flops \<Rightarrow> 'f dtmf_rx_state \<Rightarrow> int list \<Rightarrow> rx_report list \<Rightarrow> (rx_report list \<times> 'f dtmf_rx_state) option" where
  "dtmf_rx_loop fo s amp reports =
     (if amp = [] then Some (reports, s)
      else case dtmf_rx_round fo s amp of (out, s', amp') \<Rightarrow> dtmf_rx_loop fo s' amp' (reports @ out))"

definition openr2_dtmf_rx :: "'f flops \<Rightarrow> 'f dtmf_rx_state \<Rightarrow> int list \<Rightarrow> (rx_report list \<times> 'f dtmf_rx_state) option" where
  "openr2_dtmf_rx fo s amp =
     map_option (\<lambda>(reports, s).
       if dr_current_digits s \<noteq> 0 \<and> dr_digits_callback s
       then (reports @ [Digits_callback (c_string (dr_digits s)) (dr_current_digits s)],
             s\<lparr>dr_digits := (dr_digits s)[0 := 0], dr_current_digits := 0\<rparr>)
       else (reports, s))
     (dtmf_rx_loop fo s amp [])"

definition openr2_dtmf_rx_status :: "'f dtmf_rx_state \<Rightarrow> int" where
  "openr2_dtmf_rx_status s =
     (if dr_in_digit s \<noteq> 0 then dr_in_digit s else if dr_last_hit s \<noteq> 0 then 120 else 0)"

section \<open>What the detector keeps\<close>

definition dtmf_buffer_ok :: "'f dtmf_rx_state \<Rightarrow> bool" where
  "dtmf_buffer_ok s \<longleftrightarrow> length (dr_digits s) = 129 \<and> 0 \<le> dr_current_digits s \<and> dr_current_digits s \<le> OR2_MAX_DTMF_DIGITS \<and>
     (dr_digits_callback s \<longrightarrow> dr_current_digits s = 0)"

definition dtmf_rx_ok :: "'f dtmf_rx_state \<Rightarrow> bool" where
  "dtmf_rx_ok s \<longleftrightarrow> dtmf_buffer_ok s \<and> 0 \<le> dr_current_sample s \<and> dr_current_sample s < DTMF_SAMPLES_PER_BLOCK"

lemma sample_fields [simp]:
  "dr_digits (dtmf_rx_sample fo x s) = dr_digits s" "dr_current_digits (dtmf_rx_sample fo x s) = dr_current_digits s"
  "dr_digits_callback (dtmf_rx_sample fo x s) = dr_digits_callback s"
  by (simp_all add: dtmf_rx_sample_def case_prod_beta Let_def)

lemma samples_fields [simp]:
  "dr_digits (foldl (\<lambda>s x. dtmf_rx_sample fo x s) s xs) = dr_digits s"
  "dr_current_digits (foldl (\<lambda>s x. dtmf_rx_sample fo x s) s xs) = dr_current_digits s"
  "dr_digits_callback (foldl (\<lambda>s x. dtmf_rx_sample fo x s) s xs) = dr_digits_callback s"
  by (induction xs arbitrary: s) simp_all

lemma buffer_store: "dtmf_buffer_ok s \<Longrightarrow> dtmf_buffer_ok (snd (store_digit hit s))"
  by (auto simp: dtmf_buffer_ok_def store_digit_def Let_def)

lemma buffer_debounce: "dtmf_buffer_ok s \<Longrightarrow> dtmf_buffer_ok (snd (debounce fo hit s))"
  using buffer_store [of s hit] unfolding debounce_def case_prod_beta Let_def
  by (auto simp: dtmf_buffer_ok_def)

lemma buffer_block_end: "dtmf_buffer_ok s \<Longrightarrow> dtmf_rx_ok (snd (dtmf_block_end fo s))"
  using buffer_debounce [of s fo "dtmf_hit fo s (map (goertzel_result fo) (dr_row_out s)) (map (goertzel_result fo) (dr_col_out s))"]
  by (simp add: dtmf_block_end_def case_prod_beta Let_def dtmf_rx_ok_def dtmf_buffer_ok_def)

lemma rx_round_ok:
  assumes "dtmf_rx_ok s" "amp \<noteq> []" "dtmf_rx_round fo s amp = (out, s', amp')"
  shows "dtmf_rx_ok s' \<and> length amp' < length amp"
proof -
  define n where "n = (if int (length amp) \<ge> 102 - dr_current_sample s then 102 - dr_current_sample s else int (length amp))"
  define t where "t = (foldl (\<lambda>s x. dtmf_rx_sample fo x s) s (take (nat n) amp))\<lparr>dr_current_sample := dr_current_sample s + n\<rparr>"
  have n: "0 < n" using assms(1,2) by (auto simp: n_def dtmf_rx_ok_def)
  have buf: "dtmf_buffer_ok t" using assms(1) by (simp add: t_def dtmf_rx_ok_def dtmf_buffer_ok_def)
  have cur: "dr_current_sample t = dr_current_sample s + n" by (simp add: t_def)
  have "dtmf_rx_round fo s amp =
      (if dr_current_sample t < 102 then ([], t, drop (nat n) amp)
       else (fst (dtmf_block_end fo t), snd (dtmf_block_end fo t), drop (nat n) amp))"
    by (simp add: dtmf_rx_round_def Let_def n_def t_def case_prod_beta)
  then show ?thesis using assms n buf cur buffer_block_end [OF buf, of fo]
    by (auto simp: dtmf_rx_ok_def split: if_splits)
qed

lemma rx_loop_ok: "dtmf_rx_ok s \<Longrightarrow> \<exists>out s'. dtmf_rx_loop fo s amp reports = Some (out, s') \<and> dtmf_rx_ok s'"
proof (induction "length amp" arbitrary: s amp reports rule: less_induct)
  case less
  show ?case
  proof (cases "amp = []")
    case True
    then show ?thesis using less.prems by (subst dtmf_rx_loop.simps) simp
  next
    case False
    obtain out s' amp' where r: "dtmf_rx_round fo s amp = (out, s', amp')" by (cases "dtmf_rx_round fo s amp")
    then have ok: "dtmf_rx_ok s'" "length amp' < length amp" using rx_round_ok [OF less.prems False] by auto
    then show ?thesis using less.hyps [OF ok(2,1)] r False by (subst dtmf_rx_loop.simps) simp
  qed
qed

text \<open>The digits reported for a sequence of block decisions, with the state after them.\<close>

fun debounce_run :: "'f flops \<Rightarrow> int list \<Rightarrow> 'f dtmf_rx_state \<Rightarrow> int list \<times> 'f dtmf_rx_state" where
  "debounce_run fo [] s = ([], s)"
| "debounce_run fo (hit # hits) s =
     (let (out, s1) = debounce fo hit s;
          ds = concat (map (\<lambda>r. case r of Digits_callback d n \<Rightarrow> d | Realtime_callback c l \<Rightarrow> []) out);
          (rest, s2) = debounce_run fo hits s1
      in (ds @ rest, s2))"

text \<open>A detector with a callback for its digits.\<close>

definition reporting :: "'f dtmf_rx_state \<Rightarrow> bool" where
  "reporting s \<longleftrightarrow> dr_digits_callback s \<and> \<not> dr_realtime_callback s \<and> dtmf_buffer_ok s"

lemma c_string_one: "length buf = 129 \<Longrightarrow> hit \<noteq> 0 \<Longrightarrow> c_string (buf[0 := hit, Suc 0 := 0]) = [hit]"
  by (cases buf; cases "tl buf") (auto simp: c_string_def)

text \<open>What the debouncing does with the two digits it remembers.\<close>

fun debounce_core :: "int list \<Rightarrow> int \<times> int \<Rightarrow> int list \<times> int \<times> int" where
  "debounce_core [] (cur, prev) = ([], cur, prev)"
| "debounce_core (hit # hits) (cur, prev) =
     (if hit \<noteq> cur \<and> prev \<noteq> cur then
        (if hit \<noteq> 0 \<and> hit = prev then (let (ds, st) = debounce_core hits (hit, hit) in (hit # ds, st))
         else debounce_core hits (0, 0))
      else debounce_core hits (cur, hit))"

lemma debounce_reporting:
  assumes "reporting s"
  shows "reporting (snd (debounce fo hit s)) \<and>
    (if hit \<noteq> dr_in_digit s \<and> dr_last_hit s \<noteq> dr_in_digit s then
       (if hit \<noteq> 0 \<and> hit = dr_last_hit s
        then fst (debounce fo hit s) = [Digits_callback [hit] 1] \<and> dr_in_digit (snd (debounce fo hit s)) = hit \<and> dr_last_hit (snd (debounce fo hit s)) = hit
        else fst (debounce fo hit s) = [] \<and> dr_in_digit (snd (debounce fo hit s)) = 0 \<and> dr_last_hit (snd (debounce fo hit s)) = 0)
     else fst (debounce fo hit s) = [] \<and> dr_in_digit (snd (debounce fo hit s)) = dr_in_digit s \<and> dr_last_hit (snd (debounce fo hit s)) = hit)"
  using assms unfolding debounce_def
  by (simp add: reporting_def store_digit_def dtmf_buffer_ok_def Let_def c_string_one)

lemma debounce_run_core:
  "reporting s \<Longrightarrow> (fst (debounce_run fo hits s), dr_in_digit (snd (debounce_run fo hits s)), dr_last_hit (snd (debounce_run fo hits s))) =
     debounce_core hits (dr_in_digit s, dr_last_hit s)"
proof (induction hits arbitrary: s)
  case (Cons hit hits)
  note d = debounce_reporting [OF Cons.prems, of fo hit]
  note ih = Cons.IH [OF conjunct1 [OF d]]
  show ?case
    by (cases "hit \<noteq> dr_in_digit s \<and> dr_last_hit s \<noteq> dr_in_digit s"; cases "hit \<noteq> 0 \<and> hit = dr_last_hit s")
      (use d ih in \<open>auto simp: case_prod_beta Let_def prod_eq_iff\<close>)
qed simp

lemma peak_bound: "peak fo e < 4"
  by (simp add: peak_def)

section \<open>What a key sounds like\<close>

text \<open>
  A reference for the tone of the \<open>i\<close>-th key, row by row, that does not use the generator: 50 milliseconds
  of the sum of two sine waves that start at phase 0, the frequency of its row and that of its column, both
  at -10 dBm0, then 55 milliseconds of silence.
\<close>

definition key_wave :: "'f flops \<Rightarrow> int \<Rightarrow> nat \<Rightarrow> 'f" where
  "key_wave fo frequency k =
     f_mul fo (f_lit fo (sine_table ! unat (drop_bit 21 (word_of_int (int k * dds_phase_ratef fo (f_of_int fo frequency)) :: 32 word))) 8)
       (dds_scaling_dbm0f fo (f_of_int fo (-10)))"

definition key_tone :: "'f flops \<Rightarrow> nat \<Rightarrow> int list" where
  "key_tone fo i =
     map (\<lambda>k. signed_take_bit 15 (f_rint fo (f_add fo (f_add fo (f_lit fo 0 1)
            (key_wave fo ([697, 770, 852, 941] ! (i div 4)) k)) (key_wave fo ([1209, 1336, 1477, 1633] ! (i mod 4)) k))))
       [0..<400] @ replicate 440 0"

text \<open>Arithmetic in which the frequencies of the keys have a positive phase rate.\<close>

definition key_rates :: "'f flops \<Rightarrow> bool" where
  "key_rates fo \<longleftrightarrow> list_all (\<lambda>f. 0 < dds_phase_ratef fo (f_of_int fo f)) [697, 770, 852, 941, 1209, 1336, 1477, 1633]"

lemma silent_section: "odd (current_section s) \<Longrightarrow> section_samples fo n s = (replicate n 0, s)"
  by (induction n) (simp_all add: section_sample_def)

lemma pair_section:
  assumes "tg_tone s = [\<lparr>phase_rate = r1, gain = g\<rparr>, \<lparr>phase_rate = r2, gain = g\<rparr>, no_tone_descriptor fo, z]"
    and "tg_phase s = [p, q, c, d]" "even (current_section s)" "0 < r1" "0 < r2"
  shows "fst (section_samples fo n s) =
    map (\<lambda>k. to_int16 fo (f_add fo (f_add fo (f_lit fo 0 1)
           (f_mul fo (f_lit fo (sine_table ! unat (drop_bit 21 (p + word_of_int (int k * r1)))) 8) g))
           (f_mul fo (f_lit fo (sine_table ! unat (drop_bit 21 (q + word_of_int (int k * r2)))) 8) g))) [0..<n]"
  using assms(1-3)
proof (induction n arbitrary: s p q)
  case (Suc n)
  let ?s = "snd (section_sample fo s)"
  have e: "section_sample fo s = (to_int16 fo (f_add fo (f_add fo (f_lit fo 0 1)
           (f_mul fo (f_lit fo (sine_table ! unat (drop_bit 21 p)) 8) g))
           (f_mul fo (f_lit fo (sine_table ! unat (drop_bit 21 q)) 8) g)),
         s\<lparr>tg_phase := [p + word_of_int r1, q + word_of_int r2, c, d]\<rparr>)"
    using Suc.prems assms(4,5) by (simp add: section_sample_def dds_modf_def no_tone_descriptor_def Let_def)
  have ih: "fst (section_samples fo n ?s) =
    map (\<lambda>k. to_int16 fo (f_add fo (f_add fo (f_lit fo 0 1)
           (f_mul fo (f_lit fo (sine_table ! unat (drop_bit 21 (p + word_of_int r1 + word_of_int (int k * r1)))) 8) g))
           (f_mul fo (f_lit fo (sine_table ! unat (drop_bit 21 (q + word_of_int r2 + word_of_int (int k * r2)))) 8) g))) [0..<n]"
    by (rule Suc.IH) (use e Suc.prems in simp_all)
  have f: "fst (section_samples fo (Suc n) s) = fst (section_sample fo s) # fst (section_samples fo n ?s)"
    by (simp add: case_prod_beta Let_def)
  show ?case unfolding f ih unfolding e
    by (simp add: upt_conv_Cons map_Suc_upt [symmetric] comp_def algebra_simps del: upt_Suc)
qed simp

lemma digit_state_key:
  assumes "i < 16" "dx_low_level s = dds_scaling_dbm0f fo (f_of_int fo (-10))" "dx_high_level s = dds_scaling_dbm0f fo (f_of_int fo (-10))"
    and "dx_on_time s = 400" "dx_off_time s = 440"
  shows "dtmf_digit_state fo s i =
    \<lparr>tg_tone = [\<lparr>phase_rate = dds_phase_ratef fo (f_of_int fo (dtmf_row ! (i div 4))), gain = dds_scaling_dbm0f fo (f_of_int fo (-10))\<rparr>,
       \<lparr>phase_rate = dds_phase_ratef fo (f_of_int fo (dtmf_col ! (i mod 4))), gain = dds_scaling_dbm0f fo (f_of_int fo (-10))\<rparr>,
       no_tone_descriptor fo, no_tone_descriptor fo],
     tg_phase = [0, 0, 0, 0], tg_duration = [400, 440, 0, 0], tg_repeat = False, current_section = 0, current_position = 0\<rparr>"
proof -
  have "i \<in> set [0..<16]" using assms(1) by simp
  then show ?thesis
    unfolding upt_rec [of 0] by (auto simp: upt_rec dtmf_digit_state_def dtmf_digit_tones_def dtmf_row_def dtmf_col_def
      make_tone_gen_descriptor_def tone_gen_init_def Let_def assms(2-))
qed

lemma key_rates_nth:
  assumes "key_rates fo" "i < 16"
  shows "0 < dds_phase_ratef fo (f_of_int fo (dtmf_row ! (i div 4)))" "0 < dds_phase_ratef fo (f_of_int fo (dtmf_col ! (i mod 4)))"
proof -
  have "i div 4 < 4" "i mod 4 < 4" using assms(2) by simp_all
  then have "dtmf_row ! (i div 4) \<in> set dtmf_row" "dtmf_col ! (i mod 4) \<in> set dtmf_col"
    by (simp_all only: nth_mem dtmf_row_def dtmf_col_def list.size)
  moreover have "f \<in> set dtmf_row \<union> set dtmf_col \<Longrightarrow> 0 < dds_phase_ratef fo (f_of_int fo f)" for f
    using assms(1) by (auto simp: key_rates_def dtmf_row_def dtmf_col_def)
  ultimately show "0 < dds_phase_ratef fo (f_of_int fo (dtmf_row ! (i div 4)))" "0 < dds_phase_ratef fo (f_of_int fo (dtmf_col ! (i mod 4)))"
    by simp_all
qed

lemma tone_all_key:
  assumes "key_rates fo" "i < 16" "dx_low_level s = dds_scaling_dbm0f fo (f_of_int fo (-10))"
    and "dx_high_level s = dds_scaling_dbm0f fo (f_of_int fo (-10))" "dx_on_time s = 400" "dx_off_time s = 440"
  shows "tone_all fo (dtmf_digit_state fo s i) = key_tone fo i"
proof -
  define T where "T = dtmf_digit_state fo s i"
  note key = digit_state_key [OF assms(2-6)]
  note r = key_rates_nth [OF assms(1,2)]
  have T: "tg_duration T = [400, 440, 0, 0]" "current_section T = 0" "current_position T = 0" "\<not> tg_repeat T"
    by (simp_all add: T_def key)
  have ok: "tone_ok T" using T by (simp add: tone_ok_def)
  define U where "U = snd (section_samples fo 400 (T\<lparr>current_position := 400\<rparr>))"
  have U: "tg_duration U = [400, 440, 0, 0]" "current_section U = 0" "current_position U = 400" "\<not> tg_repeat U"
    by (simp_all add: U_def T)
  define V where "V = U\<lparr>current_position := 0, current_section := 1\<rparr>"
  have V: "next_section U = (False, V)" "tone_ok V" "current_section V = 1" "current_position V = 0" "tg_duration V = [400, 440, 0, 0]"
    using U by (simp_all add: next_section_def V_def tone_ok_def)
  have on: "tone_ref fo 400 T = (fst (section_samples fo 400 (T\<lparr>current_position := 400\<rparr>)), V)"
    using section_run [of T 400 fo] ok T V(1) by (simp add: case_prod_beta Let_def U_def [symmetric])
  have off: "fst (tone_ref fo 440 V) = replicate 440 0"
    using section_run [of V 440 fo] V by (simp add: case_prod_beta Let_def silent_section)
  have left: "tone_left T = 400 + 440" using T by (simp add: tone_left_def)
  have samples: "fst (section_samples fo 400 (T\<lparr>current_position := 400\<rparr>)) =
      map (\<lambda>k. signed_take_bit 15 (f_rint fo (f_add fo (f_add fo (f_lit fo 0 1)
            (key_wave fo ([697, 770, 852, 941] ! (i div 4)) k)) (key_wave fo ([1209, 1336, 1477, 1633] ! (i mod 4)) k)))) [0..<400]"
    by (subst pair_section [where ?r1.0 = "dds_phase_ratef fo (f_of_int fo (dtmf_row ! (i div 4)))" and ?r2.0 = "dds_phase_ratef fo (f_of_int fo (dtmf_col ! (i mod 4)))"
          and g = "dds_scaling_dbm0f fo (f_of_int fo (-10))" and p = 0 and q = 0 and c = 0 and d = 0 and z = "no_tone_descriptor fo"])
      (use r in \<open>simp_all add: T_def key key_wave_def to_int16_def dtmf_row_def dtmf_col_def\<close>)
  show ?thesis
    unfolding T_def [symmetric] tone_all_def left tone_ref_add key_tone_def
    using on off samples by (simp add: case_prod_beta Let_def)
qed

lemma key_index: "i < 16 \<Longrightarrow> digit_index (word_of_int (dtmf_positions ! i)) = Some i"
proof -
  have "list_all (\<lambda>i. digit_index (word_of_int (dtmf_positions ! i)) = Some i) [0..<16]" by code_simp
  then show "i < 16 \<Longrightarrow> ?thesis" by (simp add: list_all_iff)
qed

section \<open>Properties\<close>

text \<open>
  C36: What was put is what is played: a number of up to 128 keys, given by their places in
  \<open>dtmf_positions\<close>, that is put into a fresh DTMF generator is accepted, and a buffer of any size is filled
  with the beginning of what its keys sound like, in order (\<open>key_tone\<close>: 400 samples of the two
  frequencies of the key, 440 of silence), and shortened where the last one ends.
\<close>

theorem dtmf_tx_digits:
  assumes "key_rates fo" "129 \<le> length memory" "0 < length keys" "length keys \<le> 128" "list_all (\<lambda>i. i < 16) keys"
  shows "\<exists>s1 out s2. openr2_dtmf_tx_put (openr2_dtmf_tx_init fo memory) (map (\<lambda>i. dtmf_positions ! i) keys) (int (length keys)) = Some (0, s1) \<and>
    openr2_dtmf_tx fo s1 n = Some (out, s2) \<and> out = take n (concat (map (key_tone fo) keys))"
proof -
  let ?i = "openr2_dtmf_tx_init fo memory"
  define ds where "ds = map (\<lambda>i. dtmf_positions ! i) keys"
  have ds: "0 < length ds" "length ds \<le> 128" "length keys = length ds" using assms by (simp_all add: ds_def)
  have q: "dx_queue ?i = queue_init memory 128 (QUEUE_READ_ATOMIC OR QUEUE_WRITE_ATOMIC)"
    by (simp add: openr2_dtmf_tx_init_def openr2_dtmf_tx_set_level_def openr2_dtmf_tx_set_timing_def Let_def)
  have flat: "queue_flat (dx_queue ?i)" "queue_abs (dx_queue ?i) = []" "q_iptr (dx_queue ?i) + length ds < q_len (dx_queue ?i)"
      "queue_free_space (dx_queue ?i) = 128"
    using assms(2) ds unfolding q by (simp_all add: queue_flat_def queue_init_def queue_abs_def queue_free_space_eq)
  obtain q' where w: "queue_write (dx_queue ?i) (map word_of_int ds) = Some (int (length ds), q')"
      and f: "queue_flat q'" "queue_abs q' = map word_of_int ds"
    using write_flat [of "dx_queue ?i" "map word_of_int ds"] flat ds by auto
  let ?s = "?i\<lparr>dx_queue := q'\<rparr>"
  have put: "openr2_dtmf_tx_put ?i ds (int (length ds)) = Some (0, ?s)"
    using w flat ds by (simp add: openr2_dtmf_tx_put_def Let_def)
  have t: "dx_tones ?i = (tone_gen_init (dtmf_digit_tones fo ! 0))\<lparr>current_section := -1\<rparr>" "dx_on_time ?i = 400" "dx_off_time ?i = 440"
    by (simp_all add: openr2_dtmf_tx_init_def openr2_dtmf_tx_set_level_def openr2_dtmf_tx_set_timing_def Let_def)
  have sh: "length (td_duration (dtmf_digit_tones fo ! 0)) = 4" "\<not> td_repeat (dtmf_digit_tones fo ! 0)"
      "list_all (\<lambda>d. 0 \<le> d) (td_duration (dtmf_digit_tones fo ! 0))"
    by (simp_all add: dtmf_digit_tones_def dtmf_row_def dtmf_col_def make_tone_gen_descriptor_def Let_def)
  have tok: "tone_ok (dx_tones ?s)" "\<not> tg_repeat (dx_tones ?s)" "current_section (dx_tones ?s) < 0"
    using sh by (simp_all add: t tone_ok_def tone_gen_init_def)
  have ok: "dtmf_ok ?s" using f tok t by (simp add: dtmf_ok_def)
  have lev: "dx_low_level ?i = dds_scaling_dbm0f fo (f_of_int fo (-10))" "dx_high_level ?i = dds_scaling_dbm0f fo (f_of_int fo (-10))"
      "dx_on_time ?i = 400" "dx_off_time ?i = 440"
    using t by (simp_all add: openr2_dtmf_tx_init_def openr2_dtmf_tx_set_level_def openr2_dtmf_tx_set_timing_def Let_def)
  have "digit_tone fo ?s (word_of_int (dtmf_positions ! i)) = key_tone fo i" if "i < 16" for i
    using that tone_all_key [OF assms(1) that lev] by (simp add: digit_tone_def key_index)
  then have keys: "map (digit_tone fo ?s) (map word_of_int ds) = map (key_tone fo) keys"
    using assms(5) by (simp add: ds_def list_all_iff)
  have "dtmf_stream fo ?s = concat (map (key_tone fo) keys)"
    unfolding dtmf_stream_def keys [symmetric] using tone_all_off [OF tok(1,3)] f by simp
  then obtain out s' where "openr2_dtmf_tx fo ?s n = Some (out, s')" "out = take n (concat (map (key_tone fo) keys))"
    using dtmf_tx_plays [OF ok, of fo n] unfolding plays_def by metis
  then show ?thesis using put unfolding ds(3) ds_def [symmetric] by blast
qed

lemma dtmf_tx_digits_witness:
  "\<exists>s1 out s2. openr2_dtmf_tx_put (openr2_dtmf_tx_init rat_flops (replicate 129 0)) (map (\<lambda>i. dtmf_positions ! i) [5, 13]) (int (length [5, 13 :: nat])) = Some (0, s1) \<and>
    openr2_dtmf_tx rat_flops s1 500 = Some (out, s2) \<and> out = take 500 (concat (map (key_tone rat_flops) [5, 13]))"
  by (rule dtmf_tx_digits) (simp_all add: key_rates_def rat_flops_def dds_phase_ratef_def)

text \<open>
  How a DTMF transmission is cut into buffers does not matter: two buffers hold together what one of their
  total size would.
\<close>

theorem dtmf_tx_chunks:
  assumes "dtmf_ok s"
  shows "\<exists>xs s1 ys s2 zs s3. openr2_dtmf_tx fo s m = Some (xs, s1) \<and> openr2_dtmf_tx fo s1 n = Some (ys, s2) \<and>
    openr2_dtmf_tx fo s (m + n) = Some (zs, s3) \<and> zs = xs @ ys"
proof -
  obtain xs s1 where 1: "openr2_dtmf_tx fo s m = Some (xs, s1)" "plays fo m s xs s1" using dtmf_tx_plays [OF assms] by blast
  then obtain ys s2 where 2: "openr2_dtmf_tx fo s1 n = Some (ys, s2)" "plays fo n s1 ys s2"
    using dtmf_tx_plays [of s1 fo n] by (auto simp: plays_def)
  obtain zs s3 where 3: "openr2_dtmf_tx fo s (m + n) = Some (zs, s3)" "plays fo (m + n) s zs s3"
    using dtmf_tx_plays [OF assms] by blast
  have "zs = xs @ ys" using 1(2) 2(2) 3(2) by (simp add: plays_def take_add)
  then show ?thesis using 1(1) 2(1) 3(1) by blast
qed

definition dialing :: "rat dtmf_tx_state" where
  "dialing = \<lparr>dx_tones = short_tone, dx_low_level = 1, dx_high_level = 1, dx_on_time = 400, dx_off_time = 440,
     dx_queue = queue_init (replicate 129 0) 128 0\<rparr>"

lemma dtmf_tx_chunks_witness:
  "\<exists>xs s1 ys s2 zs s3. openr2_dtmf_tx rat_flops dialing 10 = Some (xs, s1) \<and> openr2_dtmf_tx rat_flops s1 20 = Some (ys, s2) \<and>
    openr2_dtmf_tx rat_flops dialing (10 + 20) = Some (zs, s3) \<and> zs = xs @ ys"
  by (rule dtmf_tx_chunks)
    (use short_tone_ok in \<open>simp_all add: dtmf_ok_def dialing_def queue_flat_def queue_init_def short_tone_def
      tone_gen_init_def make_tone_gen_descriptor_def Let_def\<close>)

text \<open>
  Whatever the arithmetic does, the decision of a block is silence or one of the sixteen DTMF digits: no read
  outside the table.
\<close>

theorem dtmf_hit_code: "dtmf_hit fo s row_energy col_energy \<in> insert 0 (set dtmf_positions)"
proof -
  have l: "length dtmf_positions = 16" by (simp add: dtmf_positions_def cstr_def)
  have "peak fo row_energy * 4 + peak fo col_energy < length dtmf_positions"
    using peak_bound [of fo row_energy] peak_bound [of fo col_energy] unfolding l by linarith
  then show ?thesis by (auto simp: dtmf_hit_def Let_def)
qed

text \<open>
  The detector always returns, keeps its sample count inside a block and its digits inside their array of
  129 characters; with a callback no digit waits in it between two buffers.
\<close>

theorem dtmf_rx_returns:
  assumes "dtmf_rx_ok s"
  shows "\<exists>reports s'. openr2_dtmf_rx fo s amp = Some (reports, s') \<and> dtmf_rx_ok s'"
  using rx_loop_ok [OF assms, of fo amp "[]"] by (auto simp: openr2_dtmf_rx_def dtmf_rx_ok_def dtmf_buffer_ok_def)

definition listening :: "rat dtmf_rx_state" where
  "listening = \<lparr>dr_digits_callback = True, dr_realtime_callback = False, dr_filter_dialtone = False, dr_normal_twist = 6,
     dr_reverse_twist = 2, dr_z350 = (0, 0), dr_z440 = (0, 0), dr_row_out = [], dr_col_out = [], dr_energy = 0, dr_last_hit = 0,
     dr_in_digit = 0, dr_current_sample = 0, dr_lost_digits = 0, dr_current_digits = 0, dr_digits = replicate 129 0\<rparr>"

lemma dtmf_rx_returns_witness:
  "\<exists>reports s'. openr2_dtmf_rx rat_flops listening (replicate 160 7) = Some (reports, s') \<and> dtmf_rx_ok s'"
  by (rule dtmf_rx_returns) (simp add: listening_def dtmf_rx_ok_def dtmf_buffer_ok_def)

text \<open>
  Debouncing, the patterns the comment in \<open>openr2_dtmf_rx\<close> promises and the code keeps, from silence and
  inside a digit: a digit starts with two blocks of it after a wobbly start, goes on over one stray block,
  ends with two blocks of something else, starts again after two different stray blocks, and another digit
  starts with two blocks of it.
\<close>

theorem debounce_patterns:
  assumes "reporting s" "reporting t" "dr_in_digit s = 0" "dr_last_hit s = 0" "dr_in_digit t = b" "dr_last_hit t = b"
    and "b \<noteq> 0" "a \<noteq> b" "c \<noteq> b" "c \<noteq> 0" "a \<noteq> c"
  shows "fst (debounce_run fo [b, 0, b, b] s) = [b] \<and> fst (debounce_run fo [a, 0, b, b] s) = [b] \<and>
    fst (debounce_run fo [a, b, b] t) = [] \<and> dr_in_digit (snd (debounce_run fo [a, b, b] t)) = b \<and>
    dr_in_digit (snd (debounce_run fo [0, 0] t)) = 0 \<and> dr_in_digit (snd (debounce_run fo [c, 0] t)) = 0 \<and>
    fst (debounce_run fo [a, c, b, b] t) = [b] \<and> fst (debounce_run fo [c, c] t) = [c]"
  using debounce_run_core [OF assms(1), of fo "[b, 0, b, b]"] debounce_run_core [OF assms(1), of fo "[a, 0, b, b]"]
    debounce_run_core [OF assms(2), of fo "[a, b, b]"] debounce_run_core [OF assms(2), of fo "[0, 0]"]
    debounce_run_core [OF assms(2), of fo "[c, 0]"] debounce_run_core [OF assms(2), of fo "[a, c, b, b]"]
    debounce_run_core [OF assms(2), of fo "[c, c]"] assms(3-)
  by (simp add: prod_eq_iff split: if_splits)

lemma debounce_patterns_witness:
  "fst (debounce_run rat_flops [49, 0, 49, 49] listening) = [49]"
  using debounce_patterns [of listening "listening\<lparr>dr_in_digit := 49, dr_last_hit := 49\<rparr>" 49 50 51 rat_flops]
  by (simp add: reporting_def listening_def dtmf_buffer_ok_def)

text \<open>
  Two patterns of that comment the code does not keep: after one stray block, two blocks of a digit do not
  start it (ABB from silence), nor after one block of another digit inside a digit (BCDD): the second block
  of change is forgotten, and a third block of the digit is needed.
\<close>

theorem debounce_broken_promises:
  assumes "reporting s" "reporting t" "dr_in_digit s = 0" "dr_last_hit s = 0" "dr_in_digit t = b" "dr_last_hit t = b"
    and "b \<noteq> 0" "a \<noteq> b" "a \<noteq> 0" "c \<noteq> b" "d \<noteq> b" "c \<noteq> d" "d \<noteq> 0"
  shows "fst (debounce_run fo [a, b, b] s) = [] \<and> fst (debounce_run fo [a, b, b, b] s) = [b] \<and>
    fst (debounce_run fo [c, d, d] t) = [] \<and> dr_in_digit (snd (debounce_run fo [c, d, d] t)) = 0"
  using debounce_run_core [OF assms(1), of fo "[a, b, b]"] debounce_run_core [OF assms(1), of fo "[a, b, b, b]"]
    debounce_run_core [OF assms(2), of fo "[c, d, d]"] assms(3-)
  by (simp add: prod_eq_iff split: if_splits)

lemma debounce_broken_promises_witness:
  "fst (debounce_run rat_flops [50, 49, 49] listening) = []"
  using debounce_broken_promises [of listening "listening\<lparr>dr_in_digit := 49, dr_last_hit := 49\<rparr>" 49 50 51 52 rat_flops]
  by (simp add: reporting_def listening_def dtmf_buffer_ok_def)

end
