(* ===== verification/R2Tools.thy ===== *)
theory R2Tools
  imports R2DtmfEngine R2Codec R2Utils R2Test
begin

text \<open>
  The three small programs around the engines: \<open>r2mf_generate.c\<close> writes a sequence of R2 tones to a file,
  \<open>r2mf_detect.c\<close> and \<open>r2dtmf_detect.c\<close> report the tones they find in one.  Files are lists of
  bytes or samples; what goes to the terminal is a list of reports.
\<close>

section \<open>Generating\<close>

datatype format = FORMAT_ALAW | FORMAT_SLINEAR

definition read_format :: "int list \<Rightarrow> format option" where
  "read_format arg =
     (if openr2_strncasecmp arg (cstr ''alaw'') 4 = 0 then Some FORMAT_ALAW
      else if openr2_strncasecmp arg (cstr ''slinear'') 7 = 0 then Some FORMAT_SLINEAR
      else None)"

definition valid_tone :: "int \<Rightarrow> bool" where
  "valid_tone tone \<longleftrightarrow> tone \<in> set r2_mf_tone_codes"

text \<open>An element of the sequence: a tone and its direction, or silence; \<open>None\<close> ends the program.\<close>

datatype element = Tone bool int | Silence

definition read_element :: "int list \<Rightarrow> element option" where
  "read_element arg =
     (if length arg = 2 then
        (if arg ! 0 = 102 \<or> arg ! 0 = 70 then (if valid_tone (arg ! 1) then Some (Tone True (arg ! 1)) else None)
         else if arg ! 0 = 98 \<or> arg ! 0 = 66 then (if valid_tone (arg ! 1) then Some (Tone False (arg ! 1)) else None)
         else None)
      else if length arg = 1 then (if arg ! 0 = 115 \<or> arg ! 0 = 83 then Some Silence else None)
      else None)"

text \<open>What a chunk of samples becomes in the file.\<close>

fun encoded :: "format \<Rightarrow> int list \<Rightarrow> int list" where
  "encoded FORMAT_ALAW samples = map (\<lambda>x. uint (openr2_linear_to_alaw x)) samples"
| "encoded FORMAT_SLINEAR samples = samples"

text \<open>
  How playing ends: with a result; in a tone generator that does not return; or in an overflow of the C
  type \<open>int\<close>, after which nothing is defined, with the file as it is then.
\<close>

datatype 'a played = Played 'a | Stuck | Overflowed "int list"

abbreviation (input) "INT_MIN \<equiv> -2147483648 :: int"
abbreviation (input) "INT_MAX \<equiv> 2147483647 :: int"

text \<open>
  The loop over the chunks of an element, with the generator in use (none for silence) and the contents of the
  file.  The count goes down by whole chunks until it is exactly 0 or passes the least \<open>int\<close>.
\<close>

function generate_chunks ::
    "'f flops \<Rightarrow> format \<Rightarrow> 'f mf_tx_state option \<Rightarrow> int \<Rightarrow> int list \<Rightarrow> ('f mf_tx_state option \<times> int list) played" where
  "generate_chunks fo fmt tx total_samples out =
     (if total_samples = 0 then Played (tx, out)
      else case (case tx of None \<Rightarrow> Some (replicate 160 0, None) | Some s \<Rightarrow> map_option (\<lambda>(samples, s). (samples, Some s)) (openr2_mf_tx fo s 160)) of
        None \<Rightarrow> Stuck
      | Some (samples, tx) \<Rightarrow>
          if length samples \<noteq> 160 then Played (tx, out)
          else
            let out = out @ encoded fmt samples
            in if total_samples - 160 < INT_MIN then Overflowed out else generate_chunks fo fmt tx (total_samples - 160) out)"
  by pat_completeness auto
termination
  by (relation "measure (\<lambda>(fo, fmt, tx, total_samples, out). nat (total_samples + 2147483649))") auto

declare generate_chunks.simps [simp del]

text \<open>\<open>atoi\<close> of the length and its product with 8, \<open>None\<close> for a value that is no \<open>int\<close>.\<close>

definition element_samples :: "int list \<Rightarrow> int option" where
  "element_samples arg =
     (let ms = atoi arg in
      if ms < INT_MIN \<or> INT_MAX < ms then None
      else
        let ms = (if ms < 20 then 20 else ms)
        in if INT_MAX < ms * 8 then None else Some (ms * 8))"

text \<open>The loop over the arguments, for the forward and the backward generator.\<close>

fun generate :: "'f flops \<Rightarrow> format \<Rightarrow> int list list \<Rightarrow> 'f mf_tx_state \<Rightarrow> 'f mf_tx_state \<Rightarrow> int list \<Rightarrow> int list played" where
  "generate fo fmt (elem # len # args) fwd bwd out =
     (case read_element elem of
        None \<Rightarrow> Played out
      | Some el \<Rightarrow>
          (let tx = (case el of Silence \<Rightarrow> None
                     | Tone forward digit \<Rightarrow> Some (openr2_mf_tx_put fo (if forward then fwd else bwd) digit))
           in case element_samples len of
             None \<Rightarrow> Overflowed out
           | Some total_samples \<Rightarrow>
               (case generate_chunks fo fmt tx total_samples out of
                  Stuck \<Rightarrow> Stuck
                | Overflowed out \<Rightarrow> Overflowed out
                | Played (tx, out) \<Rightarrow>
                    (case (el, tx) of
                       (Tone True digit, Some s) \<Rightarrow> generate fo fmt args s bwd out
                     | (Tone False digit, Some s) \<Rightarrow> generate fo fmt args fwd s out
                     | _ \<Rightarrow> generate fo fmt args fwd bwd out))))"
| "generate fo fmt args fwd bwd out = Played out"

text \<open>The program: an exit code and the file, after the sequence has been played.\<close>

definition mf_generate :: "'f flops \<Rightarrow> int list list \<Rightarrow> (int \<times> int list) played" where
  "mf_generate fo args =
     (if length args < 4 then Played (1, [])
      else case read_format (args ! 0) of
        None \<Rightarrow> Played (1, [])
      | Some fmt \<Rightarrow> map_played (Pair 0)
          (generate fo fmt (drop 2 args) (openr2_mf_tx_init fo True) (openr2_mf_tx_init fo False) []))"

section \<open>Detecting\<close>

text \<open>Whole chunks of 160 samples; what is left at the end of the file is not read.\<close>

function chunks :: "'a list \<Rightarrow> 'a list list" where
  "chunks xs = (if length xs < 160 then [] else take 160 xs # chunks (drop 160 xs))"
  by pat_completeness auto

termination by (relation "measure length") auto

declare chunks.simps [simp del]

fun decoded :: "format \<Rightarrow> int list \<Rightarrow> int list" where
  "decoded FORMAT_ALAW bytes = map (\<lambda>b. openr2_alaw_to_linear (word_of_int b)) bytes"
| "decoded FORMAT_SLINEAR samples = samples"

datatype report = ToneOn bool int nat | ToneOff bool int nat

text \<open>One direction after a chunk: the digit reported last and the number of samples read.\<close>

definition report_digit :: "bool \<Rightarrow> int \<Rightarrow> nat \<Rightarrow> int \<Rightarrow> report list \<times> int" where
  "report_digit forward digit samples cur =
     (if digit \<noteq> 0 \<and> digit \<noteq> cur then ([ToneOn forward digit samples], digit)
      else if digit = 0 \<and> cur \<noteq> 0 then ([ToneOff forward cur samples], 0)
      else ([], cur))"

fun detect :: "'f flops \<Rightarrow> format \<Rightarrow> int list list \<Rightarrow> nat \<Rightarrow> 'f mf_rx_state \<times> int \<Rightarrow> 'f mf_rx_state \<times> int \<Rightarrow> report list option" where
  "detect fo fmt [] samples bwd fwd = Some []"
| "detect fo fmt (c # cs) samples (b, bcur) (f, fcur) =
     Option.bind (openr2_mf_rx fo b (decoded fmt c)) (\<lambda>(bd, b).
     Option.bind (openr2_mf_rx fo f (decoded fmt c)) (\<lambda>(fd, f).
       (case report_digit False bd (samples + 160) bcur of (br, bcur) \<Rightarrow>
        case report_digit True fd (samples + 160) fcur of (fr, fcur) \<Rightarrow>
          map_option (\<lambda>rest. br @ fr @ rest) (detect fo fmt cs (samples + 160) (b, bcur) (f, fcur)))))"

definition mf_detect :: "'f flops \<Rightarrow> int list list \<Rightarrow> int list \<Rightarrow> (int \<times> report list) option" where
  "mf_detect fo args file =
     (if length args < 2 then Some (1, [])
      else case read_format (args ! 0) of
        None \<Rightarrow> Some (1, [])
      | Some fmt \<Rightarrow> map_option (Pair 0)
          (detect fo fmt (chunks file) 0 (openr2_mf_rx_init fo False, 0) (openr2_mf_rx_init fo True, 0)))"

section \<open>Detecting DTMF\<close>

datatype dtmf_report = Detected "int list" | DigitOn int | DigitOff int

definition detected :: "rx_report list \<Rightarrow> dtmf_report list" where
  "detected reports = concat (map (\<lambda>r. case r of Digits_callback digits len \<Rightarrow> [Detected digits] | _ \<Rightarrow> []) reports)"

definition report_status :: "int \<Rightarrow> int \<Rightarrow> dtmf_report list \<times> int" where
  "report_status digit cur =
     (if digit \<noteq> 0 then ([DigitOn digit], digit) else if cur \<noteq> 0 then ([DigitOff cur], 0) else ([], cur))"

fun detect_dtmf_chunks :: "'f flops \<Rightarrow> format \<Rightarrow> int list list \<Rightarrow> 'f dtmf_rx_state \<Rightarrow> int \<Rightarrow> dtmf_report list option" where
  "detect_dtmf_chunks fo fmt [] s cur = Some []"
| "detect_dtmf_chunks fo fmt (c # cs) s cur =
     Option.bind (openr2_dtmf_rx fo s (decoded fmt c)) (\<lambda>(reports, s).
       case report_status (openr2_dtmf_rx_status s) cur of (out, cur) \<Rightarrow>
         map_option (\<lambda>rest. detected reports @ out @ rest) (detect_dtmf_chunks fo fmt cs s cur))"

text \<open>\<open>junk\<close> is the state before its initialisation.\<close>

definition dtmf_detect :: "'f flops \<Rightarrow> 'f dtmf_rx_state \<Rightarrow> int list list \<Rightarrow> int list \<Rightarrow> (int \<times> dtmf_report list) option" where
  "dtmf_detect fo junk args file =
     (if length args < 2 then Some (1, [])
      else case read_format (args ! 0) of
        None \<Rightarrow> Some (1, [])
      | Some fmt \<Rightarrow> map_option (Pair 0) (detect_dtmf_chunks fo fmt (chunks file) (openr2_dtmf_rx_init fo junk True) 0))"

section \<open>What the generator writes\<close>

text \<open>A generator that is silent or plays a tone that does not end.\<close>

definition tx_steady :: "'f mf_tx_state \<Rightarrow> bool" where
  "tx_steady s \<longleftrightarrow> mt_digit s = 0 \<or>
     (tone_ok (mt_tone s) \<and> tg_repeat (mt_tone s) \<and> 0 \<le> current_section (mt_tone s))"

lemma tx_steady_put: "tx_steady (openr2_mf_tx_put fo s digit)"
proof (cases "digit \<noteq> 0 \<and> strchr r2_mf_tone_codes digit \<noteq> None")
  case True
  then obtain i where i: "strchr r2_mf_tone_codes digit = Some i" by auto
  have "length r2_mf_tone_codes = 15" by (simp add: r2_mf_tone_codes_def cstr_def)
  then obtain ts where "digit_descriptors fo (if mt_fwd s then r2_mf_fwd_tones else r2_mf_back_tones) ! i =
      \<lparr>td_tone = ts, td_duration = [8, 0, 0, 0], td_repeat = True\<rparr>"
    using digit_descriptor [of i fo "mt_fwd s"] strchr_bound [OF i] by auto
  then show ?thesis using True i by (simp add: openr2_mf_tx_put_def tx_steady_def tone_ok_steady) (simp add: tone_gen_init_def)
qed (auto simp: openr2_mf_tx_put_def tx_steady_def)

lemma tx_steady_chunk:
  assumes "tx_steady s"
  shows "\<exists>xs s'. openr2_mf_tx fo s n = Some (xs, s') \<and> length xs = n \<and> tx_steady s'"
proof (cases "mt_digit s = 0")
  case False
  then have ok: "tone_ok (mt_tone s)" "tg_repeat (mt_tone s)" "0 \<le> current_section (mt_tone s)"
    using assms by (auto simp: tx_steady_def)
  then show ?thesis
    using tone_ref_repeat [OF ok, of fo n] tone_ok_ref [OF ok(1), of fo n]
    by (auto simp: openr2_mf_tx_def tone_gen_is_ref tx_steady_def case_prod_beta)
qed (simp add: openr2_mf_tx_def tx_steady_def)

lemma length_encoded [simp]: "length (encoded fmt xs) = length xs"
  by (cases fmt) simp_all

text \<open>A chunk of a steady generator, or of silence.\<close>

lemma steady_chunk:
  assumes "\<forall>s. tx = Some s \<longrightarrow> tx_steady s" "todo \<noteq> 0"
  shows "\<exists>xs tx'. length xs = 160 \<and> (\<forall>s. tx' = Some s \<longrightarrow> tx_steady s) \<and>
    generate_chunks fo fmt tx todo out =
      (if todo - 160 < INT_MIN then Overflowed (out @ xs) else generate_chunks fo fmt tx' (todo - 160) (out @ xs))"
proof (cases tx)
  case None
  then show ?thesis using assms(2)
    by (intro exI [of _ "encoded fmt (replicate 160 0)"] exI [of _ None], subst generate_chunks.simps) simp
next
  case (Some s)
  then obtain xs s' where x: "openr2_mf_tx fo s 160 = Some (xs, s')" "length xs = 160" "tx_steady s'"
    using tx_steady_chunk [of s fo 160] assms(1) by auto
  then show ?thesis using Some assms(2)
    by (intro exI [of _ "encoded fmt xs"] exI [of _ "Some s'"], subst generate_chunks.simps) simp
qed

lemma generate_chunks_whole:
  assumes "\<forall>s. tx = Some s \<longrightarrow> tx_steady s"
  shows "\<exists>tx' out'. generate_chunks fo fmt tx (160 * int n) out = Played (tx', out') \<and> length out' = length out + 160 * n"
  using assms
proof (induction n arbitrary: tx out)
  case 0
  then show ?case by (simp add: generate_chunks.simps)
next
  case (Suc n)
  have e: "160 * int (Suc n) - 160 = 160 * int n" "160 * int (Suc n) \<noteq> 0" by simp_all
  obtain xs tx1 where 1: "length xs = 160" "\<forall>s. tx1 = Some s \<longrightarrow> tx_steady s"
      "generate_chunks fo fmt tx (160 * int (Suc n)) out = generate_chunks fo fmt tx1 (160 * int n) (out @ xs)"
    using steady_chunk [OF Suc.prems e(2), of fo fmt out] unfolding e(1) by auto
  then show ?case using Suc.IH [OF 1(2), of "out @ xs"] by (auto simp: add.assoc)
qed

lemma generate_chunks_overflows:
  assumes "\<forall>s. tx = Some s \<longrightarrow> tx_steady s" "\<not> 160 dvd todo" "INT_MIN \<le> todo"
  shows "\<exists>out'. generate_chunks fo fmt tx todo out = Overflowed out' \<and> int (length out) + todo - INT_MIN < int (length out')"
  using assms
proof (induction "nat (todo - INT_MIN)" arbitrary: tx todo out rule: less_induct)
  case less
  have nz: "todo \<noteq> 0" using less.prems(2) by auto
  obtain xs tx1 where 1: "length xs = 160" "\<forall>s. tx1 = Some s \<longrightarrow> tx_steady s"
      "generate_chunks fo fmt tx todo out =
        (if todo - 160 < INT_MIN then Overflowed (out @ xs) else generate_chunks fo fmt tx1 (todo - 160) (out @ xs))"
    using steady_chunk [OF less.prems(1) nz, of fo fmt out] by auto
  show ?case
  proof (cases "todo - 160 < INT_MIN")
    case False
    have "\<not> 160 dvd todo - 160" using less.prems(2) by presburger
    then obtain out' where "generate_chunks fo fmt tx1 (todo - 160) (out @ xs) = Overflowed out'"
        "int (length (out @ xs)) + (todo - 160) - INT_MIN < int (length out')"
      using less.hyps [of "todo - 160" tx1 "out @ xs"] 1(2) False less.prems(3) by auto
    then show ?thesis using 1 False by simp
  qed (use 1 in simp)
qed

text \<open>
  C37: For a sequence of one element, \<open>r2mf_generate\<close> plays it exactly when the time asked for, at least 20
  milliseconds, is a whole number of chunks of 20 milliseconds and at most 268435455, and has then written 8
  samples for every millisecond.  A longer time overflows the count of samples at once.  Any other time
  writes on past the end, more than 2^31 samples too many, until the count overflows: what the program does
  then is not defined.
\<close>

theorem mf_generate_returns:
  assumes "read_format f = Some fmt" "read_element elem = Some el" "ms = atoi len"
  shows "case mf_generate fo [f, path, elem, len] of
      Played (rc, file) \<Rightarrow> (20 dvd ms \<or> ms < 20) \<and> -2147483648 \<le> ms \<and> ms \<le> 268435455 \<and> rc = 0 \<and> int (length file) = 8 * max 20 ms
    | Overflowed file \<Rightarrow>
        (if ms < -2147483648 \<or> 268435455 < ms then file = [] else \<not> 20 dvd ms \<and> 20 < ms \<and> 8 * ms + 2147483648 < int (length file))
    | Stuck \<Rightarrow> False"
proof -
  define tx where "tx = (case el of Silence \<Rightarrow> None
    | Tone forward digit \<Rightarrow> Some (openr2_mf_tx_put fo (openr2_mf_tx_init fo forward) digit))"
  have st: "\<forall>s. tx = Some s \<longrightarrow> tx_steady s" by (auto simp: tx_def tx_steady_put split: element.splits)
  have r: "mf_generate fo [f, path, elem, len] =
      (case element_samples len of None \<Rightarrow> Overflowed []
       | Some n \<Rightarrow> (case generate_chunks fo fmt tx n [] of Stuck \<Rightarrow> Stuck | Overflowed out \<Rightarrow> Overflowed out | Played (tx', out) \<Rightarrow> Played (0, out)))"
    using assms
    by (cases el) (auto simp: mf_generate_def tx_def Let_def split: option.splits played.splits prod.splits bool.splits)
  show ?thesis
  proof (cases "ms < INT_MIN \<or> 268435455 < ms")
    case True
    then have "element_samples len = None" using assms(3) by (auto simp: element_samples_def Let_def)
    then show ?thesis using True by (simp add: r)
  next
    case False
    define n where "n = 8 * max 20 ms"
    have n: "element_samples len = Some n" using False assms(3) by (auto simp: element_samples_def Let_def n_def max_def)
    show ?thesis
    proof (cases "160 dvd n")
      case True
      then obtain j where j: "n = 160 * j" by (rule dvdE)
      then have "0 \<le> j" by (simp add: n_def max_def split: if_splits)
      then obtain k where k: "n = 160 * int k" using j zero_le_imp_eq_int by blast
      obtain tx' out' where g: "generate_chunks fo fmt tx (160 * int k) [] = Played (tx', out')" "length out' = 160 * k"
        using generate_chunks_whole [OF st, of fo fmt k "[]"] by auto
      have "20 dvd ms \<or> ms < 20" using True by (auto simp: n_def max_def split: if_splits)
      then show ?thesis using g k n False by (simp add: r n_def)
    next
      case off: False
      have "INT_MIN \<le> n" by (simp add: n_def max_def)
      then obtain out' where g: "generate_chunks fo fmt tx n [] = Overflowed out'" "n - INT_MIN < int (length out')"
        using generate_chunks_overflows [OF st off, of fo fmt "[]"] by auto
      have "\<not> 20 dvd ms \<and> 20 < ms"
        using off by (cases "ms = 20") (auto simp: n_def max_def split: if_splits)
      then show ?thesis using g n False by (simp add: r n_def)
    qed
  qed
qed

theorem mf_generate_returns_witness:
  "(case mf_generate rat_flops [cstr ''alaw'', [], cstr ''f1'', cstr ''25''] of
      Played r \<Rightarrow> False | Overflowed file \<Rightarrow> 2147483848 < int (length file) | Stuck \<Rightarrow> False) \<and>
   (case mf_generate rat_flops [cstr ''alaw'', [], cstr ''f1'', cstr ''40''] of
      Played (rc, file) \<Rightarrow> length file = 320 | Overflowed file \<Rightarrow> False | Stuck \<Rightarrow> False)"
proof -
  have e: "read_format (cstr ''alaw'') = Some FORMAT_ALAW" "read_element (cstr ''f1'') = Some (Tone True 49)"
      "25 = atoi (cstr ''25'')" "40 = atoi (cstr ''40'')"
    by code_simp+
  show ?thesis
    using mf_generate_returns [OF e(1-3), of rat_flops "[]"] mf_generate_returns [OF e(1,2,4), of rat_flops "[]"]
    by (auto split: played.splits)
qed

end
