(* ===== verification/R2Log.thy ===== *)
theory R2Log
  imports R2Names R2ProtoBase R2Utils
begin

text \<open>
  What the library writes: the lines of \<open>r2log.c\<close> and where they go, the default event callbacks of
  \<open>r2context.c\<close>, which only log, and \<open>openr2_mkdir_recursive\<close> of \<open>r2utils.c\<close>, which makes the
  directory of the call files.
\<close>

section \<open>Formats\<close>

text \<open>
  A format of \<open>printf\<close> as its pieces.  An argument of the wrong type, or a conversion without one, is
  undefined in C: \<open>None\<close>.
\<close>

datatype piece = Lit string | ConvD nat | ConvS | ConvC

datatype arg = Num int | Text string

abbreviation newline :: piece where
  "newline \<equiv> Lit [CHR 0x0A]"

fun printf :: "piece list \<Rightarrow> arg list \<Rightarrow> string option" where
  "printf [] args = Some []"
| "printf (Lit l # fmt) args = map_option (\<lambda>out. l @ out) (printf fmt args)"
| "printf (ConvD width # fmt) (Num i # args) = map_option (\<lambda>out. format_d width i @ out) (printf fmt args)"
| "printf (ConvS # fmt) (Text s # args) = map_option (\<lambda>out. s @ out) (printf fmt args)"
| "printf (ConvC # fmt) (Num c # args) = map_option (\<lambda>out. char_of (nat c) # out) (printf fmt args)"
| "printf fmt args = None"

section \<open>The default event callbacks\<close>

text \<open>Level, format and arguments of what each default callback logs, for the channel's number.\<close>

fun default_evmanager :: "(int \<Rightarrow> string) \<Rightarrow> int \<Rightarrow> event \<Rightarrow> int \<times> piece list \<times> arg list" where
  "default_evmanager strerror n OnCallInit = (OR2_LOG_NOTICE, [Lit ''call starting at chan '', ConvD 0, newline], [Num n])"
| "default_evmanager strerror n OnCallProceed = (OR2_LOG_NOTICE, [Lit ''call proceeding at chan '', ConvD 0, newline], [Num n])"
| "default_evmanager strerror n (OnCallOffered a d category restricted) =
     (OR2_LOG_NOTICE, [Lit ''call ready at chan '', ConvD 0, Lit '' with ANI = '', ConvS, Lit '', DNIS = '', ConvS,
        Lit '', Category = '', ConvS, Lit '', ANI Restricted = '', ConvS, newline],
      [Num n, Text (map (char_of \<circ> nat) a), Text (map (char_of \<circ> nat) d), Text (openr2_proto_get_category_string category),
       Text (if restricted \<noteq> 0 then ''Yes'' else ''No'')])"
| "default_evmanager strerror n (OnCallAccepted m) = (OR2_LOG_NOTICE, [Lit ''call has been accepted at chan '', ConvD 0, newline], [Num n])"
| "default_evmanager strerror n OnCallAnswered = (OR2_LOG_NOTICE, [Lit ''call has been answered at chan '', ConvD 0, newline], [Num n])"
| "default_evmanager strerror n (OnCallDisconnect cause) =
     (OR2_LOG_NOTICE, [Lit ''call has been disconnected at chan '', ConvD 0, Lit '': '', ConvS, newline],
      [Num n, Text (openr2_proto_get_disconnect_string cause)])"
| "default_evmanager strerror n OnCallEnd = (OR2_LOG_NOTICE, [Lit ''call has end on channel '', ConvD 0, newline], [Num n])"
| "default_evmanager strerror n (OnCallRead buf buflen) =
     (OR2_LOG_NOTICE, [Lit ''read '', ConvD 0, Lit '' bytes in call at chan '', ConvD 0, newline], [Num n])"
| "default_evmanager strerror n (OnHardwareAlarm alarm) = (OR2_LOG_WARNING, [Lit ''Zap alarm at chan '', ConvD 0, newline], [Num n])"
| "default_evmanager strerror n (OnOsError oserrorcode) =
     (OR2_LOG_ERROR, [Lit ''OS error at chan '', ConvD 0, Lit '': '', ConvS, Lit '' ('', ConvD 0, Lit '')'', newline],
      [Num n, Text (strerror oserrorcode), Num oserrorcode])"
| "default_evmanager strerror n (OnProtocolError e) =
     (OR2_LOG_ERROR, [Lit ''Protocol error at chan '', ConvD 0, Lit '': '', ConvS, Lit '' ('', ConvD 0, Lit '')'', newline],
      [Text (openr2_proto_get_error e)])"
| "default_evmanager strerror n OnLineBlocked = (OR2_LOG_NOTICE, [Lit ''Far end blocked!'', newline], [])"
| "default_evmanager strerror n OnLineIdle = (OR2_LOG_NOTICE, [Lit ''Far end unblocked!'', newline], [])"
| "default_evmanager strerror n (OnDnisDigitReceived digit) =
     (OR2_LOG_DEBUG, [Lit ''DNIS digit '', ConvC, Lit '' received on chan '', ConvD 0, newline], [Num digit, Num n])"
| "default_evmanager strerror n (OnAniDigitReceived digit) =
     (OR2_LOG_DEBUG, [Lit ''ANI digit '', ConvC, Lit '' received on chan '', ConvD 0, newline], [Num digit, Num n])"
| "default_evmanager strerror n OnBillingPulseReceived =
     (OR2_LOG_NOTICE, [Lit ''Billing pulse received on chan '', ConvD 0, newline], [Num n])"
| "default_evmanager strerror n (OnCallLogCreated name) =
     (OR2_LOG_NOTICE, [Lit ''Log '', ConvS, Lit '' created on chan '', ConvD 0, newline], [Text name, Num n])"

section \<open>Lines\<close>

text \<open>The text before a message; \<open>thread\<close> is \<open>openr2_thread_self()\<close>.\<close>

definition call_file_prefix :: "'w chan \<Rightarrow> int \<Rightarrow> loctime \<Rightarrow> int \<Rightarrow> string" where
  "call_file_prefix s thread tm usec =
     ''['' @ format_d 2 (tm_hour tm) @ '':'' @ format_d 2 (tm_min tm) @ '':'' @ format_d 2 (tm_sec tm) @ '':'' @
     format_d 3 (usec div 1000) @ ''] [Thread: '' @ format_d 2 thread @ ''] [s'' @ format_d 0 (span_id s) @ ''c'' @
     format_d 0 (number s) @ ''] - '' @ (if configured_from_file (r2context s) \<noteq> 0 then ''M - '' else '''')"

definition channel_prefix :: "'w chan \<Rightarrow> int \<Rightarrow> loctime \<Rightarrow> int \<Rightarrow> string" where
  "channel_prefix s level tm usec =
     ''['' @ format_d 2 (tm_min tm) @ '':'' @ format_d 2 (tm_sec tm) @ '':'' @ format_d 3 (usec div 1000) @ '']['' @
     openr2_log_get_level_string level @ ''] s'' @ format_d 0 (span_id s) @ ''c'' @ format_d 0 (number s) @ '' -- '' @
     (if configured_from_file (r2context s) \<noteq> 0 then ''M -- '' else '''')"

definition generic_prefix :: "int \<Rightarrow> loctime \<Rightarrow> int \<Rightarrow> string" where
  "generic_prefix thread tm usec =
     ''['' @ format_d 2 (tm_hour tm) @ '':'' @ format_d 2 (tm_min tm) @ '':'' @ format_d 2 (tm_sec tm) @ '':'' @
     format_d 3 (usec div 1000) @ ''] [Thread: '' @ format_d 2 thread @ ''] - ''"

text \<open>The clock both lines need: without it nothing is written.\<close>

definition line_time :: "'w iface \<Rightarrow> ('w chan, (loctime \<times> int) option) state" where
  "line_time ifc = do {
     now \<leftarrow> world_call (gettimeofday ifc);
     case now of
       None \<Rightarrow> return None
     | Some currtime \<Rightarrow> do {
         tm \<leftarrow> world_call (sys_localtime ifc (tv_sec currtime));
         return (map_option (\<lambda>tm. (tm, tv_usec currtime)) tm) } }"

definition log_at_file :: "'w iface \<Rightarrow> int \<Rightarrow> string \<Rightarrow> ('w chan, string option) state" where
  "log_at_file ifc thread msg = do {
     t \<leftarrow> line_time ifc;
     s \<leftarrow> gets id;
     return (map_option (\<lambda>(tm, usec). call_file_prefix s thread tm usec @ msg) t) }"

definition openr2_log_channel_default :: "'w iface \<Rightarrow> int \<Rightarrow> string \<Rightarrow> ('w chan, string option) state" where
  "openr2_log_channel_default ifc level msg = do {
     t \<leftarrow> line_time ifc;
     s \<leftarrow> gets id;
     return (map_option (\<lambda>(tm, usec). channel_prefix s level tm usec @ msg) t) }"

definition openr2_log_generic_default :: "'w iface \<Rightarrow> int \<Rightarrow> string \<Rightarrow> ('w chan, string option) state" where
  "openr2_log_generic_default ifc thread msg = do {
     t \<leftarrow> line_time ifc;
     return (map_option (\<lambda>(tm, usec). generic_prefix thread tm usec @ msg) t) }"

definition openr2_log_context_default :: "r2ctx \<Rightarrow> int \<Rightarrow> string \<Rightarrow> string" where
  "openr2_log_context_default c level msg =
     ''['' @ openr2_log_get_level_string level @ ''] Context -- '' @ (if configured_from_file c \<noteq> 0 then ''M -- '' else '''') @ msg"

text \<open>
  \<open>openr2_log\<close>: the line of the call file, and the message handed to the logging callback of the channel,
  whose levels are a bit mask.
\<close>

definition openr2_log :: "'w iface \<Rightarrow> int \<Rightarrow> int \<Rightarrow> string \<Rightarrow> ('w chan, string option \<times> string option) state" where
  "openr2_log ifc thread level msg = do {
     f \<leftarrow> gets logfile;
     line \<leftarrow> (if f \<noteq> 0 then log_at_file ifc thread msg else return None);
     mask \<leftarrow> gets loglevel;
     return (line, if level AND mask \<noteq> 0 then Some msg else None) }"

definition openr2_log2 :: "r2ctx \<Rightarrow> int \<Rightarrow> string \<Rightarrow> string option" where
  "openr2_log2 c level msg = (if level AND ctx_loglevel c \<noteq> 0 then Some msg else None)"

text \<open>
  The default callbacks of a user that installs none print a well-formed line for every event but two: the
  formats for a read and for a protocol error want arguments that are not given.
\<close>

theorem default_callbacks_format:
  "case default_evmanager strerror n e of (level, fmt, args) \<Rightarrow>
     (printf fmt args = None) = (case e of OnCallRead _ _ \<Rightarrow> True | OnProtocolError _ \<Rightarrow> True | _ \<Rightarrow> False)"
  by (cases e) simp_all

text \<open>
  With a call file open every message goes to it, whatever its level; to the user's callback go the
  messages whose level is in the mask of the channel, and no message changes the channel.
\<close>

theorem log_goes_to_file:
  assumes "logfile s \<noteq> 0" "gettimeofday ifc (world s) = (Some t, w)" "sys_localtime ifc (tv_sec t) w = (Some tm, w')"
  shows "val (openr2_log ifc thread level msg) s =
      (Some (call_file_prefix s thread tm (tv_usec t) @ msg), if level AND loglevel s \<noteq> 0 then Some msg else None) \<and>
    exec (openr2_log ifc thread level msg) s = s\<lparr>world := w'\<rparr>"
  using assms by (simp add: openr2_log_def log_at_file_def line_time_def call_file_prefix_def)

section \<open>Directories\<close>

text \<open>
  \<open>openr2_mkdir_recursive\<close> on the characters of a path: \<open>dir\<close> is what is before \<open>str\<close>.  \<open>mkdir\<close> answers an
  error number, 0 for success.  The search for a slash starts behind the first character; for an empty path
  it starts behind the end of the string (\<open>None\<close>).
\<close>

abbreviation (input) "EEXIST \<equiv> 17 :: int"

lemma length_dropWhile_Cons: "dropWhile P xs = y # ys \<Longrightarrow> length ys < length xs"
  by (induction xs) (auto split: if_splits)

function mkdir_loop :: "(string \<Rightarrow> 'w \<Rightarrow> int \<times> 'w) \<Rightarrow> string \<Rightarrow> string \<Rightarrow> 'w \<Rightarrow> int \<times> 'w" where
  "mkdir_loop mkdir dir str w =
     (case dropWhile (\<lambda>c. c \<noteq> CHR ''/'') str of
        [] \<Rightarrow> if str \<noteq> [] then (case mkdir (dir @ str) w of (err, w) \<Rightarrow> (if err \<noteq> 0 then -1 else 0, w)) else (0, w)
      | slash # rest \<Rightarrow>
          (case mkdir (dir @ takeWhile (\<lambda>c. c \<noteq> CHR ''/'') str) w of (err, w) \<Rightarrow>
             if err \<noteq> 0 \<and> err \<noteq> EEXIST then (-1, w)
             else mkdir_loop mkdir (dir @ takeWhile (\<lambda>c. c \<noteq> CHR ''/'') str @ [slash]) rest w))"
  by pat_completeness auto

termination
  by (relation "measure (\<lambda>(mkdir, dir, str, w). length str)") (auto intro: length_dropWhile_Cons)

declare mkdir_loop.simps [simp del]

fun openr2_mkdir_recursive :: "(string \<Rightarrow> 'w \<Rightarrow> int \<times> 'w) \<Rightarrow> string option \<Rightarrow> 'w \<Rightarrow> (int \<times> 'w) option" where
  "openr2_mkdir_recursive mkdir None w = Some (-1, w)"
| "openr2_mkdir_recursive mkdir (Some []) w = None"
| "openr2_mkdir_recursive mkdir (Some (c # str)) w = Some (mkdir_loop mkdir [c] str w)"

text \<open>The reference: the prefixes that end before a slash, then the whole path if it does not end in one.\<close>

definition parents :: "nat \<Rightarrow> string \<Rightarrow> string list" where
  "parents n path = map (\<lambda>i. take i path) (List.filter (\<lambda>i. path ! i = CHR ''/'') [n..<length path])"

definition path_dirs :: "string \<Rightarrow> string list" where
  "path_dirs path = parents 1 path @ (if 1 < length path \<and> last path \<noteq> CHR ''/'' then [path] else [])"

text \<open>A file system that only notes the calls.\<close>

definition noting :: "string \<Rightarrow> string list \<Rightarrow> int \<times> string list" where
  "noting path w = (0, w @ [path])"

lemma no_slash_at:
  assumes "\<forall>x \<in> set xs. x \<noteq> CHR ''/''" "length dir \<le> i" "i < length dir + length xs"
  shows "(dir @ xs @ ys) ! i \<noteq> CHR ''/''"
proof -
  have "(dir @ xs @ ys) ! i = xs ! (i - length dir)" using assms(2,3) by (simp add: nth_append less_diff_conv2)
  moreover have "xs ! (i - length dir) \<in> set xs" using assms(2,3) by (intro nth_mem) linarith
  ultimately show ?thesis using assms(1) by metis
qed

lemma parents_slash:
  assumes "\<forall>x \<in> set xs. x \<noteq> CHR ''/''"
  shows "parents (length dir) (dir @ xs @ CHR ''/'' # rest) =
    (dir @ xs) # parents (length (dir @ xs @ [CHR ''/''])) ((dir @ xs @ [CHR ''/'']) @ rest)"
proof -
  let ?p = "dir @ xs @ CHR ''/'' # rest" and ?n = "length dir" and ?m = "length dir + length xs"
  have "[?n..<?m + Suc (length rest)] = [?n..<?m] @ [?m..<?m + Suc (length rest)]"
    by (rule upt_add_eq_append) simp
  also have "[?m..<?m + Suc (length rest)] = ?m # [Suc ?m..<?m + Suc (length rest)]"
    by (rule upt_conv_Cons) simp
  finally have u: "[?n..<length ?p] = [?n..<?m] @ ?m # [Suc ?m..<length ?p]" by (simp add: add.assoc)
  have none: "List.filter (\<lambda>i. ?p ! i = CHR ''/'') [?n..<?m] = []"
    by (rule filter_False) (simp add: no_slash_at [OF assms])
  have at: "?p ! ?m = CHR ''/''" "take ?m ?p = dir @ xs" by (simp_all add: nth_append)
  have eq: "length (dir @ xs @ [CHR ''/'']) = Suc ?m" "(dir @ xs @ [CHR ''/'']) @ rest = ?p" by simp_all
  show ?thesis unfolding parents_def eq u by (simp only: filter_append none append_Nil filter.simps at if_True list.map simp_thms)
qed

lemma parents_none: "\<forall>x \<in> set xs. x \<noteq> CHR ''/'' \<Longrightarrow> parents (length dir) (dir @ xs) = []"
  unfolding parents_def map_is_Nil_conv
  by (rule filter_False) (simp add: no_slash_at [where ys = "[]", simplified])

lemma mkdir_loop_noting:
  "dir \<noteq> [] \<Longrightarrow> mkdir_loop noting dir str w =
    (0, w @ parents (length dir) (dir @ str) @ (if str \<noteq> [] \<and> last str \<noteq> CHR ''/'' then [dir @ str] else []))"
proof (induction "length str" arbitrary: dir str w rule: less_induct)
  case less
  let ?P = "\<lambda>c. c \<noteq> CHR ''/''"
  have split: "str = takeWhile ?P str @ dropWhile ?P str" by simp
  have no: "\<forall>x \<in> set (takeWhile ?P str). x \<noteq> CHR ''/''" by (auto dest: set_takeWhileD)
  show ?case
  proof (cases "dropWhile ?P str")
    case Nil
    then have "takeWhile ?P str = str" using split by simp
    then have p: "parents (length dir) (dir @ str) = []" using no parents_none [of str dir] by simp
    have "str \<noteq> [] \<Longrightarrow> last str \<noteq> CHR ''/''"
      using no \<open>takeWhile ?P str = str\<close> last_in_set by metis
    then show ?thesis
      by (subst mkdir_loop.simps, subst Nil) (simp add: noting_def p)
  next
    case (Cons slash rest)
    then have s: "slash = CHR ''/''" using hd_dropWhile [of ?P str] by (simp only: Cons list.sel) simp
    have str: "str = takeWhile ?P str @ CHR ''/'' # rest" using split unfolding Cons s .
    have "mkdir_loop noting dir str w = mkdir_loop noting (dir @ takeWhile ?P str @ [CHR ''/'']) rest (w @ [dir @ takeWhile ?P str])"
      using Cons s by (subst mkdir_loop.simps) (simp add: noting_def)
    also have "\<dots> = (0, (w @ [dir @ takeWhile ?P str]) @ parents (length (dir @ takeWhile ?P str @ [CHR ''/''])) ((dir @ takeWhile ?P str @ [CHR ''/'']) @ rest) @
        (if rest \<noteq> [] \<and> last rest \<noteq> CHR ''/'' then [(dir @ takeWhile ?P str @ [CHR ''/'']) @ rest] else []))"
      using length_dropWhile_Cons [OF Cons] by (intro less.hyps) simp_all
    also have "\<dots> = (0, w @ parents (length dir) (dir @ str) @ (if str \<noteq> [] \<and> last str \<noteq> CHR ''/'' then [dir @ str] else []))"
    proof -
      have "dir @ str = dir @ takeWhile ?P str @ CHR ''/'' # rest" "str \<noteq> []" "last str = (if rest = [] then CHR ''/'' else last rest)"
        using str by (metis, metis append_is_Nil_conv list.distinct(1), metis last_ConsL last_ConsR last_appendR list.distinct(1))
      then show ?thesis using parents_slash [OF no, of dir rest] by simp
    qed
    finally show ?thesis .
  qed
qed

text \<open>
  Making a directory asks for every directory on the way to it, in order, and then for itself, unless the path
  ends in a slash; but a path of one character is never made, and reported as made.
\<close>

theorem mkdir_recursive_dirs:
  assumes "path \<noteq> []"
  shows "openr2_mkdir_recursive noting (Some path) [] = Some (0, path_dirs path)"
  using assms mkdir_loop_noting [of "[hd path]" "tl path" "[]"]
  by (cases path) (auto simp: path_dirs_def)

theorem mkdir_recursive_dirs_witness:
  "openr2_mkdir_recursive noting (Some ''/a/b/c/'') [] = Some (0, [''/a'', ''/a/b'', ''/a/b/c'']) \<and>
   openr2_mkdir_recursive noting (Some ''d'') [] = Some (0, [])"
proof -
  have "path_dirs ''/a/b/c/'' = [''/a'', ''/a/b'', ''/a/b/c'']" "path_dirs ''d'' = []" by code_simp+
  then show ?thesis using mkdir_recursive_dirs [of "''/a/b/c/''"] mkdir_recursive_dirs [of "''d''"] by simp
qed

end
