(* ===== verification/R2Admin.thy ===== *)
theory R2Admin
  imports R2Names R2Chan R2Context
begin

text \<open>
  What a user asks of a channel and of a context: the locked queries of \<open>r2chan.c\<close>, the getters of
  \<open>r2context.c\<close>, and the end of a context with the channels in its list.
\<close>

section \<open>Queries of a channel\<close>

text \<open>The macros \<open>OR2_CHAN_RET_PROP\<close> and \<open>OR2_CHAN_SET_PROP\<close>.\<close>

definition OR2_CHAN_RET_PROP :: "('w chan \<Rightarrow> 'a) \<Rightarrow> ('w chan, 'a) state" where
  "OR2_CHAN_RET_PROP property = do {
     openr2_chan_lock;
     retproperty \<leftarrow> gets property;
     openr2_chan_unlock;
     return retproperty }"

definition openr2_chan_get_rx_cas :: "('w chan, cas_signal) state" where
  "openr2_chan_get_rx_cas = do {
     openr2_chan_lock;
     retcode \<leftarrow> gets openr2_proto_get_rx_cas;
     openr2_chan_unlock;
     return retcode }"

definition openr2_chan_get_tx_cas :: "('w chan, cas_signal) state" where
  "openr2_chan_get_tx_cas = do {
     openr2_chan_lock;
     retcode \<leftarrow> gets openr2_proto_get_tx_cas;
     openr2_chan_unlock;
     return retcode }"

definition openr2_chan_get_cas :: "('w chan, cas_signal \<times> cas_signal) state" where
  "openr2_chan_get_cas = do {
     openr2_chan_lock;
     rxcas \<leftarrow> gets openr2_proto_get_rx_cas;
     txcas \<leftarrow> gets openr2_proto_get_tx_cas;
     openr2_chan_unlock;
     return (rxcas, txcas) }"

definition openr2_chan_get_rx_cas_string :: "('w chan, string) state" where
  "openr2_chan_get_rx_cas_string = do {
     openr2_chan_lock;
     retstr \<leftarrow> gets openr2_proto_get_rx_cas_string;
     openr2_chan_unlock;
     return retstr }"

definition openr2_chan_get_tx_cas_string :: "('w chan, string) state" where
  "openr2_chan_get_tx_cas_string = do {
     openr2_chan_lock;
     retstr \<leftarrow> gets openr2_proto_get_tx_cas_string;
     openr2_chan_unlock;
     return retstr }"

definition openr2_chan_get_call_state_string :: "('w chan, string) state" where
  "openr2_chan_get_call_state_string = do {
     openr2_chan_lock;
     retstr \<leftarrow> gets openr2_proto_get_call_state_string;
     openr2_chan_unlock;
     return retstr }"

definition openr2_chan_get_r2_state_string :: "('w chan, string) state" where
  "openr2_chan_get_r2_state_string = do {
     openr2_chan_lock;
     retstr \<leftarrow> gets openr2_proto_get_r2_state_string;
     openr2_chan_unlock;
     return retstr }"

definition openr2_chan_get_mf_state_string :: "('w chan, string) state" where
  "openr2_chan_get_mf_state_string = do {
     openr2_chan_lock;
     retstr \<leftarrow> gets openr2_proto_get_mf_state_string;
     openr2_chan_unlock;
     return retstr }"

definition openr2_chan_get_mf_group_string :: "('w chan, string) state" where
  "openr2_chan_get_mf_group_string = do {
     openr2_chan_lock;
     retstr \<leftarrow> gets openr2_proto_get_mf_group_string;
     openr2_chan_unlock;
     return retstr }"

definition openr2_chan_get_tx_mf_signal :: "('w chan, int) state" where
  "openr2_chan_get_tx_mf_signal = do {
     openr2_chan_lock;
     retcode \<leftarrow> gets openr2_proto_get_tx_mf_signal;
     openr2_chan_unlock;
     return retcode }"

definition openr2_chan_get_rx_mf_signal :: "('w chan, int) state" where
  "openr2_chan_get_rx_mf_signal = do {
     openr2_chan_lock;
     retcode \<leftarrow> gets openr2_proto_get_rx_mf_signal;
     openr2_chan_unlock;
     return retcode }"

definition openr2_chan_get_direction :: "('w chan, direction_t) state" where
  "openr2_chan_get_direction = OR2_CHAN_RET_PROP direction"

definition openr2_chan_get_fd :: "('w chan, int) state" where
  "openr2_chan_get_fd = OR2_CHAN_RET_PROP fd"

definition openr2_chan_get_number :: "('w chan, int) state" where
  "openr2_chan_get_number = OR2_CHAN_RET_PROP number"

definition openr2_chan_get_context :: "('w chan, r2ctx) state" where
  "openr2_chan_get_context = OR2_CHAN_RET_PROP r2context"

definition openr2_chan_get_client_data :: "('w chan, int) state" where
  "openr2_chan_get_client_data = OR2_CHAN_RET_PROP client_data"

definition openr2_chan_get_log_level :: "('w chan, int) state" where
  "openr2_chan_get_log_level = OR2_CHAN_RET_PROP loglevel"

definition openr2_chan_get_read_enabled :: "('w chan, int) state" where
  "openr2_chan_get_read_enabled = OR2_CHAN_RET_PROP read_enabled"

text \<open>A query takes the lock, gives it back, and changes nothing.\<close>

lemma queries_change_nothing [simp]:
  "exec (OR2_CHAN_RET_PROP f) s = s"
  "exec openr2_chan_get_rx_cas s = s"
  "exec openr2_chan_get_tx_cas s = s"
  "exec openr2_chan_get_rx_cas_string s = s"
  "exec openr2_chan_get_tx_cas_string s = s"
  "exec openr2_chan_get_call_state_string s = s"
  "exec openr2_chan_get_r2_state_string s = s"
  "exec openr2_chan_get_mf_state_string s = s"
  "exec openr2_chan_get_mf_group_string s = s"
  "exec openr2_chan_get_tx_mf_signal s = s"
  "exec openr2_chan_get_rx_mf_signal s = s"
  "exec openr2_chan_get_cas s = s"
  by (simp_all add: OR2_CHAN_RET_PROP_def
      openr2_chan_get_rx_cas_def openr2_chan_get_tx_cas_def openr2_chan_get_rx_cas_string_def
      openr2_chan_get_tx_cas_string_def openr2_chan_get_call_state_string_def
      openr2_chan_get_r2_state_string_def openr2_chan_get_mf_state_string_def
      openr2_chan_get_mf_group_string_def openr2_chan_get_tx_mf_signal_def
      openr2_chan_get_rx_mf_signal_def openr2_chan_get_cas_def)

section \<open>Getters of a context\<close>

definition openr2_context_get_last_error :: "r2ctx \<Rightarrow> liberr" where
  "openr2_context_get_last_error c = last_error c"

definition openr2_context_get_variant :: "r2ctx \<Rightarrow> variant_t" where
  "openr2_context_get_variant c = variant c"

definition openr2_context_get_ani_first :: "r2ctx \<Rightarrow> int" where
  "openr2_context_get_ani_first c = get_ani_first c"

definition openr2_context_get_skip_category_request :: "r2ctx \<Rightarrow> int" where
  "openr2_context_get_skip_category_request c = skip_category c"

definition openr2_context_get_immediate_accept :: "r2ctx \<Rightarrow> int" where
  "openr2_context_get_immediate_accept c = immediate_accept c"

definition openr2_context_get_log_level :: "r2ctx \<Rightarrow> int" where
  "openr2_context_get_log_level c = ctx_loglevel c"

definition openr2_context_get_mf_threshold :: "r2ctx \<Rightarrow> int" where
  "openr2_context_get_mf_threshold c = mf_threshold c"

definition openr2_context_get_dtmf_detection :: "r2ctx \<Rightarrow> int" where
  "openr2_context_get_dtmf_detection c = detect_dtmf c"

definition openr2_context_get_max_ani :: "r2ctx \<Rightarrow> int" where
  "openr2_context_get_max_ani c = max_ani c"

definition openr2_context_get_max_dnis :: "r2ctx \<Rightarrow> int" where
  "openr2_context_get_max_dnis c = max_dnis c"

definition openr2_context_get_mf_back_timeout :: "r2ctx \<Rightarrow> int" where
  "openr2_context_get_mf_back_timeout c = t_mf_back_cycle (timers c)"

definition openr2_context_get_metering_pulse_timeout :: "r2ctx \<Rightarrow> int" where
  "openr2_context_get_metering_pulse_timeout c = t_r2_metering_pulse (timers c)"

section \<open>The end of a context\<close>

text \<open>
  Channels are addresses.  \<open>live\<close> are the channels that have not been freed; deleting one frees it and
  leaves the list of its context as it is.  Reading or deleting a channel that was freed is a fault.
\<close>

definition free_channel :: "nat \<Rightarrow> nat set \<Rightarrow> nat set option" where
  "free_channel x live = (if x \<in> live then Some (live - {x}) else None)"

fun delete_channels :: "nat list \<Rightarrow> nat set \<Rightarrow> nat set option" where
  "delete_channels [] live = Some live"
| "delete_channels (current # next) live = Option.bind (free_channel current live) (delete_channels next)"

definition openr2_context_delete :: "'f context_t \<Rightarrow> nat set \<Rightarrow> nat set option" where
  "openr2_context_delete c live = delete_channels (chanlist c) live"

lemma delete_channels_result:
  "delete_channels xs live = (if distinct xs \<and> set xs \<subseteq> live then Some (live - set xs) else None)"
  by (induction xs arbitrary: live) (auto simp: free_channel_def)

lemma chanlist_added: "chanlist (fold openr2_context_add_channel xs c) = rev xs @ chanlist c"
  by (induction xs arbitrary: c) (simp_all add: openr2_context_add_channel_def)

text \<open>
  Deleting a context frees the channels made in it, each once; but if a channel was deleted before, which
  frees it without taking it out of the list of its context, deleting the context faults.
\<close>

theorem context_delete_dangling:
  assumes "distinct xs" "chanlist c = []"
  shows "openr2_context_delete (fold openr2_context_add_channel xs c) (set xs \<union> others) = Some (others - set xs) \<and>
    list_all (\<lambda>x. Option.bind (free_channel x (set xs \<union> others))
      (openr2_context_delete (fold openr2_context_add_channel xs c)) = None) xs"
  using assms
  by (auto simp: openr2_context_delete_def delete_channels_result chanlist_added free_channel_def list_all_iff)

theorem context_delete_dangling_witness:
  "Option.bind (free_channel 7 {5, 7}) (openr2_context_delete (fold openr2_context_add_channel [5, 7] bare_context)) = None"
  using context_delete_dangling [of "[5, 7]" bare_context "{}"] by (simp add: bare_context_def)

end
