(* ===== verification/R2Thread.thy ===== *)
theory R2Thread
  imports R2Prelude
begin

text \<open>
  The thread abstraction \<open>r2thread.c\<close>: detached threads, mutexes and interrupts (a pipe a thread
  sleeps on).  The process around the code is a record: the blocks of memory that are allocated,
  the attribute objects that are initialised, the mutexes, the bytes in each pipe.  What a system
  call answers is an argument of the operation: a return code, or the replies of \<open>poll\<close> in the order
  they come.  Freeing memory that is not allocated, or an access past the end of an array, is
  \<open>None\<close> or \<open>Fault\<close>.
\<close>

section \<open>The process\<close>

datatype openr2_status_t = OR2_SUCCESS | OR2_FAIL | OR2_TIMEOUT

record openr2_interrupt =
  device :: int
  readfd :: int
  writefd :: int

text \<open>A system mutex: whether it is recursive, the thread that holds it and how often.\<close>

record openr2_mutex =
  recursive :: bool
  owner :: "nat option"
  depth :: nat

record openr2_thread =
  private_data :: int
  thread_function :: int
  stack_size :: nat

record process =
  blocks :: "nat set"
  next_block :: nat
  thread_attrs :: "nat set"
  mutex_attrs :: nat
  started :: "nat list"
  threads :: "nat \<Rightarrow> openr2_thread option"
  mutexes :: "nat \<Rightarrow> openr2_mutex option"
  interrupts :: "nat \<Rightarrow> openr2_interrupt option"
  in_pipe :: "int \<Rightarrow> nat option"
  feeds :: "int \<Rightarrow> int option"
  next_fd :: int

definition openr2_malloc :: "bool \<Rightarrow> process \<Rightarrow> nat option \<times> process" where
  "openr2_malloc ok p =
     (if ok then (Some (next_block p), p\<lparr>blocks := insert (next_block p) (blocks p), next_block := next_block p + 1\<rparr>)
      else (None, p))"

definition openr2_free :: "nat \<Rightarrow> process \<Rightarrow> process option" where
  "openr2_free b p = (if b \<in> blocks p then Some (p\<lparr>blocks := blocks p - {b}\<rparr>) else None)"

text \<open>Blocks are given out in order; everything the process keeps about a block is about one it holds.\<close>

definition process_ok :: "process \<Rightarrow> bool" where
  "process_ok p \<longleftrightarrow> (\<forall>b \<in> blocks p. b < next_block p) \<and> thread_attrs p \<subseteq> blocks p"

section \<open>Threads\<close>

text \<open>What the calls on the way to a new thread answer.\<close>

record thread_env =
  malloc_ok :: bool
  attr_init :: int
  attr_setdetachstate :: int
  attr_setstacksize :: int
  create :: int

definition pthread_attr_destroy :: "nat \<Rightarrow> process \<Rightarrow> process" where
  "pthread_attr_destroy t p = p\<lparr>thread_attrs := thread_attrs p - {t}\<rparr>"

definition thread_fail :: "nat \<Rightarrow> process \<Rightarrow> (openr2_status_t \<times> process) option" where
  "thread_fail t p = map_option (Pair OR2_FAIL) (openr2_free t p)"

definition openr2_thread_create_detached_ex ::
    "thread_env \<Rightarrow> int option \<Rightarrow> int \<Rightarrow> nat \<Rightarrow> process \<Rightarrow> (openr2_status_t \<times> process) option" where
  "openr2_thread_create_detached_ex env func data stack p =
     (case func of None \<Rightarrow> Some (OR2_FAIL, p) | Some f \<Rightarrow>
      (case openr2_malloc (malloc_ok env) p of
         (None, p) \<Rightarrow> Some (OR2_FAIL, p)
       | (Some t, p) \<Rightarrow>
         (let p1 = p\<lparr>threads := (threads p)(t \<mapsto> \<lparr>private_data = data, thread_function = f, stack_size = stack\<rparr>)\<rparr>;
              p2 = p1\<lparr>thread_attrs := insert t (thread_attrs p1)\<rparr>
          in if attr_init env \<noteq> 0 then thread_fail t p1
          else if attr_setdetachstate env \<noteq> 0 then thread_fail t (pthread_attr_destroy t p2)
          else if stack \<noteq> 0 \<and> attr_setstacksize env \<noteq> 0 then thread_fail t (pthread_attr_destroy t p2)
          else if create env \<noteq> 0 then thread_fail t (pthread_attr_destroy t p2)
          else Some (OR2_SUCCESS, p2\<lparr>started := started p2 @ [t]\<rparr>))))"

definition openr2_thread_create_detached ::
    "nat \<Rightarrow> thread_env \<Rightarrow> int option \<Rightarrow> int \<Rightarrow> process \<Rightarrow> (openr2_status_t \<times> process) option" where
  "openr2_thread_create_detached default_stacksize env func data =
     openr2_thread_create_detached_ex env func data default_stacksize"

text \<open>The body of a new thread; \<open>body\<close> is the user's function, by its handle.\<close>

definition thread_launch ::
    "(int \<Rightarrow> int \<Rightarrow> process \<Rightarrow> int \<times> process) \<Rightarrow> nat \<Rightarrow> process \<Rightarrow> (int \<times> process) option" where
  "thread_launch body t p = (case threads p t of None \<Rightarrow> None | Some th \<Rightarrow>
     (let (exit_val, p) = body (thread_function th) (private_data th) p
      in map_option (Pair exit_val) (openr2_free t (pthread_attr_destroy t p))))"

section \<open>Mutexes\<close>

record mutex_env =
  mutex_malloc_ok :: bool
  mutexattr_init :: int
  mutexattr_settype :: int
  mutex_init :: int

text \<open>The new mutex is \<open>None\<close> when \<open>*mutex\<close> is left alone.\<close>

definition openr2_mutex_create :: "mutex_env \<Rightarrow> process \<Rightarrow> openr2_status_t \<times> nat option \<times> process" where
  "openr2_mutex_create env p =
     (case openr2_malloc (mutex_malloc_ok env) p of
        (None, p) \<Rightarrow> (OR2_FAIL, None, p)
      | (Some check, p) \<Rightarrow>
        (if mutexattr_init env \<noteq> 0 then (OR2_FAIL, None, p)
         else if mutexattr_settype env \<noteq> 0 then (OR2_FAIL, None, p)
         else if mutex_init env \<noteq> 0 then (OR2_FAIL, None, p)
         else (OR2_SUCCESS, Some check,
           p\<lparr>mutex_attrs := mutex_attrs p + 1,
             mutexes := (mutexes p)(check \<mapsto> \<lparr>recursive = True, owner = None, depth = 0\<rparr>)\<rparr>)))"

definition openr2_mutex_destroy :: "int \<Rightarrow> nat option \<Rightarrow> process \<Rightarrow> (openr2_status_t \<times> process) option" where
  "openr2_mutex_destroy rc mutex p = (case mutex of None \<Rightarrow> Some (OR2_FAIL, p) | Some mp \<Rightarrow>
     (if rc \<noteq> 0 then Some (OR2_FAIL, p)
      else map_option (Pair OR2_SUCCESS) (openr2_free mp (p\<lparr>mutexes := (mutexes p)(mp := None)\<rparr>))))"

text \<open>
  A call on a mutex: \<open>Blocks\<close> while the thread has to wait.  The mutex types as POSIX has them: a
  recursive mutex counts the locks of its holder, any other one makes a thread wait for itself.
\<close>

datatype lock_result = Blocks | Done openr2_status_t openr2_mutex

definition acquired :: "nat \<Rightarrow> openr2_mutex \<Rightarrow> bool" where
  "acquired t m \<longleftrightarrow> owner m = None \<or> (owner m = Some t \<and> recursive m)"

definition openr2_mutex_lock :: "int \<Rightarrow> nat \<Rightarrow> openr2_mutex \<Rightarrow> lock_result" where
  "openr2_mutex_lock err t m =
     (if err \<noteq> 0 then Done OR2_FAIL m
      else if acquired t m then Done OR2_SUCCESS (m\<lparr>owner := Some t, depth := depth m + 1\<rparr>)
      else Blocks)"

definition openr2_mutex_trylock :: "int \<Rightarrow> nat \<Rightarrow> openr2_mutex \<Rightarrow> lock_result" where
  "openr2_mutex_trylock err t m =
     (if err \<noteq> 0 \<or> \<not> acquired t m then Done OR2_FAIL m
      else Done OR2_SUCCESS (m\<lparr>owner := Some t, depth := depth m + 1\<rparr>))"

definition openr2_mutex_unlock :: "nat \<Rightarrow> openr2_mutex \<Rightarrow> lock_result" where
  "openr2_mutex_unlock t m =
     (if owner m \<noteq> Some t then Done OR2_FAIL m
      else if depth m \<le> 1 then Done OR2_SUCCESS (m\<lparr>owner := None, depth := 0\<rparr>)
      else Done OR2_SUCCESS (m\<lparr>depth := depth m - 1\<rparr>))"

section \<open>Interrupts\<close>

abbreviation OR2_INVALID_SOCKET :: int where
  "OR2_INVALID_SOCKET \<equiv> -1"

text \<open>\<open>pipe\<close>: a fresh pair of descriptors and an empty pipe between them.\<close>

definition new_pipe :: "process \<Rightarrow> (int \<times> int) \<times> process" where
  "new_pipe p = ((next_fd p, next_fd p + 1),
     p\<lparr>in_pipe := (in_pipe p)(next_fd p \<mapsto> 0), feeds := (feeds p)(next_fd p + 1 \<mapsto> next_fd p),
       next_fd := next_fd p + 2\<rparr>)"

definition close_fd :: "int \<Rightarrow> process \<Rightarrow> process" where
  "close_fd d p = p\<lparr>in_pipe := (in_pipe p)(d := None), feeds := (feeds p)(d := None)\<rparr>"

text \<open>
  The block is filled with 0 by \<open>calloc\<close>, so a failed \<open>pipe\<close> finds a read descriptor of 0 and closes
  nothing.
\<close>

definition openr2_interrupt_create ::
    "bool \<Rightarrow> bool \<Rightarrow> int \<Rightarrow> process \<Rightarrow> (openr2_status_t \<times> nat option \<times> process) option" where
  "openr2_interrupt_create mem_ok pipe_ok dev p =
     (case openr2_malloc mem_ok p of
        (None, p) \<Rightarrow> Some (OR2_FAIL, None, p)
      | (Some b, p) \<Rightarrow>
        (if \<not> pipe_ok then map_option (\<lambda>p. (OR2_FAIL, None, p)) (openr2_free b p)
         else let ((r, w), p) = new_pipe p
           in Some (OR2_SUCCESS, Some b,
                p\<lparr>interrupts := (interrupts p)(b \<mapsto> \<lparr>device = dev, readfd = r, writefd = w\<rparr>)\<rparr>)))"

definition openr2_interrupt_destroy :: "nat \<Rightarrow> process \<Rightarrow> (openr2_status_t \<times> process) option" where
  "openr2_interrupt_destroy b p = (case interrupts p b of None \<Rightarrow> None | Some i \<Rightarrow>
     map_option (Pair OR2_SUCCESS)
       (openr2_free b ((close_fd (writefd i) (close_fd (readfd i) p))\<lparr>interrupts := (interrupts p)(b := None)\<rparr>)))"

text \<open>
  A reply of \<open>poll\<close>: interrupted by a signal, failed, or a moment at which the given devices can be
  read; then also the descriptors whose \<open>read\<close> will fail.  A pipe can be read when it has bytes.
\<close>

datatype poll_reply = Interrupted | PollFailed | Woken "int list" "int list"

record pollfd =
  pfd :: int
  pollin :: bool
  revents :: bool

abbreviation wants :: "int \<Rightarrow> pollfd" where
  "wants d \<equiv> \<lparr>pfd = d, pollin = True, revents = False\<rparr>"

abbreviation blank :: pollfd where
  "blank \<equiv> \<lparr>pfd = 0, pollin = False, revents = False\<rparr>"

definition readable :: "process \<Rightarrow> int list \<Rightarrow> int \<Rightarrow> bool" where
  "readable p devs d = (case in_pipe p d of Some n \<Rightarrow> 0 < n | None \<Rightarrow> d \<in> set devs)"

definition polled :: "process \<Rightarrow> int list \<Rightarrow> pollfd list \<Rightarrow> pollfd list" where
  "polled p devs es = map (\<lambda>e. e\<lparr>revents := pollin e \<and> readable p devs (pfd e)\<rparr>) es"

datatype poll_result = Eintr | PollError | Polled "pollfd list" "int list"

text \<open>\<open>poll\<close> returns when something can be read or the time is up (never with a negative \<open>ms\<close>).\<close>

fun poll_call :: "int \<Rightarrow> pollfd list \<Rightarrow> process \<Rightarrow> poll_reply list \<Rightarrow> (poll_result \<times> poll_reply list) option" where
  "poll_call ms es p [] = None"
| "poll_call ms es p (Interrupted # rs) = Some (Eintr, rs)"
| "poll_call ms es p (PollFailed # rs) = Some (PollError, rs)"
| "poll_call ms es p (Woken devs bad # rs) =
     (if ms < 0 \<and> \<not> (\<exists>e \<in> set (polled p devs es). revents e) then poll_call ms es p rs
      else Some (Polled (polled p devs es) bad, rs))"

text \<open>\<open>read(fd, pipebuf, 255)\<close>\<close>

definition read_pipe :: "int list \<Rightarrow> int \<Rightarrow> process \<Rightarrow> process" where
  "read_pipe bad d p = (if d \<in> set bad then p
     else case in_pipe p d of None \<Rightarrow> p | Some n \<Rightarrow> p\<lparr>in_pipe := (in_pipe p)(d \<mapsto> n - 255)\<rparr>)"

text \<open>\<open>Waiting\<close> is a thread that is still inside \<open>poll\<close> when the replies end.\<close>

datatype wait_result = Waiting | Fault | Returned openr2_status_t process

lemma poll_call_shorter [simp]: "poll_call ms es p rs = Some (r, rs') \<Longrightarrow> length rs' < length rs"
  by (induction ms es p rs rule: poll_call.induct) (auto split: if_splits)

section \<open>Waiting for one interrupt\<close>

text \<open>The loop \<open>pollagain\<close>: \<open>num\<close> is counted up again in every round.\<close>

function wait_pollagain :: "openr2_interrupt \<Rightarrow> int \<Rightarrow> nat \<Rightarrow> pollfd list \<Rightarrow> process \<Rightarrow> poll_reply list \<Rightarrow> wait_result" where
  "wait_pollagain i ms num ints p rs =
     (let ints1 = ints[0 := wants (readfd i)];
          num1 = (if device i \<noteq> OR2_INVALID_SOCKET then num + 1 else num);
          ints2 = (if device i \<noteq> OR2_INVALID_SOCKET then ints1[1 := wants (device i)] else ints1)
      in if length ints2 < num1 then Fault
      else case poll_call ms (take num1 ints2) p rs of
        None \<Rightarrow> Waiting
      | Some (Eintr, rs') \<Rightarrow> wait_pollagain i ms num1 ints2 p rs'
      | Some (PollError, rs') \<Rightarrow> Returned OR2_FAIL p
      | Some (Polled es bad, rs') \<Rightarrow>
          (if \<not> (\<exists>e \<in> set es. revents e) then Returned OR2_TIMEOUT p
           else if revents (es ! 0) then Returned OR2_SUCCESS (read_pipe bad (readfd i) p)
           else Returned OR2_SUCCESS p))"
  by pat_completeness auto

termination
  by (relation "measure (\<lambda>(i, ms, num, ints, p, rs). length rs)") auto

declare wait_pollagain.simps [simp del]

definition openr2_interrupt_wait :: "openr2_interrupt \<Rightarrow> int \<Rightarrow> process \<Rightarrow> poll_reply list \<Rightarrow> wait_result" where
  "openr2_interrupt_wait i ms p rs = wait_pollagain i ms 1 [blank, blank] p rs"

section \<open>Signalling an interrupt\<close>

text \<open>
  Two system calls: \<open>poll\<close> with no time to wait, then, only if nothing is in the pipe, \<open>write\<close> of one
  byte, which may fail.  A \<open>poll\<close> that fails is taken for a pipe that has its byte.
\<close>

datatype test_reply = TestFailed | TestOk

definition signal_poll :: "test_reply \<Rightarrow> openr2_interrupt \<Rightarrow> process \<Rightarrow> bool" where
  "signal_poll r i p = (case r of TestFailed \<Rightarrow> False | TestOk \<Rightarrow> \<not> readable p [] (readfd i))"

definition signal_write :: "bool \<Rightarrow> openr2_interrupt \<Rightarrow> process \<Rightarrow> openr2_status_t \<times> process" where
  "signal_write ok i p =
     (case feeds p (writefd i) of None \<Rightarrow> (OR2_FAIL, p) | Some d \<Rightarrow>
      (case in_pipe p d of None \<Rightarrow> (OR2_FAIL, p) | Some n \<Rightarrow>
       (if ok then (OR2_SUCCESS, p\<lparr>in_pipe := (in_pipe p)(d \<mapsto> n + 1)\<rparr>) else (OR2_FAIL, p))))"

definition openr2_interrupt_signal :: "test_reply \<Rightarrow> bool \<Rightarrow> openr2_interrupt \<Rightarrow> process \<Rightarrow> openr2_status_t \<times> process" where
  "openr2_interrupt_signal r ok i p = (if signal_poll r i p then signal_write ok i p else (OR2_SUCCESS, p))"

section \<open>Waiting for several interrupts\<close>

text \<open>
  The loop that fills \<open>ints\<close>: the pipes first, the devices behind them from \<open>size + numdevices\<close> on;
  \<open>numdevices\<close> is not reset when \<open>poll\<close> was interrupted.
\<close>

fun fill_ints :: "nat \<Rightarrow> nat \<Rightarrow> openr2_interrupt list \<Rightarrow> nat \<Rightarrow> pollfd list \<Rightarrow> (nat \<times> pollfd list) option" where
  "fill_ints sz i [] numdevices ints = Some (numdevices, ints)"
| "fill_ints sz i (x # xs) numdevices ints =
     (let ints1 = ints[i := wants (readfd x)]
      in if device x \<noteq> OR2_INVALID_SOCKET
         then if length ints1 \<le> sz + numdevices then None
           else fill_ints sz (i + 1) xs (numdevices + 1) (ints1[sz + numdevices := wants (device x)])
         else fill_ints sz (i + 1) xs numdevices ints1)"

fun read_ready :: "int list \<Rightarrow> (openr2_interrupt \<times> pollfd) list \<Rightarrow> process \<Rightarrow> process" where
  "read_ready bad [] p = p"
| "read_ready bad ((x, e) # xs) p = read_ready bad xs (if revents e then read_pipe bad (readfd x) p else p)"

function multiple_pollagain :: "openr2_interrupt list \<Rightarrow> int \<Rightarrow> nat \<Rightarrow> pollfd list \<Rightarrow> process \<Rightarrow> poll_reply list \<Rightarrow> wait_result" where
  "multiple_pollagain xs ms numdevices ints p rs =
     (case fill_ints (length xs) 0 xs numdevices ints of
        None \<Rightarrow> Fault
      | Some (nd, ints1) \<Rightarrow>
        (case poll_call ms (take (length xs + nd) ints1) p rs of
           None \<Rightarrow> Waiting
         | Some (Eintr, rs') \<Rightarrow> multiple_pollagain xs ms nd ints1 p rs'
         | Some (PollError, rs') \<Rightarrow> Returned OR2_FAIL p
         | Some (Polled es bad, rs') \<Rightarrow>
             (if \<not> (\<exists>e \<in> set es. revents e) then Returned OR2_TIMEOUT p
              else Returned OR2_SUCCESS (read_ready bad (zip xs es) p))))"
  by pat_completeness auto

termination
  by (relation "measure (\<lambda>(xs, ms, nd, ints, p, rs). length rs)") auto

declare multiple_pollagain.simps [simp del]

definition openr2_interrupt_multiple_wait :: "openr2_interrupt list \<Rightarrow> int \<Rightarrow> process \<Rightarrow> poll_reply list \<Rightarrow> wait_result" where
  "openr2_interrupt_multiple_wait xs ms p rs = multiple_pollagain xs ms 0 (replicate (length xs * 2) blank) p rs"

section \<open>Signals and waits\<close>

definition attached :: "openr2_interrupt \<Rightarrow> nat \<Rightarrow> process \<Rightarrow> bool" where
  "attached i n p \<longleftrightarrow> feeds p (writefd i) = Some (readfd i) \<and> in_pipe p (readfd i) = Some n"

abbreviation signalled_pipe :: "openr2_interrupt \<Rightarrow> process \<Rightarrow> process" where
  "signalled_pipe i p \<equiv> snd (openr2_interrupt_signal TestOk True i p)"

lemma signal_attached:
  "attached i n p \<Longrightarrow> openr2_interrupt_signal TestOk True i p =
    (OR2_SUCCESS, if n = 0 then p\<lparr>in_pipe := (in_pipe p)(readfd i \<mapsto> 1)\<rparr> else p)"
  by (auto simp: attached_def openr2_interrupt_signal_def signal_poll_def signal_write_def readable_def)

lemma signals_attached:
  assumes "attached i 0 p"
  shows "(signalled_pipe i ^^ Suc k) p = p\<lparr>in_pipe := (in_pipe p)(readfd i \<mapsto> 1)\<rparr>"
proof (induction k)
  case 0
  have "(signalled_pipe i ^^ Suc 0) p = signalled_pipe i p" by (simp only: funpow.simps o_apply id_apply)
  then show ?case by (simp only: signal_attached [OF assms] snd_conv simp_thms if_True)
next
  case (Suc k)
  have "attached i 1 (p\<lparr>in_pipe := (in_pipe p)(readfd i \<mapsto> 1)\<rparr>)" using assms by (simp add: attached_def)
  moreover have "(signalled_pipe i ^^ Suc (Suc k)) p = signalled_pipe i ((signalled_pipe i ^^ Suc k) p)"
    by (simp only: funpow.simps o_apply)
  ultimately show ?case by (simp only: Suc signal_attached snd_conv one_neq_zero if_False)
qed

lemma wait_readable:
  "readable p devs (readfd i) \<Longrightarrow>
   openr2_interrupt_wait i ms p (Woken devs bad # rs) = Returned OR2_SUCCESS (read_pipe bad (readfd i) p)"
  unfolding openr2_interrupt_wait_def
  by (subst wait_pollagain.simps) (auto simp: Let_def polled_def numeral_2_eq_2)

text \<open>
  C13: a signal is never lost and never piles up: however often an interrupt whose pipe is empty is
  signalled, every signal reports success and the pipe holds one byte; the next wait on it returns
  success whatever the devices do, and leaves the process as it was before the first signal.
\<close>

theorem signal_wakes_wait:
  assumes "attached i 0 p"
  shows "fst (openr2_interrupt_signal TestOk True i ((signalled_pipe i ^^ k) p)) = OR2_SUCCESS \<and>
    attached i 1 ((signalled_pipe i ^^ Suc k) p) \<and>
    openr2_interrupt_wait i ms ((signalled_pipe i ^^ Suc k) p) (Woken devs [] # rs) = Returned OR2_SUCCESS p"
proof -
  let ?q = "p\<lparr>in_pipe := (in_pipe p)(readfd i \<mapsto> 1)\<rparr>"
  have q: "(signalled_pipe i ^^ Suc k) p = ?q" by (rule signals_attached [OF assms])
  have a1: "attached i 1 ?q" using assms by (simp add: attached_def)
  have "fst (openr2_interrupt_signal TestOk True i ((signalled_pipe i ^^ k) p)) = OR2_SUCCESS"
  proof (cases k)
    case 0
    then show ?thesis using signal_attached [OF assms] by simp
  next
    case (Suc j)
    then show ?thesis using signals_attached [OF assms, of j] signal_attached [OF a1] by simp
  qed
  moreover have "read_pipe [] (readfd i) ?q = p"
    using assms by (simp add: read_pipe_def attached_def fun_upd_idem)
  moreover have "readable ?q devs (readfd i)" by (simp add: readable_def)
  ultimately show ?thesis using a1 by (simp only: q) (simp add: wait_readable)
qed

definition fresh_process :: process where
  "fresh_process = \<lparr>blocks = {}, next_block = 1, thread_attrs = {}, mutex_attrs = 0, started = [],
     threads = (\<lambda>_. None), mutexes = (\<lambda>_. None), interrupts = (\<lambda>_. None),
     in_pipe = [3 \<mapsto> 0], feeds = [4 \<mapsto> 3], next_fd = 5\<rparr>"

theorem signal_wakes_wait_witness:
  "openr2_interrupt_wait \<lparr>device = -1, readfd = 3, writefd = 4\<rparr> 100
     ((signalled_pipe \<lparr>device = -1, readfd = 3, writefd = 4\<rparr> ^^ Suc 1) fresh_process) [Woken [] []] =
   Returned OR2_SUCCESS fresh_process"
  using signal_wakes_wait [of "\<lparr>device = -1, readfd = 3, writefd = 4\<rparr>" fresh_process 1 100 "[]" "[]"]
  by (simp add: attached_def fresh_process_def)

section \<open>Interrupted polls\<close>

lemma wait_eintr:
  "wait_pollagain i ms num ints p (Interrupted # rs) =
     (let ints1 = ints[0 := wants (readfd i)];
          num1 = (if device i \<noteq> OR2_INVALID_SOCKET then num + 1 else num);
          ints2 = (if device i \<noteq> OR2_INVALID_SOCKET then ints1[1 := wants (device i)] else ints1)
      in if length ints2 < num1 then Fault else wait_pollagain i ms num1 ints2 p rs)"
  by (subst wait_pollagain.simps) (simp add: Let_def)

lemma wait_overrun: "device i \<noteq> OR2_INVALID_SOCKET \<Longrightarrow> length ints < num + 1 \<Longrightarrow> wait_pollagain i ms num ints p rs = Fault"
  by (subst wait_pollagain.simps) (simp add: Let_def)

lemma wait_no_device_ints:
  "device i = OR2_INVALID_SOCKET \<Longrightarrow> wait_pollagain i ms num (ints[0 := x]) p rs = wait_pollagain i ms num ints p rs"
  by (subst (1 2) wait_pollagain.simps) (simp add: Let_def)

text \<open>
  C14: a wait without a device retries after any number of interrupted polls as if they had not
  happened; with a device the first interrupted poll makes it poll more entries than the array of two
  has.
\<close>

theorem wait_after_eintr:
  "openr2_interrupt_wait i ms p (replicate k Interrupted @ rs) =
     (if device i \<noteq> OR2_INVALID_SOCKET \<and> 0 < k then Fault else openr2_interrupt_wait i ms p rs)"
proof (cases "device i = OR2_INVALID_SOCKET")
  case True
  have "wait_pollagain i ms 1 [blank, blank] p (replicate k Interrupted @ rs) = wait_pollagain i ms 1 [blank, blank] p rs"
  proof (induction k)
    case (Suc k)
    show ?case
      using True Suc wait_no_device_ints [OF True, of ms 1 "[blank, blank]" "wants (readfd i)" p "replicate k Interrupted @ rs"]
      by (simp add: wait_eintr Let_def)
  qed simp
  then show ?thesis using True by (simp add: openr2_interrupt_wait_def)
next
  case False
  show ?thesis
  proof (cases k)
    case (Suc j)
    then show ?thesis using False by (simp add: openr2_interrupt_wait_def wait_eintr Let_def wait_overrun)
  qed simp
qed

definition with_devices :: "openr2_interrupt list \<Rightarrow> nat" where
  "with_devices xs = length (List.filter (\<lambda>x. device x \<noteq> OR2_INVALID_SOCKET) xs)"

lemma fill_ints_result:
  "fill_ints sz i xs nd ints = r \<Longrightarrow>
     (if with_devices xs = 0 \<or> sz + nd + with_devices xs \<le> length ints
      then \<exists>ints1. r = Some (nd + with_devices xs, ints1) \<and> length ints1 = length ints else r = None)"
proof (induction sz i xs nd ints arbitrary: r rule: fill_ints.induct)
  case (2 sz i x xs nd ints)
  show ?case
  proof (cases "device x \<noteq> OR2_INVALID_SOCKET \<and> \<not> length ints \<le> sz + nd")
    case True
    then show ?thesis using 2(1) [OF refl, of r] 2(3) by (auto simp: with_devices_def Let_def split: if_splits)
  next
    case False
    then show ?thesis using 2(2) [OF refl, of r] 2(3) by (auto simp: with_devices_def Let_def split: if_splits)
  qed
qed (auto simp: with_devices_def)

lemma multiple_pollagain_eintr:
  "multiple_pollagain xs ms nd ints p (Interrupted # rs) =
     (case fill_ints (length xs) 0 xs nd ints of None \<Rightarrow> Fault
      | Some (nd1, ints1) \<Rightarrow> multiple_pollagain xs ms nd1 ints1 p rs)"
  by (subst multiple_pollagain.simps) (simp split: option.splits)

lemma multiple_pollagain_faults:
  assumes "length ints = length xs * 2"
  shows "(multiple_pollagain xs ms nd ints p (replicate k Interrupted @ [Woken devs bad]) = Fault) =
    (0 < with_devices xs \<and> length xs < nd + (k + 1) * with_devices xs)"
  using assms
proof (induction k arbitrary: nd ints)
  case 0
  show ?case
    using fill_ints_result [of "length xs" 0 xs nd ints, OF refl] 0
    by (subst multiple_pollagain.simps) (auto split: option.splits if_splits)
next
  case (Suc k)
  show ?case
    using fill_ints_result [of "length xs" 0 xs nd ints, OF refl] Suc
    by (auto simp: multiple_pollagain_eintr split: if_splits)
qed

text \<open>
  C40: A wait for several interrupts writes past its array exactly when the interrupted polls have
  pushed the entries of the devices, counted once per round, beyond the room for one entry each.
\<close>

theorem multiple_wait_faults:
  "openr2_interrupt_multiple_wait xs ms p (replicate k Interrupted @ [Woken devs bad]) = Fault \<longleftrightarrow>
   length xs < (k + 1) * with_devices xs"
  unfolding openr2_interrupt_multiple_wait_def
  by (subst multiple_pollagain_faults) (cases "with_devices xs = 0"; simp)+

section \<open>Signals and waits of several threads\<close>

text \<open>
  A signal is two system calls, so threads interleave inside it.  The state is the process and the set
  of threads that have polled and not yet written; a wait of any thread reads at any moment.
\<close>

inductive signalling :: "nat \<Rightarrow> openr2_interrupt \<Rightarrow> process \<times> nat set \<Rightarrow> process \<times> nat set \<Rightarrow> bool"
  for N :: nat and i :: openr2_interrupt
where
  test: "\<lbrakk> t < N; t \<notin> W; signal_poll r i p \<rbrakk> \<Longrightarrow> signalling N i (p, W) (p, insert t W)"
| test_full: "\<lbrakk> t < N; t \<notin> W; \<not> signal_poll r i p \<rbrakk> \<Longrightarrow> signalling N i (p, W) (p, W)"
| post: "t \<in> W \<Longrightarrow> signalling N i (p, W) (snd (signal_write ok i p), W - {t})"
| drain: "signalling N i (p, W) (read_pipe bad (readfd i) p, W)"

inductive_cases signallingE: "signalling N i (p, W) s"

definition pipe_bound :: "nat \<Rightarrow> openr2_interrupt \<Rightarrow> process \<times> nat set \<Rightarrow> bool" where
  "pipe_bound N i s \<longleftrightarrow> snd s \<subseteq> {..<N} \<and> (\<exists>n. attached i n (fst s) \<and> n + card (snd s) \<le> N)"

lemma signal_poll_attached: "attached i n p \<Longrightarrow> signal_poll r i p \<Longrightarrow> n = 0"
  by (auto simp: signal_poll_def readable_def attached_def split: test_reply.splits)

lemma signal_write_attached:
  "attached i n p \<Longrightarrow> attached i (if ok then n + 1 else n) (snd (signal_write ok i p))"
  by (simp add: signal_write_def attached_def)

lemma read_pipe_attached:
  "attached i n p \<Longrightarrow> attached i (if readfd i \<in> set bad then n else n - 255) (read_pipe bad (readfd i) p)"
  by (simp add: read_pipe_def attached_def)

lemma signalling_keeps_bound:
  assumes "signalling N i s s'" "pipe_bound N i s"
  shows "pipe_bound N i s'"
  using assms
proof (induction rule: signalling.induct)
  case (test t W r p)
  then have W: "W \<subseteq> {..<N}" and a: "attached i 0 p"
    using signal_poll_attached by (fastforce simp: pipe_bound_def)+
  have "card (insert t W) \<le> card {..<N}" using W test(1) by (intro card_mono) auto
  then show ?case using W a test(1) by (auto simp: pipe_bound_def)
next
  case (post t W p ok)
  then obtain n where n: "attached i n p" "n + card W \<le> N" and W: "W \<subseteq> {..<N}" by (auto simp: pipe_bound_def)
  have "card W = Suc (card (W - {t}))"
    using card_Suc_Diff1 [OF finite_subset [OF W] post(1)] by simp
  then have "(if ok then n + 1 else n) + card (W - {t}) \<le> N" using n(2) by simp
  then show ?case using W signal_write_attached [OF n(1), of ok] unfolding pipe_bound_def fst_conv snd_conv by blast
next
  case (drain p W bad)
  then show ?case using read_pipe_attached by (fastforce simp: pipe_bound_def split: if_splits)
qed (auto simp: pipe_bound_def)

text \<open>
  C12: However N threads interleave the two system calls of their signals, and whatever waits read
  meanwhile, the pipe never holds more than N bytes; a read of a wait takes up to 255 of them, so with at
  most 255 threads every read empties it.
\<close>

theorem pipe_bounded:
  assumes "(signalling N i)\<^sup>*\<^sup>* (p, {}) (q, W)" "attached i 0 p"
  shows "\<exists>n. attached i n q \<and> n \<le> N \<and> attached i (n - 255) (read_pipe [] (readfd i) q) \<and>
    (N \<le> 255 \<longrightarrow> attached i 0 (read_pipe [] (readfd i) q))"
proof -
  have "pipe_bound N i (q, W)"
    using assms(1)
  proof (induction rule: rtranclp_induct)
    case base
    then show ?case using assms(2) by (auto simp: pipe_bound_def)
  qed (rule signalling_keeps_bound)
  then obtain n where n: "attached i n q" "n \<le> N" by (auto simp: pipe_bound_def)
  have "attached i (n - 255) (read_pipe [] (readfd i) q)" using read_pipe_attached [OF n(1), of "[]"] by simp
  then show ?thesis using n by auto
qed

text \<open>Two threads that both find the pipe empty before either writes: the bound is reached.\<close>

definition two_signals :: process where
  "two_signals = fresh_process\<lparr>in_pipe := [3 \<mapsto> 2]\<rparr>"

lemma two_signals_run:
  "(signalling 2 \<lparr>device = -1, readfd = 3, writefd = 4\<rparr>)\<^sup>*\<^sup>* (fresh_process, {}) (two_signals, {})"
proof -
  let ?i = "\<lparr>device = -1, readfd = 3, writefd = 4\<rparr>"
  have poll: "signal_poll TestOk ?i fresh_process"
    by (simp add: signal_poll_def readable_def fresh_process_def)
  have "signalling 2 ?i (fresh_process, {}) (fresh_process, {0})"
    using signalling.test [of 0 2 "{}" TestOk ?i, OF _ _ poll] by simp
  moreover have "signalling 2 ?i (fresh_process, {0}) (fresh_process, {1, 0})"
    using signalling.test [of 1 2 "{0}" TestOk ?i, OF _ _ poll] by simp
  moreover have "signalling 2 ?i (fresh_process, {1, 0}) (fresh_process\<lparr>in_pipe := [3 \<mapsto> 1]\<rparr>, {0})"
    using signalling.post [of 1 "{1, 0}" 2 ?i fresh_process True] by (simp add: signal_write_def fresh_process_def)
  moreover have "signalling 2 ?i (fresh_process\<lparr>in_pipe := [3 \<mapsto> 1]\<rparr>, {0}) (two_signals, {})"
    using signalling.post [of 0 "{0}" 2 ?i "fresh_process\<lparr>in_pipe := [3 \<mapsto> 1]\<rparr>" True]
    by (simp add: signal_write_def fresh_process_def two_signals_def numeral_2_eq_2)
  ultimately show ?thesis by (meson converse_rtranclp_into_rtranclp rtranclp.rtrancl_refl)
qed

theorem pipe_bounded_witness:
  "attached \<lparr>device = -1, readfd = 3, writefd = 4\<rparr> 2 two_signals \<and>
   attached \<lparr>device = -1, readfd = 3, writefd = 4\<rparr> 0 (read_pipe [] 3 two_signals)"
  using pipe_bounded [OF two_signals_run] by (simp add: attached_def fresh_process_def two_signals_def)

section \<open>Threads give back what they take\<close>

lemma process_ok_fresh:
  assumes "process_ok p"
  shows "insert (next_block p) (blocks p) - {next_block p} = blocks p"
    and "insert (next_block p) (thread_attrs p) - {next_block p} = thread_attrs p"
    and "thread_attrs p - {next_block p} = thread_attrs p"
  using assms by (fastforce simp: process_ok_def)+

lemma process_ok_updates [simp]:
  "process_ok p \<Longrightarrow> process_ok (p\<lparr>next_block := Suc (next_block p), threads := th\<rparr>)"
  "process_ok p \<Longrightarrow> process_ok (p\<lparr>blocks := insert (next_block p) (blocks p), next_block := Suc (next_block p),
     threads := th, thread_attrs := insert (next_block p) (thread_attrs p), started := st\<rparr>)"
  by (fastforce simp: process_ok_def)+

text \<open>
  C16: creating a detached thread never frees what it does not own; if it fails, at whichever step, the
  process holds the memory and the attribute objects it held before.
\<close>

theorem thread_create_keeps_memory:
  assumes "process_ok p"
  shows "\<exists>st q. openr2_thread_create_detached_ex env func data stack p = Some (st, q) \<and> process_ok q \<and>
    (if st = OR2_SUCCESS
     then started q = started p @ [next_block p] \<and> blocks q = insert (next_block p) (blocks p) \<and>
       thread_attrs q = insert (next_block p) (thread_attrs p)
     else st = OR2_FAIL \<and> started q = started p \<and> blocks q = blocks p \<and> thread_attrs q = thread_attrs p)"
proof (cases "func = None \<or> \<not> malloc_ok env")
  case True
  then show ?thesis using assms by (auto simp: openr2_thread_create_detached_ex_def openr2_malloc_def split: option.splits)
next
  case False
  then obtain f where "func = Some f" "malloc_ok env" by auto
  then show ?thesis
    using assms process_ok_fresh [OF assms]
    by (simp add: openr2_thread_create_detached_ex_def openr2_malloc_def thread_fail_def openr2_free_def
      pthread_attr_destroy_def Let_def)
qed

theorem thread_create_keeps_memory_witness:
  "\<exists>st q. openr2_thread_create_detached_ex \<lparr>malloc_ok = True, attr_init = 0, attr_setdetachstate = 0, attr_setstacksize = 22, create = 0\<rparr>
     (Some 7) 0 4096 fresh_process = Some (st, q) \<and> process_ok q \<and>
    (if st = OR2_SUCCESS
     then started q = started fresh_process @ [next_block fresh_process] \<and> blocks q = insert (next_block fresh_process) (blocks fresh_process) \<and>
       thread_attrs q = insert (next_block fresh_process) (thread_attrs fresh_process)
     else st = OR2_FAIL \<and> started q = started fresh_process \<and> blocks q = blocks fresh_process \<and> thread_attrs q = thread_attrs fresh_process)"
  by (rule thread_create_keeps_memory) (simp add: process_ok_def fresh_process_def)

text \<open>
  A detached thread gives its memory back: from its creation to the end of its body the process
  loses nothing and gains nothing but what the user's function itself allocates or frees.
\<close>

theorem thread_lives_and_dies:
  assumes "process_ok p"
    and "openr2_thread_create_detached_ex env (Some f) data stack p = Some (OR2_SUCCESS, q)"
    and "body f data q = (r, q')" "next_block p \<in> blocks q'" "threads q' (next_block p) = threads q (next_block p)"
  shows "\<exists>q''. thread_launch body (next_block p) q = Some (r, q'') \<and>
    blocks q'' = blocks q' - {next_block p} \<and> thread_attrs q'' = thread_attrs q' - {next_block p}"
proof -
  have th: "threads q (next_block p) = Some \<lparr>private_data = data, thread_function = f, stack_size = stack\<rparr>"
    using assms(2) by (auto simp: openr2_thread_create_detached_ex_def openr2_malloc_def thread_fail_def Let_def
      split: if_splits)
  show ?thesis
    using assms(3,4) by (simp add: thread_launch_def th openr2_free_def pthread_attr_destroy_def)
qed

section \<open>Mutexes exclude and are reentrant\<close>

text \<open>
  A mutex whose creation failed after its memory was allocated leaves the caller's pointer alone
  and keeps the block: the memory is lost.
\<close>

theorem mutex_create_leaks:
  assumes "process_ok p"
  shows "\<exists>q. openr2_mutex_create \<lparr>mutex_malloc_ok = True, mutexattr_init = a, mutexattr_settype = b, mutex_init = c\<rparr> p =
      (if a = 0 \<and> b = 0 \<and> c = 0 then OR2_SUCCESS else OR2_FAIL,
       if a = 0 \<and> b = 0 \<and> c = 0 then Some (next_block p) else None, q) \<and>
    next_block p \<in> blocks q - blocks p"
  using assms by (auto simp: openr2_mutex_create_def openr2_malloc_def process_ok_def)

theorem mutex_create_leaks_witness:
  "\<exists>q. openr2_mutex_create \<lparr>mutex_malloc_ok = True, mutexattr_init = 0, mutexattr_settype = 22, mutex_init = 0\<rparr> fresh_process =
      (OR2_FAIL, None, q) \<and> next_block fresh_process \<in> blocks q - blocks fresh_process"
  using mutex_create_leaks [of fresh_process 0 22 0] by (simp add: process_ok_def fresh_process_def)

text \<open>One call of a thread on a mutex; how often each thread holds it by what its calls returned.\<close>

datatype mutex_op = Lock nat | Trylock nat | Unlock nat

definition taken :: "nat \<Rightarrow> int \<Rightarrow> lock_result \<Rightarrow> openr2_mutex \<times> (nat \<Rightarrow> int) \<Rightarrow> openr2_mutex \<times> (nat \<Rightarrow> int)" where
  "taken t d r s = (case r of Done OR2_SUCCESS m \<Rightarrow> (m, (snd s)(t := snd s t + d)) | _ \<Rightarrow> s)"

fun mutex_call :: "mutex_op \<Rightarrow> openr2_mutex \<times> (nat \<Rightarrow> int) \<Rightarrow> openr2_mutex \<times> (nat \<Rightarrow> int)" where
  "mutex_call (Lock t) s = taken t 1 (openr2_mutex_lock 0 t (fst s)) s"
| "mutex_call (Trylock t) s = taken t 1 (openr2_mutex_trylock 0 t (fst s)) s"
| "mutex_call (Unlock t) s = taken t (-1) (openr2_mutex_unlock t (fst s)) s"

definition mutex_ok :: "openr2_mutex \<times> (nat \<Rightarrow> int) \<Rightarrow> bool" where
  "mutex_ok s \<longleftrightarrow> recursive (fst s) \<and> (owner (fst s) = None \<longleftrightarrow> depth (fst s) = 0) \<and>
     (\<forall>t. snd s t = (if owner (fst s) = Some t then int (depth (fst s)) else 0))"

lemma mutex_call_ok: "mutex_ok s \<Longrightarrow> mutex_ok (mutex_call op s)"
  by (cases op; cases s)
    (auto simp: mutex_ok_def taken_def openr2_mutex_lock_def openr2_mutex_trylock_def openr2_mutex_unlock_def
      acquired_def split: option.splits)

lemma mutex_calls_ok: "mutex_ok s \<Longrightarrow> mutex_ok (fold mutex_call ops s)"
  by (induction ops arbitrary: s) (simp_all add: mutex_call_ok)

text \<open>
  After any sequence of calls of any threads on a mutex of the library, at most one thread holds
  it (has more successful locks than unlocks); that thread can lock it again, and every other thread
  blocks on a lock and fails to try or to unlock.
\<close>

theorem mutex_exclusion:
  assumes "openr2_mutex_create env p = (OR2_SUCCESS, Some b, q)" "mutexes q b = Some m"
    and "fold mutex_call ops (m, \<lambda>_. 0) = (m', held)" "0 < held t"
  shows "(\<exists>m''. openr2_mutex_lock 0 t m' = Done OR2_SUCCESS m'') \<and>
    (\<forall>u. u = t \<or> (held u = 0 \<and> openr2_mutex_lock 0 u m' = Blocks \<and>
      openr2_mutex_trylock 0 u m' = Done OR2_FAIL m' \<and> openr2_mutex_unlock u m' = Done OR2_FAIL m'))"
proof -
  have "mutex_ok (m, \<lambda>_. 0)"
    using assms(1,2) by (auto simp: openr2_mutex_create_def mutex_ok_def split: if_splits option.splits prod.splits)
  then have "mutex_ok (m', held)" using mutex_calls_ok assms(3) by metis
  then show ?thesis
    using assms(4) by (auto simp: mutex_ok_def openr2_mutex_lock_def openr2_mutex_trylock_def openr2_mutex_unlock_def
      acquired_def split: if_splits)
qed

theorem mutex_exclusion_witness:
  "openr2_mutex_lock 0 2 \<lparr>recursive = True, owner = Some 1, depth = 2\<rparr> = Blocks"
  using mutex_exclusion [of "\<lparr>mutex_malloc_ok = True, mutexattr_init = 0, mutexattr_settype = 0, mutex_init = 0\<rparr>" fresh_process 1 _
    "\<lparr>recursive = True, owner = None, depth = 0\<rparr>" "[Lock 1, Trylock 2, Trylock 1, Unlock 2]"
    "\<lparr>recursive = True, owner = Some 1, depth = 2\<rparr>" "(\<lambda>_. 0)(1 := 2)" 1]
  by (simp add: openr2_mutex_create_def openr2_malloc_def fresh_process_def taken_def openr2_mutex_lock_def
    openr2_mutex_trylock_def openr2_mutex_unlock_def acquired_def)

end
