(* ===== verification/R2Win.thy ===== *)
theory R2Win
  imports R2Thread "HOL-Library.Word"
begin

text \<open>
  The branches of \<open>r2thread.c\<close> for Windows: threads made by \<open>_beginthreadex\<close>, critical sections, and
  interrupts that are events instead of pipes.  An interrupt is a flag that a signal sets and a wait
  clears, on either system: the contract is a locale, which both implementations interpret.
\<close>

section \<open>The process\<close>

record win_interrupt =
  win_device :: int
  win_event :: int

text \<open>An event resets itself when a wait ends by it; handles that are not events are devices.\<close>

record win_process =
  memory :: process
  win_events :: "int \<Rightarrow> bool option"
  next_win_event :: int
  win_interrupts :: "nat \<Rightarrow> win_interrupt option"

section \<open>Threads\<close>

text \<open>
  \<open>ended\<close>: the new thread has run to its end, and has freed
  its block, before this one stores the handle in it; \<open>None\<close> is the access to freed memory.
\<close>

definition thread_handle_stored :: "bool \<Rightarrow> nat \<Rightarrow> process \<Rightarrow> (openr2_status_t \<times> process) option" where
  "thread_handle_stored ended t p =
     (if ended then Option.bind (openr2_free t p) (\<lambda>p. if t \<in> blocks p then Some (OR2_SUCCESS, p) else None)
      else Some (OR2_SUCCESS, p))"

definition openr2_thread_create_detached_ex_win ::
    "bool \<Rightarrow> bool \<Rightarrow> bool \<Rightarrow> int option \<Rightarrow> int \<Rightarrow> nat \<Rightarrow> process \<Rightarrow> (openr2_status_t \<times> process) option" where
  "openr2_thread_create_detached_ex_win mem_ok begin_ok ended func data stack p =
     (case func of None \<Rightarrow> Some (OR2_FAIL, p) | Some f \<Rightarrow>
      (case openr2_malloc mem_ok p of
         (None, p) \<Rightarrow> Some (OR2_FAIL, p)
       | (Some t, p) \<Rightarrow>
         (let p1 = p\<lparr>threads := (threads p)(t \<mapsto> \<lparr>private_data = data, thread_function = f, stack_size = stack\<rparr>)\<rparr>
          in if \<not> begin_ok then thread_fail t p1
             else thread_handle_stored ended t (p1\<lparr>started := started p1 @ [t]\<rparr>))))"

text \<open>Two threads cannot be told apart there.\<close>

definition openr2_thread_self_win :: "32 word" where
  "openr2_thread_self_win = - 1"

lemma thread_create_win_race:
  "openr2_thread_create_detached_ex_win True True True (Some f) data stack p = None"
  by (simp add: openr2_thread_create_detached_ex_win_def openr2_malloc_def thread_handle_stored_def openr2_free_def Let_def)

lemma thread_create_win_fails:
  assumes "process_ok p" "openr2_thread_create_detached_ex_win m b e f d s p = Some (OR2_FAIL, q)"
  shows "blocks q = blocks p \<and> started q = started p"
  using assms by (auto simp: openr2_thread_create_detached_ex_win_def openr2_malloc_def thread_handle_stored_def
    thread_fail_def openr2_free_def process_ok_def Let_def split: option.splits if_splits)

section \<open>Critical sections\<close>

definition openr2_mutex_create_win :: "bool \<Rightarrow> process \<Rightarrow> openr2_status_t \<times> nat option \<times> process" where
  "openr2_mutex_create_win mem_ok p =
     (case openr2_malloc mem_ok p of
        (None, p) \<Rightarrow> (OR2_FAIL, None, p)
      | (Some check, p) \<Rightarrow>
        (OR2_SUCCESS, Some check, p\<lparr>mutexes := (mutexes p)(check \<mapsto> \<lparr>recursive = True, owner = None, depth = 0\<rparr>)\<rparr>))"

definition openr2_mutex_destroy_win :: "nat option \<Rightarrow> process \<Rightarrow> (openr2_status_t \<times> process) option" where
  "openr2_mutex_destroy_win mutex p = (case mutex of None \<Rightarrow> Some (OR2_FAIL, p) | Some mp \<Rightarrow>
     map_option (Pair OR2_SUCCESS) (openr2_free mp (p\<lparr>mutexes := (mutexes p)(mp := None)\<rparr>)))"

definition openr2_mutex_lock_win :: "nat \<Rightarrow> openr2_mutex \<Rightarrow> lock_result" where
  "openr2_mutex_lock_win t m =
     (if acquired t m then Done OR2_SUCCESS (m\<lparr>owner := Some t, depth := depth m + 1\<rparr>) else Blocks)"

definition openr2_mutex_trylock_win :: "nat \<Rightarrow> openr2_mutex \<Rightarrow> lock_result" where
  "openr2_mutex_trylock_win t m =
     (if \<not> acquired t m then Done OR2_FAIL m else Done OR2_SUCCESS (m\<lparr>owner := Some t, depth := depth m + 1\<rparr>))"

text \<open>Leaving a section another thread is in has no defined effect.\<close>

definition openr2_mutex_unlock_win :: "nat \<Rightarrow> openr2_mutex \<Rightarrow> lock_result option" where
  "openr2_mutex_unlock_win t m =
     (if owner m \<noteq> Some t then None
      else Some (Done OR2_SUCCESS (if depth m \<le> 1 then m\<lparr>owner := None, depth := 0\<rparr> else m\<lparr>depth := depth m - 1\<rparr>)))"

lemma mutex_win_posix:
  "openr2_mutex_lock_win t m = openr2_mutex_lock 0 t m"
  "openr2_mutex_trylock_win t m = openr2_mutex_trylock 0 t m"
  "owner m = Some t \<Longrightarrow> openr2_mutex_unlock_win t m = Some (openr2_mutex_unlock t m)"
  by (simp_all add: openr2_mutex_lock_win_def openr2_mutex_lock_def openr2_mutex_trylock_win_def openr2_mutex_trylock_def
    openr2_mutex_unlock_win_def openr2_mutex_unlock_def)

section \<open>Waiting for objects\<close>

text \<open>
  \<open>WaitForMultipleObjects\<close> returns the index of the first object that is signalled, and resets it if it is
  an event; or, with 0 objects or more than 64, it fails.  A reply is a failure or a moment with the devices that are
  signalled in it.
\<close>

datatype win_reply = WaitFailed | Moment "int list"

definition WAIT_TIMEOUT :: int where "WAIT_TIMEOUT = 258"
definition WAIT_FAILED :: int where "WAIT_FAILED = 4294967295"
definition WAIT_ABANDONED :: int where "WAIT_ABANDONED = 128"

definition is_signalled :: "win_process \<Rightarrow> int list \<Rightarrow> int \<Rightarrow> bool" where
  "is_signalled p devs h = (case win_events p h of Some b \<Rightarrow> b | None \<Rightarrow> h \<in> set devs)"

fun first_signalled :: "win_process \<Rightarrow> int list \<Rightarrow> nat \<Rightarrow> int list \<Rightarrow> nat option" where
  "first_signalled p devs i [] = None"
| "first_signalled p devs i (h # hs) = (if is_signalled p devs h then Some i else first_signalled p devs (i + 1) hs)"

definition reset_event :: "int \<Rightarrow> win_process \<Rightarrow> win_process" where
  "reset_event h p = (case win_events p h of None \<Rightarrow> p | Some b \<Rightarrow> p\<lparr>win_events := (win_events p)(h \<mapsto> False)\<rparr>)"

fun wait_objects :: "int \<Rightarrow> int list \<Rightarrow> win_process \<Rightarrow> win_reply list \<Rightarrow> (int \<times> win_process) option" where
  "wait_objects ms hs p [] = None"
| "wait_objects ms hs p (WaitFailed # rs) = Some (WAIT_FAILED, p)"
| "wait_objects ms hs p (Moment devs # rs) =
     (if hs = [] \<or> 64 < length hs then Some (WAIT_FAILED, p)
      else case first_signalled p devs 0 hs of
        Some i \<Rightarrow> Some (int i, reset_event (hs ! i) p)
      | None \<Rightarrow> if ms < 0 then wait_objects ms hs p rs else Some (WAIT_TIMEOUT, p))"

text \<open>The \<open>switch\<close> over the result; \<open>limit\<close> is the bound of its default case.\<close>

definition wait_status :: "nat \<Rightarrow> int \<Rightarrow> openr2_status_t" where
  "wait_status limit res =
     (if res = WAIT_TIMEOUT then OR2_TIMEOUT
      else if res = WAIT_FAILED \<or> res = WAIT_ABANDONED then OR2_FAIL
      else if res \<ge> int limit then OR2_FAIL
      else OR2_SUCCESS)"

section \<open>Interrupts\<close>

definition openr2_interrupt_create_win ::
    "bool \<Rightarrow> bool \<Rightarrow> int \<Rightarrow> win_process \<Rightarrow> (openr2_status_t \<times> nat option \<times> win_process) option" where
  "openr2_interrupt_create_win mem_ok event_ok dev p =
     (case openr2_malloc mem_ok (memory p) of
        (None, q) \<Rightarrow> Some (OR2_FAIL, None, p\<lparr>memory := q\<rparr>)
      | (Some b, q) \<Rightarrow>
        (if \<not> event_ok then map_option (\<lambda>q. (OR2_FAIL, None, p\<lparr>memory := q\<rparr>)) (openr2_free b q)
         else Some (OR2_SUCCESS, Some b,
           p\<lparr>memory := q, win_events := (win_events p)(next_win_event p \<mapsto> False), next_win_event := next_win_event p + 1,
             win_interrupts := (win_interrupts p)(b \<mapsto> \<lparr>win_device = dev, win_event = next_win_event p\<rparr>)\<rparr>)))"

definition openr2_interrupt_destroy_win :: "nat \<Rightarrow> win_process \<Rightarrow> (openr2_status_t \<times> win_process) option" where
  "openr2_interrupt_destroy_win b p = (case win_interrupts p b of None \<Rightarrow> None | Some i \<Rightarrow>
     map_option (\<lambda>q. (OR2_SUCCESS, p\<lparr>memory := q, win_events := (win_events p)(win_event i := None),
       win_interrupts := (win_interrupts p)(b := None)\<rparr>)) (openr2_free b (memory p)))"

definition openr2_interrupt_wait_win ::
    "win_interrupt \<Rightarrow> int \<Rightarrow> win_process \<Rightarrow> win_reply list \<Rightarrow> (openr2_status_t \<times> win_process) option" where
  "openr2_interrupt_wait_win i ms p rs =
     (let ints = win_event i # (if win_device i \<noteq> OR2_INVALID_SOCKET then [win_device i] else [])
      in map_option (\<lambda>(res, p). (wait_status 2 res, p)) (wait_objects ms ints p rs))"

definition openr2_interrupt_signal_win :: "bool \<Rightarrow> win_interrupt \<Rightarrow> win_process \<Rightarrow> openr2_status_t \<times> win_process" where
  "openr2_interrupt_signal_win ok i p =
     (if \<not> ok \<or> win_events p (win_event i) = None then (OR2_FAIL, p)
      else (OR2_SUCCESS, p\<lparr>win_events := (win_events p)(win_event i \<mapsto> True)\<rparr>))"

section \<open>Waiting for several interrupts\<close>

text \<open>
  The events first, the devices behind them; \<open>None\<close> is a handle stored past the 20 of the array.  More than
  10 interrupts are refused.
\<close>

fun fill_handles :: "nat \<Rightarrow> nat \<Rightarrow> win_interrupt list \<Rightarrow> nat \<Rightarrow> int list \<Rightarrow> (nat \<times> int list) option" where
  "fill_handles sz i [] numdevices ints = Some (numdevices, ints)"
| "fill_handles sz i (x # xs) numdevices ints =
     (if length ints \<le> i then None
      else
        let ints1 = ints[i := win_event x]
        in if win_device x \<noteq> OR2_INVALID_SOCKET
           then if length ints1 \<le> sz + numdevices then None
             else fill_handles sz (i + 1) xs (numdevices + 1) (ints1[sz + numdevices := win_device x])
           else fill_handles sz (i + 1) xs numdevices ints1)"

datatype win_wait = WinWaiting | WinFault | WinReturned openr2_status_t win_process

definition openr2_interrupt_multiple_wait_win :: "win_interrupt list \<Rightarrow> int \<Rightarrow> win_process \<Rightarrow> win_reply list \<Rightarrow> win_wait" where
  "openr2_interrupt_multiple_wait_win xs ms p rs =
     (if length xs > 20 div 2 then WinReturned OR2_FAIL p
      else case fill_handles (length xs) 0 xs 0 (replicate 20 0) of
        None \<Rightarrow> WinFault
      | Some (nd, ints) \<Rightarrow>
          (case wait_objects ms (take (length xs + nd) ints) p rs of
             None \<Rightarrow> WinWaiting
           | Some (res, p) \<Rightarrow> WinReturned (wait_status (length xs + nd) res) p))"

text \<open>Where neither branch is compiled, as on macOS, it waits for nothing.\<close>

definition openr2_interrupt_multiple_wait_elsewhere ::
    "openr2_interrupt list \<Rightarrow> int \<Rightarrow> process \<Rightarrow> poll_reply list \<Rightarrow> wait_result" where
  "openr2_interrupt_multiple_wait_elsewhere xs ms p rs = Returned OR2_SUCCESS p"

lemma fill_handles_fits:
  "i + length xs = sz \<Longrightarrow> numdevices \<le> i \<Longrightarrow> 2 * sz \<le> length ints \<Longrightarrow>
   \<exists>nd ints'. fill_handles sz i xs numdevices ints = Some (nd, ints') \<and> length ints' = length ints \<and> nd \<le> sz"
  by (induction sz i xs numdevices ints rule: fill_handles.induct) (auto simp: Let_def)

lemma multiple_wait_win_fits: "openr2_interrupt_multiple_wait_win xs ms p rs \<noteq> WinFault"
proof (cases "length xs \<le> 10")
  case True
  then obtain nd ints where "fill_handles (length xs) 0 xs 0 (replicate 20 0) = Some (nd, ints)"
    using fill_handles_fits [of 0 xs "length xs" 0 "replicate 20 0"] by auto
  then show ?thesis by (simp add: openr2_interrupt_multiple_wait_win_def split: option.splits prod.splits)
qed (simp add: openr2_interrupt_multiple_wait_win_def)

section \<open>The contract\<close>

text \<open>
  A flag: a signal sets it; a wait ends at the first moment at which the flag is set, which it clears, or the device
  can be read, or with a time to wait that is up.
\<close>

fun flag_wait :: "int \<Rightarrow> int \<Rightarrow> int list list \<Rightarrow> bool \<Rightarrow> (openr2_status_t \<times> bool) option" where
  "flag_wait dev ms [] b = None"
| "flag_wait dev ms (devs # ds) b =
     (if b then Some (OR2_SUCCESS, False)
      else if dev \<noteq> OR2_INVALID_SOCKET \<and> dev \<in> set devs then Some (OR2_SUCCESS, False)
      else if ms < 0 then flag_wait dev ms ds b
      else Some (OR2_TIMEOUT, False))"

text \<open>Signals and waits in any order, with what each returned; a wait that does not end ends the list.\<close>

datatype int_op = Signal | Wait int "int list list"

fun run_ops :: "('s \<Rightarrow> openr2_status_t \<times> 's) \<Rightarrow> (int \<Rightarrow> int list list \<Rightarrow> 's \<Rightarrow> (openr2_status_t \<times> 's) option) \<Rightarrow>
    int_op list \<Rightarrow> 's \<Rightarrow> openr2_status_t list" where
  "run_ops signal wait [] s = []"
| "run_ops signal wait (Signal # ops) s = (let (st, s) = signal s in st # run_ops signal wait ops s)"
| "run_ops signal wait (Wait ms ds # ops) s =
     (case wait ms ds s of None \<Rightarrow> [] | Some (st, s) \<Rightarrow> st # run_ops signal wait ops s)"

locale interrupt =
  fixes signal :: "'s \<Rightarrow> openr2_status_t \<times> 's"
    and wait :: "int \<Rightarrow> int list list \<Rightarrow> 's \<Rightarrow> (openr2_status_t \<times> 's) option"
    and flag :: "'s \<Rightarrow> bool option"
    and dev :: int
  assumes signal_sets: "flag s = Some b \<Longrightarrow> fst (signal s) = OR2_SUCCESS \<and> flag (snd (signal s)) = Some True"
    and wait_clears: "flag s = Some b \<Longrightarrow>
      map_option (\<lambda>(st, s). (st, flag s)) (wait ms ds s) = map_option (\<lambda>(st, b). (st, Some b)) (flag_wait dev ms ds b)"
begin

lemma runs_as_flag:
  "flag s = Some b \<Longrightarrow> run_ops signal wait ops s = run_ops (\<lambda>b. (OR2_SUCCESS, True)) (flag_wait dev) ops b"
proof (induction ops arbitrary: s b)
  case (Cons x ops)
  show ?case
  proof (cases x)
    case Signal
    then show ?thesis using signal_sets [OF Cons.prems] Cons.IH [of "snd (signal s)" True] by (simp add: case_prod_beta)
  next
    case (Wait ms ds)
    then show ?thesis
      using wait_clears [OF Cons.prems, of ms ds] Cons.IH by (cases "flag_wait dev ms ds b") (auto simp: case_prod_beta)
  qed
qed simp

end

subsection \<open>On Windows\<close>

definition win_flag :: "win_interrupt \<Rightarrow> win_process \<Rightarrow> bool option" where
  "win_flag i p = (if win_event i \<noteq> win_device i \<and> win_events p (win_device i) = None then win_events p (win_event i) else None)"

lemma win_wait_flag:
  assumes "win_flag i p = Some b"
  shows "map_option (\<lambda>(st, p). (st, win_flag i p)) (openr2_interrupt_wait_win i ms p (map Moment ds)) =
    map_option (\<lambda>(st, b). (st, Some b)) (flag_wait (win_device i) ms ds b)"
proof -
  have e: "win_event i \<noteq> win_device i" "win_events p (win_device i) = None" "win_events p (win_event i) = Some b"
    using assms by (auto simp: win_flag_def split: if_splits)
  note codes = WAIT_TIMEOUT_def WAIT_FAILED_def WAIT_ABANDONED_def
  show ?thesis
  proof (induction ds)
    case (Cons d ds)
    then show ?case
      using e by (cases b; cases "win_device i = OR2_INVALID_SOCKET"; cases "win_device i \<in> set d"; cases "ms < 0")
        (simp_all add: openr2_interrupt_wait_win_def is_signalled_def reset_event_def wait_status_def codes win_flag_def)
  qed (simp add: openr2_interrupt_wait_win_def)
qed

lemma win_signal_flag:
  "win_flag i p = Some b \<Longrightarrow>
   fst (openr2_interrupt_signal_win True i p) = OR2_SUCCESS \<and> win_flag i (snd (openr2_interrupt_signal_win True i p)) = Some True"
  by (auto simp: openr2_interrupt_signal_win_def win_flag_def split: if_splits)

interpretation win: interrupt "openr2_interrupt_signal_win True i" "\<lambda>ms ds p. openr2_interrupt_wait_win i ms p (map Moment ds)"
  "win_flag i" "win_device i" for i
  by unfold_locales (simp_all add: win_signal_flag win_wait_flag)

subsection \<open>On POSIX systems\<close>

definition returned :: "wait_result \<Rightarrow> (openr2_status_t \<times> process) option" where
  "returned r = (case r of Returned st p \<Rightarrow> Some (st, p) | _ \<Rightarrow> None)"

text \<open>The pipe holds at most one byte, and the device is not a pipe of the process.\<close>

definition posix_flag :: "openr2_interrupt \<Rightarrow> process \<Rightarrow> bool option" where
  "posix_flag i p =
     (if in_pipe p (device i) = None \<and> feeds p (writefd i) = Some (readfd i) then
        (case in_pipe p (readfd i) of None \<Rightarrow> None | Some n \<Rightarrow> if n \<le> 1 then Some (n = 1) else None)
      else None)"

abbreviation moments :: "int list list \<Rightarrow> poll_reply list" where
  "moments ds \<equiv> map (\<lambda>d. Woken d []) ds"

lemma posix_wait_once:
  "openr2_interrupt_wait i ms p (moments ds) =
     (let ints = wants (readfd i) # (if device i \<noteq> OR2_INVALID_SOCKET then [wants (device i)] else [])
      in case poll_call ms ints p (moments ds) of
        Some (Polled es bad, rs) \<Rightarrow>
          (if \<not> (\<exists>e \<in> set es. revents e) then Returned OR2_TIMEOUT p
           else Returned OR2_SUCCESS (if revents (es ! 0) then read_pipe bad (readfd i) p else p))
      | _ \<Rightarrow> Waiting)"
proof -
  have poll: "poll_call ms ints p (moments ds) = None \<or> (\<exists>es bad rs. poll_call ms ints p (moments ds) = Some (Polled es bad, rs))" for ints
    by (induction ds) auto
  show ?thesis
    using poll [of "[wants (readfd i)]"] poll [of "[wants (readfd i), wants (device i)]"]
    unfolding openr2_interrupt_wait_def
    by (subst wait_pollagain.simps) (auto simp: Let_def numeral_2_eq_2)
qed

lemma posix_wait_flag:
  assumes "posix_flag i p = Some b"
  shows "map_option (\<lambda>(st, p). (st, posix_flag i p)) (returned (openr2_interrupt_wait i ms p (moments ds))) =
    map_option (\<lambda>(st, b). (st, Some b)) (flag_wait (device i) ms ds b)"
proof -
  obtain n where e: "in_pipe p (device i) = None" "feeds p (writefd i) = Some (readfd i)" "in_pipe p (readfd i) = Some n"
    "n \<le> 1" "b = (n = 1)"
    using assms by (auto simp: posix_flag_def split: if_splits option.splits)
  have ne: "readfd i \<noteq> device i" using e by auto
  show ?thesis
    unfolding posix_wait_once
  proof (induction ds)
    case (Cons d ds)
    then show ?case
      using e ne by (cases b; cases "device i = OR2_INVALID_SOCKET"; cases "device i \<in> set d"; cases "ms < 0")
        (simp_all add: returned_def polled_def readable_def read_pipe_def posix_flag_def)
  qed (simp add: returned_def Let_def)
qed

lemma posix_signal_flag:
  "posix_flag i p = Some b \<Longrightarrow>
   fst (openr2_interrupt_signal TestOk True i p) = OR2_SUCCESS \<and> posix_flag i (snd (openr2_interrupt_signal TestOk True i p)) = Some True"
  using signal_attached [of i _ p] by (auto simp: posix_flag_def attached_def split: if_splits option.splits)

interpretation posix: interrupt "openr2_interrupt_signal TestOk True i" "\<lambda>ms ds p. returned (openr2_interrupt_wait i ms p (moments ds))"
  "posix_flag i" "device i" for i
  by unfold_locales (simp_all add: posix_signal_flag posix_wait_flag)

subsection \<open>Both\<close>

text \<open>
  C15: Code that signals an interrupt and waits for it, in any order, with or without a device and a time limit, is answered the
  same on Windows, where the interrupt is an event, and on POSIX systems, where it is a pipe, as long as no
  system call fails or is interrupted.
\<close>

theorem interrupts_portable:
  assumes "posix_flag i p = win_flag j q" "win_flag j q \<noteq> None" "device i = win_device j"
  shows "run_ops (openr2_interrupt_signal TestOk True i) (\<lambda>ms ds p. returned (openr2_interrupt_wait i ms p (moments ds))) ops p =
    run_ops (openr2_interrupt_signal_win True j) (\<lambda>ms ds p. openr2_interrupt_wait_win j ms p (map Moment ds)) ops q"
  using assms win.runs_as_flag [of j q] posix.runs_as_flag [of i p] by auto

lemma interrupts_portable_witness:
  "let i = \<lparr>device = 7, readfd = 3, writefd = 4\<rparr>; j = \<lparr>win_device = 7, win_event = 5\<rparr>;
       q = \<lparr>memory = fresh_process, win_events = [5 \<mapsto> False], next_win_event = 6, win_interrupts = Map.empty\<rparr>;
       ops = [Signal, Signal, Wait 100 [[]], Wait 100 [[]], Wait (- 1) [[], [7]], Wait (- 1) [[]]]
   in run_ops (openr2_interrupt_signal TestOk True i) (\<lambda>ms ds p. returned (openr2_interrupt_wait i ms p (moments ds))) ops fresh_process =
     [OR2_SUCCESS, OR2_SUCCESS, OR2_SUCCESS, OR2_TIMEOUT, OR2_SUCCESS]"
  unfolding Let_def
  by (subst interrupts_portable [where j = "\<lparr>win_device = 7, win_event = 5\<rparr>" and
        q = "\<lparr>memory = fresh_process, win_events = [5 \<mapsto> False], next_win_event = 6, win_interrupts = Map.empty\<rparr>"])
    (simp_all add: posix_flag_def win_flag_def fresh_process_def openr2_interrupt_signal_win_def openr2_interrupt_wait_win_def
      is_signalled_def reset_event_def wait_status_def WAIT_TIMEOUT_def WAIT_FAILED_def WAIT_ABANDONED_def)

end
