(* ===== verification/R2Time.thy ===== *)
theory R2Time
  imports R2Types "HOL-Library.Word"
begin

text \<open>
  The time functions of \<open>r2utils.c\<close>.  \<open>openr2_localtime_r\<close> and \<open>openr2_ctime_r\<close> make a function of the C
  library that answers in a static buffer safe for threads with a mutex, which the first call creates.
  Each has a mutex of its own, while the two functions of the C library share their static objects.  Their
  statements are the steps of threads that are interleaved: with the mutex there the calls of one of the
  functions are safe, mixed calls and the first calls are not.  The clock of Windows is at the end.
\<close>

section \<open>One call\<close>

text \<open>
  A call alone: \<open>lib\<close> is \<open>localtime\<close> or \<open>ctime\<close>, \<open>create_ok\<close> whether the mutex can be made, \<open>lock\<close> the variable
  that holds it.  \<open>None\<close> is the access through a NULL mutex; otherwise the result, with what is copied to the
  caller's buffer, and the variable.
\<close>

definition openr2_localtime_r :: "(int \<Rightarrow> 'b option) \<Rightarrow> bool \<Rightarrow> int \<Rightarrow> bool \<Rightarrow> bool \<Rightarrow> ('b option \<times> bool) option" where
  "openr2_localtime_r localtime create_ok timep result_given lock =
     (if \<not> result_given then Some (None, lock)
      else
        let lock = (if \<not> lock then create_ok else lock)
        in if \<not> lock then None else Some (localtime timep, lock))"

text \<open>\<open>ctime\<close> answers a string, which is copied with its length and ended by a 0; \<open>buf\<close> is the caller's array.\<close>

definition openr2_ctime_r ::
  "(int \<Rightarrow> int list option) \<Rightarrow> bool \<Rightarrow> int \<Rightarrow> int list option \<Rightarrow> bool \<Rightarrow> (int list option \<times> bool) option" where
  "openr2_ctime_r ctime create_ok timep buf lock =
     (case buf of
        None \<Rightarrow> Some (None, lock)
      | Some b \<Rightarrow>
          let lock = (if \<not> lock then create_ok else lock)
          in if \<not> lock then None
             else
              (case ctime timep of
                 None \<Rightarrow> Some (None, lock)
               | Some lib_buf \<Rightarrow>
                   let len = length lib_buf
                   in if length b \<le> len then None else Some (Some (lib_buf @ 0 # drop (len + 1) b), lock)))"

section \<open>Calls in several threads\<close>

text \<open>Where a thread is, named after the statement it is about to execute.\<close>

datatype time_pc = AtTest | AtCreate | AtLock | AtConvert | AtCopy | AtUnlock | Returned | Crashed

datatype time_fun = Localtime | Ctime

text \<open>
  \<open>lock_var\<close> are the variables \<open>localtime_lock\<close> and \<open>ctime_lock\<close>.  The C library has two static objects
  for both functions, as POSIX has it: the broken-down time, which \<open>ctime\<close> writes as well since it is
  \<open>asctime(localtime(t))\<close>, and the string.  \<open>given\<close> is what a call has copied to its \<open>result\<close>, \<open>written\<close>
  its array \<open>buf\<close> after the copy.
\<close>

record 'b time_state =
  lock_var :: "time_fun \<Rightarrow> nat option"
  next_mutex :: nat
  held_by :: "nat \<Rightarrow> nat option"
  tm_buf :: "'b option"
  str_buf :: "int list option"
  pc :: "nat \<Rightarrow> time_pc"
  given :: "nat \<Rightarrow> 'b option"
  written :: "nat \<Rightarrow> int list option"

definition goes_to :: "nat \<Rightarrow> time_pc \<Rightarrow> 'b time_state \<Rightarrow> 'b time_state" where
  "goes_to i p s = s\<lparr>pc := (pc s)(i := p)\<rparr>"

text \<open>The call of the library, \<open>None\<close> when it answers NULL; the copy, \<open>None\<close> when it leaves the array of the caller.\<close>

fun converted :: "(int \<Rightarrow> 'b option) \<Rightarrow> (int \<Rightarrow> int list option) \<Rightarrow> time_fun \<times> int \<Rightarrow> 'b time_state \<Rightarrow> 'b time_state option" where
  "converted localtime ctime (Localtime, t) s = map_option (\<lambda>b. s\<lparr>tm_buf := Some b\<rparr>) (localtime t)"
| "converted localtime ctime (Ctime, t) s = map_option (\<lambda>l. s\<lparr>tm_buf := localtime t, str_buf := Some l\<rparr>) (ctime t)"

fun copies :: "time_fun \<Rightarrow> int list \<Rightarrow> nat \<Rightarrow> 'b time_state \<Rightarrow> 'b time_state option" where
  "copies Localtime buf i s = Some (s\<lparr>given := (given s)(i := tm_buf s)\<rparr>)"
| "copies Ctime buf i s =
     (case str_buf s of
        None \<Rightarrow> None
      | Some l \<Rightarrow> if length buf \<le> length l then None else Some (s\<lparr>written := (written s)(i \<mapsto> l @ 0 # drop (length l + 1) buf)\<rparr>))"

text \<open>
  Thread \<open>i\<close> makes the call \<open>calls i\<close> with the array \<open>bufs i\<close>.  The variable is read again for every lock and
  unlock.  Unlocking a mutex another thread holds is answered with an error, which nobody looks at.
\<close>

inductive time_step :: "(int \<Rightarrow> 'b option) \<Rightarrow> (int \<Rightarrow> int list option) \<Rightarrow> (nat \<Rightarrow> time_fun \<times> int) \<Rightarrow> (nat \<Rightarrow> int list) \<Rightarrow>
    'b time_state \<Rightarrow> 'b time_state \<Rightarrow> bool" for localtime ctime calls bufs where
  test_null: "pc s i = AtTest \<Longrightarrow> lock_var s (fst (calls i)) = None \<Longrightarrow> time_step localtime ctime calls bufs s (goes_to i AtCreate s)"
| test_there: "pc s i = AtTest \<Longrightarrow> lock_var s (fst (calls i)) = Some m \<Longrightarrow> time_step localtime ctime calls bufs s (goes_to i AtLock s)"
| create: "pc s i = AtCreate \<Longrightarrow> time_step localtime ctime calls bufs s
    (goes_to i AtLock (s\<lparr>lock_var := (lock_var s)(fst (calls i) \<mapsto> next_mutex s), next_mutex := next_mutex s + 1\<rparr>))"
| create_fails: "pc s i = AtCreate \<Longrightarrow> time_step localtime ctime calls bufs s (goes_to i AtLock s)"
| lock: "pc s i = AtLock \<Longrightarrow> lock_var s (fst (calls i)) = Some m \<Longrightarrow> held_by s m = None \<Longrightarrow>
    time_step localtime ctime calls bufs s (goes_to i AtConvert (s\<lparr>held_by := (held_by s)(m \<mapsto> i)\<rparr>))"
| lock_null: "pc s i = AtLock \<Longrightarrow> lock_var s (fst (calls i)) = None \<Longrightarrow> time_step localtime ctime calls bufs s (goes_to i Crashed s)"
| convert: "pc s i = AtConvert \<Longrightarrow> converted localtime ctime (calls i) s = Some u \<Longrightarrow>
    time_step localtime ctime calls bufs s (goes_to i AtCopy u)"
| convert_null: "pc s i = AtConvert \<Longrightarrow> converted localtime ctime (calls i) s = None \<Longrightarrow>
    time_step localtime ctime calls bufs s (goes_to i AtUnlock s)"
| copy: "pc s i = AtCopy \<Longrightarrow> copies (fst (calls i)) (bufs i) i s = Some u \<Longrightarrow> time_step localtime ctime calls bufs s (goes_to i AtUnlock u)"
| copy_past: "pc s i = AtCopy \<Longrightarrow> copies (fst (calls i)) (bufs i) i s = None \<Longrightarrow> time_step localtime ctime calls bufs s (goes_to i Crashed s)"
| unlock: "pc s i = AtUnlock \<Longrightarrow> lock_var s (fst (calls i)) = Some m \<Longrightarrow> held_by s m = Some i \<Longrightarrow>
    time_step localtime ctime calls bufs s (goes_to i Returned (s\<lparr>held_by := (held_by s)(m := None)\<rparr>))"
| unlock_fails: "pc s i = AtUnlock \<Longrightarrow> lock_var s (fst (calls i)) = Some m \<Longrightarrow> held_by s m \<noteq> Some i \<Longrightarrow>
    time_step localtime ctime calls bufs s (goes_to i Returned s)"

abbreviation time_steps :: "(int \<Rightarrow> 'b option) \<Rightarrow> (int \<Rightarrow> int list option) \<Rightarrow> (nat \<Rightarrow> time_fun \<times> int) \<Rightarrow> (nat \<Rightarrow> int list) \<Rightarrow>
    'b time_state \<Rightarrow> 'b time_state \<Rightarrow> bool" where
  "time_steps localtime ctime calls bufs \<equiv> (time_step localtime ctime calls bufs)\<^sup>*\<^sup>*"

text \<open>Before all calls, with no mutexes, and with both there.\<close>

definition first_calls :: "'b time_state" where
  "first_calls = \<lparr>lock_var = (\<lambda>f. None), next_mutex = 0, held_by = (\<lambda>m. None), tm_buf = None, str_buf = None,
     pc = (\<lambda>i. AtTest), given = (\<lambda>i. None), written = (\<lambda>i. None)\<rparr>"

definition later_calls :: "'b time_state" where
  "later_calls = first_calls\<lparr>lock_var := (\<lambda>f. None)(Localtime \<mapsto> 0, Ctime \<mapsto> 1), next_mutex := 2\<rparr>"

section \<open>Calls of one function, with its mutex there\<close>

definition time_ok :: "(int \<Rightarrow> 'b option) \<Rightarrow> (int \<Rightarrow> int list option) \<Rightarrow> (nat \<Rightarrow> int) \<Rightarrow> (nat \<Rightarrow> int list) \<Rightarrow> time_fun \<Rightarrow> nat \<Rightarrow> 'b time_state \<Rightarrow> bool" where
  "time_ok localtime ctime t bufs f m s \<longleftrightarrow> lock_var s f = Some m \<and>
     (\<forall>i. held_by s m = Some i \<longleftrightarrow> pc s i \<in> {AtConvert, AtCopy, AtUnlock}) \<and>
     (\<forall>i. pc s i = AtCopy \<longrightarrow> (case f of Localtime \<Rightarrow> tm_buf s = localtime (t i) | Ctime \<Rightarrow> str_buf s = ctime (t i) \<and> ctime (t i) \<noteq> None)) \<and>
     (\<forall>i. pc s i \<in> {AtUnlock, Returned} \<longrightarrow> (case f of Localtime \<Rightarrow> given s i = localtime (t i)
        | Ctime \<Rightarrow> written s i = map_option (\<lambda>l. l @ 0 # drop (length l + 1) (bufs i)) (ctime (t i)))) \<and>
     (\<forall>i. pc s i \<notin> {AtUnlock, Returned} \<longrightarrow> given s i = None \<and> written s i = None) \<and>
     (\<forall>i. pc s i \<notin> {AtCreate, Crashed})"

lemma time_ok_alone:
  assumes "time_ok localtime ctime t bufs f m s" "pc s i \<in> {AtConvert, AtCopy, AtUnlock}" "pc s j \<in> {AtConvert, AtCopy, AtUnlock}"
  shows "j = i"
  using assms unfolding time_ok_def by (metis option.inject)

text \<open>Arrays with room for what \<open>ctime\<close> answers, 26 characters in the C library.\<close>

definition room_for :: "(int \<Rightarrow> int list option) \<Rightarrow> (nat \<Rightarrow> int list) \<Rightarrow> bool" where
  "room_for ctime bufs \<longleftrightarrow> (\<forall>i t l. ctime t = Some l \<longrightarrow> length l < length (bufs i))"

lemma time_step_ok:
  assumes s: "time_step localtime ctime (\<lambda>i. (f, t i)) bufs s s'" and ok: "time_ok localtime ctime t bufs f m s"
    and room: "room_for ctime bufs"
  shows "time_ok localtime ctime t bufs f m s'"
  using s
proof (cases rule: time_step.cases)
  case (convert i u)
  then show ?thesis using ok time_ok_alone [OF ok, of i] by (cases f) (auto simp: time_ok_def goes_to_def)
next
  case (convert_null i)
  then show ?thesis using ok by (cases f) (auto simp: time_ok_def goes_to_def)
next
  case (copy i u)
  show ?thesis
  proof (cases f)
    case Localtime
    then show ?thesis using copy ok time_ok_alone [OF ok, of i] by (auto simp: time_ok_def goes_to_def)
  next
    case Ctime
    then obtain l where l: "str_buf s = Some l" "ctime (t i) = Some l" using copy ok by (auto simp: time_ok_def)
    define w where "w = map_option (\<lambda>l. l @ 0 # drop (length l + 1) (bufs i)) (ctime (t i))"
    have s': "s' = s\<lparr>written := (written s)(i := w), pc := (pc s)(i := AtUnlock)\<rparr>"
      using copy Ctime l by (auto simp: w_def goes_to_def split: if_splits)
    have at: "pc s i = AtCopy" using copy by simp
    have alone: "pc s j \<in> {AtConvert, AtCopy, AtUnlock} \<Longrightarrow> j = i" for j using time_ok_alone [OF ok, of i j] copy by simp
    have held: "held_by s m = Some j \<longleftrightarrow> pc s j \<in> {AtConvert, AtCopy, AtUnlock}"
      and others: "pc s j \<in> {AtUnlock, Returned} \<Longrightarrow> written s j = map_option (\<lambda>l. l @ 0 # drop (length l + 1) (bufs j)) (ctime (t j))"
        "pc s j \<notin> {AtUnlock, Returned} \<Longrightarrow> given s j = None \<and> written s j = None" "pc s j \<notin> {AtCreate, Crashed}"
      and var: "lock_var s Ctime = Some m" for j
      using ok Ctime by (auto simp: time_ok_def)
    have "time_ok localtime ctime t bufs Ctime m s'"
      unfolding time_ok_def
    proof (intro conjI allI impI)
      fix j
      show "held_by s' m = Some j \<longleftrightarrow> pc s' j \<in> {AtConvert, AtCopy, AtUnlock}"
        using held [of j] at by (cases "j = i") (simp_all add: s')
      show "case Ctime of Localtime \<Rightarrow> tm_buf s' = localtime (t j) | Ctime \<Rightarrow> str_buf s' = ctime (t j) \<and> ctime (t j) \<noteq> None" if "pc s' j = AtCopy"
        using that alone [of j] by (simp add: s' split: if_splits)
      show "case Ctime of Localtime \<Rightarrow> given s' j = localtime (t j)
          | Ctime \<Rightarrow> written s' j = map_option (\<lambda>l. l @ 0 # drop (length l + 1) (bufs j)) (ctime (t j))" if "pc s' j \<in> {AtUnlock, Returned}"
        using that others(1) [of j] by (cases "j = i") (simp_all only: s' w_def, simp_all)
      show "given s' j = None" "written s' j = None" if "pc s' j \<notin> {AtUnlock, Returned}"
        using that others(2) [of j] by (cases "j = i"; simp add: s')+
      show "pc s' j \<notin> {AtCreate, Crashed}" using others(3) [of j] by (cases "j = i") (simp_all add: s')
    qed (simp add: s' var)
    then show ?thesis using Ctime by simp
  qed
next
  case (copy_past i)
  then have "f = Ctime" by (cases f) simp_all
  moreover obtain l where "str_buf s = Some l" "ctime (t i) = Some l"
    using copy_past ok \<open>f = Ctime\<close> by (auto simp: time_ok_def)
  ultimately have False using copy_past room unfolding room_for_def by (auto simp: not_less [symmetric] split: if_splits)
  then show ?thesis ..
next
  case (unlock i n)
  then show ?thesis using ok time_ok_alone [OF ok, of i] by (cases f) (auto simp: time_ok_def goes_to_def)
next
  case (lock i n)
  then show ?thesis using ok by (cases f) (auto simp: time_ok_def goes_to_def)
next
  case (unlock_fails i n)
  then show ?thesis using ok by (cases f) (auto simp: time_ok_def)
qed (cases f; use ok in \<open>auto simp: time_ok_def goes_to_def\<close>)+

lemma time_steps_ok:
  "time_steps localtime ctime (\<lambda>i. (f, t i)) bufs s s' \<Longrightarrow> room_for ctime bufs \<Longrightarrow> time_ok localtime ctime t bufs f m s \<Longrightarrow>
   time_ok localtime ctime t bufs f m s'"
  by (induction rule: rtranclp_induct) (auto intro: time_step_ok)

lemma later_calls_ok: "time_ok localtime ctime t bufs f (if f = Localtime then 0 else 1) later_calls"
  by (cases f) (simp_all add: time_ok_def later_calls_def first_calls_def)

lemma one_function_safe:
  assumes "room_for ctime bufs" "pc s i = Returned"
  shows "time_steps localtime ctime (\<lambda>i. (Localtime, t i)) bufs later_calls s \<Longrightarrow>
      openr2_localtime_r localtime create_ok (t i) True True = Some (given s i, True)"
    "time_steps localtime ctime (\<lambda>i. (Ctime, t i)) bufs later_calls s \<Longrightarrow>
      openr2_ctime_r ctime create_ok (t i) (Some (bufs i)) True = Some (written s i, True)"
proof -
  assume "time_steps localtime ctime (\<lambda>i. (Localtime, t i)) bufs later_calls s"
  from time_steps_ok [OF this assms(1) later_calls_ok] assms(2)
  show "openr2_localtime_r localtime create_ok (t i) True True = Some (given s i, True)"
    by (simp add: time_ok_def openr2_localtime_r_def)
next
  assume "time_steps localtime ctime (\<lambda>i. (Ctime, t i)) bufs later_calls s"
  from time_steps_ok [OF this assms(1) later_calls_ok] assms
  show "openr2_ctime_r ctime create_ok (t i) (Some (bufs i)) True = Some (written s i, True)"
    by (auto simp: time_ok_def openr2_ctime_r_def room_for_def not_le [symmetric] Let_def split: option.split)
qed

section \<open>Races\<close>

text \<open>
  Two mutexes guard one static object: between the call of \<open>localtime\<close> of a thread and its copy, another
  thread calls \<open>ctime\<close>.
\<close>

lemma mixed_race:
  assumes "calls 1 = (Localtime, t1)" "calls 2 = (Ctime, t2)" "localtime t1 = Some x" "ctime t2 = Some l"
  shows "\<exists>s. time_steps localtime ctime calls bufs later_calls s \<and> pc s 1 = Returned \<and> given s 1 = localtime t2"
proof -
  let ?step = "time_step localtime ctime calls bufs"
  define s0 where "s0 = (later_calls :: 'a time_state)"
  define s1 where "s1 = goes_to 1 AtLock s0"
  define s2 where "s2 = goes_to 1 AtConvert (s1\<lparr>held_by := (held_by s1)(0 \<mapsto> 1)\<rparr>)"
  define s3 where "s3 = goes_to 1 AtCopy (s2\<lparr>tm_buf := Some x\<rparr>)"
  define s4 where "s4 = goes_to 2 AtLock s3"
  define s5 where "s5 = goes_to 2 AtConvert (s4\<lparr>held_by := (held_by s4)(1 \<mapsto> 2)\<rparr>)"
  define s6 where "s6 = goes_to 2 AtCopy (s5\<lparr>tm_buf := localtime t2, str_buf := Some l\<rparr>)"
  define s7 where "s7 = goes_to 1 AtUnlock (s6\<lparr>given := (given s6)(1 := tm_buf s6)\<rparr>)"
  define s8 where "s8 = goes_to 1 Returned (s7\<lparr>held_by := (held_by s7)(0 := None)\<rparr>)"
  note defs = s0_def s1_def s2_def s3_def s4_def s5_def s6_def s7_def s8_def goes_to_def later_calls_def first_calls_def
  have "?step s0 s1" unfolding s1_def by (rule test_there [where m = 0]) (simp_all add: defs assms [simplified])
  moreover have "?step s1 s2" unfolding s2_def by (rule lock) (simp_all add: defs assms [simplified])
  moreover have "?step s2 s3" unfolding s3_def by (rule convert) (simp_all add: s2_def goes_to_def assms [simplified])
  moreover have "?step s3 s4" unfolding s4_def by (rule test_there [where m = 1]) (simp_all add: defs assms [simplified])
  moreover have "?step s4 s5" unfolding s5_def by (rule lock) (simp_all add: defs assms [simplified])
  moreover have "?step s5 s6" unfolding s6_def by (rule convert) (simp_all add: s5_def goes_to_def assms [simplified])
  moreover have "?step s6 s7" unfolding s7_def by (rule copy) (simp_all add: defs assms [simplified])
  moreover have "?step s7 s8" unfolding s8_def by (rule unlock) (simp_all add: defs assms [simplified])
  ultimately have "time_steps localtime ctime calls bufs s0 s8" by (meson converse_rtranclp_into_rtranclp r_into_rtranclp)
  moreover have "pc s8 1 = Returned \<and> given s8 1 = localtime t2" by (simp add: defs)
  ultimately show ?thesis unfolding s0_def by blast
qed

text \<open>Two threads that both find no mutex: the second creates and takes another one while the first converts.\<close>

lemma first_race:
  assumes "calls 1 = (Localtime, t1)" "calls 2 = (Localtime, t2)" "localtime t1 = Some x" "localtime t2 = Some y"
  shows "\<exists>s. time_steps localtime ctime calls bufs first_calls s \<and> pc s 1 = Returned \<and> given s 1 = localtime t2 \<and> held_by s 0 = Some 1"
proof -
  let ?step = "time_step localtime ctime calls bufs"
  define s0 where "s0 = (first_calls :: 'a time_state)"
  define s1 where "s1 = goes_to 1 AtCreate s0"
  define s2 where "s2 = goes_to 2 AtCreate s1"
  define s3 where "s3 = goes_to 1 AtLock (s2\<lparr>lock_var := (lock_var s2)(Localtime \<mapsto> next_mutex s2), next_mutex := next_mutex s2 + 1\<rparr>)"
  define s4 where "s4 = goes_to 1 AtConvert (s3\<lparr>held_by := (held_by s3)(0 \<mapsto> 1)\<rparr>)"
  define s5 where "s5 = goes_to 1 AtCopy (s4\<lparr>tm_buf := Some x\<rparr>)"
  define s6 where "s6 = goes_to 2 AtLock (s5\<lparr>lock_var := (lock_var s5)(Localtime \<mapsto> next_mutex s5), next_mutex := next_mutex s5 + 1\<rparr>)"
  define s7 where "s7 = goes_to 2 AtConvert (s6\<lparr>held_by := (held_by s6)(1 \<mapsto> 2)\<rparr>)"
  define s8 where "s8 = goes_to 2 AtCopy (s7\<lparr>tm_buf := Some y\<rparr>)"
  define s9 where "s9 = goes_to 1 AtUnlock (s8\<lparr>given := (given s8)(1 := tm_buf s8)\<rparr>)"
  define s10 where "s10 = goes_to 1 Returned s9"
  note defs = s0_def s1_def s2_def s3_def s4_def s5_def s6_def s7_def s8_def s9_def s10_def goes_to_def first_calls_def
  have fst12: "fst (calls 1) = Localtime" "fst (calls (Suc 0)) = Localtime" "fst (calls 2) = Localtime"
    using assms(1,2) by simp_all
  have "?step s0 s1" unfolding s1_def by (rule test_null) (simp_all add: s0_def first_calls_def)
  moreover have "?step s1 s2" unfolding s2_def by (rule test_null) (simp_all add: defs)
  moreover have "?step s2 s3" unfolding s3_def using create [of s2 1 localtime ctime calls bufs] by (simp add: defs fst12)
  moreover have "?step s3 s4" unfolding s4_def by (rule lock) (simp_all add: defs fst12)
  moreover have "?step s4 s5" unfolding s5_def by (rule convert) (simp_all add: s4_def goes_to_def assms [simplified])
  moreover have "?step s5 s6" unfolding s6_def using create [of s5 2 localtime ctime calls bufs] by (simp add: defs fst12)
  moreover have "?step s6 s7" unfolding s7_def by (rule lock) (simp_all add: defs fst12)
  moreover have "?step s7 s8" unfolding s8_def by (rule convert) (simp_all add: s7_def goes_to_def assms [simplified])
  moreover have "?step s8 s9" unfolding s9_def by (rule copy) (simp_all add: defs fst12)
  moreover have "?step s9 s10" unfolding s10_def by (rule unlock_fails [where m = 1]) (simp_all add: defs fst12)
  ultimately have "time_steps localtime ctime calls bufs s0 s10" by (meson converse_rtranclp_into_rtranclp r_into_rtranclp)
  moreover have "pc s10 1 = Returned \<and> given s10 1 = localtime t2 \<and> held_by s10 0 = Some 1" by (simp add: defs assms(4))
  ultimately show ?thesis unfolding s0_def by blast
qed

text \<open>
  C18: Once the mutexes are there, calls of one of the time functions in any number of threads, however they are
  interleaved, each return what the call returns alone.  Mixed calls do not: the functions have a mutex each,
  but the C library one broken-down time for both, and a call of \<open>openr2_localtime_r\<close> can return the time a
  call of \<open>openr2_ctime_r\<close> asked for.  Nor do the first calls: two threads that both find no mutex each make
  one, and one returns the time of the other and leaves a mutex held for ever.
\<close>

theorem time_functions_threads:
  assumes "room_for ctime bufs" "localtime t1 = Some x" "localtime t2 = Some y" "ctime t2 = Some l"
  shows "(\<forall>t s i. time_steps localtime ctime (\<lambda>i. (Localtime, t i)) bufs later_calls s \<and> pc s i = Returned \<longrightarrow>
      openr2_localtime_r localtime create_ok (t i) True True = Some (given s i, True)) \<and>
    (\<forall>t s i. time_steps localtime ctime (\<lambda>i. (Ctime, t i)) bufs later_calls s \<and> pc s i = Returned \<longrightarrow>
      openr2_ctime_r ctime create_ok (t i) (Some (bufs i)) True = Some (written s i, True)) \<and>
    (\<exists>s. time_steps localtime ctime (\<lambda>i. if i = 1 then (Localtime, t1) else (Ctime, t2)) bufs later_calls s \<and>
      pc s 1 = Returned \<and> given s 1 = localtime t2) \<and>
    (\<exists>s. time_steps localtime ctime (\<lambda>i. (Localtime, if i = 1 then t1 else t2)) bufs first_calls s \<and>
      pc s 1 = Returned \<and> given s 1 = localtime t2 \<and> held_by s 0 = Some 1)"
  using one_function_safe [OF assms(1), of _ _ localtime]
    mixed_race [of "\<lambda>i. if i = 1 then (Localtime, t1) else (Ctime, t2)" t1 t2 localtime x ctime l, OF _ _ assms(2,4)]
    first_race [of "\<lambda>i. (Localtime, if i = 1 then t1 else t2)" t1 t2 localtime x y ctime, OF _ _ assms(2,3)]
  by simp

lemma time_functions_threads_witness:
  "\<exists>s. time_steps (\<lambda>t. Some (t mod 60)) (\<lambda>t. Some [48 + t mod 10]) (\<lambda>i. if i = 1 then (Localtime, 7) else (Ctime, 14))
     (\<lambda>i. replicate 26 0) later_calls s \<and> pc s 1 = Returned \<and> given s 1 = Some 14"
  using time_functions_threads [of "\<lambda>t. Some [48 + t mod 10]" "\<lambda>i. replicate 26 0" "\<lambda>t. Some (t mod 60)" 7 7 14 14 "[52]"]
  by (simp add: room_for_def)

section \<open>The clock of Windows\<close>

text \<open>
  \<open>gettimeofday\<close> where the system has none: from the local time, whose fields \<open>mktime\<close> converts, or from the
  milliseconds since the system started, which wrap around after 49 days.
\<close>

record SYSTEMTIME =
  wYear :: int
  wMonth :: int
  wDay :: int
  wHour :: int
  wMinute :: int
  wSecond :: int
  wMilliseconds :: int

definition gettimeofday_local :: "(int \<times> int \<times> int \<times> int \<times> int \<times> int \<Rightarrow> int) \<Rightarrow> SYSTEMTIME \<Rightarrow> timeval" where
  "gettimeofday_local mktime st =
     (let tt = mktime (wSecond st, wMinute st, wHour st, wDay st, wMonth st - 1, wYear st - 1900)
      in Timeval tt (wMilliseconds st * 1000))"

definition gettimeofday_ticks :: "32 word \<Rightarrow> timeval" where
  "gettimeofday_ticks ticks =
     (let sec = ticks div 1000; usec = (ticks - sec * 1000) * 1000 in Timeval (uint sec) (uint usec))"

lemma ticks_exact:
  "tv_usec (gettimeofday_ticks ticks) < 1000000 \<and>
   tv_sec (gettimeofday_ticks ticks) * 1000000 + tv_usec (gettimeofday_ticks ticks) = uint ticks * 1000"
proof -
  have m: "ticks - ticks div 1000 * 1000 = ticks mod 1000" by (simp add: minus_div_mult_eq_mod)
  have "uint (ticks mod 1000 * 1000) = uint ticks mod 1000 * 1000"
    using pos_mod_bound [of 1000 "uint ticks"] by (simp add: uint_word_ariths uint_mod)
  then have u: "tv_usec (gettimeofday_ticks ticks) = uint ticks mod 1000 * 1000" "tv_sec (gettimeofday_ticks ticks) = uint ticks div 1000"
    unfolding gettimeofday_ticks_def Let_def timeval.sel m by (simp_all add: uint_div)
  have "uint ticks = uint ticks div 1000 * 1000 + uint ticks mod 1000" by simp
  then show ?thesis using pos_mod_bound [of 1000 "uint ticks"] unfolding u by linarith
qed

end
