(* ===== verification/R2Peer.thy ===== *)
theory R2Peer
  imports R2MfSpec
begin

text \<open>
  Two channels of the library at the two ends of a line: each hears the tones the other sends.  The
  compelled dialogue delivers the number dialled to the called side.
\<close>

section \<open>The dialogue\<close>

text \<open>
  A round of the dialogue between the caller \<open>a\<close> and the called side \<open>b\<close>: \<open>b\<close> hears the tone of
  \<open>a\<close>, \<open>a\<close> hears the answer and falls silent, \<open>b\<close> hears the silence and falls silent, and
  \<open>a\<close> hears it and goes on.
\<close>

definition hears :: "'w iface \<Rightarrow> 'w chan \<Rightarrow> 'w chan \<Rightarrow> 'w chan" where
  "hears ifc s far = exec (openr2_proto_handle_mf_tone ifc (mf_write_tone far)) s"

fun called_hears :: "'w iface \<Rightarrow> 'w chan \<times> 'w chan \<Rightarrow> 'w chan \<times> 'w chan" where
  "called_hears ifc (a, b) = (a, hears ifc b a)"

fun caller_hears :: "'w iface \<Rightarrow> 'w chan \<times> 'w chan \<Rightarrow> 'w chan \<times> 'w chan" where
  "caller_hears ifc (a, b) = (hears ifc a b, b)"

definition mf_round :: "'w iface \<Rightarrow> 'w chan \<times> 'w chan \<Rightarrow> 'w chan \<times> 'w chan" where
  "mf_round ifc ab = caller_hears ifc (called_hears ifc (caller_hears ifc (called_hears ifc ab)))"

section \<open>Half cycles\<close>

definition dialing_heard :: "int \<Rightarrow> 'w chan \<Rightarrow> bool" where
  "dialing_heard tone s \<longleftrightarrow> direction s = OR2_DIR_FORWARD \<and> mf_group s = OR2_MF_GI \<and> mf_read_tone s = tone \<and>
     io_present (r2context s) \<and> mf_threshold (r2context s) = 0 \<and> tone \<noteq> 0 \<and> tone = ga_request_next_dnis_digit (GA_TONE s)"

definition collecting_heard :: "int list \<Rightarrow> int \<Rightarrow> 'w chan \<Rightarrow> bool" where
  "collecting_heard ds d s \<longleftrightarrow> d \<noteq> 0 \<and> mf_read_tone s = d \<and> mf_group s = OR2_MF_GA \<and> mf_state s = OR2_MF_DNIS_RQ_TXD \<and>
     collecting_digits ds (s\<lparr>mf_read_tone := 0, mf_write_tone := 0\<rparr>)"

context working_interfaces
begin

lemma dialing_hears:
  assumes "dialing_digits tone s"
  shows "wp (openr2_proto_handle_mf_tone ifc tone) (\<lambda>_ s'. dialing_heard tone s' \<and> dnis s' = dnis s \<and> dnis_index s' = dnis_index s \<and>
    mf_write_tone s' = 0) s"
  unfolding openr2_proto_handle_mf_tone_def check_threshold_def handle_backward_mf_tone_def set_silence_def
  using assms by (auto simp: dialing_digits_def dialing_heard_def intro!: wp_prepare_mf_tone)

lemma dialing_resumes:
  assumes "dialing_heard tone s" "arr_get (dnis s) (nat (dnis_index s + 1)) = Some d" "0 \<le> dnis_index s" "d \<noteq> 0"
  shows "wp (openr2_proto_handle_mf_tone ifc 0) (\<lambda>_ s'. dialing_digits tone s' \<and> dnis s' = dnis s \<and> dnis_index s' = dnis_index s + 1 \<and>
    mf_write_tone s' = d) s"
  unfolding openr2_proto_handle_mf_tone_def check_threshold_def handle_backward_mf_silence_def handle_group_a_request_def
    handle_dnis_request_def mf_send_dnis_def wait_far_end_timeout_def dnis_index_for_def dnis_at_def Let_def
  using assms by (auto simp: dialing_digits_def dialing_heard_def intro!: wp_prepare_mf_tone)

lemma collecting_hears:
  assumes "wants_digits ifc" "collecting_digits ds s" "48 \<le> d" "d \<le> 57" "length ds < 79"
    "\<not> DNIS_COMPLETE (s\<lparr>dnis_len := Suc (length ds)\<rparr>)"
  shows "wp (openr2_proto_handle_mf_tone ifc d) (\<lambda>_ s'. collecting_heard (ds @ [d]) d s' \<and> r2context s' = r2context s \<and>
    dnis s' ! length (ds @ [d]) = 0 \<and> mf_write_tone s' = ga_request_next_dnis_digit (GA_TONE s)) s"
  unfolding openr2_proto_handle_mf_tone_def check_threshold_def handle_forward_mf_tone_def
    mf_receive_expected_dnis_def append_dnis_def dnis_poke_def request_next_dnis_digit_def Let_def
  using assms
  by (auto simp: collecting_digits_def collecting_heard_def DNIS_COMPLETE_def take_Suc_conv_app_nth
      intro!: wp_prepare_mf_tone wp_emit_digit)

lemma collecting_resumes:
  assumes "collecting_heard ds d s"
  shows "wp (openr2_proto_handle_mf_tone ifc 0) (\<lambda>_ s'. collecting_digits ds s' \<and> r2context s' = r2context s) s"
  unfolding openr2_proto_handle_mf_tone_def check_threshold_def handle_forward_mf_silence_def set_silence_def
  using assms by (auto simp: collecting_digits_def collecting_heard_def intro!: wp_prepare_mf_tone)

end

section \<open>The number crosses the line\<close>

text \<open>The two ends when the caller sends digit number \<open>i\<close> of \<open>ds\<close>.\<close>

definition linked :: "int list \<Rightarrow> int list \<Rightarrow> nat \<Rightarrow> r2ctx \<Rightarrow> 'w chan \<times> 'w chan \<Rightarrow> bool" where
  "linked ds rest i ctx = (\<lambda>(a, b). dialing_digits (ga_request_next_dnis_digit (mf_ga_tones ctx)) a \<and> mf_write_tone a = ds ! i \<and>
     dnis a = ds @ 0 # rest \<and> dnis_index a = int i \<and> collecting_digits (take i ds) b \<and> r2context b = ctx)"

context working_interfaces
begin

lemma called_digit:
  assumes "wants_digits ifc" "linked ds rest i ctx (a, b)" "list_all (\<lambda>d. 48 \<le> d \<and> d \<le> 57) ds" "i < length ds" "length ds < 80"
    "length ds < to_uint32 (max_dnis ctx)"
  shows "collecting_heard (take (Suc i) ds) (ds ! i) (hears ifc b a)" "r2context (hears ifc b a) = ctx"
    "dnis (hears ifc b a) ! Suc i = 0" "mf_write_tone (hears ifc b a) = ga_request_next_dnis_digit (mf_ga_tones ctx)"
proof -
  have d: "48 \<le> ds ! i" "ds ! i \<le> 57" using assms(3,4) by (simp_all add: list_all_length)
  have c: "collecting_digits (take i ds) b" "mf_write_tone a = ds ! i" "r2context b = ctx" using assms(2) by (simp_all add: linked_def)
  have n: "\<not> DNIS_COMPLETE (b\<lparr>dnis_len := Suc (length (take i ds))\<rparr>)" using assms(4,6) c(3) by (simp add: DNIS_COMPLETE_def)
  have l: "length (take i ds) < 79" using assms(4,5) by simp
  show "collecting_heard (take (Suc i) ds) (ds ! i) (hears ifc b a)" "r2context (hears ifc b a) = ctx"
    "dnis (hears ifc b a) ! Suc i = 0" "mf_write_tone (hears ifc b a) = ga_request_next_dnis_digit (mf_ga_tones ctx)"
    using collecting_hears [OF assms(1) c(1) d l n] assms(4) c(2,3)
    by (simp_all add: wp_def hears_def take_Suc_conv_app_nth)
qed

lemma linked_round:
  assumes "wants_digits ifc" "linked ds rest i ctx (a, b)" "list_all (\<lambda>d. 48 \<le> d \<and> d \<le> 57) ds" "Suc i < length ds" "length ds < 80"
    "length ds < to_uint32 (max_dnis ctx)"
  shows "linked ds rest (Suc i) ctx (mf_round ifc (a, b))"
proof -
  let ?tone = "ga_request_next_dnis_digit (mf_ga_tones ctx)"
  let ?b1 = "hears ifc b a"
  let ?a1 = "hears ifc a ?b1"
  let ?b2 = "hears ifc ?b1 ?a1"
  let ?a2 = "hears ifc ?a1 ?b2"
  have a: "dialing_digits ?tone a" "dnis a = ds @ 0 # rest" "dnis_index a = int i" using assms(2) by (simp_all add: linked_def)
  have b1: "collecting_heard (take (Suc i) ds) (ds ! i) ?b1" "r2context ?b1 = ctx" "mf_write_tone ?b1 = ?tone"
    using called_digit [OF assms(1-3) _ assms(5,6)] assms(4) by simp_all
  have a1: "dialing_heard ?tone ?a1" "dnis ?a1 = ds @ 0 # rest" "dnis_index ?a1 = int i" "mf_write_tone ?a1 = 0"
    using dialing_hears [OF a(1)] a b1(3) by (simp_all add: wp_def hears_def)
  have b2: "collecting_digits (take (Suc i) ds) ?b2" "r2context ?b2 = ctx"
    using collecting_resumes [OF b1(1)] b1(2) a1(4) by (simp_all add: wp_def hears_def)
  have w: "mf_write_tone ?b2 = 0" using b2(1) by (simp add: collecting_digits_def)
  have get: "arr_get (dnis ?a1) (nat (dnis_index ?a1 + 1)) = Some (ds ! Suc i)" "ds ! Suc i \<noteq> 0"
    using a1(2,3) assms(3,4) by (auto simp: arr_get_def nth_append nat_add_distrib list_all_length)
  have "dialing_digits ?tone ?a2 \<and> dnis ?a2 = ds @ 0 # rest \<and> dnis_index ?a2 = int (Suc i) \<and> mf_write_tone ?a2 = ds ! Suc i"
    using dialing_resumes [OF a1(1) get(1) _ get(2)] a1(2,3) unfolding wp_def hears_def [of ifc ?a1 ?b2] w by simp
  then show ?thesis using b2 by (simp add: linked_def mf_round_def)
qed

lemma linked_rounds:
  assumes "wants_digits ifc" "linked ds rest 0 ctx ab" "list_all (\<lambda>d. 48 \<le> d \<and> d \<le> 57) ds" "i < length ds" "length ds < 80"
    "length ds < to_uint32 (max_dnis ctx)"
  shows "linked ds rest i ctx ((mf_round ifc ^^ i) ab)"
  using assms(4)
proof (induction i)
  case (Suc i)
  then show ?case using linked_round [OF assms(1) _ assms(3) Suc.prems assms(5,6)] by (cases "(mf_round ifc ^^ i) ab") simp
qed (use assms(2) in simp)

end

text \<open>
  C6: Two ends of the library on one line, in a variant in which the number dialled comes first (no caller's
  number before it), without a threshold for the length of tones, and with a user who wants every digit.
  The caller sends the first digit of a number of digits that is shorter than 80 and than the limit of the
  called side, which has collected none yet (\<open>linked\<close>): after as many rounds of the dialogue as there are
  further digits, and on hearing the last one, the called side has exactly the number the caller dialled.
\<close>

theorem number_delivered:
  assumes "working_interfaces ifc" "wants_digits ifc" "linked ds rest 0 (r2context b) (a, b)"
    "list_all (\<lambda>d. 48 \<le> d \<and> d \<le> 57) ds" "ds \<noteq> []" "length ds < 80" "length ds < to_uint32 (max_dnis (r2context b))"
    "(mf_round ifc ^^ (length ds - 1)) (a, b) = (a', b')"
  shows "c_string (dnis (exec (openr2_proto_handle_mf_tone ifc (mf_write_tone a')) b')) = ds"
proof -
  let ?i = "length ds - 1"
  let ?t = "hears ifc b' a'"
  have i: "?i < length ds" "Suc ?i = length ds" using assms(5) by (cases ds; simp)+
  have l: "linked ds rest ?i (r2context b) (a', b')"
    using working_interfaces.linked_rounds [OF assms(1-4) i(1) assms(6,7)] assms(8) by simp
  have c: "collecting_heard ds (ds ! ?i) ?t" "dnis ?t ! length ds = 0"
    using working_interfaces.called_digit [OF assms(1,2) l assms(4) i(1) assms(6,7)] i(2) by simp_all
  have t: "take (length ds) (dnis ?t) = ds" "length ds < length (dnis ?t)"
    using c(1) assms(6) by (simp_all add: collecting_heard_def collecting_digits_def)
  have z: "list_all (\<lambda>d. d \<noteq> 0) ds" using assms(4) by (rule list.pred_mono_strong) simp
  have "dnis ?t = ds @ 0 # drop (Suc (length ds)) (dnis ?t)" using id_take_nth_drop [OF t(2)] t(1) c(2) by simp
  then have "c_string (dnis ?t) = ds" by (rule c_string_prefix) (rule z)
  then show ?thesis by (simp add: hears_def)
qed

lemma number_delivered_witness:
  "c_string (dnis (exec (openr2_proto_handle_mf_tone sim_iface (mf_write_tone (fst ((mf_round sim_iface ^^ 2) (sim_caller, sim_called)))))
     (snd ((mf_round sim_iface ^^ 2) (sim_caller, sim_called))))) = [53, 54, 55]"
  by (rule number_delivered [OF sim.working_interfaces_axioms, of "[53, 54, 55]" "replicate 76 0" sim_called sim_caller])
    (simp_all add: linked_def sim_caller_def sim_called_def dialing_digits_def collecting_digits_def sim_itu sim_chan_fields
      itu_ga_tones_def wants_digits_def sim_iface_def to_uint32_def numeral_2_eq_2)

end
