(* ===== verification/R2Goertzel.thy ===== *)
theory R2Goertzel
  imports Complex_Main R2MfEngine
begin

text \<open>
  The detector of R2 tones over the real numbers: what the Goertzel filters compute, what they make of a
  pair of tones, and why the decision at the end of a block is the tone that is there.  The arithmetic of
  \<open>r2engine.c\<close> is exact here; how much the samples may be off is part of the statements.
\<close>

section \<open>Exact arithmetic\<close>

text \<open>\<open>rint\<close> is \<open>lfastrintf\<close>, which each platform does its own way.\<close>

definition real_flops :: "(real \<Rightarrow> int) \<Rightarrow> real flops" where
  "real_flops rint = \<lparr>f_add = (+), f_sub = (-), f_mul = (*), f_div = (/), f_le = (\<le>), f_lt = (<), f_of_int = of_int,
     f_lit = (\<lambda>m k. of_int m / 10 ^ k), f_trunc = (\<lambda>x. if 0 \<le> x then \<lfloor>x\<rfloor> else \<lceil>x\<rceil>), f_rint = rint, f_pow = (powr),
     f_log10 = log 10, f_cos_turn = (\<lambda>x. cos (2 * pi * x))\<rparr>"

lemma real_flops_simps [simp]:
  "f_add (real_flops r) x y = x + y" "f_sub (real_flops r) x y = x - y" "f_mul (real_flops r) x y = x * y"
  "f_div (real_flops r) x y = x / y" "f_le (real_flops r) x y \<longleftrightarrow> x \<le> y" "f_lt (real_flops r) x y \<longleftrightarrow> x < y"
  "f_of_int (real_flops r) i = of_int i" "f_lit (real_flops r) m k = of_int m / 10 ^ k" "f_rint (real_flops r) x = r x"
  "f_trunc (real_flops r) x = (if 0 \<le> x then \<lfloor>x\<rfloor> else \<lceil>x\<rceil>)" "f_pow (real_flops r) x y = x powr y"
  "f_cos_turn (real_flops r) x = cos (2 * pi * x)"
  by (simp_all add: real_flops_def)

lemma real_ordered: "ordered_floats (real_flops r)"
  by (auto simp: ordered_floats_def)

section \<open>A Goertzel filter is a bin of the Fourier transform\<close>

text \<open>The angle between samples of a frequency in Hz, and the power of a frequency in a block of samples.\<close>

definition turn :: "int \<Rightarrow> real" where
  "turn f = 2 * pi * of_int f / 8000"

definition spectrum :: "int \<Rightarrow> real list \<Rightarrow> complex" where
  "spectrum f xs = (\<Sum>k<length xs. of_real (xs ! k) * cis (- (turn f * real k)))"

definition dft_power :: "int \<Rightarrow> int list \<Rightarrow> real" where
  "dft_power f xs = (cmod (spectrum f (map of_int xs)))\<^sup>2"

text \<open>The two delays of a filter as one complex number: a sample turns it by the angle and is added.\<close>

definition delays :: "real \<Rightarrow> real goertzel_state \<Rightarrow> complex" where
  "delays w g = of_real (g_v3 g) - cis (- w) * of_real (g_v2 g)"

lemma cis_double: "complex_of_real (2 * cos w) = cis w + cis (- w)"
  by (simp add: complex_eq_iff)

lemma delays_step:
  assumes "g_fac g = 2 * cos w"
  shows "delays w (goertzel_step (real_flops r) x g) = cis w * delays w g + of_real x"
proof -
  have "delays w (goertzel_step (real_flops r) x g) =
      complex_of_real (2 * cos w) * of_real (g_v3 g) - of_real (g_v2 g) + of_real x - cis (- w) * of_real (g_v3 g)"
    by (simp add: delays_def goertzel_step_def Let_def assms)
  also have "\<dots> = cis w * of_real (g_v3 g) - of_real (g_v2 g) + of_real x"
    by (simp only: cis_double) (simp add: ring_distribs)
  also have "of_real (g_v2 g) = cis w * (cis (- w) * complex_of_real (g_v2 g))"
    by (simp add: cis_mult mult.assoc [symmetric])
  finally show ?thesis by (simp add: delays_def ring_distribs)
qed

lemma power_of_delays: "a\<^sup>2 + b\<^sup>2 - b * a * (2 * cos w) = (cmod (of_real a - cis (- w) * of_real b))\<^sup>2"
proof -
  have "(cmod (of_real a - cis (- w) * of_real b))\<^sup>2 = (a - cos w * b)\<^sup>2 + (sin w * b)\<^sup>2"
    by (simp add: cmod_power2)
  also have "\<dots> = a\<^sup>2 + b\<^sup>2 * ((sin w)\<^sup>2 + (cos w)\<^sup>2) - b * a * (2 * cos w)"
    by (simp only: power2_eq_square) algebra
  finally show ?thesis by simp
qed

lemma result_delays:
  assumes "g_fac g = 2 * cos w"
  shows "goertzel_result (real_flops r) g = (cmod (delays w g))\<^sup>2"
proof -
  let ?v = "2 * cos w * g_v3 g - g_v2 g"
  have "goertzel_result (real_flops r) g = ?v\<^sup>2 + (g_v3 g)\<^sup>2 - g_v3 g * ?v * (2 * cos w)"
    by (simp add: goertzel_result_def power2_eq_square Let_def assms)
  also have "\<dots> = (cmod (delays w (goertzel_step (real_flops r) 0 g)))\<^sup>2"
    unfolding power_of_delays by (simp add: goertzel_step_def delays_def Let_def assms)
  finally have "goertzel_result (real_flops r) g = (cmod (delays w (goertzel_step (real_flops r) 0 g)))\<^sup>2" .
  then show ?thesis by (simp add: delays_step [OF assms] norm_mult)
qed

lemma goertzel_steps:
  assumes "g_fac g = 2 * cos (turn f)" "delays (turn f) g = 0"
  shows "delays (turn f) (foldl (\<lambda>g x. goertzel_step (real_flops r) x g) g xs) =
      cis (turn f * (real (length xs) - 1)) * spectrum f xs \<and>
    g_fac (foldl (\<lambda>g x. goertzel_step (real_flops r) x g) g xs) = 2 * cos (turn f)"
proof (induction xs rule: rev_induct)
  case Nil
  then show ?case using assms by (simp add: spectrum_def)
next
  case (snoc x xs)
  let ?n = "real (length xs)"
  have s: "spectrum f (xs @ [x]) = spectrum f xs + of_real x * cis (- (turn f * ?n))"
    by (simp add: spectrum_def nth_append)
  have "delays (turn f) (foldl (\<lambda>g x. goertzel_step (real_flops r) x g) g (xs @ [x])) =
      cis (turn f) * (cis (turn f * (?n - 1)) * spectrum f xs) + of_real x"
    using snoc by (simp add: delays_step)
  also have "cis (turn f) * (cis (turn f * (?n - 1)) * spectrum f xs) = cis (turn f * ?n) * spectrum f xs"
    by (simp only: mult.assoc [symmetric] cis_mult) (simp add: ring_distribs)
  also have "of_real x = cis (turn f * ?n) * (of_real x * cis (- (turn f * ?n)))"
    by (simp only: mult.left_commute [of "cis _"] cis_mult) simp
  also have "cis (turn f * ?n) * spectrum f xs + cis (turn f * ?n) * (of_real x * cis (- (turn f * ?n))) =
      cis (turn f * ?n) * spectrum f (xs @ [x])" by (simp only: s ring_distribs)
  finally show ?case using snoc by (simp add: goertzel_step_def Let_def)
qed

lemma goertzel_fac: "make_goertzel_fac (real_flops r) f = 2 * cos (turn f)"
  by (simp add: make_goertzel_fac_def turn_def)

lemma goertzel_power:
  assumes "g_fac g = 2 * cos (turn f)" "g_v2 g = 0" "g_v3 g = 0"
  shows "goertzel_result (real_flops r) (foldl (\<lambda>g x. goertzel_step (real_flops r) (of_int x) g) g xs) = dft_power f xs"
proof -
  have "foldl (\<lambda>g x. goertzel_step (real_flops r) (of_int x) g) g xs =
      foldl (\<lambda>g x. goertzel_step (real_flops r) x g) g (map of_int xs)"
    by (simp add: foldl_map)
  then show ?thesis
    using goertzel_steps [of g f r "map of_int xs"] assms
    by (simp add: result_delays dft_power_def delays_def norm_mult)
qed

section \<open>A pair of tones in a block of 133 samples\<close>

text \<open>
  All R2 frequencies are odd multiples of 60 Hz.  Over 133 samples at 8000 Hz a wave whose frequency is a multiple
  of 120 Hz, as the distances and the sums of two of them are, all but cancels out.
\<close>

definition wave_sum :: "real \<Rightarrow> complex" where
  "wave_sum x = (\<Sum>k<133. cis (x * real k))"

lemma cmod_one_minus_cis: "cmod (1 - cis x) = 2 * \<bar>sin (x / 2)\<bar>"
proof -
  have "(cmod (1 - cis x))\<^sup>2 = (1 - cos x)\<^sup>2 + (sin x)\<^sup>2" by (simp add: cmod_power2)
  also have "\<dots> = 1 - 2 * cos x + ((sin x)\<^sup>2 + (cos x)\<^sup>2)" by algebra
  also have "\<dots> = 2 - 2 * cos x" by simp
  also have "\<dots> = (2 * \<bar>sin (x / 2)\<bar>)\<^sup>2"
    using cos_double_sin [of "x / 2"] by (simp add: power_mult_distrib)
  finally show ?thesis by (metis abs_ge_zero norm_ge_zero power2_eq_imp_eq mult_nonneg_nonneg zero_le_numeral)
qed

lemma wave_sum_ratio: "cmod (wave_sum x) * \<bar>sin (x / 2)\<bar> = \<bar>sin (133 * x / 2)\<bar>"
proof -
  have "(1 - cis x) * wave_sum x = 1 - cis x ^ 133"
    unfolding wave_sum_def by (simp add: DeMoivre2 [symmetric] mult.commute [of x] Complex.DeMoivre [symmetric] one_diff_power_eq)
  also have "cis x ^ 133 = cis (133 * x)" by (simp add: Complex.DeMoivre)
  finally have "cmod (1 - cis x) * cmod (wave_sum x) = cmod (1 - cis (133 * x))" by (metis norm_mult)
  then show ?thesis by (simp add: cmod_one_minus_cis mult.commute)
qed

lemma wave_sum_small:
  assumes "m \<noteq> 0" "\<bar>m\<bar> \<le> 33"
  shows "cmod (wave_sum (turn (120 * m))) \<le> 1"
proof -
  let ?y = "pi * \<bar>of_int m\<bar> / 200"
  have m: "1 \<le> \<bar>real_of_int m\<bar>" "\<bar>real_of_int m\<bar> \<le> 33" using assms by linarith+
  have y: "0 < ?y" "3 * ?y \<le> pi / 2" using m by (simp_all add: field_simps)
  have pos: "sin ?y > 0" "sin (3 * ?y) > 0" using y pi_gt_zero by (intro sin_gt_zero; linarith)+
  have le: "sin ?y \<le> sin (3 * ?y)" using y pi_gt_zero by (intro sin_monotone_2pi_le; linarith)
  have abs_sin: "\<bar>sin (c * of_int m)\<bar> = sin (c * \<bar>of_int m\<bar>)" if "sin (c * \<bar>of_int m\<bar>) > 0" for c :: real
    using that by (cases "m < 0") (simp_all add: abs_if)
  have a: "\<bar>sin (turn (120 * m) / 2)\<bar> = sin (3 * ?y)"
    using abs_sin [of "3 * pi / 200"] pos(2) by (simp add: turn_def algebra_simps)
  have arg: "133 * turn (120 * m) / 2 = 2 * pi * of_int m - pi / 200 * of_int m" by (simp add: turn_def field_simps)
  have b: "\<bar>sin (133 * turn (120 * m) / 2)\<bar> = sin ?y"
    unfolding arg sin_diff using abs_sin [of "pi / 200"] pos(1) by simp
  have "cmod (wave_sum (turn (120 * m))) * sin (3 * ?y) \<le> 1 * sin (3 * ?y)"
    using wave_sum_ratio [of "turn (120 * m)"] le unfolding a b by simp
  then show ?thesis by (rule mult_right_le_imp_le) (rule pos(2))
qed

definition wave :: "int \<Rightarrow> real \<Rightarrow> nat \<Rightarrow> real" where
  "wave f p k = sin (p + turn f * real k)"

definition block_spectrum :: "int \<Rightarrow> (nat \<Rightarrow> real) \<Rightarrow> complex" where
  "block_spectrum f s = (\<Sum>k<133. of_real (s k) * cis (- (turn f * real k)))"

lemma block_spectrum_linear:
  "block_spectrum f (\<lambda>k. s k + t k) = block_spectrum f s + block_spectrum f t"
  "block_spectrum f (\<lambda>k. a * s k) = of_real a * block_spectrum f s"
  by (simp_all add: block_spectrum_def sum.distrib sum_distrib_left ring_distribs mult.assoc)

lemma block_spectrum_bound:
  assumes "\<And>k. k < 133 \<Longrightarrow> \<bar>s k\<bar> \<le> e"
  shows "cmod (block_spectrum f s) \<le> 133 * e"
proof -
  have "cmod (block_spectrum f s) \<le> (\<Sum>k<133. cmod (of_real (s k) * cis (- (turn f * real k))))"
    unfolding block_spectrum_def by (rule norm_sum)
  also have "\<dots> \<le> (\<Sum>k<(133::nat). e)" using assms by (intro sum_mono) (simp add: norm_mult)
  finally show ?thesis by simp
qed

lemma turn_linear: "turn (f - g) = turn f - turn g" "turn (f + g) = turn f + turn g" "turn (- f) = - turn f"
  by (simp_all add: turn_def field_simps)

lemma sin_cis: "complex_of_real (sin x) = (cis x - cis (- x)) / (2 * \<i>)"
  by (simp add: complex_eq_iff)

lemma wave_spectrum:
  "block_spectrum f (wave g p) =
     (cis p * wave_sum (turn (g - f)) - cis (- p) * wave_sum (turn (- (g + f)))) / (2 * \<i>)"
proof -
  have "of_real (wave g p k) * cis (- (turn f * real k)) =
      (cis p * cis (turn (g - f) * real k) - cis (- p) * cis (turn (- (g + f)) * real k)) / (2 * \<i>)" for k
  proof -
    have "cis (p + turn g * real k) * cis (- (turn f * real k)) = cis p * cis (turn (g - f) * real k)"
      "cis (- (p + turn g * real k)) * cis (- (turn f * real k)) = cis (- p) * cis (turn (- (g + f)) * real k)"
      by (simp_all add: cis_mult turn_linear algebra_simps)
    then show ?thesis unfolding wave_def sin_cis by (simp only: times_divide_eq_left left_diff_distrib)
  qed
  then show ?thesis
    by (simp only: block_spectrum_def wave_sum_def sum_divide_distrib [symmetric] sum_subtractf sum_distrib_left)
qed

lemma wave_sum_0: "wave_sum (turn 0) = 133"
  by (simp add: wave_sum_def turn_def)

text \<open>Two frequencies a detector can keep apart.\<close>

definition apart :: "int \<Rightarrow> int \<Rightarrow> bool" where
  "apart f g \<longleftrightarrow> (\<exists>m. f - g = 120 * m \<and> m \<noteq> 0 \<and> \<bar>m\<bar> \<le> 33)"

lemma apart_sym: "apart f g \<longleftrightarrow> apart g f"
proof -
  have "apart g f" if "apart f g" for f g
  proof -
    from that obtain m where "f - g = 120 * m" "m \<noteq> 0" "\<bar>m\<bar> \<le> 33" by (auto simp: apart_def)
    then show ?thesis unfolding apart_def by (intro exI [of _ "- m"]) simp
  qed
  then show ?thesis by blast
qed

lemma apart_small: "apart f g \<Longrightarrow> cmod (wave_sum (turn (f - g))) \<le> 1"
  by (auto simp: apart_def wave_sum_small)

lemma wave_off:
  assumes "apart g f" "apart g (- f)"
  shows "cmod (block_spectrum f (wave g p)) \<le> 1"
proof -
  have "- (g + f) = - f - g" by simp
  then have "cmod (wave_sum (turn (- (g + f)))) \<le> 1"
    using apart_small [of "- f" g] assms(2) unfolding apart_sym [of g] by (simp only:)
  then have "cmod (cis p * wave_sum (turn (g - f)) - cis (- p) * wave_sum (turn (- (g + f)))) \<le> 1 + 1"
    using apart_small [OF assms(1)] by (intro order_trans [OF norm_triangle_ineq4] add_mono) (simp_all add: norm_mult)
  then show ?thesis by (simp add: wave_spectrum norm_divide norm_mult)
qed

lemma wave_on:
  assumes "apart g (- g)"
  shows "66 \<le> cmod (block_spectrum g (wave g p))" "cmod (block_spectrum g (wave g p)) \<le> 67"
proof -
  have "- (g + g) = - g - g" by simp
  then have s: "cmod (wave_sum (turn (- (g + g)))) \<le> 1"
    using apart_small [of "- g" g] assms unfolding apart_sym [of g] by (simp only:)
  let ?x = "cis p * wave_sum (turn (g - g))" and ?y = "cis (- p) * wave_sum (turn (- (g + g)))"
  have n: "cmod ?x = 133" "cmod ?y \<le> 1" using s by (simp_all add: norm_mult wave_sum_0)
  have b: "cmod (block_spectrum g (wave g p)) = cmod (?x - ?y) / 2"
    unfolding wave_spectrum by (simp add: norm_divide norm_mult)
  show "66 \<le> cmod (block_spectrum g (wave g p))" using norm_triangle_ineq2 [of ?x ?y] n unfolding b by simp
  show "cmod (block_spectrum g (wave g p)) \<le> 67" using norm_triangle_ineq4 [of ?x ?y] n unfolding b by simp
qed

text \<open>Samples that follow a pair of tones to a twelfth of their amplitude.\<close>

definition follows :: "real \<Rightarrow> int \<Rightarrow> int \<Rightarrow> real \<Rightarrow> real \<Rightarrow> int list \<Rightarrow> bool" where
  "follows a f g p q xs \<longleftrightarrow> length xs = 133 \<and> 0 < a \<and>
     (\<forall>k < 133. \<bar>of_int (xs ! k) - a * (wave f p k + wave g q k)\<bar> \<le> a / 12)"

lemma follows_sym: "follows a f g p q xs \<Longrightarrow> follows a g f q p xs"
  by (simp add: follows_def add.commute)

lemma follows_spectrum:
  assumes "follows a f g p q xs"
  obtains e where "spectrum h (map of_int xs) =
      of_real a * (block_spectrum h (wave f p) + block_spectrum h (wave g q)) + e" "cmod e \<le> 133 / 12 * a"
proof -
  let ?n = "\<lambda>k. of_int (xs ! k) - a * (wave f p k + wave g q k)"
  have "spectrum h (map of_int xs) = block_spectrum h (\<lambda>k. a * (wave f p k + wave g q k) + ?n k)"
    using assms by (simp add: spectrum_def block_spectrum_def follows_def)
  also have "\<dots> = of_real a * (block_spectrum h (wave f p) + block_spectrum h (wave g q)) + block_spectrum h ?n"
    by (simp only: block_spectrum_linear)
  finally have "spectrum h (map of_int xs) =
      of_real a * (block_spectrum h (wave f p) + block_spectrum h (wave g q)) + block_spectrum h ?n" .
  moreover have "cmod (block_spectrum h ?n) \<le> 133 / 12 * a"
    using block_spectrum_bound [of ?n "a / 12" h] assms by (simp add: follows_def)
  ultimately show thesis by (rule that)
qed

lemma follows_off:
  assumes "follows a f g p q xs" "apart f h" "apart f (- h)" "apart g h" "apart g (- h)"
  shows "cmod (spectrum h (map of_int xs)) \<le> 13.1 * a"
proof -
  obtain e where s: "spectrum h (map of_int xs) =
      of_real a * (block_spectrum h (wave f p) + block_spectrum h (wave g q)) + e" and e: "cmod e \<le> 133 / 12 * a"
    by (rule follows_spectrum [OF assms(1)])
  have a: "0 < a" using assms(1) by (simp add: follows_def)
  have "cmod (block_spectrum h (wave f p) + block_spectrum h (wave g q)) \<le> 1 + 1"
    using wave_off assms(2-) by (intro order_trans [OF norm_triangle_ineq] add_mono) auto
  then have "cmod (of_real a * (block_spectrum h (wave f p) + block_spectrum h (wave g q))) \<le> 2 * a"
    using a by (simp add: norm_mult)
  then show ?thesis
    using norm_triangle_ineq [of "of_real a * (block_spectrum h (wave f p) + block_spectrum h (wave g q))" e] e a
    unfolding s by simp
qed

lemma follows_on:
  assumes "follows a f g p q xs" "apart f (- f)" "apart g f" "apart g (- f)"
  shows "53.9 * a \<le> cmod (spectrum f (map of_int xs))" "cmod (spectrum f (map of_int xs)) \<le> 79.1 * a"
proof -
  obtain e where s: "spectrum f (map of_int xs) =
      of_real a * (block_spectrum f (wave f p) + block_spectrum f (wave g q)) + e" and e: "cmod e \<le> 133 / 12 * a"
    by (rule follows_spectrum [OF assms(1)])
  have a: "0 < a" using assms(1) by (simp add: follows_def)
  let ?b = "block_spectrum f (wave f p) + block_spectrum f (wave g q)"
  have "65 \<le> cmod ?b" "cmod ?b \<le> 68"
    using wave_on [OF assms(2), of p] wave_off [OF assms(3,4), of q]
      norm_diff_ineq [of "block_spectrum f (wave f p)" "block_spectrum f (wave g q)"]
      norm_triangle_ineq [of "block_spectrum f (wave f p)" "block_spectrum f (wave g q)"] by linarith+
  then have b: "65 * a \<le> cmod (of_real a * ?b)" "cmod (of_real a * ?b) \<le> 68 * a"
    using a by (simp_all add: norm_mult mult.commute)
  show "53.9 * a \<le> cmod (spectrum f (map of_int xs))"
    using b(1) e norm_diff_ineq [of "of_real a * ?b" e] a unfolding s by simp
  show "cmod (spectrum f (map of_int xs)) \<le> 79.1 * a"
    using b(2) e norm_triangle_ineq [of "of_real a * ?b" e] a unfolding s by simp
qed

section \<open>A block through the detector\<close>

definition mf_frequencies :: "bool \<Rightarrow> int list" where
  "mf_frequencies fwd = (if fwd then r2_mf_fwd_frequencies else r2_mf_back_frequencies)"

lemma length_mf_frequencies [simp]: "length (mf_frequencies fwd) = 6"
  by (simp add: mf_frequencies_def r2_mf_fwd_frequencies_def r2_mf_back_frequencies_def)

text \<open>A detector between two blocks.\<close>

definition mf_rx_ready :: "'f flops \<Rightarrow> bool \<Rightarrow> 'f mf_rx_state \<Rightarrow> bool" where
  "mf_rx_ready fo fwd s \<longleftrightarrow>
     mr_out s = map (\<lambda>f. goertzel_init fo f R2_MF_SAMPLES_PER_BLOCK) (mf_frequencies fwd) \<and> mr_current_sample s = 0"

lemma mf_rx_init_ready: "mf_rx_ready fo fwd (openr2_mf_rx_init fo fwd)"
  by (simp add: mf_rx_ready_def openr2_mf_rx_init_def mf_frequencies_def)

lemma filter_samples_map:
  "filter_samples fo xs gs = map (\<lambda>g. foldl (\<lambda>g x. goertzel_step fo (f_of_int fo x) g) g xs) gs"
  by (induction xs arbitrary: gs) (simp_all add: comp_def)

lemma reset_after_steps:
  "goertzel_reset fo (foldl (\<lambda>g x. goertzel_step fo (f_of_int fo x) g) g xs) = goertzel_reset fo g"
  by (induction xs arbitrary: g) (simp_all add: goertzel_reset_def goertzel_step_def Let_def)

lemma reset_init: "goertzel_reset fo (goertzel_init fo f n) = goertzel_init fo f n"
  by (simp add: goertzel_reset_def goertzel_init_def)

lemma filtered_powers:
  "map (goertzel_result (real_flops r)) (filter_samples (real_flops r) xs
     (map (\<lambda>f. goertzel_init (real_flops r) f R2_MF_SAMPLES_PER_BLOCK) fs)) = map (\<lambda>f. dft_power f xs) fs"
  using goertzel_power [of "goertzel_init (real_flops r) _ 133"]
  by (simp add: filter_samples_map goertzel_fac goertzel_init_def)

lemma mf_rx_block:
  assumes "mf_rx_ready (real_flops r) fwd s" "length xs = 133"
  shows "\<exists>s'. openr2_mf_rx (real_flops r) s xs =
      Some (mf_decide (real_flops r) (map (\<lambda>f. dft_power f xs) (mf_frequencies fwd)), s') \<and> mf_rx_ready (real_flops r) fwd s'"
proof -
  let ?fo = "real_flops r"
  let ?s = "s\<lparr>mr_out := filter_samples ?fo xs (mr_out s), mr_current_sample := 133\<rparr>"
  have ok: "mf_rx_ok s" using assms(1) by (simp add: mf_rx_ready_def mf_rx_ok_def)
  have out: "map (goertzel_result ?fo) (mr_out ?s) = map (\<lambda>f. dft_power f xs) (mf_frequencies fwd)"
    using assms(1) filtered_powers [of r xs] by (simp add: mf_rx_ready_def)
  have "xs \<noteq> []" using assms(2) by auto
  then have "mf_rx_ref ?fo s xs 0 = (mr_current_digit (mf_block_end ?fo ?s), mf_block_end ?fo ?s)"
    using block_run [of xs s ?fo 0] assms by (auto simp: mf_rx_ready_def Let_def)
  moreover have "mr_current_digit (mf_block_end ?fo ?s) = mf_decide ?fo (map (\<lambda>f. dft_power f xs) (mf_frequencies fwd))"
    using out by (simp add: mf_block_end_def)
  moreover have "mf_rx_ready ?fo fwd (mf_block_end ?fo ?s)"
    using assms(1) by (simp add: mf_rx_ready_def mf_block_end_def filter_samples_map comp_def
      reset_after_steps [of ?fo, simplified] reset_init)
  ultimately show ?thesis using ok by (simp add: openr2_mf_rx_def mf_rx_loop_ref)
qed

section \<open>The decision\<close>

text \<open>Two energies that stand out decide for their pair.\<close>

lemma decide_pair:
  assumes ab: "a \<noteq> b" "a < 6" "b < 6" and A: "415 \<le> A"
    and on: "\<And>i. i \<in> {a, b} \<Longrightarrow> (53.9 * A)\<^sup>2 \<le> e ! i \<and> e ! i \<le> (79.1 * A)\<^sup>2"
    and off: "\<And>i. i < 6 \<Longrightarrow> i \<notin> {a, b} \<Longrightarrow> e ! i \<le> (13.1 * A)\<^sup>2"
  shows "mf_decide (real_flops r) e = mf_position a b"
proof -
  let ?fo = "real_flops r"
  obtain x y where xy: "two_best ?fo e = (x, y)" by (cases "two_best ?fo e")
  note best = two_best_max [OF real_ordered xy, simplified]
  have lt6: "x < 6" "y < 6" "x \<noteq> y" using two_best_distinct [OF xy] by auto
  have sq: "(13.1 * A)\<^sup>2 < (53.9 * A)\<^sup>2" "0 < (A::real)\<^sup>2" using A by (simp_all add: power2_eq_square)
  have x: "x \<in> {a, b}"
    using best(1) [of a] on [of a] off [of x] sq lt6 ab by fastforce
  have y: "y \<in> {a, b}"
    using best(2) [of a] best(2) [of b] on [of a] on [of b] off [of y] sq lt6 ab x by fastforce
  have A2: "415 * 415 \<le> A\<^sup>2" unfolding power2_eq_square using A by (intro mult_mono) auto
  have squares: "(53.9 * A)\<^sup>2 = 2905.21 * A\<^sup>2" "(79.1 * A)\<^sup>2 = 6256.81 * A\<^sup>2" "(13.1 * A)\<^sup>2 = 171.61 * A\<^sup>2"
    by (simp_all add: power_mult_distrib power2_eq_square)
  have xy_set: "{x, y} = {a, b}" using x y lt6 by blast
  have strong: "2905.21 * A\<^sup>2 \<le> e ! k \<and> e ! k \<le> 6256.81 * A\<^sup>2" if "k \<in> {x, y}" for k
    using on that unfolding xy_set squares by blast
  have "e ! k * 12.6 < e ! y" if "k < 6" "k \<noteq> x" "k \<noteq> y" for k
    using off [of k] that xy_set strong [of y] A2 unfolding squares by fastforce
  then have "list_all (\<lambda>k. k \<noteq> x \<and> k \<noteq> y \<longrightarrow> \<not> e ! y \<le> e ! k * 12.6) [0, 1, 2, 3, 4, 5]"
    by (fastforce simp: list_all_iff not_le)
  then have "mf_hit ?fo e x y"
    unfolding mf_hit_def using strong [of x] strong [of y] A2 by simp
  moreover have "mf_position x y = mf_position a b" using xy_set by (auto simp: mf_position_def doubleton_eq_iff)
  ultimately show ?thesis by (simp add: mf_decide_def xy)
qed

section \<open>The tone that is there is heard\<close>

text \<open>The frequencies of a detector are apart from each other and from all images.\<close>

definition apart_test :: "int \<Rightarrow> int \<Rightarrow> bool" where
  "apart_test f g \<longleftrightarrow> (f - g) mod 120 = 0 \<and> f \<noteq> g \<and> \<bar>f - g\<bar> \<le> 3960"

lemma apart_test:
  assumes "apart_test f g"
  shows "apart f g"
proof -
  from assms obtain m where m: "f - g = 120 * m" unfolding apart_test_def by (metis mod_0_imp_dvd dvdE)
  then show ?thesis using assms by (auto simp: apart_def apart_test_def intro!: exI [of _ m])
qed

lemma frequencies_tested:
  "list_all (\<lambda>freqs. list_all (\<lambda>f. list_all (\<lambda>g. apart_test f (- g) \<and> (f = g \<or> apart_test f g)) freqs) freqs)
     [r2_mf_fwd_frequencies, r2_mf_back_frequencies]"
  by code_simp

lemma frequencies_apart:
  assumes "f \<in> set (mf_frequencies fwd)" "g \<in> set (mf_frequencies fwd)"
  shows "apart f (- g)" "f \<noteq> g \<Longrightarrow> apart f g"
proof -
  have "apart_test f (- g) \<and> (f = g \<or> apart_test f g)"
    using frequencies_tested assms by (cases fwd) (simp_all add: list_all_iff mf_frequencies_def)
  then show "apart f (- g)" "f \<noteq> g \<Longrightarrow> apart f g" using apart_test by blast+
qed

lemma frequencies_distinct: "distinct (mf_frequencies fwd)"
  by (simp add: mf_frequencies_def r2_mf_fwd_frequencies_def r2_mf_back_frequencies_def)

lemma pair_decided:
  assumes ab: "i \<noteq> j" "i < 6" "j < 6" and A: "415 \<le> A"
    and xs: "follows A (mf_frequencies fwd ! i) (mf_frequencies fwd ! j) p q xs"
  shows "mf_decide (real_flops r) (map (\<lambda>f. dft_power f xs) (mf_frequencies fwd)) = mf_position i j"
proof -
  let ?F = "mf_frequencies fwd" and ?e = "map (\<lambda>f. dft_power f xs) (mf_frequencies fwd)"
  have F: "?F ! k \<in> set ?F" if "k < 6" for k using that by simp
  have ne: "?F ! k \<noteq> ?F ! l" if "k \<noteq> l" "k < 6" "l < 6" for k l
    using that frequencies_distinct by (simp add: nth_eq_iff_index_eq)
  note ap = frequencies_apart [OF F F]
  have power: "(53.9 * A)\<^sup>2 \<le> dft_power f xs \<and> dft_power f xs \<le> (79.1 * A)\<^sup>2"
    if "53.9 * A \<le> cmod (spectrum f (map of_int xs))" "cmod (spectrum f (map of_int xs)) \<le> 79.1 * A" for f
    using that A unfolding dft_power_def by (intro conjI power_mono) auto
  have "(53.9 * A)\<^sup>2 \<le> ?e ! k \<and> ?e ! k \<le> (79.1 * A)\<^sup>2" if "k \<in> {i, j}" for k
    using that follows_on [OF xs] follows_on [OF follows_sym [OF xs]] power ap ne ab by auto
  moreover have "?e ! k \<le> (13.1 * A)\<^sup>2" if "k < 6" "k \<notin> {i, j}" for k
    using that follows_off [OF xs, of "?F ! k"] ap ne ab unfolding dft_power_def by (auto intro!: power_mono)
  ultimately show ?thesis by (rule decide_pair [OF ab A])
qed

lemma pair_heard:
  assumes "mf_rx_ready (real_flops r) fwd s" "i \<noteq> j" "i < 6" "j < 6" "415 \<le> A"
    "follows A (mf_frequencies fwd ! i) (mf_frequencies fwd ! j) p q xs"
  shows "\<exists>s'. openr2_mf_rx (real_flops r) s xs = Some (mf_position i j, s') \<and> mf_rx_ready (real_flops r) fwd s'"
  using mf_rx_block [OF assms(1), of xs] pair_decided [OF assms(2-6), of r] assms(6) by (simp add: follows_def)

text \<open>
  C35: In exact arithmetic the R2 detector is a Fourier transform: for a block of 133 samples it reports what the
  decision makes of the powers of the block at its six frequencies, and is ready for the next block.
\<close>

theorem detector_is_dft:
  assumes "mf_rx_ready (real_flops r) fwd s" "length xs = 133"
  shows "\<exists>s'. openr2_mf_rx (real_flops r) s xs =
      Some (mf_decide (real_flops r) (map (\<lambda>f. dft_power f xs) (mf_frequencies fwd)), s') \<and> mf_rx_ready (real_flops r) fwd s'"
  by (rule mf_rx_block [OF assms])

theorem detector_is_dft_witness:
  "\<exists>s'. openr2_mf_rx (real_flops round) (openr2_mf_rx_init (real_flops round) True) (map (\<lambda>i. int i * 100 - 6600) [0..<133]) =
    Some (mf_decide (real_flops round) (map (\<lambda>f. dft_power f (map (\<lambda>i. int i * 100 - 6600) [0..<133])) (mf_frequencies True)), s') \<and>
    mf_rx_ready (real_flops round) True s'"
  by (rule detector_is_dft [OF mf_rx_init_ready]) simp

end
