(* ===== verification/R2SineTrue.thy ===== *)
theory R2SineTrue
  imports Complex_Main R2Sine
begin

text \<open>
  The sine table of \<open>r2engine.c\<close> is a table of the sine: each entry turned by the angle of a step gives the
  next one up to rounding, the angle is known from the half-angle formula, and the errors add up.
\<close>

section \<open>The angle of a step\<close>

definition step_angle :: real where
  "step_angle = pi / 1024"

lemma half_cos:
  assumes "0 \<le> x" "x \<le> pi / 2" "l \<le> cos x" "cos x \<le> h"
    and "0 \<le> l'" "0 \<le> h'" "2 * (l' / 10 ^ 16)\<^sup>2 - 1 \<le> l" "h \<le> 2 * (h' / 10 ^ 16)\<^sup>2 - 1"
  shows "l' / 10 ^ 16 \<le> cos (x / 2)" "cos (x / 2) \<le> h' / 10 ^ 16"
proof -
  have c: "cos x = 2 * (cos (x / 2))\<^sup>2 - 1" using cos_double_cos [of "x / 2"] by simp
  have "0 \<le> cos (x / 2)" using assms(1,2) by (intro cos_ge_zero) auto
  moreover have "(l' / 10 ^ 16)\<^sup>2 \<le> (cos (x / 2))\<^sup>2" "(cos (x / 2))\<^sup>2 \<le> (h' / 10 ^ 16)\<^sup>2"
    using assms(3,4,7,8) c by linarith+
  ultimately show "l' / 10 ^ 16 \<le> cos (x / 2)" "cos (x / 2) \<le> h' / 10 ^ 16"
    using assms(5,6) by (auto intro: power2_le_imp_le)
qed

lemma step_cos: "9999952938095761 / 10 ^ 16 \<le> cos step_angle \<and> cos step_angle \<le> 9999952938095762 / 10 ^ 16"
proof -
  have next_cos: "l' / 10 ^ 16 \<le> cos (pi / (2 * n)) \<and> cos (pi / (2 * n)) \<le> h' / 10 ^ 16"
    if "2 \<le> n" "l / 10 ^ 16 \<le> cos (pi / n) \<and> cos (pi / n) \<le> h / 10 ^ 16" "0 \<le> l'" "0 \<le> h'"
      "2 * (l' / 10 ^ 16)\<^sup>2 - 1 \<le> l / 10 ^ 16" "h / 10 ^ 16 \<le> 2 * (h' / 10 ^ 16)\<^sup>2 - 1" for n l h l' h' :: real
    using half_cos [of "pi / n" "l / 10 ^ 16" "h / 10 ^ 16" l' h'] that by (simp add: field_simps)
  have "0 / 10 ^ 16 \<le> cos (pi / 2) \<and> cos (pi / 2) \<le> 0 / 10 ^ 16" by simp
  then have "7071067811865475 / 10 ^ 16 \<le> cos (pi / (2 * 2)) \<and> cos (pi / (2 * 2)) \<le> 7071067811865476 / 10 ^ 16"
    by (rule next_cos [rotated]) (simp_all add: power2_eq_square)
  then have "7071067811865475 / 10 ^ 16 \<le> cos (pi / 4) \<and> cos (pi / 4) \<le> 7071067811865476 / 10 ^ 16" by simp
  then have "9238795325112867 / 10 ^ 16 \<le> cos (pi / (2 * 4)) \<and> cos (pi / (2 * 4)) \<le> 9238795325112868 / 10 ^ 16"
    by (rule next_cos [rotated]) (simp_all add: power2_eq_square)
  then have "9238795325112867 / 10 ^ 16 \<le> cos (pi / 8) \<and> cos (pi / 8) \<le> 9238795325112868 / 10 ^ 16" by simp
  then have "9807852804032304 / 10 ^ 16 \<le> cos (pi / (2 * 8)) \<and> cos (pi / (2 * 8)) \<le> 9807852804032305 / 10 ^ 16"
    by (rule next_cos [rotated]) (simp_all add: power2_eq_square)
  then have "9807852804032304 / 10 ^ 16 \<le> cos (pi / 16) \<and> cos (pi / 16) \<le> 9807852804032305 / 10 ^ 16" by simp
  then have "9951847266721968 / 10 ^ 16 \<le> cos (pi / (2 * 16)) \<and> cos (pi / (2 * 16)) \<le> 9951847266721969 / 10 ^ 16"
    by (rule next_cos [rotated]) (simp_all add: power2_eq_square)
  then have "9951847266721968 / 10 ^ 16 \<le> cos (pi / 32) \<and> cos (pi / 32) \<le> 9951847266721969 / 10 ^ 16" by simp
  then have "9987954562051723 / 10 ^ 16 \<le> cos (pi / (2 * 32)) \<and> cos (pi / (2 * 32)) \<le> 9987954562051724 / 10 ^ 16"
    by (rule next_cos [rotated]) (simp_all add: power2_eq_square)
  then have "9987954562051723 / 10 ^ 16 \<le> cos (pi / 64) \<and> cos (pi / 64) \<le> 9987954562051724 / 10 ^ 16" by simp
  then have "9996988186962041 / 10 ^ 16 \<le> cos (pi / (2 * 64)) \<and> cos (pi / (2 * 64)) \<le> 9996988186962043 / 10 ^ 16"
    by (rule next_cos [rotated]) (simp_all add: power2_eq_square)
  then have "9996988186962041 / 10 ^ 16 \<le> cos (pi / 128) \<and> cos (pi / 128) \<le> 9996988186962043 / 10 ^ 16" by simp
  then have "9999247018391445 / 10 ^ 16 \<le> cos (pi / (2 * 128)) \<and> cos (pi / (2 * 128)) \<le> 9999247018391446 / 10 ^ 16"
    by (rule next_cos [rotated]) (simp_all add: power2_eq_square)
  then have "9999247018391445 / 10 ^ 16 \<le> cos (pi / 256) \<and> cos (pi / 256) \<le> 9999247018391446 / 10 ^ 16" by simp
  then have "9999811752826011 / 10 ^ 16 \<le> cos (pi / (2 * 256)) \<and> cos (pi / (2 * 256)) \<le> 9999811752826012 / 10 ^ 16"
    by (rule next_cos [rotated]) (simp_all add: power2_eq_square)
  then have "9999811752826011 / 10 ^ 16 \<le> cos (pi / 512) \<and> cos (pi / 512) \<le> 9999811752826012 / 10 ^ 16" by simp
  then have "9999952938095761 / 10 ^ 16 \<le> cos (pi / (2 * 512)) \<and> cos (pi / (2 * 512)) \<le> 9999952938095762 / 10 ^ 16"
    by (rule next_cos [rotated]) (simp_all add: power2_eq_square)
  then have "9999952938095761 / 10 ^ 16 \<le> cos (pi / 1024) \<and> cos (pi / 1024) \<le> 9999952938095762 / 10 ^ 16" by simp
  then show ?thesis by (simp add: step_angle_def)
qed

lemma step_sin: "3067956762 / 10 ^ 12 \<le> sin step_angle \<and> sin step_angle \<le> 3067956764 / 10 ^ 12"
proof -
  have s: "(sin step_angle)\<^sup>2 = 1 - (cos step_angle)\<^sup>2" by (simp add: sin_squared_eq)
  have "(9999952938095761 / 10 ^ 16)\<^sup>2 \<le> (cos step_angle)\<^sup>2" "(cos step_angle)\<^sup>2 \<le> (9999952938095762 / 10 ^ 16)\<^sup>2"
    using step_cos by (auto intro!: power_mono)
  then have "(3067956762 / 10 ^ 12)\<^sup>2 \<le> (sin step_angle)\<^sup>2" "(sin step_angle)\<^sup>2 \<le> (3067956764 / 10 ^ 12)\<^sup>2"
    unfolding s by (simp_all add: power2_eq_square)
  moreover have "0 \<le> sin step_angle" by (auto simp: step_angle_def intro!: sin_ge_zero)
  ultimately show ?thesis by (auto intro: power2_le_imp_le)
qed

section \<open>Turning an entry\<close>

text \<open>An entry with the one a quarter turn on, as a point of the plane; the point of a step in units of \<open>10 ^ -12\<close>.\<close>

definition entry :: "int \<Rightarrow> int \<Rightarrow> complex" where
  "entry x y = Complex (of_int y / 10 ^ 8) (of_int x / 10 ^ 8)"

fun rotates :: "int list \<Rightarrow> int list \<Rightarrow> bool" where
  "rotates (x # x' # xs) (y # y' # ys) \<longleftrightarrow>
     near 1000000000000 (x' * 1000000000000) (999995293810 * x + 3067956763 * y) \<and>
     near 1000000000000 (y' * 1000000000000) (999995293810 * y - 3067956763 * x) \<and> rotates (x' # xs) (y' # ys)"
| "rotates xs ys \<longleftrightarrow> length xs = length ys"

lemma rotates_append:
  "length a = length c \<Longrightarrow> rotates (a @ [hd b]) (c @ [hd d]) \<Longrightarrow> b \<noteq> [] \<Longrightarrow> d \<noteq> [] \<Longrightarrow> rotates b d \<Longrightarrow> rotates (a @ b) (c @ d)"
proof (induction a c rule: list_induct2)
  case (Cons x xs y ys)
  obtain h r where b: "b = h # r" using Cons.prems by (cases b) auto
  obtain k q where d: "d = k # q" using Cons.prems by (cases d) auto
  show ?case using Cons b d by (cases xs; cases ys) auto
qed simp

lemma cmod_components: "cmod z \<le> \<bar>Re z\<bar> + \<bar>Im z\<bar>"
  by (rule cmod_le)

lemma entry_step:
  assumes "near 1000000000000 (x' * 1000000000000) (999995293810 * x + 3067956763 * y)"
    and "near 1000000000000 (y' * 1000000000000) (999995293810 * y - 3067956763 * x)" and z: "cmod (entry x y) \<le> 2"
  shows "cmod (entry x' y' - cis step_angle * entry x y) \<le> 21 / 10 ^ 9"
proof -
  define u where "u = Complex (999995293810 / 10 ^ 12) (3067956763 / 10 ^ 12)"
  have "\<bar>of_int (x' * 1000000000000) - real_of_int (999995293810 * x + 3067956763 * y)\<bar> \<le> 1000000000000"
    "\<bar>of_int (y' * 1000000000000) - real_of_int (999995293810 * y - 3067956763 * x)\<bar> \<le> 1000000000000"
    using assms(1,2) unfolding near_def by linarith+
  then have "\<bar>Im (entry x' y' - u * entry x y)\<bar> \<le> 1 / 10 ^ 8" "\<bar>Re (entry x' y' - u * entry x y)\<bar> \<le> 1 / 10 ^ 8"
    by (simp_all add: entry_def u_def abs_le_iff field_simps)
  then have a: "cmod (entry x' y' - u * entry x y) \<le> 2 / 10 ^ 8"
    using cmod_components [of "entry x' y' - u * entry x y"] by simp
  have "\<bar>Re (u - cis step_angle)\<bar> \<le> 1 / 10 ^ 12" "\<bar>Im (u - cis step_angle)\<bar> \<le> 1 / 10 ^ 12"
    using step_cos step_sin unfolding u_def minus_complex.sel complex.sel cis.sel abs_le_iff by simp_all
  then have "cmod (u - cis step_angle) \<le> 2 / 10 ^ 12" using cmod_components [of "u - cis step_angle"] by simp
  then have "cmod ((u - cis step_angle) * entry x y) \<le> 2 / 10 ^ 12 * 2" unfolding norm_mult using z by (intro mult_mono) auto
  moreover have eq: "entry x' y' - cis step_angle * entry x y = (entry x' y' - u * entry x y) + (u - cis step_angle) * entry x y"
    by (simp add: algebra_simps)
  ultimately show ?thesis
    using a norm_triangle_ineq [of "entry x' y' - u * entry x y" "(u - cis step_angle) * entry x y"] unfolding eq by simp
qed

lemma rotates_circle:
  assumes "rotates xs ys" "cmod (entry (hd xs) (hd ys) - cis a) \<le> e" "e + real (length xs) * (21 / 10 ^ 9) \<le> 1" "k < length xs"
  shows "cmod (entry (xs ! k) (ys ! k) - cis (a + real k * step_angle)) \<le> e + real k * (21 / 10 ^ 9)"
  using assms
proof (induction xs ys arbitrary: a e k rule: rotates.induct)
  case (1 x x' xs y y' ys)
  show ?case
  proof (cases k)
    case 0
    then show ?thesis using "1.prems"(2) by simp
  next
    case (Suc j)
    let ?w = "cis step_angle"
    have e: "0 \<le> e" by (rule order_trans [OF norm_ge_zero "1.prems"(2)])
    have first: "cmod (entry x y - cis a) \<le> e" using "1.prems"(2) by simp
    have "0 \<le> real (length (x # x' # xs)) * (21 / 10 ^ 9)" by simp
    then have "e \<le> 1" using "1.prems"(3) by linarith
    then have "cmod (entry x y) \<le> 2" using first norm_triangle_sub [of "entry x y" "cis a"] by simp
    then have step: "cmod (entry x' y' - ?w * entry x y) \<le> 21 / 10 ^ 9" using "1.prems"(1) by (intro entry_step) auto
    have "cmod (?w * entry x y - ?w * cis a) \<le> e"
      using first by (simp add: right_diff_distrib [symmetric] norm_mult)
    then have "cmod (entry x' y' - cis (a + step_angle)) \<le> e + 21 / 10 ^ 9"
      using step norm_triangle_ineq [of "entry x' y' - ?w * entry x y" "?w * entry x y - ?w * cis a"]
      by (simp add: cis_mult add.commute)
    then have "cmod (entry ((x' # xs) ! j) ((y' # ys) ! j) - cis (a + step_angle + real j * step_angle)) \<le>
        e + 21 / 10 ^ 9 + real j * (21 / 10 ^ 9)"
      using "1.prems" Suc by (intro "1.IH") (simp_all add: algebra_simps add_divide_distrib)
    then show ?thesis by (simp add: Suc algebra_simps add_divide_distrib)
  qed
qed (auto simp: less_Suc_eq length_Suc_conv Suc_length_conv)

section \<open>The table\<close>

lemma parts_rotate:
  "list_all2 rotates
     [sine_table_0 @ [hd sine_table_1], sine_table_1 @ [hd sine_table_2], sine_table_2 @ [hd sine_table_3],
      sine_table_3 @ [hd sine_table_4], sine_table_4 @ [hd sine_table_5], sine_table_5 @ [hd sine_table_6],
      sine_table_6 @ [hd sine_table_7], sine_table_7 @ [hd sine_table_8]]
     [sine_table_4 @ [hd sine_table_5], sine_table_5 @ [hd sine_table_6], sine_table_6 @ [hd sine_table_7],
      sine_table_7 @ [hd sine_table_8], sine_table_8 @ [hd sine_table_9], sine_table_9 @ [hd sine_table_10],
      sine_table_10 @ [hd sine_table_11], sine_table_11 @ [hd sine_table_12]]"
  by code_simp

lemma half_rotates:
  obtains xs ys r q where "sine_table = xs @ r" "turned 512 sine_table = ys @ q" "length xs = 1025" "length ys = 1025"
    "rotates xs ys" "hd xs = 0" "hd ys = 100000000"
proof
  let ?x = "sine_table_0 @ sine_table_1 @ sine_table_2 @ sine_table_3 @ sine_table_4 @ sine_table_5 @ sine_table_6 @ sine_table_7 @ [hd sine_table_8]"
  let ?y = "sine_table_4 @ sine_table_5 @ sine_table_6 @ sine_table_7 @ sine_table_8 @ sine_table_9 @ sine_table_10 @ sine_table_11 @ [hd sine_table_12]"
  have ends: "sine_table_8 = hd sine_table_8 # tl sine_table_8" "sine_table_12 = hd sine_table_12 # tl sine_table_12" by simp_all
  show "sine_table = ?x @ (tl sine_table_8 @ sine_table_9 @ sine_table_10 @ sine_table_11 @ sine_table_12 @ sine_table_13 @ sine_table_14 @ sine_table_15)"
    unfolding sine_table_def by (subst ends(1)) simp
  show "turned 512 sine_table = ?y @ (tl sine_table_12 @ sine_table_13 @ sine_table_14 @ sine_table_15 @ sine_table_0 @ sine_table_1 @ sine_table_2 @ sine_table_3)"
    unfolding turned_table by (subst ends(2)) simp
  show "length ?x = 1025" "length ?y = 1025" by simp_all
  show "rotates ?x ?y" using parts_rotate by (simp add: rotates_append)
  show "hd ?x = 0" "hd ?y = 100000000" by (simp_all add: sine_table_defs)
qed

lemma table_first_half:
  assumes "i < 1025"
  shows "\<bar>of_int (sine_table ! i) / 10 ^ 8 - sin (real i * step_angle)\<bar> \<le> 3 / 10 ^ 5"
proof -
  obtain xs ys r q where t: "sine_table = xs @ r" "length xs = 1025" "length ys = 1025" "rotates xs ys" "hd xs = 0" "hd ys = 100000000"
    by (rule half_rotates)
  have "entry (hd xs) (hd ys) = cis 0" by (simp add: t entry_def complex_eq_iff)
  then have "cmod (entry (xs ! i) (ys ! i) - cis (0 + real i * step_angle)) \<le> 0 + real i * (21 / 10 ^ 9)"
    using t assms by (intro rotates_circle) auto
  then have "\<bar>Im (entry (xs ! i) (ys ! i) - cis (real i * step_angle))\<bar> \<le> real i * (21 / 10 ^ 9)"
    using abs_Im_le_cmod [of "entry (xs ! i) (ys ! i) - cis (real i * step_angle)"] by simp
  moreover have "real i * (21 / 10 ^ 9) \<le> 3 / 10 ^ 5" using assms by simp
  moreover have "sine_table ! i = xs ! i" unfolding t(1) using assms t(2) by (simp add: nth_append)
  ultimately show ?thesis by (simp add: entry_def del: times_divide_eq_right)
qed

lemma sine_table_close:
  assumes "i < 2048"
  shows "\<bar>of_int (sine_table ! i) / 10 ^ 8 - sin (2 * pi * real i / 2048)\<bar> \<le> 3 / 10 ^ 5"
proof -
  have angle: "2 * pi * real i / 2048 = real i * step_angle" by (simp add: step_angle_def)
  show ?thesis
  proof (cases "i < 1024")
    case True
    then show ?thesis unfolding angle by (intro table_first_half) simp
  next
    case False
    let ?j = "i - 1024"
    have "turned 1024 sine_table = map uminus sine_table"
      unfolding turned_table unfolding sine_table_def by (simp add: part_negated)
    then have "turned 1024 sine_table ! ?j = - (sine_table ! ?j)" using assms by (simp add: sine_length)
    moreover have "?j < 1024" "1024 + ?j = i" using assms False by simp_all
    then have "turned 1024 sine_table ! ?j = sine_table ! i" by (simp add: turned_def nth_append sine_length)
    ultimately have "sine_table ! i = - (sine_table ! ?j)" by simp
    moreover have "real i * step_angle = real ?j * step_angle + pi"
      using False by (simp add: step_angle_def of_nat_diff field_simps)
    ultimately show ?thesis
      using table_first_half [of ?j] assms unfolding angle by (simp add: abs_minus_commute)
  qed
qed

text \<open>
  C32: The sine table is a table of the sine: entry \<open>i\<close> is the sine of \<open>i\<close> steps of a 2048th of a turn, to
  within 0.00003.
\<close>

theorem sine_table_true:
  assumes "i < length sine_table"
  shows "\<bar>of_int (sine_table ! i) / 10 ^ 8 - sin (2 * pi * real i / 2048)\<bar> \<le> 3 / 10 ^ 5"
  using sine_table_close assms by (simp add: sine_length)

lemma sine_table_true_witness: "\<bar>of_int (sine_table ! 512) / 10 ^ 8 - (1 :: real)\<bar> \<le> 3 / 10 ^ 5"
  using sine_table_true [of 512] by (simp add: sine_length)

end
