(* ===== verification/R2Convert.thy ===== *)
theory R2Convert
  imports Complex_Main R2Prelude
begin

text \<open>
  \<open>fast_convert.h\<close>: conversion of floating point numbers to integers, which every compiler and processor
  does its own way.  A number is the real it stands for.  The instructions of the processors are a
  parameter; the preprocessor's choice between the branches and what each function makes of the
  instructions are the code's.
\<close>

section \<open>Instructions\<close>

text \<open>
  \<open>fistpl\<close> and \<open>fistp\<close> of the x87 store a rounded 32 bit integer, \<open>frndint\<close> rounds in the register, \<open>fctiw\<close> is the
  conversion of the PowerPC to 32 bits, which leaves the integer in the second word that \<open>stfd\<close> stores, \<open>cvtsd\<close>
  and \<open>cvtss\<close> are the conversions of SSE.  All round the way the processor is set to, as long as the result
  has 32 bits; else each stores what it will.  \<open>cast_out\<close> is what a cast to \<open>long int\<close> gives where C does not
  define it.
\<close>

record fpu =
  fistp :: "real \<Rightarrow> int"
  frndint :: "real \<Rightarrow> real"
  fctiw :: "real \<Rightarrow> int"
  cvtsd :: "real \<Rightarrow> int"
  cvtss :: "real \<Rightarrow> int"
  cast_out :: "real \<Rightarrow> int"

text \<open>
  The cast \<open>(long int) x\<close> cuts the fraction off.  It is defined in C when the result fits a \<open>long\<close>, which has at
  least 32 bits; no more is taken for granted.
\<close>

definition cast_long :: "fpu \<Rightarrow> real \<Rightarrow> int" where
  "cast_long f x = (if \<bar>x\<bar> < 2147483648 then (if 0 \<le> x then \<lfloor>x\<rfloor> else \<lceil>x\<rceil>) else cast_out f x)"

section \<open>The branches\<close>

text \<open>In each branch the function for \<open>double\<close> and that for \<open>float\<close> have the same body.\<close>

definition lfastrint_cygwin :: "fpu \<Rightarrow> real \<Rightarrow> int" where
  "lfastrint_cygwin f x = fistp f x"

definition lrint_cygwin :: "fpu \<Rightarrow> real \<Rightarrow> int" where
  "lrint_cygwin f x = fistp f x"

definition lfastrint_i386 :: "fpu \<Rightarrow> real \<Rightarrow> int" where
  "lfastrint_i386 f x = fistp f x"

definition lfastrint_x86_64 :: "fpu \<Rightarrow> real \<Rightarrow> int" where
  "lfastrint_x86_64 f x = cast_long f x"

definition lfastrint_ppc :: "fpu \<Rightarrow> real \<Rightarrow> int" where
  "lfastrint_ppc f x = (let res = [0, fctiw f x] in res ! 1)"

definition lfastrint_fallback :: "fpu \<Rightarrow> real \<Rightarrow> int" where
  "lfastrint_fallback f x = cast_long f x"

definition lrint_m_ix86 :: "fpu \<Rightarrow> real \<Rightarrow> int" where
  "lrint_m_ix86 f x = fistp f x"

definition rint_m_ix86 :: "fpu \<Rightarrow> real \<Rightarrow> real" where
  "rint_m_ix86 f x = frndint f x"

definition lfastrint_m_ix86 :: "fpu \<Rightarrow> real \<Rightarrow> int" where
  "lfastrint_m_ix86 f x = fistp f x"

definition lrint_m_x64 :: "fpu \<Rightarrow> real \<Rightarrow> int" where
  "lrint_m_x64 f x = cvtsd f x"

definition lrintf_m_x64 :: "fpu \<Rightarrow> real \<Rightarrow> int" where
  "lrintf_m_x64 f x = cvtss f x"

definition lfastrint_m_x64 :: "fpu \<Rightarrow> real \<Rightarrow> int" where
  "lfastrint_m_x64 f x = cast_long f x"

definition lfastrint_macintosh :: "fpu \<Rightarrow> real \<Rightarrow> int" where
  "lfastrint_macintosh f x = (let res = [0, fctiw f x] in res ! 1)"

definition lfastrint_apple :: "fpu \<Rightarrow> real \<Rightarrow> int" where
  "lfastrint_apple f x = (let res = [0, fctiw f x] in res ! 1)"

definition lrint_cast :: "fpu \<Rightarrow> real \<Rightarrow> int" where
  "lrint_cast f x = cast_long f x"

definition lfastrint_cast :: "fpu \<Rightarrow> real \<Rightarrow> int" where
  "lfastrint_cast f x = cast_long f x"

section \<open>The choice\<close>

text \<open>The macros of the compilers that are tested.\<close>

datatype compiler_macro = CYGWIN | GNUC | SUNPRO_C_0590 | I386 | X86_64 | PPC | POWERPC | M_IX86 | M_X64 | MWERKS | MACINTOSH | MACH | APPLE

definition lfastrintf :: "compiler_macro set \<Rightarrow> fpu \<Rightarrow> real \<Rightarrow> int" where
  "lfastrintf defined f x =
     (if CYGWIN \<in> defined then lfastrint_cygwin f x
      else if GNUC \<in> defined \<or> SUNPRO_C_0590 \<in> defined then
        (if I386 \<in> defined then lfastrint_i386 f x
         else if X86_64 \<in> defined then lfastrint_x86_64 f x
         else if PPC \<in> defined \<or> POWERPC \<in> defined then lfastrint_ppc f x
         else lfastrint_fallback f x)
      else if M_IX86 \<in> defined then lfastrint_m_ix86 f x
      else if M_X64 \<in> defined then lfastrint_m_x64 f x
      else if MWERKS \<in> defined \<and> MACINTOSH \<in> defined then lfastrint_macintosh f x
      else if MACH \<in> defined \<and> APPLE \<in> defined \<and> (PPC \<in> defined \<or> POWERPC \<in> defined) then lfastrint_apple f x
      else lfastrint_cast f x)"

section \<open>How far the platforms are apart\<close>

text \<open>The numbers that round to 32 bits whichever way.\<close>

definition in_range :: "real \<Rightarrow> bool" where
  "in_range x \<longleftrightarrow> \<bar>x\<bar> \<le> 2147483647"

definition rounds :: "(real \<Rightarrow> int) \<Rightarrow> bool" where
  "rounds rint \<longleftrightarrow> (\<forall>x. in_range x \<longrightarrow> \<bar>of_int (rint x) - x\<bar> \<le> 1)"

text \<open>An instruction of a processor that is set to round to the nearest integer, as it is by default.\<close>

definition to_nearest :: "(real \<Rightarrow> int) \<Rightarrow> bool" where
  "to_nearest r \<longleftrightarrow> (\<forall>x. in_range x \<longrightarrow> \<bar>of_int (r x) - x\<bar> \<le> 1 / 2)"

lemmas convert_defs = lfastrintf_def lfastrint_cygwin_def lfastrint_i386_def lfastrint_x86_64_def lfastrint_ppc_def
  lfastrint_fallback_def lfastrint_m_ix86_def lfastrint_m_x64_def lfastrint_macintosh_def lfastrint_apple_def lfastrint_cast_def

lemma cast_long_close: "in_range x \<Longrightarrow> \<bar>of_int (cast_long f x) - x\<bar> < 1"
  unfolding cast_long_def in_range_def by (cases "0 \<le> x"; simp; linarith)

lemma lfastrintf_cases: "lfastrintf m f x \<in> {fistp f x, fctiw f x, cast_long f x}"
  by (simp add: convert_defs)

lemma nearest_close: "to_nearest r \<Longrightarrow> in_range x \<Longrightarrow> \<bar>of_int (r x) - x\<bar> \<le> 1 / 2"
  by (simp add: to_nearest_def)

lemma lfastrintf_rounds:
  assumes "to_nearest (fistp f)" "to_nearest (fctiw f)"
  shows "rounds (lfastrintf m f)"
  unfolding rounds_def
proof (intro allI impI)
  fix x
  assume "in_range x"
  then show "\<bar>of_int (lfastrintf m f x) - x\<bar> \<le> 1"
    using lfastrintf_cases [of m f x] nearest_close [OF assms(1), of x] nearest_close [OF assms(2), of x] cast_long_close [of x f]
    by auto
qed

text \<open>
  C38: On every platform whose processor rounds to the nearest integer, for numbers of at most 2^31 - 1 either way:
  the conversion is off by at most 1 and keeps integers, and two platforms differ by at most 1.  They do
  differ: three quarters become 1 with the instruction of the x87 and 0 with the cast that x86_64 uses.
\<close>

theorem platforms_round:
  assumes "to_nearest (fistp f)" "to_nearest (fctiw f)" "\<bar>x\<bar> \<le> 2147483647" "\<bar>i\<bar> \<le> 2147483647"
  shows "\<bar>of_int (lfastrintf m f x) - x\<bar> \<le> 1 \<and> lfastrintf m f (of_int i) = i \<and>
    \<bar>lfastrintf m f x - lfastrintf m' f x\<bar> \<le> 1 \<and>
    lfastrintf {GNUC, I386} f (3 / 4) = 1 \<and> lfastrintf {GNUC, X86_64} f (3 / 4) = 0"
proof -
  have range: "in_range x" "in_range (of_int i)" "in_range (3 / 4)"
    using assms(3,4) by (simp_all add: in_range_def)
  note near = nearest_close [OF assms(1)] nearest_close [OF assms(2)]
  have close: "\<bar>of_int (lfastrintf m f x) - x\<bar> < 1 \<or> \<bar>of_int (lfastrintf m f x) - x\<bar> \<le> 1 / 2" if "in_range x" for m x
    using lfastrintf_cases [of m f x] near [OF that] cast_long_close [OF that, of f] by auto
  have "\<bar>of_int (lfastrintf m f x) - x\<bar> \<le> 1" using close [OF range(1), of m] by auto
  moreover have "lfastrintf m f (of_int i) = i" using close [OF range(2), of m] by linarith
  moreover have "\<bar>lfastrintf m f x - lfastrintf m' f x\<bar> \<le> 1" using close [OF range(1), of m] close [OF range(1), of m'] by linarith
  moreover have "fistp f (3 / 4) = 1" using near(1) [OF range(3)] by linarith
  then have "lfastrintf {GNUC, I386} f (3 / 4) = 1" by (simp add: convert_defs)
  moreover have "lfastrintf {GNUC, X86_64} f (3 / 4) = 0" by (simp add: convert_defs cast_long_def)
  ultimately show ?thesis by blast
qed

text \<open>A processor that stores the least integer for everything out of range, as the x87 does.\<close>

definition round32 :: "real \<Rightarrow> int" where
  "round32 x = (if \<bar>x\<bar> \<le> 2147483647 then round x else -2147483648)"

definition nearest_fpu :: fpu where
  "nearest_fpu = \<lparr>fistp = round32, frndint = (\<lambda>x. of_int (round x)), fctiw = round32, cvtsd = round32, cvtss = round32,
     cast_out = (\<lambda>x. -2147483648)\<rparr>"

lemma nearest_fpu: "to_nearest (fistp nearest_fpu)" "to_nearest (fctiw nearest_fpu)"
  using of_int_round_abs_le unfolding to_nearest_def nearest_fpu_def fpu.simps round32_def in_range_def by auto

lemma platforms_round_witness:
  "\<bar>lfastrintf {GNUC, I386} nearest_fpu (5 / 3) - lfastrintf {M_X64} nearest_fpu (5 / 3)\<bar> \<le> 1 \<and>
   lfastrintf {MACH, APPLE, PPC} nearest_fpu (-2147483647) = -2147483647"
  using platforms_round [OF nearest_fpu, of "5 / 3" 0 _ "{M_X64}"] platforms_round [OF nearest_fpu, of 0 "-2147483647"] by force

end
