(* ===== verification/R2Hear.thy ===== *)
theory R2Hear
  imports R2Goertzel R2SineTrue R2Codec R2Convert
begin

text \<open>
  From the generator of R2 tones to the detector, over a line that codes its samples in A-law: what is sent is
  heard.  The arithmetic is that of the real numbers (\<open>real_flops\<close>), rounding of samples to integers,
  the steps of the sine table, the phase accumulator and the codec are those of the code.
\<close>

section \<open>The samples of a pair of tones\<close>

definition table_sine :: "32 word \<Rightarrow> real" where
  "table_sine p = of_int (sine_table ! unat (drop_bit 21 p)) / 10 ^ 8"

definition pair_sample :: "(real \<Rightarrow> int) \<Rightarrow> real \<Rightarrow> 32 word \<Rightarrow> 32 word \<Rightarrow> int" where
  "pair_sample rint g p q = signed_take_bit 15 (rint (table_sine p * g + table_sine q * g))"

definition sends_pair :: "real \<Rightarrow> int \<Rightarrow> int \<Rightarrow> 32 word \<Rightarrow> 32 word \<Rightarrow> real tone_gen_state \<Rightarrow> bool" where
  "sends_pair g r1 r2 p q s \<longleftrightarrow>
     tg_tone s = [\<lparr>phase_rate = r1, gain = g\<rparr>, \<lparr>phase_rate = r2, gain = g\<rparr>, \<lparr>phase_rate = 0, gain = 0\<rparr>, \<lparr>phase_rate = 0, gain = 0\<rparr>] \<and>
     tg_phase s = [p, q, 0, 0] \<and> tg_duration s = [8, 0, 0, 0] \<and> tg_repeat s \<and>
     current_section s = 0 \<and> 0 \<le> current_position s \<and> current_position s < 8"

lemma sends_pair_next:
  assumes "sends_pair g r1 r2 p q s" "0 < r1" "0 < r2"
  shows "fst (tone_next (real_flops rint) s) = pair_sample rint g p q \<and>
    sends_pair g r1 r2 (p + of_int r1) (q + of_int r2) (snd (tone_next (real_flops rint) s))"
  using assms
  by (auto simp: sends_pair_def tone_next_def section_sample_def dds_modf_def to_int16_def next_section_def Let_def
      pair_sample_def table_sine_def)

lemma sends_pair_ref:
  assumes "sends_pair g r1 r2 p q s" "0 < r1" "0 < r2"
  shows "fst (tone_ref (real_flops rint) n s) =
      map (\<lambda>k. pair_sample rint g (p + of_int (int k * r1)) (q + of_int (int k * r2))) [0..<n] \<and>
    sends_pair g r1 r2 (p + of_int (int n * r1)) (q + of_int (int n * r2)) (snd (tone_ref (real_flops rint) n s))"
  using assms(1)
proof (induction n arbitrary: s p q)
  case (Suc n)
  let ?s = "snd (tone_next (real_flops rint) s)"
  note nxt = sends_pair_next [OF Suc.prems assms(2,3), of rint]
  note ih = Suc.IH [of "p + of_int r1" "q + of_int r2" ?s]
  have sec: "\<not> current_section s < 0" using Suc.prems by (simp add: sends_pair_def)
  have shift: "map (\<lambda>k. pair_sample rint g (p + of_int (int k * r1)) (q + of_int (int k * r2))) [0..<Suc n] =
      pair_sample rint g p q # map (\<lambda>k. pair_sample rint g (p + of_int r1 + of_int (int k * r1)) (q + of_int r2 + of_int (int k * r2))) [0..<n]"
    by (simp add: upt_conv_Cons map_Suc_upt [symmetric] comp_def algebra_simps del: upt_Suc)
  show ?case unfolding shift using nxt ih sec by (simp add: case_prod_beta Let_def algebra_simps)
qed simp

section \<open>They follow the waves\<close>

lemma sin_lipschitz: "\<bar>sin x - sin y\<bar> \<le> \<bar>x - y :: real\<bar>"
proof -
  have "\<bar>sin x - sin y\<bar> = 2 * \<bar>sin ((x - y) / 2)\<bar> * \<bar>cos ((x + y) / 2)\<bar>"
    by (simp add: sin_diff_sin abs_mult)
  also have "\<dots> \<le> 2 * \<bar>(x - y) / 2\<bar> * 1"
    by (intro mult_mono) (simp_all add: abs_sin_x_le_abs_x del: abs_divide)
  finally show ?thesis by simp
qed

lemma sin_whole_turns: "sin (x - 2 * pi * of_int m) = sin x"
  by (simp add: sin_diff)

lemma sin_mod: "sin (2 * pi * of_int (x mod 2 ^ 32) / 2 ^ 32) = sin (2 * pi * of_int x / 2 ^ 32)"
proof -
  have "real_of_int (x mod 2 ^ 32) = of_int x - 2 ^ 32 * of_int (x div 2 ^ 32)"
    by (simp add: minus_mult_div_eq_mod [symmetric])
  then have "2 * pi * of_int (x mod 2 ^ 32) / 2 ^ 32 = 2 * pi * of_int x / 2 ^ 32 - 2 * pi * of_int (x div 2 ^ 32)"
    by (simp only:) (simp add: field_simps)
  then show ?thesis by (simp only: sin_whole_turns)
qed

lemma word_phase:
  "sin (2 * pi * of_int (uint (p + of_int m)) / 2 ^ 32) = sin (2 * pi * of_int (uint p + m) / 2 ^ 32)" for p :: "32 word"
proof -
  have "p + of_int m = word_of_int (uint p + m)" by simp
  then have "uint (p + of_int m) = (uint p + m) mod 2 ^ 32" by (simp only: uint_word_of_int_eq take_bit_eq_mod) simp
  then show ?thesis by (simp only: sin_mod)
qed

text \<open>The index of an entry keeps the upper 11 bits of the phase.\<close>

lemma index_close:
  assumes "0 \<le> u" "u < 2 ^ 32"
  shows "nat (u div 2 ^ 21) < 2048"
    "\<bar>sin (2 * pi * real (nat (u div 2 ^ 21)) / 2048) - sin (2 * pi * of_int u / 2 ^ 32)\<bar> \<le> 391 / 10 ^ 5"
proof -
  have i: "0 \<le> u div 2097152" "u div 2097152 < 2048" using assms by simp_all
  then show "nat (u div 2 ^ 21) < 2048" by simp
  have "\<bar>u - u div 2097152 * 2097152\<bar> \<le> 2097152" by (simp add: minus_div_mult_eq_mod)
  then have r: "\<bar>real_of_int u - of_int (u div 2097152) * 2097152\<bar> \<le> 2097152" by linarith
  have "\<bar>sin (2 * pi * of_int (u div 2097152) / 2048) - sin (2 * pi * of_int u / 2 ^ 32)\<bar> \<le>
      \<bar>2 * pi * of_int (u div 2097152) / 2048 - 2 * pi * of_int u / 2 ^ 32\<bar>" by (rule sin_lipschitz)
  also have "2 * pi * of_int (u div 2097152) / 2048 - 2 * pi * of_int u / 2 ^ 32 =
      - (2 * pi / 2 ^ 32) * (real_of_int u - of_int (u div 2097152) * 2097152)" by (simp add: field_simps)
  also have "\<bar>\<dots>\<bar> = 2 * pi / 2 ^ 32 * \<bar>real_of_int u - of_int (u div 2097152) * 2097152\<bar>" by (simp only: abs_mult) simp
  also have "\<dots> \<le> 2 * pi / 2 ^ 32 * 2097152" using r by (intro mult_left_mono) auto
  also have "\<dots> \<le> 391 / 10 ^ 5" using pi_less_4 by simp
  finally show "\<bar>sin (2 * pi * real (nat (u div 2 ^ 21)) / 2048) - sin (2 * pi * of_int u / 2 ^ 32)\<bar> \<le> 391 / 10 ^ 5"
    using i by simp
qed

lemma table_sine_close: "\<bar>table_sine p - sin (2 * pi * of_int (uint p) / 2 ^ 32)\<bar> \<le> 394 / 10 ^ 5"
proof -
  have i: "unat (drop_bit 21 p) = nat (uint p div 2 ^ 21)"
    by (simp add: unat_eq_nat_uint drop_bit_eq_div uint_div)
  have u: "0 \<le> uint p" "uint p < 2 ^ 32" using uint_lt2p [of p] by simp_all
  show ?thesis
    using sine_table_close [OF index_close(1) [OF u]] index_close(2) [OF u] unfolding table_sine_def i by linarith
qed

text \<open>The phase a generator is in, and how little the phase rate of a frequency is off over a block.\<close>

definition phase_of :: "32 word \<Rightarrow> real" where
  "phase_of p = 2 * pi * of_int (uint p) / 2 ^ 32"

lemma near_chain: "\<bar>a - b\<bar> \<le> 394 / 10 ^ 5 \<Longrightarrow> \<bar>b - c\<bar> \<le> 1 / 10 ^ 6 \<Longrightarrow> \<bar>a - c\<bar> \<le> 4 / 1000" for a b c :: real
  using abs_triangle_ineq [of "a - b" "b - c"] by simp

lemma table_wave:
  assumes "\<bar>of_int r - of_int f * 2 ^ 32 / 8000\<bar> \<le> (1 :: real)" "k < 133"
  shows "\<bar>table_sine (p + of_int (int k * r)) - wave f (phase_of p) k\<bar> \<le> 4 / 1000"
proof -
  let ?x = "2 * pi * of_int (uint p + int k * r) / 2 ^ 32"
  have "\<bar>sin ?x - wave f (phase_of p) k\<bar> \<le> \<bar>?x - (phase_of p + turn f * real k)\<bar>"
    unfolding wave_def by (rule sin_lipschitz)
  also have "\<dots> = 2 * pi * real k / 2 ^ 32 * \<bar>of_int r - of_int f * 2 ^ 32 / 8000\<bar>"
  proof -
    have "?x - (phase_of p + turn f * real k) = 2 * pi * real k / 2 ^ 32 * (of_int r - of_int f * 2 ^ 32 / 8000)"
      by (simp add: phase_of_def turn_def field_simps)
    then show ?thesis by (simp only: abs_mult) simp
  qed
  also have "\<dots> \<le> 2 * pi * real k / 2 ^ 32 * 1" using assms(1) by (intro mult_left_mono) auto
  also have "\<dots> \<le> 2 * (4 * 133) / 2 ^ 32"
  proof -
    have "pi * real k \<le> 4 * 133" using assms(2) pi_less_4 by (intro mult_mono) auto
    then show ?thesis by simp
  qed
  finally have "\<bar>sin ?x - wave f (phase_of p) k\<bar> \<le> 1 / 10 ^ 6" by simp
  then show ?thesis
    using near_chain [OF table_sine_close [of "p + of_int (int k * r)", unfolded word_phase]] by simp
qed

lemma rate_close:
  assumes "0 < f"
  shows "\<bar>of_int (dds_phase_ratef (real_flops rint) (of_int f)) - of_int f * 2 ^ 32 / 8000\<bar> \<le> (1 :: real)"
    "0 < dds_phase_ratef (real_flops rint) (of_int f)"
proof -
  have e: "dds_phase_ratef (real_flops rint) (of_int f) = \<lfloor>real_of_int f * 2 ^ 32 / 8000\<rfloor>"
    using assms by (simp add: dds_phase_ratef_def mult.assoc)
  show "\<bar>of_int (dds_phase_ratef (real_flops rint) (of_int f)) - of_int f * 2 ^ 32 / 8000\<bar> \<le> (1 :: real)"
    unfolding e by linarith
  have "1 \<le> real_of_int f * 2 ^ 32 / 8000" using assms by simp
  then show "0 < dds_phase_ratef (real_flops rint) (of_int f)" unfolding e by linarith
qed

section \<open>Through the codec\<close>

definition over_alaw :: "int \<Rightarrow> int" where
  "over_alaw x = openr2_alaw_to_linear (openr2_linear_to_alaw x)"

lemma small_int16: "\<bar>x\<bar> < 2 ^ 15 \<Longrightarrow> signed_take_bit 15 x = (x :: int)"
  by (rule signed_take_bit_int_eq_self) auto

lemma alaw_close:
  assumes "\<bar>x\<bar> < 2 ^ 15"
  shows "\<bar>of_int (over_alaw x) - real_of_int x\<bar> \<le> \<bar>of_int x\<bar> / 32 + 9"
proof -
  have "- (2 ^ 15) \<le> x" "x < 2 ^ 15" using assms by auto
  then have "\<bar>over_alaw x - x\<bar> \<le> max 8 (\<bar>x\<bar> div 32) + 1"
    using alaw_moves [of x] unfolding over_alaw_def by (cases "x < 0") simp_all
  moreover have "real_of_int (\<bar>x\<bar> div 32) \<le> \<bar>of_int x\<bar> / 32" by linarith
  ultimately show ?thesis by linarith
qed

text \<open>A sample of the pair, coded and decoded, is near the waves; \<open>g\<close> is the amplitude of each.\<close>

lemma sample_close:
  assumes r: "rounds rint" and g: "2000 \<le> g" "g \<le> 16000"
    and f: "\<bar>of_int r1 - of_int f1 * 2 ^ 32 / 8000\<bar> \<le> (1 :: real)" "\<bar>of_int r2 - of_int f2 * 2 ^ 32 / 8000\<bar> \<le> (1 :: real)"
    and k: "k < 133"
  shows "\<bar>of_int (over_alaw (pair_sample rint g (p + of_int (int k * r1)) (q + of_int (int k * r2)))) -
    g * (wave f1 (phase_of p) k + wave f2 (phase_of q) k)\<bar> \<le> g / 12"
proof -
  let ?p = "p + of_int (int k * r1)" and ?q = "q + of_int (int k * r2)"
  let ?w = "g * (wave f1 (phase_of p) k + wave f2 (phase_of q) k)"
  let ?y = "table_sine ?p * g + table_sine ?q * g"
  have w: "\<bar>?w\<bar> \<le> 2 * g"
  proof -
    have "\<bar>wave f1 (phase_of p) k + wave f2 (phase_of q) k\<bar> \<le> 1 + 1"
      unfolding wave_def by (intro order_trans [OF abs_triangle_ineq] add_mono abs_sin_le_one)
    then have "g * \<bar>wave f1 (phase_of p) k + wave f2 (phase_of q) k\<bar> \<le> g * 2" using g by (intro mult_left_mono) auto
    then show ?thesis using g by (simp add: abs_mult mult.commute)
  qed
  have y: "\<bar>?y - ?w\<bar> \<le> g * (8 / 1000)"
  proof -
    have "?y - ?w = g * ((table_sine ?p - wave f1 (phase_of p) k) + (table_sine ?q - wave f2 (phase_of q) k))"
      by (simp add: algebra_simps)
    moreover have "\<bar>(table_sine ?p - wave f1 (phase_of p) k) + (table_sine ?q - wave f2 (phase_of q) k)\<bar> \<le> 8 / 1000"
      using table_wave [OF f(1) k, of p] table_wave [OF f(2) k, of q] by linarith
    ultimately show ?thesis using g by (simp only: abs_mult) (intro mult_mono; simp)
  qed
  have "in_range ?y" unfolding in_range_def using w y g by linarith
  then have "\<bar>of_int (rint ?y) - ?y\<bar> \<le> 1" using r unfolding rounds_def by blast
  with y have near: "\<bar>of_int (rint ?y) - ?w\<bar> \<le> g * (8 / 1000) + 1" by linarith
  then have size: "\<bar>real_of_int (rint ?y)\<bar> \<le> 2 * g + g * (8 / 1000) + 1" using w by linarith
  then have "\<bar>real_of_int (rint ?y)\<bar> < 32768" using g by simp
  then have "\<bar>rint ?y\<bar> < 32768" by linarith
  then have int16: "\<bar>rint ?y\<bar> < 2 ^ 15" by simp
  then have s: "pair_sample rint g ?p ?q = rint ?y" unfolding pair_sample_def by (rule small_int16)
  have "\<bar>of_int (over_alaw (rint ?y)) - real_of_int (rint ?y)\<bar> \<le> \<bar>of_int (rint ?y)\<bar> / 32 + 9" by (rule alaw_close [OF int16])
  then show ?thesis unfolding s using near size g by linarith
qed

section \<open>What is sent is heard\<close>

text \<open>The tables: tone \<open>i\<close> is made of two frequencies of the detector, at places whose code is that of the tone.\<close>

definition tone_agrees :: "int list \<Rightarrow> mf_digit_tones_t \<Rightarrow> int \<Rightarrow> bool" where
  "tone_agrees freqs t code \<longleftrightarrow>
     (case (strchr freqs (dt_f1 t), strchr freqs (dt_f2 t)) of
        (Some a, Some b) \<Rightarrow> a \<noteq> b \<and> mf_position a b = code
      | _ \<Rightarrow> False) \<and> 0 < dt_f1 t \<and> 0 < dt_f2 t \<and>
     dt_level1 t = -11 \<and> dt_level2 t = -11 \<and> dt_on_time t = 1 \<and> dt_off_time t = 0"

lemma tables_agree:
  "list_all (\<lambda>(tones, freqs). length (takeWhile (\<lambda>t. dt_on_time t \<noteq> 0) tones) = 15 \<and>
     list_all (\<lambda>i. tone_agrees freqs (tones ! i) (r2_mf_tone_codes ! i)) [0..<15])
   [(r2_mf_fwd_tones, r2_mf_fwd_frequencies), (r2_mf_back_tones, r2_mf_back_frequencies)]"
  by code_simp

definition mf_tones :: "bool \<Rightarrow> mf_digit_tones_t list" where
  "mf_tones fwd = (if fwd then r2_mf_fwd_tones else r2_mf_back_tones)"

lemma tone_pair:
  assumes "i < 15"
  obtains a b t where "a \<noteq> b" "a < 6" "b < 6" "mf_position a b = r2_mf_tone_codes ! i"
    "takeWhile (\<lambda>t. dt_on_time t \<noteq> 0) (mf_tones fwd) ! i = t" "length (takeWhile (\<lambda>t. dt_on_time t \<noteq> 0) (mf_tones fwd)) = 15"
    "dt_f1 t = mf_frequencies fwd ! a" "dt_f2 t = mf_frequencies fwd ! b" "0 < dt_f1 t" "0 < dt_f2 t"
    "dt_level1 t = -11" "dt_level2 t = -11" "dt_on_time t = 1" "dt_off_time t = 0"
proof -
  let ?t = "mf_tones fwd ! i"
  have tab: "length (takeWhile (\<lambda>t. dt_on_time t \<noteq> 0) (mf_tones fwd)) = 15"
    "tone_agrees (mf_frequencies fwd) ?t (r2_mf_tone_codes ! i)"
    using tables_agree assms by (cases fwd; simp add: mf_tones_def mf_frequencies_def list_all_iff)+
  then obtain a b where ab: "strchr (mf_frequencies fwd) (dt_f1 ?t) = Some a" "strchr (mf_frequencies fwd) (dt_f2 ?t) = Some b"
    and pos: "a \<noteq> b" "mf_position a b = r2_mf_tone_codes ! i"
    by (auto simp: tone_agrees_def split: option.splits)
  have "takeWhile (\<lambda>t. dt_on_time t \<noteq> 0) (mf_tones fwd) ! i = ?t" using tab assms by (simp add: takeWhile_nth)
  then show thesis
    using tab pos strchr_bound [OF ab(1)] strchr_bound [OF ab(2)] by (intro that [of a b ?t]) (auto simp: tone_agrees_def)
qed

text \<open>The amplitude of a tone at -11 dBm0.\<close>

definition tone_level :: real where
  "tone_level = dds_scaling_dbm0f (real_flops (\<lambda>x. \<lfloor>x\<rfloor>)) (of_int (- 11))"

lemma tone_level: "dds_scaling_dbm0f (real_flops rint) (of_int (- 11)) = tone_level"
  by (simp add: tone_level_def dds_scaling_dbm0f_def)

lemma tone_level_bounds: "2000 \<le> tone_level" "tone_level \<le> 16000"
proof -
  have e: "tone_level = 10 powr (- 707 / 1000) * 32767" by (simp add: tone_level_def dds_scaling_dbm0f_def)
  have "(10 :: real) powr (- 1) \<le> 10 powr (- 707 / 1000)" by (rule powr_mono) auto
  then have "1 / 10 \<le> (10 :: real) powr (- 707 / 1000)" by (simp add: powr_minus_divide)
  then show "2000 \<le> tone_level" unfolding e by linarith
  have "(10 :: real) powr (- 707 / 1000) \<le> 10 powr (- (1 / 2))" by (rule powr_mono) auto
  also have "\<dots> = 1 / sqrt 10" by (simp add: powr_minus_divide powr_half_sqrt)
  also have "\<dots> \<le> 1 / 3" by (intro divide_left_mono real_le_rsqrt) (auto simp: power2_eq_square)
  finally show "tone_level \<le> 16000" unfolding e by linarith
qed

lemma put_sends_pair:
  assumes "strchr r2_mf_tone_codes code = Some i" "code \<noteq> 0"
  obtains a b r1 r2 where "a \<noteq> b" "a < 6" "b < 6" "mf_position a b = code"
    "sends_pair tone_level r1 r2 0 0 (mt_tone (openr2_mf_tx_put (real_flops rint) (openr2_mf_tx_init (real_flops rint) fwd) code))"
    "mt_digit (openr2_mf_tx_put (real_flops rint) (openr2_mf_tx_init (real_flops rint) fwd) code) = code" "0 < r1" "0 < r2"
    "\<bar>of_int r1 - of_int (mf_frequencies fwd ! a) * 2 ^ 32 / 8000\<bar> \<le> (1 :: real)"
    "\<bar>of_int r2 - of_int (mf_frequencies fwd ! b) * 2 ^ 32 / 8000\<bar> \<le> (1 :: real)"
proof -
  let ?fo = "real_flops rint"
  have i: "i < 15" "r2_mf_tone_codes ! i = code" using strchr_bound [OF assms(1)] by (simp_all add: r2_mf_tone_codes_def cstr_def)
  obtain a b t where t: "a \<noteq> b" "a < 6" "b < 6" "mf_position a b = r2_mf_tone_codes ! i"
    "takeWhile (\<lambda>t. dt_on_time t \<noteq> 0) (mf_tones fwd) ! i = t" "length (takeWhile (\<lambda>t. dt_on_time t \<noteq> 0) (mf_tones fwd)) = 15"
    "dt_f1 t = mf_frequencies fwd ! a" "dt_f2 t = mf_frequencies fwd ! b" "0 < dt_f1 t" "0 < dt_f2 t"
    "dt_level1 t = -11" "dt_level2 t = -11" "dt_on_time t = 1" "dt_off_time t = 0"
    by (rule tone_pair [OF i(1)])
  let ?r1 = "dds_phase_ratef ?fo (of_int (dt_f1 t))" and ?r2 = "dds_phase_ratef ?fo (of_int (dt_f2 t))"
  have d: "digit_descriptors ?fo (mf_tones fwd) ! i = make_tone_gen_descriptor ?fo (dt_f1 t) (-11) (dt_f2 t) (-11) 1 0 0 0 True"
    using t i(1) by (simp add: digit_descriptors_def)
  have s: "sends_pair tone_level ?r1 ?r2 0 0 (tone_gen_init (make_tone_gen_descriptor ?fo (dt_f1 t) (-11) (dt_f2 t) (-11) 1 0 0 0 True))"
    using t tone_level [of rint] by (simp add: sends_pair_def tone_gen_init_def make_tone_gen_descriptor_def no_tone_descriptor_def Let_def)
  have p: "openr2_mf_tx_put ?fo (openr2_mf_tx_init ?fo fwd) code =
      \<lparr>mt_tone = tone_gen_init (digit_descriptors ?fo (mf_tones fwd) ! i), mt_fwd = fwd, mt_digit = code\<rparr>"
    using assms by (simp add: openr2_mf_tx_put_def openr2_mf_tx_init_def mf_tones_def)
  show thesis
    using t i s d p rate_close [OF t(9), of rint] rate_close [OF t(10), of rint]
    by (intro that [of a b ?r1 ?r2]) simp_all
qed

text \<open>A block of 133 samples of such a generator, from whatever phases, coded and decoded.\<close>

lemma sent_follows:
  assumes r: "rounds rint" and s: "sends_pair tone_level r1 r2 p q s" "0 < r1" "0 < r2"
    and f: "\<bar>of_int r1 - of_int f1 * 2 ^ 32 / 8000\<bar> \<le> (1 :: real)" "\<bar>of_int r2 - of_int f2 * 2 ^ 32 / 8000\<bar> \<le> (1 :: real)"
  shows "follows tone_level f1 f2 (phase_of p) (phase_of q) (map over_alaw (fst (tone_ref (real_flops rint) 133 s)))"
  using sends_pair_ref [OF s, of rint 133] sample_close [OF r tone_level_bounds f] tone_level_bounds
  by (simp add: follows_def)

lemma sends_pair_ok: "sends_pair g r1 r2 p q s \<Longrightarrow> tone_ok s"
  by (simp add: sends_pair_def tone_ok_def)

lemma mf_tx_sends:
  assumes "sends_pair g r1 r2 p q (mt_tone s)" "0 < r1" "0 < r2" "mt_digit s \<noteq> 0"
  shows "\<exists>s'. openr2_mf_tx (real_flops rint) s n = Some (fst (tone_ref (real_flops rint) n (mt_tone s)), s') \<and>
    sends_pair g r1 r2 (p + of_int (int n * r1)) (q + of_int (int n * r2)) (mt_tone s') \<and> mt_digit s' = mt_digit s"
  using sends_pair_ref [OF assms(1-3), of rint n] sends_pair_ok [OF assms(1)] assms(4)
  by (simp add: openr2_mf_tx_def tone_gen_is_ref case_prod_beta)

text \<open>
  What is sent is heard.  With exact arithmetic and a rounding of samples that is off by at most 1, as that of
  every platform is, for every R2 tone, forward and backward: after the generator was given the tone and has sent any number of
  samples of it, its next 133 samples, coded in A-law and decoded again, make a detector of that direction
  report the tone, and leave it ready for the next block.
\<close>

theorem tone_heard:
  assumes "rounds rint" "code \<in> set r2_mf_tone_codes" "mf_rx_ready (real_flops rint) fwd rx"
  shows "\<exists>sent tx block tx' rx'.
    openr2_mf_tx (real_flops rint) (openr2_mf_tx_put (real_flops rint) (openr2_mf_tx_init (real_flops rint) fwd) code) n = Some (sent, tx) \<and>
    openr2_mf_tx (real_flops rint) tx 133 = Some (block, tx') \<and>
    openr2_mf_rx (real_flops rint) rx (map (\<lambda>x. openr2_alaw_to_linear (openr2_linear_to_alaw x)) block) = Some (code, rx') \<and>
    mf_rx_ready (real_flops rint) fwd rx'"
proof -
  let ?fo = "real_flops rint"
  let ?tx = "openr2_mf_tx_put ?fo (openr2_mf_tx_init ?fo fwd) code"
  obtain i where i: "strchr r2_mf_tone_codes code = Some i" and c: "code \<noteq> 0"
    using assms(2) by (auto simp: r2_mf_tone_codes_def cstr_def)
  obtain a b r1 r2 where ab: "a \<noteq> b" "a < 6" "b < 6" "mf_position a b = code"
    and tx: "sends_pair tone_level r1 r2 0 0 (mt_tone ?tx)" "mt_digit ?tx = code" and r: "0 < r1" "0 < r2"
    and f: "\<bar>of_int r1 - of_int (mf_frequencies fwd ! a) * 2 ^ 32 / 8000\<bar> \<le> (1 :: real)"
      "\<bar>of_int r2 - of_int (mf_frequencies fwd ! b) * 2 ^ 32 / 8000\<bar> \<le> (1 :: real)"
    by (rule put_sends_pair [OF i c])
  obtain tx1 p q where 1: "openr2_mf_tx ?fo ?tx n = Some (fst (tone_ref ?fo n (mt_tone ?tx)), tx1)"
    "sends_pair tone_level r1 r2 p q (mt_tone tx1)" "mt_digit tx1 = code"
    using mf_tx_sends [OF tx(1) r, of rint n] tx(2) c by auto
  obtain tx2 where 2: "openr2_mf_tx ?fo tx1 133 = Some (fst (tone_ref ?fo 133 (mt_tone tx1)), tx2)"
    using mf_tx_sends [OF 1(2) r, of rint 133] 1(3) c by auto
  have "415 \<le> tone_level" using tone_level_bounds by simp
  then obtain rx' where "openr2_mf_rx ?fo rx (map over_alaw (fst (tone_ref ?fo 133 (mt_tone tx1)))) = Some (code, rx')"
    "mf_rx_ready ?fo fwd rx'"
    using pair_heard [OF assms(3) ab(1-3) _ sent_follows [OF assms(1) 1(2) r f]] ab(4) by auto
  then show ?thesis using 1(1) 2 unfolding over_alaw_def by blast
qed

definition x86_flops :: "real flops" where
  "x86_flops = real_flops (lfastrintf {GNUC, X86_64} nearest_fpu)"

theorem tone_heard_witness:
  "\<exists>sent tx block tx' rx'.
    openr2_mf_tx x86_flops (openr2_mf_tx_put x86_flops (openr2_mf_tx_init x86_flops True) 66) 160 = Some (sent, tx) \<and>
    openr2_mf_tx x86_flops tx 133 = Some (block, tx') \<and>
    openr2_mf_rx x86_flops (openr2_mf_rx_init x86_flops True)
      (map (\<lambda>x. openr2_alaw_to_linear (openr2_linear_to_alaw x)) block) = Some (66, rx') \<and>
    mf_rx_ready x86_flops True rx'"
  unfolding x86_flops_def
  by (rule tone_heard [OF lfastrintf_rounds [OF nearest_fpu] _ mf_rx_init_ready]) (simp add: r2_mf_tone_codes_def cstr_def)

text \<open>A quiet line is silence to the detector: no sample above 160.\<close>

lemma quiet_decided:
  assumes "length xs = 133" "\<forall>x \<in> set xs. \<bar>x\<bar> \<le> 160"
  shows "mf_decide (real_flops rint) (map (\<lambda>f. dft_power f xs) (mf_frequencies fwd)) = 0"
proof -
  let ?fo = "real_flops rint" and ?e = "map (\<lambda>f. dft_power f xs) (mf_frequencies fwd)"
  have "\<bar>real_of_int (xs ! k)\<bar> \<le> 160" if "k < 133" for k using assms that by (metis nth_mem of_int_abs of_int_le_numeral_iff)
  then have "cmod (spectrum f (map of_int xs)) \<le> 133 * 160" for f
    using block_spectrum_bound [of "\<lambda>k. of_int (xs ! k)" 160 f] assms(1) by (simp add: spectrum_def block_spectrum_def)
  then have power: "dft_power f xs \<le> (133 * 160)\<^sup>2" for f unfolding dft_power_def by (intro power_mono) auto
  have "?e ! i < 500000000" if "i < 6" for i using power [of "mf_frequencies fwd ! i"] that by simp
  moreover obtain x y where xy: "two_best ?fo ?e = (x, y)" by (cases "two_best ?fo ?e")
  ultimately have "\<not> mf_hit ?fo ?e x y" using two_best_distinct [OF xy] unfolding mf_hit_def by (auto simp: not_le)
  then show ?thesis by (simp add: mf_decide_def xy)
qed

theorem silence_heard:
  assumes "length xs = 133" "\<forall>x \<in> set xs. \<bar>x\<bar> \<le> 160" "mf_rx_ready (real_flops rint) fwd rx"
  shows "\<exists>rx'. openr2_mf_rx (real_flops rint) rx xs = Some (0, rx') \<and> mf_rx_ready (real_flops rint) fwd rx'"
  using mf_rx_block [OF assms(3,1)] by (simp add: quiet_decided [OF assms(1,2)])

end
