(* ===== verification/R2Frames.thy ===== *)
theory R2Frames
  imports R2Hear
begin

text \<open>
  The tones of a dialogue frame by frame, the way a channel sends and receives them (\<open>openr2_chan_process\<close>
  and \<open>openr2_chan_handle_media\<close>): a frame of the transmitter is coded in A-law and written, and the far end decodes it and gives it to its
  detector.  The blocks of the detector are not aligned with the frames, and a tone starts anywhere in a
  block; from the second frame on it is heard.
\<close>

section \<open>A detector in the middle of a block\<close>

definition mf_rx_tuned :: "real flops \<Rightarrow> bool \<Rightarrow> real mf_rx_state \<Rightarrow> bool" where
  "mf_rx_tuned fo fwd s \<longleftrightarrow> mf_rx_ok s \<and>
     map (goertzel_reset fo) (mr_out s) = map (\<lambda>f. goertzel_init fo f R2_MF_SAMPLES_PER_BLOCK) (mf_frequencies fwd)"

lemma mf_rx_init_tuned: "mf_rx_tuned fo fwd (openr2_mf_rx_init fo fwd)"
  by (simp add: mf_rx_tuned_def mf_rx_ok_def openr2_mf_rx_init_def mf_frequencies_def reset_init)

text \<open>The line is a sequence \<open>f\<close> of samples; the detector has read it up to \<open>a\<close>, and its block began at \<open>b\<close>.\<close>

definition within_block :: "real flops \<Rightarrow> bool \<Rightarrow> (nat \<Rightarrow> int) \<Rightarrow> nat \<Rightarrow> nat \<Rightarrow> real mf_rx_state \<Rightarrow> bool" where
  "within_block fo fwd f b a s \<longleftrightarrow> b \<le> a \<and> a < b + 133 \<and> mr_current_sample s = int (a - b) \<and>
     mr_out s = filter_samples fo (map f [b..<a]) (map (\<lambda>f. goertzel_init fo f R2_MF_SAMPLES_PER_BLOCK) (mf_frequencies fwd))"

lemma reset_filtered: "map (goertzel_reset fo) (filter_samples fo xs gs) = map (goertzel_reset fo) gs"
  by (simp add: filter_samples_map reset_after_steps)

lemma within_block_tuned: "within_block fo fwd f b a s \<Longrightarrow> mf_rx_tuned fo fwd s"
  by (auto simp: within_block_def mf_rx_tuned_def mf_rx_ok_def reset_filtered reset_init)

lemma block_end_within:
  assumes "map (goertzel_reset fo) (mr_out s) = map (\<lambda>f. goertzel_init fo f R2_MF_SAMPLES_PER_BLOCK) (mf_frequencies fwd)"
  shows "within_block fo fwd f a a (mf_block_end fo s)"
  using assms by (simp add: within_block_def mf_block_end_def)

text \<open>Every window of 133 samples of the line is the tone \<open>code\<close>.\<close>

definition sounds_like :: "real flops \<Rightarrow> bool \<Rightarrow> int \<Rightarrow> (nat \<Rightarrow> int) \<Rightarrow> bool" where
  "sounds_like fo fwd code f \<longleftrightarrow>
     (\<forall>b. mf_decide fo (map (\<lambda>fr. dft_power fr (map f [b..<b + 133])) (mf_frequencies fwd)) = code)"

lemma within_block_next:
  assumes "sounds_like (real_flops r) fwd code f" "within_block (real_flops r) fwd f b a s"
  shows "if a + 1 < b + 133
    then \<exists>s'. mf_rx_next (real_flops r) (f a) s = (s', False) \<and> within_block (real_flops r) fwd f b (a + 1) s'
    else \<exists>s'. mf_rx_next (real_flops r) (f a) s = (s', True) \<and> within_block (real_flops r) fwd f (a + 1) (a + 1) s' \<and> mr_current_digit s' = code"
proof -
  let ?fo = "real_flops r"
  let ?s1 = "s\<lparr>mr_out := map (goertzel_step ?fo (f_of_int ?fo (f a))) (mr_out s), mr_current_sample := mr_current_sample s + 1\<rparr>"
  let ?init = "map (\<lambda>f. goertzel_init ?fo f R2_MF_SAMPLES_PER_BLOCK) (mf_frequencies fwd)"
  have ba: "b \<le> a" "a < b + 133" using assms(2) by (simp_all add: within_block_def)
  have n: "mr_current_sample ?s1 = int (a + 1 - b)" using assms(2) by (simp add: within_block_def)
  have out: "mr_out ?s1 = filter_samples ?fo (map f [b..<a + 1]) ?init"
    using assms(2) by (simp add: within_block_def filter_samples_def)
  show ?thesis
  proof (cases "a + 1 < b + 133")
    case True
    then have "mf_rx_next ?fo (f a) s = (?s1, False)" using n ba by (simp add: mf_rx_next_def Let_def)
    moreover have "within_block ?fo fwd f b (a + 1) ?s1" unfolding within_block_def using True ba n out by simp
    ultimately show ?thesis using True by auto
  next
    case False
    then have e: "a + 1 = b + 133" using ba by simp
    then have "mf_rx_next ?fo (f a) s = (mf_block_end ?fo ?s1, True)" using n by (simp add: mf_rx_next_def Let_def)
    moreover have "within_block ?fo fwd f (a + 1) (a + 1) (mf_block_end ?fo ?s1)"
      by (rule block_end_within) (simp only: out reset_filtered map_map comp_def reset_init)
    moreover have "mr_current_digit (mf_block_end ?fo ?s1) = code"
      using assms(1) out filtered_powers [of r "map f [b..<b + 133]"] unfolding e sounds_like_def mf_block_end_def
      by (simp del: filter_samples_simps)
    ultimately show ?thesis using False by auto
  qed
qed

text \<open>Reading on: a digit is decided at each end of a block, so in any 133 samples.\<close>

lemma within_block_run:
  assumes "sounds_like (real_flops r) fwd code f" "within_block (real_flops r) fwd f b a s"
  shows "\<exists>b' h' s'. mf_rx_ref (real_flops r) s (map f [a..<a + m]) h = (h', s') \<and> within_block (real_flops r) fwd f b' (a + m) s' \<and>
    b' mod 133 = b mod 133 \<and> (h = code \<or> b + 133 \<le> a + m \<longrightarrow> h' = code)"
  using assms(2)
proof (induction m arbitrary: a b s h)
  case (Suc m)
  have cons: "map f [a..<a + Suc m] = f a # map f [a + 1..<a + 1 + m]" by (simp add: upt_conv_Cons del: upt_Suc)
  show ?case
  proof (cases "a + 1 < b + 133")
    case True
    then obtain s' where "mf_rx_next (real_flops r) (f a) s = (s', False)" "within_block (real_flops r) fwd f b (a + 1) s'"
      using within_block_next [OF assms(1) Suc.prems] by auto
    then show ?thesis unfolding cons using Suc.IH [of b "a + 1" s' h] by simp
  next
    case False
    then obtain s' where "mf_rx_next (real_flops r) (f a) s = (s', True)" "within_block (real_flops r) fwd f (a + 1) (a + 1) s'"
      "mr_current_digit s' = code"
      using within_block_next [OF assms(1) Suc.prems] by auto
    moreover have "a + 1 = b + 133" using False Suc.prems by (simp add: within_block_def)
    ultimately show ?thesis unfolding cons using Suc.IH [of "a + 1" "a + 1" s' code] by (auto simp: add.assoc)
  qed
qed (auto simp: within_block_def)

text \<open>A frame heard in the middle of it, and the first one after the line has changed.\<close>

lemma frame_heard:
  assumes "sounds_like (real_flops r) fwd code f" "within_block (real_flops r) fwd f b a s" "133 \<le> len"
  shows "\<exists>b' s'. openr2_mf_rx (real_flops r) s (map f [a..<a + len]) = Some (code, s') \<and> within_block (real_flops r) fwd f b' (a + len) s' \<and>
    b' mod 133 = b mod 133"
proof -
  have ok: "mf_rx_ok s" using within_block_tuned [OF assms(2)] by (simp add: mf_rx_tuned_def)
  have "b + 133 \<le> a + len" using assms(2,3) by (simp add: within_block_def)
  then show ?thesis
    using within_block_run [OF assms(1,2), of len 0] unfolding openr2_mf_rx_def mf_rx_loop_ref [OF ok] by auto
qed

lemma first_frame:
  assumes "sounds_like (real_flops r) fwd code f" "mf_rx_tuned (real_flops r) fwd s" "133 \<le> len"
  shows "\<exists>h b s'. openr2_mf_rx (real_flops r) s (map f [0..<len]) = Some (h, s') \<and> within_block (real_flops r) fwd f b len s'"
proof -
  let ?fo = "real_flops r"
  have ok: "mf_rx_ok s" using assms(2) by (simp add: mf_rx_tuned_def)
  define j where "j = nat (133 - mr_current_sample s)"
  have j: "0 < j" "j \<le> len" "mr_current_sample s + int j = 133" using ok assms(3) by (auto simp: j_def mf_rx_ok_def)
  let ?s1 = "s\<lparr>mr_out := filter_samples ?fo (map f [0..<j]) (mr_out s), mr_current_sample := 133\<rparr>"
  have 1: "mf_rx_ref ?fo s (map f [0..<j]) 0 = (mr_current_digit (mf_block_end ?fo ?s1), mf_block_end ?fo ?s1)"
    using block_run [of "map f [0..<j]" s ?fo 0] j by (simp add: Let_def)
  have "map (goertzel_reset ?fo) (mr_out ?s1) = map (\<lambda>f. goertzel_init ?fo f R2_MF_SAMPLES_PER_BLOCK) (mf_frequencies fwd)"
    using assms(2) by (simp add: reset_filtered mf_rx_tuned_def)
  then have 2: "within_block ?fo fwd f j j (mf_block_end ?fo ?s1)" by (rule block_end_within)
  have split: "map f [0..<len] = map f [0..<j] @ map f [j..<j + (len - j)]"
    using upt_add_eq_append [of 0 j "len - j"] j(2) by (simp flip: map_append)
  show ?thesis
    using within_block_run [OF assms(1) 2, of "len - j" "mr_current_digit (mf_block_end ?fo ?s1)"] j(2)
    unfolding openr2_mf_rx_def mf_rx_loop_ref [OF ok] split mf_rx_ref_append 1 by auto
qed

section \<open>The line a transmitter makes\<close>

definition pair_line :: "(real \<Rightarrow> int) \<Rightarrow> int \<Rightarrow> int \<Rightarrow> 32 word \<Rightarrow> 32 word \<Rightarrow> nat \<Rightarrow> int" where
  "pair_line rint r1 r2 p q k = over_alaw (pair_sample rint tone_level (p + of_int (int k * r1)) (q + of_int (int k * r2)))"

lemma pair_line_shift:
  "pair_line rint r1 r2 p q (b + k) = pair_line rint r1 r2 (p + of_int (int b * r1)) (q + of_int (int b * r2)) k"
  by (simp add: pair_line_def algebra_simps)

lemma map_window: "map g [b..<b + n] = map (\<lambda>k. g (b + k)) [0..<n]"
  by (rule nth_equalityI) simp_all

text \<open>What it sends next is \<open>f\<close> from \<open>a\<close> on.\<close>

definition at_line :: "(real \<Rightarrow> int) \<Rightarrow> bool \<Rightarrow> (nat \<Rightarrow> int) \<Rightarrow> nat \<Rightarrow> real mf_tx_state \<Rightarrow> bool" where
  "at_line rint fwd f a tx \<longleftrightarrow> mt_fwd tx = fwd \<and>
     (mt_digit tx = 0 \<and> f = (\<lambda>k. over_alaw 0) \<or>
      mt_digit tx \<noteq> 0 \<and> (\<exists>r1 r2 p q. 0 < r1 \<and> 0 < r2 \<and> f = pair_line rint r1 r2 p q \<and>
        sends_pair tone_level r1 r2 (p + of_int (int a * r1)) (q + of_int (int a * r2)) (mt_tone tx)))"

lemma at_line_next:
  assumes "at_line rint fwd f a tx"
  shows "\<exists>xs tx'. openr2_mf_tx (real_flops rint) tx n = Some (xs, tx') \<and> map over_alaw xs = map f [a..<a + n] \<and> at_line rint fwd f (a + n) tx'"
proof (cases "mt_digit tx = 0")
  case True
  then have "f = (\<lambda>k. over_alaw 0)" using assms by (simp add: at_line_def)
  then show ?thesis using True assms by (simp add: openr2_mf_tx_def at_line_def map_replicate_const)
next
  case False
  then obtain r1 r2 p q where r: "0 < r1" "0 < r2" and f: "f = pair_line rint r1 r2 p q"
    and s: "sends_pair tone_level r1 r2 (p + of_int (int a * r1)) (q + of_int (int a * r2)) (mt_tone tx)"
    using assms by (auto simp: at_line_def)
  obtain tx' where t: "openr2_mf_tx (real_flops rint) tx n = Some (fst (tone_ref (real_flops rint) n (mt_tone tx)), tx')"
    "sends_pair tone_level r1 r2 (p + of_int (int (a + n) * r1)) (q + of_int (int (a + n) * r2)) (mt_tone tx')" "mt_digit tx' = mt_digit tx"
    using mf_tx_sends [OF s r False, of rint n] by (auto simp: algebra_simps)
  have "mt_fwd tx' = mt_fwd tx" using t(1) False by (auto simp: openr2_mf_tx_def)
  moreover have "map over_alaw (fst (tone_ref (real_flops rint) n (mt_tone tx))) = map f [a..<a + n]"
    using sends_pair_ref [OF s r, of rint n] unfolding f map_window pair_line_shift by (simp add: pair_line_def)
  ultimately show ?thesis using t r f False assms by (auto simp: at_line_def)
qed

lemma pair_line_sounds:
  assumes "rounds rint" "i \<noteq> j" "i < 6" "j < 6"
    "\<bar>of_int r1 - of_int (mf_frequencies fwd ! i) * 2 ^ 32 / 8000\<bar> \<le> (1 :: real)"
    "\<bar>of_int r2 - of_int (mf_frequencies fwd ! j) * 2 ^ 32 / 8000\<bar> \<le> (1 :: real)"
  shows "sounds_like (real_flops rint) fwd (mf_position i j) (pair_line rint r1 r2 p q)"
  unfolding sounds_like_def
proof
  fix b
  let ?p = "p + of_int (int b * r1)" and ?q = "q + of_int (int b * r2)"
  have "map (pair_line rint r1 r2 p q) [b..<b + 133] = map (pair_line rint r1 r2 ?p ?q) [0..<133]"
    unfolding map_window pair_line_shift ..
  moreover have "follows tone_level (mf_frequencies fwd ! i) (mf_frequencies fwd ! j) (phase_of ?p) (phase_of ?q)
      (map (pair_line rint r1 r2 ?p ?q) [0..<133])"
    using sample_close [OF assms(1) tone_level_bounds assms(5,6)] tone_level_bounds by (simp add: follows_def pair_line_def)
  ultimately show "mf_decide (real_flops rint) (map (\<lambda>fr. dft_power fr (map (pair_line rint r1 r2 p q) [b..<b + 133])) (mf_frequencies fwd)) =
      mf_position i j"
    using pair_decided [OF assms(2-4), of tone_level] tone_level_bounds by simp
qed

lemma quiet_line_sounds: "sounds_like (real_flops rint) fwd 0 (\<lambda>k. over_alaw 0)"
proof -
  have "\<bar>over_alaw 0\<bar> \<le> 160" by code_simp
  then show ?thesis unfolding sounds_like_def by (auto intro!: quiet_decided)
qed

text \<open>Giving the transmitter a tone, whatever it was sending.\<close>

lemma put_line:
  assumes "rounds rint" "code \<in> set r2_mf_tone_codes \<union> {0}" "mt_fwd tx = fwd"
  shows "\<exists>f. at_line rint fwd f 0 (openr2_mf_tx_put (real_flops rint) tx code) \<and> sounds_like (real_flops rint) fwd code f"
proof (cases "code = 0")
  case True
  then have "at_line rint fwd (\<lambda>k. over_alaw 0) 0 (openr2_mf_tx_put (real_flops rint) tx code)"
    using assms(3) by (simp add: at_line_def openr2_mf_tx_put_def)
  then show ?thesis using True quiet_line_sounds by blast
next
  case False
  let ?fo = "real_flops rint"
  let ?tx = "openr2_mf_tx_put ?fo (openr2_mf_tx_init ?fo fwd) code"
  obtain i where i: "strchr r2_mf_tone_codes code = Some i" using assms(2) False by (auto simp: r2_mf_tone_codes_def cstr_def)
  have put: "mt_tone (openr2_mf_tx_put ?fo tx code) = mt_tone ?tx" "mt_digit (openr2_mf_tx_put ?fo tx code) = code"
    "mt_fwd (openr2_mf_tx_put ?fo tx code) = fwd"
    using i False assms(3) by (simp_all add: openr2_mf_tx_put_def openr2_mf_tx_init_def)
  obtain a b r1 r2 where ab: "a \<noteq> b" "a < 6" "b < 6" "mf_position a b = code"
    and s: "sends_pair tone_level r1 r2 0 0 (mt_tone ?tx)" and r: "0 < r1" "0 < r2"
    and f: "\<bar>of_int r1 - of_int (mf_frequencies fwd ! a) * 2 ^ 32 / 8000\<bar> \<le> (1 :: real)"
      "\<bar>of_int r2 - of_int (mf_frequencies fwd ! b) * 2 ^ 32 / 8000\<bar> \<le> (1 :: real)"
    by (rule put_sends_pair [OF i False])
  have "at_line rint fwd (pair_line rint r1 r2 0 0) 0 (openr2_mf_tx_put ?fo tx code)"
    using put s r False by (auto simp: at_line_def)
  then show ?thesis using pair_line_sounds [OF assms(1) ab(1-3) f, of 0 0] ab(4) by auto
qed

section \<open>Frames\<close>

text \<open>\<open>n\<close> frames of \<open>len\<close> samples, with what the detector made of each.\<close>

fun frames :: "'f flops \<Rightarrow> nat \<Rightarrow> nat \<Rightarrow> 'f mf_tx_state \<Rightarrow> 'f mf_rx_state \<Rightarrow> (int list \<times> 'f mf_tx_state \<times> 'f mf_rx_state) option" where
  "frames fo len 0 tx rx = Some ([], tx, rx)"
| "frames fo len (Suc n) tx rx =
     (case openr2_mf_tx fo tx len of
        None \<Rightarrow> None
      | Some (tone_buf, tx) \<Rightarrow>
          (case openr2_mf_rx fo rx (map openr2_alaw_to_linear (map openr2_linear_to_alaw tone_buf)) of
             None \<Rightarrow> None
           | Some (tone_result, rx) \<Rightarrow> map_option (\<lambda>(ts, tx, rx). (tone_result # ts, tx, rx)) (frames fo len n tx rx)))"

text \<open>A tone after the other, each for \<open>n\<close> frames.\<close>

fun tones_sent :: "'f flops \<Rightarrow> nat \<Rightarrow> nat \<Rightarrow> int list \<Rightarrow> 'f mf_tx_state \<Rightarrow> 'f mf_rx_state \<Rightarrow> int list list option" where
  "tones_sent fo len n [] tx rx = Some []"
| "tones_sent fo len n (tone # tones) tx rx =
     (case frames fo len n (openr2_mf_tx_put fo tx tone) rx of
        None \<Rightarrow> None
      | Some (ts, tx, rx) \<Rightarrow> map_option (Cons ts) (tones_sent fo len n tones tx rx))"

lemma coded_twice: "map openr2_alaw_to_linear (map openr2_linear_to_alaw xs) = map over_alaw xs"
  by (simp add: over_alaw_def)

lemma frames_within:
  assumes "sounds_like (real_flops rint) fwd code f" "133 \<le> len" "at_line rint fwd f a tx" "within_block (real_flops rint) fwd f b a rx"
  shows "\<exists>b' tx' rx'. frames (real_flops rint) len n tx rx = Some (replicate n code, tx', rx') \<and> mt_fwd tx' = fwd \<and>
    within_block (real_flops rint) fwd f b' (a + n * len) rx' \<and> b' mod 133 = b mod 133"
  using assms(3,4)
proof (induction n arbitrary: a b tx rx)
  case 0
  then show ?case by (auto simp: at_line_def)
next
  case (Suc n)
  obtain xs tx1 where 1: "openr2_mf_tx (real_flops rint) tx len = Some (xs, tx1)" "map over_alaw xs = map f [a..<a + len]"
    "at_line rint fwd f (a + len) tx1"
    using at_line_next [OF Suc.prems(1)] by blast
  obtain b' rx1 where 2: "openr2_mf_rx (real_flops rint) rx (map f [a..<a + len]) = Some (code, rx1)"
    "within_block (real_flops rint) fwd f b' (a + len) rx1" "b' mod 133 = b mod 133"
    using frame_heard [OF assms(1) Suc.prems(2) assms(2)] by blast
  show ?case using Suc.IH [OF 1(3) 2(2)] 1 2 by (auto simp: coded_twice add.assoc simp del: map_map)
qed

lemma frames_heard:
  assumes "rounds rint" "code \<in> set r2_mf_tone_codes \<union> {0}" "133 \<le> len" "mt_fwd tx = fwd" "mf_rx_tuned (real_flops rint) fwd rx"
  shows "\<exists>h tx' rx'. frames (real_flops rint) len (Suc n) (openr2_mf_tx_put (real_flops rint) tx code) rx =
    Some (h # replicate n code, tx', rx') \<and> mt_fwd tx' = fwd \<and> mf_rx_tuned (real_flops rint) fwd rx'"
proof -
  obtain f where f: "at_line rint fwd f 0 (openr2_mf_tx_put (real_flops rint) tx code)" "sounds_like (real_flops rint) fwd code f"
    using put_line [OF assms(1,2,4)] by blast
  obtain xs tx1 where 1: "openr2_mf_tx (real_flops rint) (openr2_mf_tx_put (real_flops rint) tx code) len = Some (xs, tx1)"
    "map over_alaw xs = map f [0..<len]" "at_line rint fwd f len tx1"
    using at_line_next [OF f(1), of len] by auto
  obtain h b rx1 where 2: "openr2_mf_rx (real_flops rint) rx (map f [0..<len]) = Some (h, rx1)"
    "within_block (real_flops rint) fwd f b len rx1"
    using first_frame [OF f(2) assms(5,3)] by blast
  show ?thesis
    using frames_within [OF f(2) assms(3) 1(3) 2(2), of n] 1 2 within_block_tuned by (fastforce simp: coded_twice simp del: map_map)
qed

text \<open>When the frames are whole blocks and the detector is between two, it hears the first frame as well.\<close>

lemma tones_aligned:
  assumes "rounds rint" "133 dvd len" "0 < len"
    "\<forall>tone \<in> set tones. tone \<in> set r2_mf_tone_codes \<union> {0}" "mt_fwd tx = fwd" "mf_rx_ready (real_flops rint) fwd rx"
  shows "tones_sent (real_flops rint) len n tones tx rx = Some (map (replicate n) tones)"
  using assms(4-6)
proof (induction tones arbitrary: tx rx)
  case (Cons tone tones)
  let ?fo = "real_flops rint"
  have len: "133 \<le> len" using assms(2,3) by (auto elim: dvdE)
  obtain f where f: "at_line rint fwd f 0 (openr2_mf_tx_put ?fo tx tone)" "sounds_like ?fo fwd tone f"
    using put_line [OF assms(1), of tone tx fwd] Cons.prems by auto
  have "within_block ?fo fwd f 0 0 rx" using Cons.prems(3) by (simp add: within_block_def mf_rx_ready_def)
  then obtain b tx' rx' where r: "frames ?fo len n (openr2_mf_tx_put ?fo tx tone) rx = Some (replicate n tone, tx', rx')"
      "mt_fwd tx' = fwd" "within_block ?fo fwd f b (n * len) rx'" "b mod 133 = 0"
    using frames_within [OF f(2) len f(1), of 0 rx n] by auto
  obtain c where c: "b = 133 * c" using r(4) by (auto simp: mod_eq_0_iff_dvd elim: dvdE)
  obtain d where d: "n * len = 133 * d" using assms(2) by (metis dvd_mult dvdE)
  have "d = c" using r(3) unfolding c d within_block_def by auto
  then have "mf_rx_ready ?fo fwd rx'" using r(3) unfolding c d by (simp add: within_block_def mf_rx_ready_def)
  then show ?case using Cons r(1,2) by simp
qed simp

lemma tones_heard_all:
  assumes "rounds rint" "\<forall>tone \<in> set tones. tone \<in> set r2_mf_tone_codes \<union> {0}" "133 \<le> len"
    "mt_fwd tx = fwd" "mf_rx_tuned (real_flops rint) fwd rx"
  shows "\<exists>ts. tones_sent (real_flops rint) len (Suc n) tones tx rx = Some ts \<and> map tl ts = map (replicate n) tones"
  using assms(2,4,5)
proof (induction tones arbitrary: tx rx)
  case (Cons tone tones)
  then obtain h tx' rx' where 1: "frames (real_flops rint) len (Suc n) (openr2_mf_tx_put (real_flops rint) tx tone) rx =
      Some (h # replicate n tone, tx', rx')" "mt_fwd tx' = fwd" "mf_rx_tuned (real_flops rint) fwd rx'"
    using frames_heard [OF assms(1) _ assms(3), of tone tx fwd rx n] by auto
  moreover obtain ts where "tones_sent (real_flops rint) len (Suc n) tones tx' rx' = Some ts" "map tl ts = map (replicate n) tones"
    using Cons.IH [OF _ 1(2,3)] Cons.prems(1) by auto
  ultimately show ?case by (simp del: frames.simps)
qed simp

text \<open>
  C5: What is sent is heard.  In exact arithmetic, with a rounding of samples that is off by at most 1, a transmitter that is given one
  tone or silence after the other, each for some frames of at least 133 samples that are coded in A-law, and a
  detector of its direction that decodes them, whatever both were in the middle of: from the second frame of each on, every
  frame is reported as what is being sent.
\<close>

theorem tones_heard:
  assumes "rounds rint" "\<forall>tone \<in> set tones. tone \<in> set r2_mf_tone_codes \<union> {0}" "133 \<le> len"
    "mt_fwd tx = fwd" "mf_rx_tuned (real_flops rint) fwd rx"
  shows "\<exists>ts. tones_sent (real_flops rint) len (Suc n) tones tx rx = Some ts \<and> map tl ts = map (replicate n) tones"
  by (rule tones_heard_all [OF assms])

theorem tones_heard_witness:
  "\<exists>ts. tones_sent x86_flops 160 5 [49, 0, 66] (openr2_mf_tx_init x86_flops True) (openr2_mf_rx_init x86_flops True) = Some ts \<and>
    map tl ts = [[49, 49, 49, 49], [0, 0, 0, 0], [66, 66, 66, 66]]"
  using tones_heard [OF lfastrintf_rounds [OF nearest_fpu], where tones = "[49, 0, 66]" and len = 160 and n = 4 and fwd = True] mf_rx_init_tuned
  unfolding x86_flops_def by (simp add: r2_mf_tone_codes_def cstr_def openr2_mf_tx_init_def numeral_eq_Suc)

end
