(* ===== verification/R2Dialogue.thy ===== *)
theory R2Dialogue
  imports R2Peer R2Frames
begin

text \<open>
  The whole way of a number: the digits are tones in the registers of a generator, samples, bytes of A-law, samples
  again, energies, reports of the detector for every frame, and digits of the called channel.  Each tone is
  reported over and over, and in the frame in which the line changes the detector may still hear the old tone.
\<close>

section \<open>Reports of the detector\<close>

text \<open>\<open>openr2_chan_handle_media\<close> gives the report of every frame to the protocol.\<close>

fun hears_frames :: "'w iface \<Rightarrow> int list \<Rightarrow> 'w chan \<Rightarrow> 'w chan" where
  "hears_frames ifc [] s = s"
| "hears_frames ifc (tone_result # ts) s = hears_frames ifc ts (exec (openr2_proto_handle_mf_tone ifc tone_result) s)"

lemma hears_frames_append: "hears_frames ifc (ts @ ts') s = hears_frames ifc ts' (hears_frames ifc ts s)"
  by (induction ts arbitrary: s) simp_all

text \<open>A tone that was handled is ignored while it lasts.\<close>

lemma same_tone_ignored: "exec (openr2_proto_handle_mf_tone ifc (mf_read_tone s)) s = s"
  by (simp add: openr2_proto_handle_mf_tone_def)

lemma held_tone_ignored: "mf_read_tone s = tone \<Longrightarrow> hears_frames ifc (replicate n tone) s = s"
proof (induction n)
  case (Suc n)
  then show ?case using same_tone_ignored [of ifc s] by simp
qed simp

lemma tone_handled_once:
  assumes "ts = h # replicate (Suc n) tone" "h = mf_read_tone s \<or> h = tone"
    "mf_read_tone (exec (openr2_proto_handle_mf_tone ifc tone) s) = tone"
  shows "hears_frames ifc ts s = exec (openr2_proto_handle_mf_tone ifc tone) s"
  using assms(2)
proof
  assume "h = mf_read_tone s"
  then show ?thesis using held_tone_ignored [OF assms(3)] by (simp add: assms(1) same_tone_ignored)
next
  assume h: "h = tone"
  show ?thesis using held_tone_ignored [OF assms(3), of ifc "Suc n"] unfolding assms(1) h by (simp only: hears_frames.simps)
qed

text \<open>In the frame in which the line changes, the detector hears what was there or what is there.\<close>

fun clean_changes :: "int \<Rightarrow> int list \<Rightarrow> int list list \<Rightarrow> bool" where
  "clean_changes before [] ts = (ts = [])"
| "clean_changes before (tone # tones) ts =
     (case ts of [] \<Rightarrow> False | t # ts' \<Rightarrow> (hd t = before \<or> hd t = tone) \<and> clean_changes tone tones ts')"

fun digit_tones :: "int list \<Rightarrow> int list" where
  "digit_tones [] = []"
| "digit_tones (d # ds) = d # 0 # digit_tones ds"

section \<open>The called side\<close>

context working_interfaces
begin

lemma digit_handled:
  assumes "wants_digits ifc" "collecting_digits ds s" "48 \<le> d" "d \<le> 57" "length ds < 79" "\<not> DNIS_COMPLETE (s\<lparr>dnis_len := Suc (length ds)\<rparr>)"
    "t1 = h1 # replicate (Suc n) d" "h1 = 0 \<or> h1 = d" "t2 = h2 # replicate (Suc n) 0" "h2 = d \<or> h2 = 0"
  shows "hears_frames ifc (t1 @ t2) s = exec (mf_cycle ifc d) s"
proof -
  let ?s1 = "exec (openr2_proto_handle_mf_tone ifc d) s"
  have h: "collecting_heard (ds @ [d]) d ?s1" using collecting_hears [OF assms(1-6)] by (simp add: wp_def)
  have r: "mf_read_tone s = 0" "mf_read_tone ?s1 = d" using assms(2) h by (simp_all add: collecting_digits_def collecting_heard_def)
  have "mf_read_tone (exec (openr2_proto_handle_mf_tone ifc 0) ?s1) = 0"
    using collecting_resumes [OF h] by (simp add: wp_def collecting_digits_def)
  then show ?thesis
    using tone_handled_once [OF assms(7), of s ifc] tone_handled_once [OF assms(9), of ?s1 ifc] assms(8,10) r
    by (simp add: hears_frames_append mf_cycle_def)
qed

lemma digits_handled:
  assumes "wants_digits ifc" "collecting_digits got s" "list_all (\<lambda>d. 48 \<le> d \<and> d \<le> 57) ds"
    "length got + length ds < 80" "length got + length ds < to_uint32 (max_dnis (r2context s))"
    "map tl ts = map (replicate (Suc n)) (digit_tones ds)" "[] \<notin> set ts" "clean_changes 0 (digit_tones ds) ts"
  shows "hears_frames ifc (concat ts) s = exec (mf_cycles ifc ds) s"
  using assms
proof (induction ds arbitrary: got s ts)
  case (Cons d ds)
  then obtain t1 t2 ts' where ts: "ts = t1 # t2 # ts'" by (auto simp: map_eq_Cons_conv split: list.splits)
  have t: "t1 = hd t1 # replicate (Suc n) d" "hd t1 = 0 \<or> hd t1 = d" "t2 = hd t2 # replicate (Suc n) 0" "hd t2 = d \<or> hd t2 = 0"
    using Cons.prems(6-8) unfolding ts by (cases t1; cases t2; simp)+
  have n: "\<not> DNIS_COMPLETE (s\<lparr>dnis_len := Suc (length got)\<rparr>)" using Cons.prems(5) by (simp add: DNIS_COMPLETE_def)
  let ?s = "exec (mf_cycle ifc d) s"
  have c: "collecting_digits (got @ [d]) ?s" "r2context ?s = r2context s"
    using collecting_cycle [OF Cons.prems(1,2) _ _ _ n] Cons.prems(3,4) by (simp_all add: wp_def)
  have "hears_frames ifc (t1 @ t2) s = ?s"
    using digit_handled [OF Cons.prems(1,2) _ _ _ n t] Cons.prems(3,4) by simp
  moreover have "hears_frames ifc (concat ts') ?s = exec (mf_cycles ifc ds) ?s"
    using Cons.IH [OF Cons.prems(1) c(1), of ts'] Cons.prems(3-8) c(2) unfolding ts by simp
  ultimately show ?case unfolding ts by (simp add: hears_frames_append)
qed simp

end

lemma digit_tones_codes:
  "list_all (\<lambda>d. 48 \<le> d \<and> d \<le> 57) ds \<Longrightarrow> \<forall>tone \<in> set (digit_tones ds). tone \<in> set r2_mf_tone_codes \<union> {0}"
proof (induction ds)
  case (Cons d ds)
  then have "48 \<le> d" "d \<le> 57" by simp_all
  then have "d \<in> {48, 49, 50, 51, 52, 53, 54, 55, 56, 57}" unfolding insert_iff empty_iff by presburger
  moreover have "{48, 49, 50, 51, 52, 53, 54, 55, 56, 57} \<subseteq> set r2_mf_tone_codes" by (simp add: r2_mf_tone_codes_def cstr_def)
  ultimately show ?case using Cons by auto
qed simp

lemma frames_not_empty: "frames fo len (Suc n) tx rx = Some (ts, tx', rx') \<Longrightarrow> ts \<noteq> []"
  by (auto split: option.splits prod.splits)

lemma tones_not_empty: "tones_sent fo len (Suc n) tones tx rx = Some ts \<Longrightarrow> [] \<notin> set ts"
  by (induction tones arbitrary: tx rx ts) (auto split: option.splits prod.splits simp del: frames.simps dest: frames_not_empty)

lemma clean_aligned: "clean_changes before tones (map (replicate (Suc n)) tones)"
  by (induction tones arbitrary: before) simp_all

section \<open>The number crosses the line\<close>

text \<open>
  C7: The number a caller's generator sends, tone and silence for each digit, each for at least two frames,
  arrives through samples, codec, filters and the reports of every frame as exactly that number at a called channel that
  asks for the digits one by one, if in the frames in which the line changes the detector hears what was there
  or what is there.
\<close>

theorem number_crosses_line:
  assumes "working_interfaces ifc" "wants_digits ifc" "collecting_digits [] s" "ds \<noteq> []"
    "list_all (\<lambda>d. 48 \<le> d \<and> d \<le> 57) ds" "length ds < 80" "length ds < to_uint32 (max_dnis (r2context s))"
    "rounds rint" "133 \<le> len" "mt_fwd tx" "mf_rx_tuned (real_flops rint) True rx"
  shows "\<exists>ts. tones_sent (real_flops rint) len (Suc (Suc n)) (digit_tones ds) tx rx = Some ts \<and>
    (clean_changes 0 (digit_tones ds) ts \<longrightarrow> c_string (dnis (hears_frames ifc (concat ts) s)) = ds)"
proof -
  obtain ts where ts: "tones_sent (real_flops rint) len (Suc (Suc n)) (digit_tones ds) tx rx = Some ts"
    "map tl ts = map (replicate (Suc n)) (digit_tones ds)"
    using tones_heard_all [OF assms(8) digit_tones_codes [OF assms(5)] assms(9) _ assms(11)] assms(10) by blast
  have "c_string (dnis (hears_frames ifc (concat ts) s)) = ds" if "clean_changes 0 (digit_tones ds) ts"
    using working_interfaces.digits_handled [OF assms(1-3,5) _ _ ts(2) tones_not_empty [OF ts(1)] that]
      digits_collected [OF assms(1-7)] assms(6,7) by simp
  then show ?thesis using ts(1) by blast
qed

lemma number_crosses_line_witness:
  "\<exists>ts. tones_sent x86_flops 133 3 (digit_tones [53, 48, 57]) (openr2_mf_tx_init x86_flops True) (openr2_mf_rx_init x86_flops True) = Some ts \<and>
    c_string (dnis (hears_frames sim_iface (concat ts) sim_called)) = [53, 48, 57]"
proof -
  have "tones_sent x86_flops 133 3 (digit_tones [53, 48, 57]) (openr2_mf_tx_init x86_flops True) (openr2_mf_rx_init x86_flops True) =
      Some (map (replicate 3) (digit_tones [53, 48, 57]))"
    unfolding x86_flops_def using digit_tones_codes [of "[53, 48, 57]"] mf_rx_init_ready
    by (intro tones_aligned [OF lfastrintf_rounds [OF nearest_fpu]]) (simp_all add: openr2_mf_tx_init_def)
  moreover have "clean_changes 0 (digit_tones [53, 48, 57]) (map (replicate 3) (digit_tones [53, 48, 57]))"
    using clean_aligned [of 0 "digit_tones [53, 48, 57]" 2] by (simp only: numeral_3_eq_3 numeral_2_eq_2)
  moreover have "\<exists>ts. tones_sent x86_flops 133 (Suc (Suc 1)) (digit_tones [53, 48, 57]) (openr2_mf_tx_init x86_flops True) (openr2_mf_rx_init x86_flops True) = Some ts \<and>
      (clean_changes 0 (digit_tones [53, 48, 57]) ts \<longrightarrow> c_string (dnis (hears_frames sim_iface (concat ts) sim_called)) = [53, 48, 57])"
    unfolding x86_flops_def
    by (rule number_crosses_line [OF sim.working_interfaces_axioms _ _ _ _ _ _ lfastrintf_rounds [OF nearest_fpu] _ _ mf_rx_init_tuned])
      (simp_all add: sim_called_def collecting_digits_def sim_itu sim_chan_fields itu_ga_tones_def wants_digits_def sim_iface_def
        to_uint32_def openr2_mf_tx_init_def)
  ultimately show ?thesis by (auto simp: numeral_3_eq_3)
qed

end
