(* ===== verification/Spec2Isabelle.thy ===== *)
theory Spec2Isabelle
  imports R2Names R2Queue R2Codec R2Country R2Safety R2Main R2Tools R2Log R2Admin R2Thread R2Win R2Time R2Dialogue
begin

text \<open>
  OpenR2, a library for MFC/R2 signalling, with its test program and its tone tools.

  The program.  A channel (\<open>openr2_chan_t\<close>) is one end of a telephone line.  Two things happen on it: four bits (CAS)
  that say whether the line is idle, seized, answered or cleared, and, while a call is set up, a compelled
  dialogue of two-frequency tones (MF) in which the called side asks for digits and the category of
  the caller.  A context (\<open>openr2_context_t\<close>) holds the configuration of a country and the interfaces
  the channels work through: events to the user, I/O to the device, tone engines, transcoder.  Timers end
  what the far end does not answer.  All sources are under src/.

  How C becomes HOL.  A function that works on a channel is a computation of the state monad on the record
  \<open>'w chan\<close> (R2Prelude, R2Types), in the statements and the order of the C function; \<open>'w\<close> is the
  world behind the interfaces, whose functions are the fields of one record \<open>'w iface\<close> (R2Iface): user
  callbacks, drivers, engines and system calls are parameters.  Three ghost fields are added to the
  channel: the trace of what was reported and put on the line, a flag that is set where C reads or writes
  outside an array or through NULL, and the depths to which the two locks are held.  Elsewhere such an
  access is \<open>None\<close> or \<open>Fault\<close>.  C strings are lists of character codes, \<open>int\<close> is \<open>int\<close> except where the width
  matters (the codec and the phase accumulator are on words, the 32 bit comparison of lengths is
  \<open>to_uint32\<close>, the count of samples of r2mf_generate.c overflows, the conversions of fast_convert.h are
  exact in the range of 32 bits); floating point operations are a parameter (\<open>flops\<close>), so what is proved of the loops and
  tables of the engines holds for any arithmetic of the machine; what is proved of the signals is about the real numbers
  (\<open>real_flops\<close>), with the rounding of samples still a parameter.

  The theories, with what they model and prove.
  R2Prelude: computations, preservation of a predicate, arrays and strings.
  R2Types: the enumerations and structures of r2proto.h, r2proto-pvt.h, r2chan-pvt.h, r2context-pvt.h.
  R2Iface: openr2_io_* of r2ioabs.c, and the two contracts of an interface as locales: it keeps an
    invariant of the channel; it is quiet, touching nothing but the world and the trace.
  R2Timer: timers of r2chan.c; the well-formedness \<open>chan_ok\<close> of a channel and the balance of the locks.
  R2ProtoBase, R2Mf, R2MfFwd, R2Call, R2Cas: r2proto.c, from the lowest layer up: signals, reports and call
    files; the MF dialogue of the called and of the calling side; the calls of the user; the handlers of
    the bits and of alarms.
  R2Chan: the processing loop, creation and public functions of r2chan.c.
  R2Io: the dummy and the Zaptel driver of r2ioabs.c over the system calls of the device.
  R2Client: the public calls as a datatype, users whose callbacks call back to any depth, over either
    driver; the contracts are interpreted on them.
  R2Variant, R2Names, R2Utils: the countries of r2proto.c, names and parsers, string comparison.
  R2Context: interfaces, settings, channel list and the advanced protocol file of r2context.c.
  R2Admin: locked queries of a channel, getters, the end of a context.
  R2Log: r2log.c, the default callbacks of r2context.c, openr2_mkdir_recursive of r2utils.c.
  R2Silent: users whose callbacks do not call back: the execution rules the refinements are proved with.
  R2Line, R2CasSpec: an abstract line machine that knows nothing of channels, timers and tones, and the
    refinement of it by the library: states, signals and reports agree for every sequence of bits, calls,
    alarms and timeouts.  The invariants of the line (a call exactly off the idle line, reports that fit
    it, a hangup that ends) are proved of the machine and carried over; they need that timers of a call do not
    expire after it, which a batch of due timers can break (R2Safety).
  R2Sim: a simulator, interfaces whose clock and bits are concrete, on which the witnesses are evaluated.
  R2MfSpec, R2Peer: the compelled dialogue digit by digit, on each side and between two channels of the
    library.
  R2Safety, R2Country: what no user can break, how errors and glitches end, and the configurations of
    the countries with the places where two meanings share a tone.
  R2Queue: the ring buffer queue.c refines a bounded queue of bytes.
  R2Codec: the A-law codec of r2engine-pvt.h, its round trip and its error.
  R2Sine, R2Tone, R2MfEngine, R2DtmfEngine: r2engine.c: the sine table, the generator of cadenced tones, the R2
    and the DTMF transmitters and receivers; the loops over buffers equal machines that take one sample
    at a time, so buffers can be cut anywhere, and they return.
  R2Convert: fast_convert.h, with the instructions of the processors as a parameter (\<open>fpu\<close>): every branch
    rounds to within 1 in the range of 32 bits.
  R2SineTrue, R2Goertzel, R2Hear: the signals of the engines in exact arithmetic.  The entries of the table are sines; the
    recursion of Goertzel computes the Fourier sum of a block; a tone that is generated, coded in A-law and decoded is heard
    as itself: the error of each sample is bounded through table, phase steps, rounding and codec, the sum
    over the 133 samples of a block is a geometric series, and the decision has room for the rest.
  R2Frames: tone after tone over the line in frames that are not aligned with the blocks of the detector.
  R2Dialogue: the way of a number from the generator of the caller through the line to the digits of the called channel.
  R2Thread: r2thread.c in its POSIX build: detached threads, recursive mutexes, and interrupts, whose
    signals are interleaved call by call.
  R2Win: the branches of r2thread.c for Windows; interrupts as a locale (a flag), interpreted on the events of Windows
    and on the pipes of POSIX, which therefore answer alike.
  R2Time: the time functions of r2utils.c as steps of threads over the two mutexes and the static objects of the C
    library: calls of one of them are safe once its mutex is there, calls of both and first calls are not; the
    clock of Windows.
  R2Test, R2TestUser, R2Main: the test program r2test.c: its configuration; callbacks, audio and event loops; its main
    function, which can run past the array of channels of a group, with the
    start of the threads as a step relation: an invariant, progress, and what a wakeup without a signal or
    an early error does to it.
  R2Tools: the programs r2mf_generate.c, r2mf_detect.c, r2dtmf_detect.c.

  Fuel.  The loops \<open>process_loop\<close> and \<open>chan_write_loop\<close> of r2chan.c may run as long as the device keeps them
  busy; they take the number of rounds as an argument and return \<open>None\<close> when it is used up.  What is proved of
  them (well-formedness, locks) holds for every amount.  The loops of the engines over sections and buffers are
  partial functions, \<open>None\<close> when they do not end, and theorems say in which states they return; those of
  r2thread.c go over the answers of the system calls; the loop of r2mf_generate.c ends at the latest when its
  \<open>int\<close> overflows.

  Locks.  The functions of r2chan.c take and release the mutex of the channel and that of the timers at the places where
  the code does, on every path (\<open>openr2_chan_lock\<close>, \<open>timers_mutex_lock\<close>).  Lemmas bring those that lock around a
  computation into the form \<open>with_chan_lock\<close>, in which they are reasoned about.

  Not modelled.  The errors of floating point in the filters: the theorems on signals are about exact arithmetic.  The
  \<open>calloc\<close> and \<open>realloc\<close> wrappers of r2thread.c.  The texts of the log messages
  of r2proto.c and r2chan.c (the lines they end up in are).  The variable argument lists: a format is the
  list of its pieces with the arguments it is given.  The layout of memory: handles and channels are
  numbers, and freeing matters only where R2Thread, R2Win and R2Admin follow it.  In r2test.c what is
  printed; in the tone tools opening the files.  The headers of DAHDI are
  parameters (\<open>zt_consts\<close>, bases of the signals).
\<close>

end
